(* ===== verification/Prelude.thy ===== *)
theory Prelude
  imports Main "HOL-Library.AList" "HOL-Library.List_Lexorder" "HOL-Library.Char_ord"
begin

text \<open>
  What every component shares: the exceptions the program can raise, Python statements as
  functions on a state that either finish or raise (keeping the state reached so far), the
  loops and blocks built from them, and the rules that carry the component proofs.

  A fallible pure function returns \<open>'a res\<close>; a method with effects is a value of type
  \<open>('s, 'a) py\<close>.  The state survives an exception, as the mutations made before a Python
  exception do.
\<close>

section \<open>Exceptions and results\<close>

datatype exc =
    ValueError | KeyError | IndexError | TypeError | AttributeError
  | ZeroDivisionError | OverflowError | NotImplementedError | FileNotFoundError
  | NameError
  | GenericException string

type_synonym 'a res = "exc + 'a"
type_synonym ('s, 'a) py = "'s \<Rightarrow> 'a res \<times> 's"

named_theorems py_eval \<open>evaluation rules of the statement combinators\<close>
named_theorems always_intro \<open>a predicate on the state holds again at every exit of a composed statement\<close>
named_theorems keeps_intro \<open>a predicate on the state is kept by a composed statement\<close>

definition rbind :: "'a res \<Rightarrow> ('a \<Rightarrow> 'b res) \<Rightarrow> 'b res" where
  "rbind r k = (case r of Inl e \<Rightarrow> Inl e | Inr x \<Rightarrow> k x)"

lemma rbind_simps [simp]:
  "rbind (Inr x) k = k x"
  "rbind (Inl e) k = Inl e"
  by (simp_all add: rbind_def)

lemma rbind_eq_Inr: "rbind r k = Inr y \<longleftrightarrow> (\<exists>x. r = Inr x \<and> k x = Inr y)"
  by (cases r) simp_all

lemma rbind_eq_Inl: "rbind r k = Inl e \<longleftrightarrow> r = Inl e \<or> (\<exists>x. r = Inr x \<and> k x = Inl e)"
  by (cases r) auto

text \<open>A missing value turned into an exception.\<close>

definition some_or :: "exc \<Rightarrow> 'a option \<Rightarrow> 'a res" where
  "some_or e opt = (case opt of None \<Rightarrow> Inl e | Some x \<Rightarrow> Inr x)"

lemma some_or_simps [simp]:
  "some_or e (Some x) = Inr x"
  "some_or e None = Inl e"
  by (simp_all add: some_or_def)

lemma some_or_eq_Inr: "some_or e r = Inr x \<longleftrightarrow> r = Some x"
  by (cases r) simp_all

text \<open>A list comprehension whose element expression can raise.\<close>

primrec rmap :: "('a \<Rightarrow> 'b res) \<Rightarrow> 'a list \<Rightarrow> 'b list res" where
  "rmap f [] = Inr []"
| "rmap f (x # xs) = rbind (f x) (\<lambda>y. rbind (rmap f xs) (\<lambda>ys. Inr (y # ys)))"

lemma rmap_Inr: "(\<And>x. x \<in> set xs \<Longrightarrow> f x = Inr (g x)) \<Longrightarrow> rmap f xs = Inr (map g xs)"
  by (induction xs) simp_all

lemma rmap_length: "rmap f xs = Inr ys \<Longrightarrow> length ys = length xs"
  by (induction xs arbitrary: ys) (auto simp: rbind_eq_Inr)

text \<open>A loop that threads a value and stops at the first exception.\<close>

primrec rfold :: "('a \<Rightarrow> 's \<Rightarrow> 's res) \<Rightarrow> 'a list \<Rightarrow> 's \<Rightarrow> 's res" where
  "rfold f [] s = Inr s"
| "rfold f (x # xs) s = rbind (f x s) (rfold f xs)"

lemma rfold_append: "rfold f (xs @ ys) s = rbind (rfold f xs s) (rfold f ys)"
proof (induction xs arbitrary: s)
  case (Cons x xs)
  then show ?case by (cases "f x s") simp_all
qed simp

lemma rfold_invariant:
  assumes "rfold f xs s = Inr t" "P s"
    and "\<And>x s t. x \<in> set xs \<Longrightarrow> P s \<Longrightarrow> f x s = Inr t \<Longrightarrow> P t"
  shows "P t"
  using assms
proof (induction xs arbitrary: s)
  case (Cons x xs)
  from Cons.prems(1) obtain u where u: "f x s = Inr u" "rfold f xs u = Inr t"
    by (auto simp: rbind_eq_Inr)
  have "P u" using Cons.prems(2,3) u(1) by auto
  with Cons.prems(3) show ?case by (intro Cons.IH [OF u(2)]) auto
qed simp

text \<open>Elements the loop passes over.\<close>

lemma rfold_filter:
  "(\<And>x s. x \<in> set xs \<Longrightarrow> \<not> P x \<Longrightarrow> f x s = Inr s) \<Longrightarrow> rfold f xs s = rfold f (filter P xs) s"
proof (induction xs arbitrary: s)
  case (Cons x xs)
  have IH: "rfold f xs t = rfold f (filter P xs) t" for t
    by (rule Cons.IH) (use Cons.prems in simp)
  show ?case
  proof (cases "P x")
    case True
    then show ?thesis by (cases "f x s") (simp_all add: IH)
  qed (simp add: Cons.prems IH)
qed simp

text \<open>In a loop that ends without an exception every step did.\<close>

lemma rfold_step:
  assumes "rfold f xs s = Inr t" "P s" "x \<in> set xs"
    and "\<And>x s t. x \<in> set xs \<Longrightarrow> P s \<Longrightarrow> f x s = Inr t \<Longrightarrow> P t"
  shows "\<exists>u v. P u \<and> f x u = Inr v"
proof -
  from assms(3) obtain ys zs where xs: "xs = ys @ x # zs" by (auto simp: in_set_conv_decomp)
  from assms(1) obtain u v where u: "rfold f ys s = Inr u" "f x u = Inr v"
    by (auto simp: xs rfold_append rbind_eq_Inr)
  have "P u" by (rule rfold_invariant [where P = P, OF u(1) assms(2)]) (use assms(4) in \<open>auto simp: xs\<close>)
  with u(2) show ?thesis by blast
qed

section \<open>Statements\<close>

definition py_return :: "'a \<Rightarrow> ('s, 'a) py" where
  "py_return x = (\<lambda>s. (Inr x, s))"

definition py_raise :: "exc \<Rightarrow> ('s, 'a) py" where
  "py_raise e = (\<lambda>s. (Inl e, s))"

definition py_lift :: "'a res \<Rightarrow> ('s, 'a) py" where
  "py_lift r = (\<lambda>s. (r, s))"

definition py_bind :: "('s, 'a) py \<Rightarrow> ('a \<Rightarrow> ('s, 'b) py) \<Rightarrow> ('s, 'b) py" where
  "py_bind m k = (\<lambda>s. case m s of (r, s') \<Rightarrow>
     (case r of Inl e \<Rightarrow> (Inl e, s') | Inr x \<Rightarrow> k x s'))"

definition py_get :: "('s \<Rightarrow> 'a) \<Rightarrow> ('s, 'a) py" where
  "py_get f = (\<lambda>s. (Inr (f s), s))"

definition py_modify :: "('s \<Rightarrow> 's) \<Rightarrow> ('s, unit) py" where
  "py_modify f = (\<lambda>s. (Inr (), f s))"

text \<open>An expression statement: the value is dropped.\<close>

definition stmt :: "('s, 'a) py \<Rightarrow> ('s, unit) py" where
  "stmt m = py_bind m (\<lambda>_. py_return ())"

definition py_when :: "bool \<Rightarrow> ('s, unit) py \<Rightarrow> ('s, unit) py" where
  "py_when b m = (if b then m else py_return ())"

primrec block :: "('s, unit) py list \<Rightarrow> ('s, unit) py" where
  "block [] = py_return ()"
| "block (c # cs) = py_bind c (\<lambda>_. block cs)"

primrec for_each :: "'b list \<Rightarrow> ('b \<Rightarrow> ('s, unit) py) \<Rightarrow> ('s, unit) py" where
  "for_each [] f = py_return ()"
| "for_each (x # xs) f = py_bind (f x) (\<lambda>_. for_each xs f)"

text \<open>How a turn of a loop goes on: to its end, to the next turn, or out of the loop.\<close>

datatype flow = Proceed | Continue | Break

text \<open>A list comprehension whose element expression has effects.\<close>

primrec py_collect :: "'b list \<Rightarrow> ('b \<Rightarrow> ('s, 'a) py) \<Rightarrow> ('s, 'a list) py" where
  "py_collect [] f = py_return []"
| "py_collect (x # xs) f =
     py_bind (f x) (\<lambda>y. py_bind (py_collect xs f) (\<lambda>ys. py_return (y # ys)))"

definition py_finally :: "('s, 'a) py \<Rightarrow> ('s, unit) py \<Rightarrow> ('s, 'a) py" where
  "py_finally m f = (\<lambda>s. case m s of (r, s') \<Rightarrow>
     (case f s' of (Inl e, s'') \<Rightarrow> (Inl e, s'') | (Inr _, s'') \<Rightarrow> (r, s'')))"

lemma py_basic_eval [py_eval, simp]:
  "py_return x s = (Inr x, s)"
  "py_raise e s = (Inl e, s)"
  "py_lift r s = (r, s)"
  "py_get f s = (Inr (f s), s)"
  "py_modify g s = (Inr (), g s)"
  by (simp_all add: py_return_def py_raise_def py_lift_def py_get_def py_modify_def)

lemma py_bind_apply [py_eval]:
  "py_bind m k s = (case m s of (r, s') \<Rightarrow>
     (case r of Inl e \<Rightarrow> (Inl e, s') | Inr x \<Rightarrow> k x s'))"
  by (simp add: py_bind_def)

lemma py_bind_ok: "m s = (Inr x, s') \<Longrightarrow> py_bind m k s = k x s'"
  by (simp add: py_bind_apply)

lemma py_bind_raises: "m s = (Inl e, s') \<Longrightarrow> py_bind m k s = (Inl e, s')"
  by (simp add: py_bind_apply)

lemma py_bind_basic [simp]:
  "py_bind (py_return x) k = k x"
  "py_bind (py_raise e) k = py_raise e"
  "py_bind (py_lift (Inr x)) k = k x"
  "py_bind (py_lift (Inl e)) k = py_raise e"
  by (simp_all add: fun_eq_iff py_bind_apply)

lemma py_bind_get [simp]: "py_bind (py_get f) k s = k (f s) s"
  by (simp add: py_bind_apply)

lemma py_bind_modify [simp]: "py_bind (py_modify f) k s = k () (f s)"
  by (simp add: py_bind_apply)

lemma py_bind_eq_Inr:
  "py_bind m k s = (Inr y, t) \<longleftrightarrow> (\<exists>x s'. m s = (Inr x, s') \<and> k x s' = (Inr y, t))"
  by (auto simp: py_bind_apply split: prod.splits sum.splits)

lemma stmt_apply [py_eval]:
  "stmt m s = (case m s of (r, s') \<Rightarrow>
     (case r of Inl e \<Rightarrow> (Inl e, s') | Inr _ \<Rightarrow> (Inr (), s')))"
  by (simp add: stmt_def py_bind_apply split: prod.split sum.split)

lemma stmt_ok: "m s = (Inr x, s') \<Longrightarrow> stmt m s = (Inr (), s')"
  by (simp add: stmt_apply)

lemma py_when_simps [simp]:
  "py_when True m = m"
  "py_when False m = py_return ()"
  by (simp_all add: py_when_def)

lemma for_each_append:
  "for_each (xs @ ys) f = py_bind (for_each xs f) (\<lambda>_. for_each ys f)"
  by (induction xs) (auto simp: fun_eq_iff py_bind_apply split: prod.splits sum.splits)

lemma for_each_map: "for_each (map g xs) f = for_each xs (\<lambda>x. f (g x))"
  by (induction xs) simp_all

lemma block_step: "c s = (Inr (), t) \<Longrightarrow> block (c # cs) s = block cs t"
  by (simp add: py_bind_apply)

lemma for_each_cong:
  "(\<And>x. x \<in> set xs \<Longrightarrow> f x = g x) \<Longrightarrow> for_each xs f = for_each xs g"
  by (induction xs) simp_all

section \<open>Predicates kept by statements that finish\<close>

text \<open>
  \<open>keeps P m\<close>: whenever \<open>m\<close> starts in a state with \<open>P\<close> and finishes without an
  exception, \<open>P\<close> holds again.  \<open>always P m\<close> is the same for every exit, exceptions
  included.
\<close>

definition keeps :: "('s \<Rightarrow> bool) \<Rightarrow> ('s, 'a) py \<Rightarrow> bool" where
  "keeps P m \<longleftrightarrow> (\<forall>s x t. P s \<longrightarrow> m s = (Inr x, t) \<longrightarrow> P t)"

definition always :: "('s \<Rightarrow> bool) \<Rightarrow> ('s, 'a) py \<Rightarrow> bool" where
  "always P m \<longleftrightarrow> (\<forall>s. P s \<longrightarrow> P (snd (m s)))"

lemma keepsI: "(\<And>s x t. P s \<Longrightarrow> m s = (Inr x, t) \<Longrightarrow> P t) \<Longrightarrow> keeps P m"
  by (auto simp: keeps_def)

lemma keepsD: "keeps P m \<Longrightarrow> P s \<Longrightarrow> m s = (Inr x, t) \<Longrightarrow> P t"
  by (auto simp: keeps_def)

lemma alwaysI: "(\<And>s. P s \<Longrightarrow> P (snd (m s))) \<Longrightarrow> always P m"
  by (simp add: always_def)

lemma alwaysD: "always P m \<Longrightarrow> P s \<Longrightarrow> P (snd (m s))"
  by (simp add: always_def)

lemma always_keeps: "always P m \<Longrightarrow> keeps P m"
  unfolding always_def keeps_def by (metis snd_conv)

lemma keeps_basic [keeps_intro]:
  "keeps P (py_return x)"
  "keeps P (py_raise e)"
  "keeps P (py_lift r)"
  "keeps P (py_get f)"
  by (simp_all add: keeps_def)

lemma keeps_modify [keeps_intro]: "(\<And>s. P s \<Longrightarrow> P (f s)) \<Longrightarrow> keeps P (py_modify f)"
  by (simp add: keeps_def)

lemma keeps_bind [keeps_intro]:
  "keeps P m \<Longrightarrow> (\<And>x. keeps P (k x)) \<Longrightarrow> keeps P (py_bind m k)"
  unfolding keeps_def py_bind_eq_Inr by blast

lemma keeps_stmt [keeps_intro]: "keeps P m \<Longrightarrow> keeps P (stmt m)"
  unfolding stmt_def by (intro keeps_bind keeps_basic)

lemma keeps_when [keeps_intro]: "(b \<Longrightarrow> keeps P m) \<Longrightarrow> keeps P (py_when b m)"
  by (cases b) (simp_all add: keeps_basic)

lemma keeps_if [keeps_intro]:
  "(b \<Longrightarrow> keeps P m) \<Longrightarrow> (\<not> b \<Longrightarrow> keeps P n) \<Longrightarrow> keeps P (if b then m else n)"
  by simp

lemma keeps_block [keeps_intro]: "(\<And>c. c \<in> set cs \<Longrightarrow> keeps P c) \<Longrightarrow> keeps P (block cs)"
  by (induction cs) (simp_all add: keeps_basic keeps_bind)

lemma keeps_for_each [keeps_intro]:
  "(\<And>x. x \<in> set xs \<Longrightarrow> keeps P (f x)) \<Longrightarrow> keeps P (for_each xs f)"
  by (induction xs) (simp_all add: keeps_basic keeps_bind)

lemma keeps_collect [keeps_intro]:
  "(\<And>x. x \<in> set xs \<Longrightarrow> keeps P (f x)) \<Longrightarrow> keeps P (py_collect xs f)"
  by (induction xs) (simp_all add: keeps_basic keeps_bind)

text \<open>The same for every exit.\<close>

lemma always_basic [always_intro]:
  "always P (py_return x)"
  "always P (py_raise e)"
  "always P (py_lift r)"
  "always P (py_get f)"
  by (simp_all add: always_def)

lemma always_modify [always_intro]: "(\<And>s. P s \<Longrightarrow> P (f s)) \<Longrightarrow> always P (py_modify f)"
  by (simp add: always_def)

lemma always_bind [always_intro]: "always P f \<Longrightarrow> (\<And>x. always P (k x)) \<Longrightarrow> always P (py_bind f k)"
  by (auto simp: always_def py_bind_apply split: prod.split sum.split)

lemma always_stmt [always_intro]: "always P f \<Longrightarrow> always P (stmt f)"
  unfolding stmt_def by (intro always_intro)

lemma always_when [always_intro]: "(b \<Longrightarrow> always P f) \<Longrightarrow> always P (py_when b f)"
  by (cases b) (simp_all add: always_basic)

lemma always_if [always_intro]:
  "(b \<Longrightarrow> always P f) \<Longrightarrow> (\<not> b \<Longrightarrow> always P g) \<Longrightarrow> always P (if b then f else g)"
  by simp

lemma always_block_Nil [always_intro]: "always P (block [])"
  by (simp add: always_basic)

lemma always_block_Cons [always_intro]: "always P c \<Longrightarrow> always P (block cs) \<Longrightarrow> always P (block (c # cs))"
  by (simp add: always_bind)

lemma always_for_each [always_intro]: "(\<And>x. always P (f x)) \<Longrightarrow> always P (for_each xs f)"
  by (induction xs) (simp_all add: always_basic always_bind)

lemma always_collect [always_intro]: "(\<And>x. always P (f x)) \<Longrightarrow> always P (py_collect xs f)"
  by (induction xs) (simp_all add: always_basic always_bind)

lemma always_option [always_intro]:
  "always P f \<Longrightarrow> (\<And>x. always P (g x)) \<Longrightarrow> always P (case v of None \<Rightarrow> f | Some x \<Rightarrow> g x)"
  by (cases v) simp_all

lemma always_finally [always_intro]: "always P f \<Longrightarrow> always P g \<Longrightarrow> always P (py_finally f g)"
  by (auto simp: always_def py_finally_def split: prod.split sum.split)

text \<open>Questions leave every state alone.\<close>

lemma always_pure: "(\<And>s. snd (f s) = s) \<Longrightarrow> always P f"
  by (simp add: always_def)

section \<open>Dictionaries\<close>

text \<open>
  A Python dict is an association list in insertion order with distinct keys: assignment to
  a key that is present keeps its place, a new key goes to the end.
\<close>

type_synonym 'v dict = "(string \<times> 'v) list"

abbreviation dict_get :: "'v dict \<Rightarrow> string \<Rightarrow> 'v option" where
  "dict_get d k \<equiv> map_of d k"

abbreviation dict_set :: "string \<Rightarrow> 'v \<Rightarrow> 'v dict \<Rightarrow> 'v dict" where
  "dict_set k v d \<equiv> AList.update k v d"

abbreviation dict_keys :: "'v dict \<Rightarrow> string list" where
  "dict_keys d \<equiv> map fst d"

definition wf_dict :: "'v dict \<Rightarrow> bool" where
  "wf_dict d \<longleftrightarrow> distinct (dict_keys d)"

text \<open>\<open>d.update(e)\<close>\<close>

primrec dict_update :: "'v dict \<Rightarrow> 'v dict \<Rightarrow> 'v dict" where
  "dict_update d [] = d"
| "dict_update d (kv # e) = dict_update (dict_set (fst kv) (snd kv) d) e"

lemma dict_get_set [simp]:
  "dict_get (dict_set k v d) k' = (if k' = k then Some v else dict_get d k')"
  by (simp add: update_conv')

lemma wf_dict_Nil [simp]: "wf_dict []"
  by (simp add: wf_dict_def)

lemma wf_dict_set [simp, intro]: "wf_dict d \<Longrightarrow> wf_dict (dict_set k v d)"
  by (simp add: wf_dict_def distinct_update)

lemma wf_dict_update [simp, intro]: "wf_dict d \<Longrightarrow> wf_dict (dict_update d e)"
  by (induction e arbitrary: d) auto

lemma dict_get_update:
  "wf_dict e \<Longrightarrow> dict_get (dict_update d e) k =
     (case dict_get e k of None \<Rightarrow> dict_get d k | Some v \<Rightarrow> Some v)"
proof (induction e arbitrary: d)
  case Nil
  then show ?case by simp
next
  case (Cons kv e)
  from Cons.prems have "wf_dict e" and notin: "fst kv \<notin> set (dict_keys e)"
    by (auto simp: wf_dict_def)
  then have "dict_get e (fst kv) = None"
    by (simp add: map_of_eq_None_iff)
  then show ?case
    using Cons.IH [OF \<open>wf_dict e\<close>] by (cases kv) (auto split: option.splits)
qed

text \<open>Two association lists built the same way agree as lists on a new key.\<close>

lemma dict_set_new: "dict_get d k = None \<Longrightarrow> dict_set k v d = d @ [(k, v)]"
  by (induction d) (auto split: if_splits)

end
