(* ===== verification/PyStr.thy ===== *)
theory PyStr
  imports Prelude
begin

text \<open>
  The part of Python's \<open>str\<close> and \<open>int\<close> the program uses: \<open>split\<close>, \<open>join\<close>, \<open>strip\<close>,
  \<open>startswith\<close>, \<open>lower\<close>, \<open>readlines\<close>, \<open>repr\<close>, \<open>int(s)\<close> and \<open>str(i)\<close>.  A string is a list of
  characters with code points U+0000 to U+00FF; the predicates below (white space, case,
  printable) are Python's on that range.
\<close>

section \<open>Splitting and joining\<close>

text \<open>\<open>s.split(c)\<close> for a one-character separator, \<open>sep.join(ws)\<close>.\<close>

fun split_on :: "char \<Rightarrow> string \<Rightarrow> string list" where
  "split_on c [] = [[]]"
| "split_on c (x # xs) =
     (if x = c then [] # split_on c xs
      else case split_on c xs of w # ws \<Rightarrow> (x # w) # ws | [] \<Rightarrow> [[x]])"

fun join :: "string \<Rightarrow> string list \<Rightarrow> string" where
  "join sep [] = []"
| "join sep [w] = w"
| "join sep (w # v # ws) = w @ sep @ join sep (v # ws)"

lemma split_on_nonempty [simp]: "split_on c s \<noteq> []"
  by (induction s) (auto split: list.splits)

lemma length_split_on: "length (split_on c s) = Suc (length (filter ((=) c) s))"
proof (induction s)
  case (Cons x s)
  then show ?case by (cases "split_on c s") auto
qed simp

lemma split_on_no_sep: "w \<in> set (split_on c s) \<Longrightarrow> c \<notin> set w"
proof (induction s arbitrary: w)
  case (Cons x s)
  then show ?case by (cases "split_on c s") (auto split: if_splits)
qed simp

lemma join_Cons: "ws \<noteq> [] \<Longrightarrow> join sep (w # ws) = w @ sep @ join sep ws"
  by (cases ws) auto

lemma join_split_on: "join [c] (split_on c s) = s"
proof (induction s)
  case (Cons x s)
  show ?case
  proof (cases "split_on c s")
    case Nil
    then show ?thesis by simp
  next
    case (Cons w ws)
    with Cons.IH have "join [c] (w # ws) = s" by simp
    then show ?thesis using Cons by (cases ws) auto
  qed
qed simp

lemma split_on_no_occ: "c \<notin> set s \<Longrightarrow> split_on c s = [s]"
  by (induction s) auto

lemma split_on_append_sep: "c \<notin> set w \<Longrightarrow> split_on c (w @ c # s) = w # split_on c s"
  by (induction w) auto

lemma split_on_join:
  "ws \<noteq> [] \<Longrightarrow> \<forall>w \<in> set ws. c \<notin> set w \<Longrightarrow> split_on c (join [c] ws) = ws"
proof (induction ws rule: induct_list012)
  case (2 w)
  then show ?case by (simp add: split_on_no_occ)
next
  case (3 w v ws)
  then show ?case by (simp add: split_on_append_sep)
qed simp

section \<open>White space, prefixes, case\<close>

definition is_space :: "char \<Rightarrow> bool" where
  "is_space c \<longleftrightarrow>
     (of_char c :: int) \<in> set [9, 10, 11, 12, 13, 28, 29, 30, 31, 32, 133, 160]"

definition strip :: "string \<Rightarrow> string" where
  "strip s = rev (dropWhile is_space (rev (dropWhile is_space s)))"

definition starts_with :: "string \<Rightarrow> string \<Rightarrow> bool" where
  "starts_with p s \<longleftrightarrow> take (length p) s = p"

definition ends_with :: "string \<Rightarrow> string \<Rightarrow> bool" where
  "ends_with p s \<longleftrightarrow> starts_with (rev p) (rev s)"

definition lower_char :: "char \<Rightarrow> char" where
  "lower_char c = (let n = (of_char c :: int) in
     if 65 \<le> n \<and> n \<le> 90 \<or> 192 \<le> n \<and> n \<le> 222 \<and> n \<noteq> 215 then char_of (n + 32) else c)"

definition lower :: "string \<Rightarrow> string" where
  "lower s = map lower_char s"

lemma starts_with_append [simp]: "starts_with p (p @ s)"
  by (simp add: starts_with_def)

lemma starts_with_iff: "starts_with p s \<longleftrightarrow> (\<exists>t. s = p @ t)"
proof
  assume "starts_with p s"
  then have "s = p @ drop (length p) s"
    unfolding starts_with_def by (metis append_take_drop_id)
  then show "\<exists>t. s = p @ t" by blast
qed auto

lemma strip_id:
  assumes "s \<noteq> []" "\<not> is_space (hd s)" "\<not> is_space (last s)"
  shows "strip s = s"
proof -
  have "dropWhile is_space s = s" using assms by (cases s) auto
  moreover have "dropWhile is_space (rev s) = rev s"
    using assms by (cases s rule: rev_cases) auto
  ultimately show ?thesis by (simp add: strip_def)
qed

lemma strip_no_space: "\<forall>c \<in> set s. \<not> is_space c \<Longrightarrow> strip s = s"
  by (cases "s = []") (simp_all add: strip_def [of "[]"] strip_id)

lemma strip_newline:
  assumes "s = [] \<or> \<not> is_space (hd s) \<and> \<not> is_space (last s)"
  shows "strip (s @ [CHR 0x0A]) = s"
proof (cases "s = []")
  case True
  then show ?thesis by (simp add: strip_def is_space_def)
next
  case False
  have nl: "is_space (CHR 0x0A)" by (simp add: is_space_def)
  have "dropWhile is_space (s @ [CHR 0x0A]) = s @ [CHR 0x0A]"
    using assms False by (cases s) auto
  moreover have "dropWhile is_space (rev (s @ [CHR 0x0A])) = rev s"
    using assms False nl by (cases s rule: rev_cases) auto
  ultimately show ?thesis by (simp add: strip_def)
qed

section \<open>Lines of a text file\<close>

text \<open>Text mode translates the line ends \<open>\r\n\<close> and \<open>\r\<close>; \<open>readlines\<close> keeps the newline.\<close>

fun universal_newlines :: "string \<Rightarrow> string" where
  "universal_newlines [] = []"
| "universal_newlines [c] = [if c = CHR 0x0D then CHR 0x0A else c]"
| "universal_newlines (c # d # s) =
     (if c = CHR 0x0D \<and> d = CHR 0x0A then CHR 0x0A # universal_newlines s
      else (if c = CHR 0x0D then CHR 0x0A else c) # universal_newlines (d # s))"

fun lines_of :: "string \<Rightarrow> string list" where
  "lines_of [] = []"
| "lines_of (c # s) =
     (if c = CHR 0x0A then [CHR 0x0A] # lines_of s
      else case lines_of s of [] \<Rightarrow> [[c]] | l # ls \<Rightarrow> (c # l) # ls)"

definition readlines :: "string \<Rightarrow> string list" where
  "readlines text = lines_of (universal_newlines text)"

lemma universal_newlines_id: "CHR 0x0D \<notin> set s \<Longrightarrow> universal_newlines s = s"
  by (induction s rule: universal_newlines.induct) auto

lemma lines_of_append_newline:
  "CHR 0x0A \<notin> set l \<Longrightarrow> lines_of (l @ CHR 0x0A # s) = (l @ [CHR 0x0A]) # lines_of s"
  by (induction l) auto

lemma lines_of_text:
  "\<forall>l \<in> set ls. CHR 0x0A \<notin> set l \<Longrightarrow>
     lines_of (concat (map (\<lambda>l. l @ [CHR 0x0A]) ls)) = map (\<lambda>l. l @ [CHR 0x0A]) ls"
  by (induction ls) (simp_all add: lines_of_append_newline)

lemma concat_lines_of: "concat (lines_of s) = s"
proof (induction s)
  case (Cons c s)
  then show ?case by (cases "lines_of s") auto
qed simp

section \<open>Integers and their decimal text\<close>

definition is_digit :: "char \<Rightarrow> bool" where
  "is_digit c \<longleftrightarrow> 48 \<le> (of_char c :: int) \<and> (of_char c :: int) \<le> 57"

definition digit_val :: "char \<Rightarrow> int" where
  "digit_val c = of_char c - 48"

definition digit_char :: "int \<Rightarrow> char" where
  "digit_char d = char_of (48 + d)"

text \<open>The decimal digits of a natural number (as \<open>int\<close>, so that evaluation is binary).\<close>

function show_digits :: "int \<Rightarrow> string" where
  "show_digits n =
     (if n < 10 then [digit_char n] else show_digits (n div 10) @ [digit_char (n mod 10)])"
  by pat_completeness auto
termination
  by (relation "measure nat") auto

declare show_digits.simps [simp del]

text \<open>\<open>str(i)\<close>\<close>

definition show_int :: "int \<Rightarrow> string" where
  "show_int i = (if i < 0 then CHR ''-'' # show_digits (- i) else show_digits i)"

text \<open>Digits with single underscores between them; the flag says the last one was a digit.\<close>

fun parse_digits :: "bool \<Rightarrow> int \<Rightarrow> string \<Rightarrow> int option" where
  "parse_digits b acc [] = (if b then Some acc else None)"
| "parse_digits b acc (c # cs) =
     (if is_digit c then parse_digits True (10 * acc + digit_val c) cs
      else if c = CHR ''_'' \<and> b then parse_digits False acc cs
      else None)"

fun split_sign :: "string \<Rightarrow> bool \<times> string" where
  "split_sign [] = (False, [])"
| "split_sign (c # cs) =
     (if c = CHR ''-'' then (True, cs) else if c = CHR ''+'' then (False, cs) else (False, c # cs))"

text \<open>\<open>int(s)\<close>; no limit on the number of digits\<close>

definition parse_int :: "string \<Rightarrow> int res" where
  "parse_int s = (case split_sign (strip s) of (neg, ds) \<Rightarrow>
     (case parse_digits False 0 ds of
        None \<Rightarrow> Inl ValueError
      | Some n \<Rightarrow> Inr (if neg then - n else n)))"

lemma digit_char_props [simp]:
  assumes "0 \<le> d" "d < 10"
  shows "is_digit (digit_char d)" "digit_val (digit_char d) = d"
  using assms by (simp_all add: is_digit_def digit_val_def digit_char_def)

lemma is_digit_not_special:
  assumes "is_digit c"
  shows "c \<noteq> CHR ''-''" "c \<noteq> CHR ''+''" "c \<noteq> CHR ''_''" "c \<noteq> CHR '':''" "c \<noteq> CHR '',''"
    "c \<noteq> CHR ''.''" "c \<noteq> CHR ''&''" "c \<noteq> CHR 0x0A" "c \<noteq> CHR 0x0D" "c \<noteq> CHR ''#''"
    "c \<noteq> CHR ''/''" "\<not> is_space c"
  using assms by (auto simp: is_digit_def is_space_def)

lemma show_digits_digits: "0 \<le> n \<Longrightarrow> c \<in> set (show_digits n) \<Longrightarrow> is_digit c"
proof (induction n rule: show_digits.induct)
  case (1 n)
  then show ?case
    by (cases "n < 10") (auto simp: show_digits.simps [of n])
qed

lemma show_digits_nonempty [simp]: "show_digits n \<noteq> []"
  by (simp add: show_digits.simps [of n])

lemma parse_digits_snoc:
  "parse_digits b acc ds = Some n \<Longrightarrow> 0 \<le> d \<Longrightarrow> d < 10 \<Longrightarrow>
     parse_digits b acc (ds @ [digit_char d]) = Some (10 * n + d)"
  by (induction b acc ds rule: parse_digits.induct) (auto split: if_splits)

lemma parse_digits_show_digits: "0 \<le> n \<Longrightarrow> parse_digits False 0 (show_digits n) = Some n"
proof (induction n rule: show_digits.induct)
  case (1 n)
  show ?case
  proof (cases "n < 10")
    case True
    with "1.prems" show ?thesis by (simp add: show_digits.simps [of n])
  next
    case False
    with "1" have "parse_digits False 0 (show_digits (n div 10)) = Some (n div 10)" by simp
    then have "parse_digits False 0 (show_digits (n div 10) @ [digit_char (n mod 10)])
        = Some (10 * (n div 10) + n mod 10)"
      by (rule parse_digits_snoc) simp_all
    with False show ?thesis by (simp add: show_digits.simps [of n])
  qed
qed

lemma split_sign_show_digits: "0 \<le> n \<Longrightarrow> split_sign (show_digits n) = (False, show_digits n)"
proof (cases "show_digits n")
  case (Cons c cs)
  assume "0 \<le> n"
  then have "is_digit c" using Cons show_digits_digits [of n c] by simp
  then show ?thesis using Cons is_digit_not_special by auto
qed simp

lemma show_int_chars: "c \<in> set (show_int i) \<Longrightarrow> is_digit c \<or> c = CHR ''-''"
  by (auto simp: show_int_def dest: show_digits_digits [rotated] split: if_splits)

lemma show_int_no_space: "c \<in> set (show_int i) \<Longrightarrow> \<not> is_space c"
  using show_int_chars [of c i] is_digit_not_special by (auto simp: is_space_def)

lemma show_int_nonempty [simp]: "show_int i \<noteq> []"
  by (simp add: show_int_def)

lemma parse_int_show_int [simp]: "parse_int (show_int i) = Inr i"
proof -
  have "strip (show_int i) = show_int i"
    using show_int_no_space by (intro strip_no_space) blast
  then show ?thesis
    by (simp add: parse_int_def show_int_def split_sign_show_digits parse_digits_show_digits)
qed

lemma show_int_inject [simp]: "show_int i = show_int j \<longleftrightarrow> i = j"
  by (metis parse_int_show_int sum.inject(2))

text \<open>An index or a count in a format string.\<close>

abbreviation show_nat :: "nat \<Rightarrow> string" where
  "show_nat n \<equiv> show_int (int n)"

section \<open>\<open>repr\<close> of a string\<close>

definition is_printable :: "char \<Rightarrow> bool" where
  "is_printable c \<longleftrightarrow> (let n = (of_char c :: nat) in 32 \<le> n \<and> n < 127 \<or> 161 \<le> n \<and> n \<noteq> 173)"

definition hex_digit :: "nat \<Rightarrow> char" where
  "hex_digit d = ''0123456789abcdef'' ! d"

definition repr_char :: "char \<Rightarrow> char \<Rightarrow> string" where
  "repr_char q c =
     (if c = q \<or> c = CHR 0x5C then [CHR 0x5C, c]
      else if c = CHR 0x0A then [CHR 0x5C, CHR ''n'']
      else if c = CHR 0x0D then [CHR 0x5C, CHR ''r'']
      else if c = CHR 0x09 then [CHR 0x5C, CHR ''t'']
      else if is_printable c then [c]
      else [CHR 0x5C, CHR ''x'', hex_digit (of_char c div 16), hex_digit (of_char c mod 16)])"

definition repr_str :: "string \<Rightarrow> string" where
  "repr_str s = (let q = (if CHR 0x27 \<in> set s \<and> CHR 0x22 \<notin> set s then CHR 0x22 else CHR 0x27)
     in q # concat (map (repr_char q) s) @ [q])"

end
