(* ===== verification/Builder.thy ===== *)
theory Builder
  imports PyStr Prelude
begin

text \<open>
  \<open>mininet_builder.py\<close>: \<open>MininetBuilder\<close>, the layer between the topologies and Mininet.
  Mininet and the shell are not part of the repository: what the code gets back from them is
  the record \<open>mininet\<close>, an argument of every operation.  The state keeps what the code has
  told them: the graph built on the \<open>mininet.topo.Topo\<close> base class, the graph the running
  network was made from (\<open>net\<close>), and the events in order.
\<close>

section \<open>Mininet and the shell\<close>

text \<open>
  Before the network starts a node is known by its name (a string); \<open>getNodeByName\<close> gives
  the node object of a running network, which has the methods \<open>cmd\<close>, \<open>intfNames\<close>, \<open>intf\<close>.
\<close>

datatype handle = Name string | Node string

datatype graph_op = AddHost string | AddSwitch string | AddLink handle handle

text \<open>
  \<open>NodeCmd\<close> runs a command to its end; \<open>NodeSend\<close> only starts one, and \<open>NodeWait\<close> waits for it.
\<close>

datatype event =
    NetStart | NetStop | NodeCmd string string | GlobalCmd string | OpenCli
  | NodeSend string string | NodeWait string

text \<open>A value the code gets from a command: a Python string or bytes.\<close>

datatype shell_out = Text string | Bytes string

record mininet =
  added_name :: "string \<Rightarrow> string"
  node_by_name :: "graph_op list \<Rightarrow> string \<Rightarrow> string res"
  intf_names :: "graph_op list \<Rightarrow> string \<Rightarrow> string list"
  intf_mac :: "graph_op list \<Rightarrow> string \<Rightarrow> string \<Rightarrow> string res"
  net_nodes :: "graph_op list \<Rightarrow> string list"
  node_str :: "string \<Rightarrow> string"
  node_cmd :: "event list \<Rightarrow> string \<Rightarrow> string \<Rightarrow> string res"
  node_send :: "event list \<Rightarrow> string \<Rightarrow> string \<Rightarrow> unit res"
  node_wait :: "event list \<Rightarrow> string \<Rightarrow> string res"
  shell :: "event list \<Rightarrow> string \<Rightarrow> string \<times> string"
  net_build :: "graph_op list \<Rightarrow> unit res"
  net_start :: "event list \<Rightarrow> unit res"
  net_stop :: "event list \<Rightarrow> unit res"

section \<open>The builder\<close>

record builder =
  graph :: "graph_op list"
  net :: "graph_op list option"
  events :: "event list"

definition new_builder :: builder where
  "new_builder = \<lparr>graph = [], net = None, events = []\<rparr>"

definition emit :: "event \<Rightarrow> ('a builder_scheme, unit) py" where
  "emit e = py_modify (\<lambda>s. s\<lparr>events := events s @ [e]\<rparr>)"

definition grow :: "graph_op \<Rightarrow> ('a builder_scheme, unit) py" where
  "grow g = py_modify (\<lambda>s. s\<lparr>graph := graph s @ [g]\<rparr>)"

text \<open>\<open>who.cmd(cmd)\<close>: a string has no such method.\<close>

definition builder_command_to :: "mininet \<Rightarrow> handle \<Rightarrow> string \<Rightarrow> ('a builder_scheme, string) py" where
  "builder_command_to m who cmd = (case who of
     Name _ \<Rightarrow> py_raise AttributeError
   | Node n \<Rightarrow> py_bind (py_get events) (\<lambda>es.
       py_bind (emit (NodeCmd n cmd)) (\<lambda>_. py_lift (node_cmd m es n cmd))))"

definition builder_command_global :: "mininet \<Rightarrow> string \<Rightarrow> ('a builder_scheme, shell_out) py" where
  "builder_command_global m cmd =
     py_bind (py_get events) (\<lambda>es. py_bind (emit (GlobalCmd cmd)) (\<lambda>_.
       let (stdout, stderr) = shell m es cmd in
       if stderr \<noteq> [] then py_return (Text ''Error'') else py_return (Bytes stdout)))"

text \<open>The attribute \<open>net\<close> is assigned once the constructor of Mininet returns.\<close>

definition builder_start_network :: "mininet \<Rightarrow> ('a builder_scheme, unit) py" where
  "builder_start_network m =
     py_bind (py_get graph) (\<lambda>g. py_bind (py_lift (net_build m g)) (\<lambda>_.
     py_bind (py_modify (\<lambda>s. s\<lparr>net := Some g\<rparr>)) (\<lambda>_.
     py_bind (py_get events) (\<lambda>es. py_bind (emit NetStart) (\<lambda>_. py_lift (net_start m es))))))"

definition builder_get_cli :: "('a builder_scheme, unit) py" where
  "builder_get_cli = py_bind (py_get net) (\<lambda>n. py_when (n \<noteq> None) (emit OpenCli))"

definition builder_get_host :: "mininet \<Rightarrow> string \<Rightarrow> ('a builder_scheme, handle) py" where
  "builder_get_host m who = py_bind (py_get net) (\<lambda>n. case n of
     None \<Rightarrow> py_raise (GenericException ''Network not ready'')
   | Some g \<Rightarrow> py_lift (rbind (node_by_name m g who) (\<lambda>i. Inr (Node i))))"

text \<open>A node object exists only in a network, so \<open>net\<close> is set when the handle is a \<open>Node\<close>.\<close>

definition net_graph :: "'a builder_scheme \<Rightarrow> graph_op list" where
  "net_graph s = (case net s of None \<Rightarrow> [] | Some g \<Rightarrow> g)"

definition builder_get_interface_names :: "mininet \<Rightarrow> handle \<Rightarrow> ('a builder_scheme, string list) py" where
  "builder_get_interface_names m who = (case who of
     Name _ \<Rightarrow> py_raise AttributeError
   | Node n \<Rightarrow> py_bind (py_get net_graph) (\<lambda>g.
       py_return (filter (\<lambda>i. i \<noteq> ''lo'') (intf_names m g n))))"

text \<open>\<open>node.intf(name).MAC()\<close>\<close>

definition node_mac :: "mininet \<Rightarrow> handle \<Rightarrow> string \<Rightarrow> ('a builder_scheme, string) py" where
  "node_mac m who ifname = (case who of
     Name _ \<Rightarrow> py_raise AttributeError
   | Node n \<Rightarrow> py_bind (py_get net_graph) (\<lambda>g. py_lift (intf_mac m g n ifname)))"

text \<open>\<open>node.sendCmd(cmd)\<close> and \<open>node.waitOutput()\<close>, which the experiments call on node objects directly\<close>

definition node_send_cmd :: "mininet \<Rightarrow> handle \<Rightarrow> string \<Rightarrow> ('a builder_scheme, unit) py" where
  "node_send_cmd m who cmd = (case who of
     Name _ \<Rightarrow> py_raise AttributeError
   | Node n \<Rightarrow> py_bind (py_get events) (\<lambda>es. py_bind (emit (NodeSend n cmd)) (\<lambda>_. py_lift (node_send m es n cmd))))"

definition node_wait_output :: "mininet \<Rightarrow> handle \<Rightarrow> ('a builder_scheme, string) py" where
  "node_wait_output m who = (case who of
     Name _ \<Rightarrow> py_raise AttributeError
   | Node n \<Rightarrow> py_bind (py_get events) (\<lambda>es. py_bind (emit (NodeWait n)) (\<lambda>_. py_lift (node_wait m es n))))"

definition builder_add_host :: "mininet \<Rightarrow> string \<Rightarrow> ('a builder_scheme, handle) py" where
  "builder_add_host m host = py_bind (grow (AddHost host)) (\<lambda>_. py_return (Name (added_name m host)))"

definition builder_add_switch :: "mininet \<Rightarrow> string \<Rightarrow> ('a builder_scheme, handle) py" where
  "builder_add_switch m switch = py_bind (grow (AddSwitch switch)) (\<lambda>_. py_return (Name (added_name m switch)))"

definition builder_add_link :: "handle \<Rightarrow> handle \<Rightarrow> ('a builder_scheme, unit) py" where
  "builder_add_link a b = grow (AddLink a b)"

definition builder_stop_network :: "mininet \<Rightarrow> ('a builder_scheme, unit) py" where
  "builder_stop_network m = py_bind (py_get net) (\<lambda>n. case n of
     None \<Rightarrow> py_return ()
   | Some g \<Rightarrow> py_bind (py_get events) (\<lambda>es. py_bind (emit NetStop) (\<lambda>_. py_lift (net_stop m es))))"

section \<open>What the code relies on\<close>

text \<open>The nodes of a graph, and how many link ends each has.\<close>

definition graph_names :: "graph_op list \<Rightarrow> string list" where
  "graph_names g = concat (map (\<lambda>e. case e of AddHost n \<Rightarrow> [n] | AddSwitch n \<Rightarrow> [n] | AddLink _ _ \<Rightarrow> []) g)"

definition host_names :: "graph_op list \<Rightarrow> string list" where
  "host_names g = concat (map (\<lambda>e. case e of AddHost n \<Rightarrow> [n] | _ \<Rightarrow> []) g)"

definition link_ends :: "string \<Rightarrow> graph_op \<Rightarrow> nat" where
  "link_ends n e = (case e of
     AddLink a b \<Rightarrow> (if a = Name n then 1 else 0) + (if b = Name n then 1 else 0)
   | _ \<Rightarrow> 0)"

definition degree :: "graph_op list \<Rightarrow> string \<Rightarrow> nat" where
  "degree g n = sum_list (map (link_ends n) g)"

text \<open>The interface name Mininet gives to a port of a node.\<close>

definition port_name :: "string \<Rightarrow> nat \<Rightarrow> string" where
  "port_name n k = n @ ''-eth'' @ show_nat k"

text \<open>
  The documented behaviour of Mininet: the add methods return the name; a running network has
  the nodes of its graph; hosts number their interfaces from 0 and switches from 1, in the
  order their links were added, with a loopback that may be listed first; every interface has
  a MAC address; commands run until the network is stopped.
\<close>

definition mininet_ok :: "mininet \<Rightarrow> bool" where
  "mininet_ok m \<longleftrightarrow>
     (\<forall>n. added_name m n = n) \<and>
     (\<forall>g n. n \<in> set (graph_names g) \<longrightarrow> node_by_name m g n = Inr n) \<and>
     (\<forall>g. net_nodes m g = graph_names g) \<and>
     (\<forall>g n. n \<in> set (graph_names g) \<longrightarrow>
        filter (\<lambda>i. i \<noteq> ''lo'') (intf_names m g n) =
          map (port_name n) (if n \<in> set (host_names g) then [0..<degree g n] else [1..<Suc (degree g n)])) \<and>
     (\<forall>g n i. i \<in> set (intf_names m g n) \<longrightarrow> (\<exists>a. intf_mac m g n i = Inr a)) \<and>
     (\<forall>es n c. NetStop \<notin> set es \<longrightarrow> (\<exists>r. node_cmd m es n c = Inr r)) \<and>
     (\<forall>g. net_build m g = Inr ()) \<and> (\<forall>es. net_start m es = Inr ())"

text \<open>A network that behaves so.\<close>

definition demo_net :: mininet where
  "demo_net = \<lparr>
     added_name = (\<lambda>n. n),
     node_by_name = (\<lambda>g n. if n \<in> set (graph_names g) then Inr n else Inl KeyError),
     intf_names = (\<lambda>g n. if n \<in> set (host_names g) then map (port_name n) [0..<degree g n]
        else ''lo'' # map (port_name n) [1..<Suc (degree g n)]),
     intf_mac = (\<lambda>g n i. Inr (''mac-'' @ i)),
     net_nodes = graph_names,
     node_str = (\<lambda>n. n),
     node_cmd = (\<lambda>es n c. if NetStop \<in> set es then Inl (GenericException ''stopped'') else Inr []),
     node_send = (\<lambda>es n c. Inr ()),
     node_wait = (\<lambda>es n. Inr []),
     shell = (\<lambda>es c. (''key = 1'' @ [CHR 0x0A], [])),
     net_build = (\<lambda>g. Inr ()),
     net_start = (\<lambda>es. Inr ()),
     net_stop = (\<lambda>es. Inr ())\<rparr>"

lemma port_name_not_lo: "port_name n k \<noteq> ''lo''"
proof -
  have "length (port_name n k) \<noteq> length ''lo''" by (simp add: port_name_def)
  then show ?thesis by metis
qed

lemma demo_net_ok: "mininet_ok demo_net"
  by (auto simp: mininet_ok_def demo_net_def port_name_not_lo filter_id_conv)

lemma degree_simps [simp]:
  "degree [] n = 0"
  "degree (g @ h) n = degree g n + degree h n"
  "degree (e # g) n = link_ends n e + degree g n"
  by (simp_all add: degree_def)

lemma link_ends_simps [simp]:
  "link_ends n (AddHost h) = 0"
  "link_ends n (AddSwitch h) = 0"
  "link_ends n (AddLink a b) = (if a = Name n then 1 else 0) + (if b = Name n then 1 else 0)"
  by (simp_all add: link_ends_def)

lemma graph_names_simps [simp]:
  "graph_names [] = []"
  "graph_names (g @ h) = graph_names g @ graph_names h"
  "graph_names (AddHost n # g) = n # graph_names g"
  "graph_names (AddSwitch n # g) = n # graph_names g"
  "graph_names (AddLink a b # g) = graph_names g"
  by (simp_all add: graph_names_def)

lemma host_names_simps [simp]:
  "host_names [] = []"
  "host_names (g @ h) = host_names g @ host_names h"
  "host_names (AddHost n # g) = n # host_names g"
  "host_names (AddSwitch n # g) = host_names g"
  "host_names (AddLink a b # g) = host_names g"
  by (simp_all add: host_names_def)

lemma mininet_okD:
  assumes "mininet_ok m"
  shows "added_name m n = n"
    and "n \<in> set (graph_names g) \<Longrightarrow> node_by_name m g n = Inr n"
    and "net_nodes m g = graph_names g"
    and "n \<in> set (graph_names g) \<Longrightarrow> n \<in> set (host_names g) \<Longrightarrow>
        filter (\<lambda>i. i \<noteq> ''lo'') (intf_names m g n) = map (port_name n) [0..<degree g n]"
    and "n \<in> set (graph_names g) \<Longrightarrow> n \<notin> set (host_names g) \<Longrightarrow>
        filter (\<lambda>i. i \<noteq> ''lo'') (intf_names m g n) = map (port_name n) [1..<Suc (degree g n)]"
    and "NetStop \<notin> set es \<Longrightarrow> \<exists>r. node_cmd m es n c = Inr r"
    and "net_build m g = Inr ()" "net_start m es = Inr ()"
  using assms unfolding mininet_ok_def by auto

text \<open>A port below the degree has a MAC address.\<close>

lemma mininet_ok_mac:
  assumes "mininet_ok m" "n \<in> set (host_names g)" "k < degree g n"
  shows "\<exists>a. intf_mac m g n (port_name n k) = Inr a"
proof -
  have "n \<in> set (graph_names g)"
    using assms(2) by (auto simp: graph_names_def host_names_def split: graph_op.splits)
  with assms have "port_name n k \<in> set (filter (\<lambda>i. i \<noteq> ''lo'') (intf_names m g n))"
    by (simp add: mininet_okD)
  then show ?thesis using assms(1) unfolding mininet_ok_def by simp
qed

end
