(* ===== verification/ParamFile.thy ===== *)
theory ParamFile
  imports PyStr
begin

text \<open>
  \<open>core/parameter.py\<close>: the \<open>Parameter\<close> class, a dictionary of values read from a
  \<open>key:value\<close> file over a dictionary of defaults.  A key given once holds a string, a key
  given several times the list of its values in file order.  Files are a parameter of the
  model (\<open>fs\<close>: file name to text).  Log messages are not modelled.
\<close>

section \<open>Values\<close>

datatype pval = PStr string | PInt int | PList "pval list"

text \<open>\<open>repr(v)\<close> and \<open>str(v)\<close>, the latter also in f-strings and \<open>format\<close>\<close>

fun repr_pval :: "pval \<Rightarrow> string" where
  "repr_pval (PStr s) = repr_str s"
| "repr_pval (PInt i) = show_int i"
| "repr_pval (PList vs) = ''['' @ join '', '' (map repr_pval vs) @ '']''"

fun str_pval :: "pval \<Rightarrow> string" where
  "str_pval (PStr s) = s"
| "str_pval v = repr_pval v"

text \<open>\<open>str(d)\<close> of a dictionary, which \<open>Parameter.__str__\<close> returns\<close>

definition dict_str :: "pval dict \<Rightarrow> string" where
  "dict_str d = ''{'' @ join '', '' (map (\<lambda>(k, v). repr_str k @ '': '' @ repr_pval v) d) @ ''}''"

section \<open>The parameter store\<close>

record params =
  parameters :: "pval dict"
  default_parameters :: "pval dict"

text \<open>The body of the loop for a line that splits into key and value.\<close>

definition add_entry :: "string \<Rightarrow> string \<Rightarrow> pval dict \<Rightarrow> pval dict" where
  "add_entry key v d =
     (case dict_get d key of
        None \<Rightarrow> dict_set key (PStr v) d
      | Some old \<Rightarrow>
          (case old of
             PList vs \<Rightarrow> dict_set key (PList (vs @ [PStr v])) d
           | _ \<Rightarrow> dict_set key (PList [old, PStr v]) d))"

text \<open>\<open>key, value = line.strip().split(":")\<close>\<close>

definition parse_line :: "string \<Rightarrow> (string \<times> string) res" where
  "parse_line line = (case split_on (CHR '':'') (strip line) of
     [key, v] \<Rightarrow> Inr (key, v)
   | _ \<Rightarrow> Inl ValueError)"

definition load_line :: "string \<Rightarrow> pval dict \<Rightarrow> pval dict" where
  "load_line line d =
     (if starts_with ''#'' line then d
      else case parse_line line of
        Inr (key, v) \<Rightarrow> add_entry key v d
      | Inl _ \<Rightarrow> d)"

definition load_parameter_text :: "string \<Rightarrow> pval dict \<Rightarrow> pval dict" where
  "load_parameter_text text d = fold load_line (readlines text) d"

definition load_parameter_file :: "(string \<Rightarrow> string option) \<Rightarrow> string \<Rightarrow> pval dict \<Rightarrow> pval dict res" where
  "load_parameter_file fs name d =
     rbind (some_or FileNotFoundError (fs name)) (\<lambda>text. Inr (load_parameter_text text d))"

text \<open>\<open>Parameter.__init__\<close>; the file name may be \<open>None\<close>\<close>

definition new_parameter :: "(string \<Rightarrow> string option) \<Rightarrow> string option \<Rightarrow> params res" where
  "new_parameter fs filename =
     (case filename of
        None \<Rightarrow> Inr \<lparr>parameters = [], default_parameters = []\<rparr>
      | Some f \<Rightarrow> rbind (load_parameter_file fs f [])
          (\<lambda>d. Inr \<lparr>parameters = d, default_parameters = []\<rparr>))"

text \<open>\<open>self.default_parameters.update(...)\<close> in the constructors of the subclasses\<close>

definition add_defaults :: "pval dict \<Rightarrow> 'a params_scheme \<Rightarrow> 'a params_scheme" where
  "add_defaults defs p = p\<lparr>default_parameters := dict_update (default_parameters p) defs\<rparr>"

definition get_param :: "'a params_scheme \<Rightarrow> string \<Rightarrow> pval res" where
  "get_param p key =
     (case dict_get (parameters p) key of
        None \<Rightarrow>
          (case dict_get (default_parameters p) key of
             Some v \<Rightarrow> Inr v
           | None \<Rightarrow> Inl (GenericException (''Parameter not found '' @ key)))
      | Some v \<Rightarrow> Inr v)"

section \<open>The contract of a store that collects values\<close>

text \<open>
  What a loader relies on: a value added under a key comes last among the values of that key
  and the other keys keep theirs.
\<close>

locale value_store =
  fixes empty :: "'s"
    and add :: "string \<Rightarrow> string \<Rightarrow> 's \<Rightarrow> 's"
    and vals :: "'s \<Rightarrow> string \<Rightarrow> string list"
    and invar :: "'s \<Rightarrow> bool"
  assumes invar_empty: "invar empty"
    and invar_add: "invar s \<Longrightarrow> invar (add k v s)"
    and vals_empty: "vals empty k = []"
    and vals_add: "invar s \<Longrightarrow> vals (add k v s) k' = (if k' = k then vals s k @ [v] else vals s k')"
begin

lemma invar_fold: "invar s \<Longrightarrow> invar (fold (\<lambda>(k, v). add k v) es s)"
  by (induction es arbitrary: s) (auto intro: invar_add)

lemma vals_fold:
  "invar s \<Longrightarrow> vals (fold (\<lambda>(k, v). add k v) es s) k =
     vals s k @ map snd (filter (\<lambda>e. fst e = k) es)"
  by (induction es arbitrary: s) (auto simp: vals_add invar_add)

lemma vals_load: "vals (fold (\<lambda>(k, v). add k v) es empty) k = map snd (filter (\<lambda>e. fst e = k) es)"
  by (simp add: vals_fold invar_empty vals_empty)

end

text \<open>The values a dictionary built by \<open>add_entry\<close> holds for a key.\<close>

fun flat_vals :: "pval \<Rightarrow> string list" where
  "flat_vals (PStr s) = [s]"
| "flat_vals (PInt i) = []"
| "flat_vals (PList vs) = concat (map (\<lambda>v. case v of PStr s \<Rightarrow> [s] | _ \<Rightarrow> []) vs)"

definition entry_vals :: "pval dict \<Rightarrow> string \<Rightarrow> string list" where
  "entry_vals d k = (case dict_get d k of None \<Rightarrow> [] | Some v \<Rightarrow> flat_vals v)"

text \<open>A single value is a plain string, several are a list of strings.\<close>

fun file_value :: "pval \<Rightarrow> bool" where
  "file_value (PStr s) = True"
| "file_value (PInt i) = False"
| "file_value (PList vs) = (2 \<le> length vs \<and> (\<forall>v \<in> set vs. \<exists>s. v = PStr s))"

definition wf_file_dict :: "pval dict \<Rightarrow> bool" where
  "wf_file_dict d \<longleftrightarrow> wf_dict d \<and> (\<forall>k v. dict_get d k = Some v \<longrightarrow> file_value v)"

definition pack_values :: "string list \<Rightarrow> pval option" where
  "pack_values vs = (case vs of [] \<Rightarrow> None | [v] \<Rightarrow> Some (PStr v) | _ \<Rightarrow> Some (PList (map PStr vs)))"

lemma add_entry_cases:
  "dict_get (add_entry k v d) k' =
     (if k' = k then Some (case dict_get d k of
          None \<Rightarrow> PStr v
        | Some (PList vs) \<Rightarrow> PList (vs @ [PStr v])
        | Some old \<Rightarrow> PList [old, PStr v])
      else dict_get d k')"
  by (auto simp: add_entry_def split: option.splits pval.splits)

lemma wf_add_entry: "wf_file_dict d \<Longrightarrow> wf_file_dict (add_entry k v d)"
proof -
  assume d: "wf_file_dict d"
  have "wf_dict (add_entry k v d)"
    using d by (auto simp: add_entry_def wf_file_dict_def split: option.splits pval.splits)
  moreover have "file_value w" if "dict_get (add_entry k v d) k' = Some w" for k' w
    using that d by (force simp: add_entry_cases wf_file_dict_def
        split: if_splits option.splits pval.splits)
  ultimately show ?thesis by (simp add: wf_file_dict_def)
qed

lemma entry_vals_add:
  "wf_file_dict d \<Longrightarrow>
     entry_vals (add_entry k v d) k' = (if k' = k then entry_vals d k @ [v] else entry_vals d k')"
  by (auto simp: wf_file_dict_def entry_vals_def add_entry_cases split: option.splits pval.splits)

lemma wf_file_dict_Nil [simp]: "wf_file_dict []"
  by (simp add: wf_file_dict_def)

interpretation file_store: value_store "[]" add_entry entry_vals wf_file_dict
  by unfold_locales (simp_all add: wf_add_entry entry_vals_add entry_vals_def [of "[]"])

section \<open>What a parameter file means\<close>

definition line_entries :: "string \<Rightarrow> (string \<times> string) list" where
  "line_entries line =
     (if starts_with ''#'' line then []
      else case parse_line line of Inr e \<Rightarrow> [e] | Inl _ \<Rightarrow> [])"

definition file_entries :: "string \<Rightarrow> (string \<times> string) list" where
  "file_entries text = concat (map line_entries (readlines text))"

lemma load_line_entries: "load_line line d = fold (\<lambda>(k, v). add_entry k v) (line_entries line) d"
  by (auto simp: load_line_def line_entries_def split: sum.splits)

lemma load_parameter_text_entries:
  "load_parameter_text text d = fold (\<lambda>(k, v). add_entry k v) (file_entries text) d"
proof -
  have "fold load_line ls d = fold (\<lambda>(k, v). add_entry k v) (concat (map line_entries ls)) d" for ls
    by (induction ls arbitrary: d) (simp_all add: load_line_entries)
  then show ?thesis by (simp add: load_parameter_text_def file_entries_def)
qed

lemma wf_load_parameter_text: "wf_file_dict (load_parameter_text text [])"
  unfolding load_parameter_text_entries by (rule file_store.invar_fold) simp

lemma pack_flat_vals: "file_value v \<Longrightarrow> pack_values (flat_vals v) = Some v"
proof (cases v)
  case (PList vs)
  assume "file_value v"
  with PList have len: "2 \<le> length vs" and strs: "\<forall>v \<in> set vs. \<exists>s. v = PStr s" by auto
  from strs have fv: "map PStr (flat_vals v) = vs"
    unfolding PList by (induction vs) auto
  then have "length (flat_vals v) = length vs" by (metis length_map)
  with len obtain a b r where "flat_vals v = a # b # r"
    by (metis One_nat_def Suc_1 Suc_le_length_iff)
  then have "pack_values (flat_vals v) = Some (PList (map PStr (flat_vals v)))"
    by (simp add: pack_values_def)
  then show ?thesis using fv by (simp only: PList)
qed (simp_all add: pack_values_def)

lemma wf_file_dict_pack: "wf_file_dict d \<Longrightarrow> dict_get d k = pack_values (entry_vals d k)"
  by (cases "dict_get d k") (simp_all add: entry_vals_def wf_file_dict_def pack_flat_vals, simp add: pack_values_def)

lemma loaded_value:
  "dict_get (load_parameter_text text []) k =
     pack_values (map snd (filter (\<lambda>e. fst e = k) (file_entries text)))"
  unfolding wf_file_dict_pack [OF wf_load_parameter_text]
  by (simp add: load_parameter_text_entries file_store.vals_load)

section \<open>Files written from entries\<close>

definition entry_line :: "string \<times> string \<Rightarrow> string" where
  "entry_line e = fst e @ CHR '':'' # snd e"

definition clean_entry :: "string \<times> string \<Rightarrow> bool" where
  "clean_entry e \<longleftrightarrow>
     (\<forall>c \<in> set (fst e) \<union> set (snd e). c \<noteq> CHR '':'' \<and> c \<noteq> CHR 0x0A \<and> c \<noteq> CHR 0x0D) \<and>
     fst e \<noteq> [] \<and> hd (fst e) \<noteq> CHR ''#'' \<and> \<not> is_space (hd (fst e)) \<and>
     (snd e = [] \<or> \<not> is_space (last (snd e)))"

definition entries_text :: "(string \<times> string) list \<Rightarrow> string" where
  "entries_text es = concat (map (\<lambda>e. entry_line e @ [CHR 0x0A]) es)"

lemma clean_entry_line:
  assumes "clean_entry e"
  shows "line_entries (entry_line e @ [CHR 0x0A]) = [e]"
proof -
  obtain k v where e: "e = (k, v)" by fastforce
  from assms have k: "k \<noteq> []" "hd k \<noteq> CHR ''#''" "\<not> is_space (hd k)"
    and v: "v = [] \<or> \<not> is_space (last v)"
    and colon: "CHR '':'' \<notin> set k" "CHR '':'' \<notin> set v"
    by (auto simp: clean_entry_def e)
  have "strip (entry_line e @ [CHR 0x0A]) = entry_line e"
    using k v by (intro strip_newline) (auto simp: entry_line_def e is_space_def)
  then have "parse_line (entry_line e @ [CHR 0x0A]) = Inr e"
    using colon by (simp add: parse_line_def entry_line_def e split_on_append_sep split_on_no_occ)
  moreover have "\<not> starts_with ''#'' (entry_line e @ [CHR 0x0A])"
    using k by (cases k) (auto simp: starts_with_def entry_line_def e)
  ultimately show ?thesis by (simp add: line_entries_def)
qed

lemma file_entries_text:
  assumes "\<forall>e \<in> set es. clean_entry e"
  shows "file_entries (entries_text es) = es"
proof -
  have nl: "CHR 0x0A \<notin> set (entry_line e)" "CHR 0x0D \<notin> set (entry_line e)" if "e \<in> set es" for e
    using assms that by (auto simp: entry_line_def clean_entry_def)
  have "CHR 0x0D \<notin> set (entries_text es)"
    using nl by (auto simp: entries_text_def)
  then have "readlines (entries_text es) = lines_of (entries_text es)"
    by (simp add: readlines_def universal_newlines_id)
  also have "\<dots> = lines_of (concat (map (\<lambda>l. l @ [CHR 0x0A]) (map entry_line es)))"
    by (simp add: entries_text_def comp_def)
  also have "\<dots> = map (\<lambda>l. l @ [CHR 0x0A]) (map entry_line es)"
    using nl by (intro lines_of_text) auto
  also have "\<dots> = map (\<lambda>e. entry_line e @ [CHR 0x0A]) es"
    by (simp add: comp_def)
  finally have "readlines (entries_text es) = map (\<lambda>e. entry_line e @ [CHR 0x0A]) es" .
  then have "file_entries (entries_text es) = concat (map (\<lambda>e. line_entries (entry_line e @ [CHR 0x0A])) es)"
    by (simp add: file_entries_def comp_def)
  also have "\<dots> = es" using assms by (induction es) (simp_all add: clean_entry_line)
  finally show ?thesis .
qed

section \<open>Properties\<close>

lemma get_param_loaded:
  assumes "wf_dict defs"
  shows "get_param (add_defaults defs \<lparr>parameters = d, default_parameters = []\<rparr>) k =
     (case dict_get d k of Some v \<Rightarrow> Inr v
      | None \<Rightarrow> (case dict_get defs k of Some v \<Rightarrow> Inr v
                 | None \<Rightarrow> Inl (GenericException (''Parameter not found '' @ k))))"
  using assms by (auto simp: get_param_def add_defaults_def dict_get_update split: option.splits)

text \<open>
  Whatever the text of a parameter file, the constructor succeeds and the store holds,
  for every key, exactly the values the file gives it, in file order: nothing for a key that
  is not there, a string for one value, the list of all values otherwise.
\<close>

lemma param_file_values:
  "\<exists>p. new_parameter (fs(f \<mapsto> text)) (Some f) = Inr p \<and> wf_file_dict (parameters p) \<and>
     (\<forall>k. dict_get (parameters p) k =
        pack_values (map snd (filter (\<lambda>e. fst e = k) (file_entries text))))"
  by (simp add: new_parameter_def load_parameter_file_def wf_load_parameter_text loaded_value)

text \<open>
  A file written from a list of clean entries reads back as these entries, and a value
  of the file takes precedence over the default of the class; only a key known to neither
  raises, with the message of the code.
\<close>

lemma param_file_roundtrip:
  assumes "\<forall>e \<in> set es. clean_entry e" and "wf_dict defs" and "fs f = Some (entries_text es)"
  shows "\<exists>p. new_parameter fs (Some f) = Inr p \<and>
     (\<forall>k. get_param (add_defaults defs p) k =
        (case pack_values (map snd (filter (\<lambda>e. fst e = k) es)) of
           Some v \<Rightarrow> Inr v
         | None \<Rightarrow> (case dict_get defs k of Some v \<Rightarrow> Inr v
                    | None \<Rightarrow> Inl (GenericException (''Parameter not found '' @ k)))))"
  using assms
  by (simp add: new_parameter_def load_parameter_file_def get_param_loaded loaded_value file_entries_text)

lemma param_file_roundtrip_witness:
  "\<exists>p. new_parameter (\<lambda>_. Some (entries_text [(''a'', ''1''), (''b'', ''x y''), (''a'', ''2'')])) (Some ''f'') = Inr p \<and>
     get_param (add_defaults [(''c'', PStr ''d'')] p) ''a'' = Inr (PList [PStr ''1'', PStr ''2'']) \<and>
     get_param (add_defaults [(''c'', PStr ''d'')] p) ''c'' = Inr (PStr ''d'')"
  using param_file_roundtrip [of "[(''a'', ''1''), (''b'', ''x y''), (''a'', ''2'')]" "[(''c'', PStr ''d'')]"
      "\<lambda>_. Some (entries_text [(''a'', ''1''), (''b'', ''x y''), (''a'', ''2'')])" "''f''"]
  by (auto simp: clean_entry_def is_space_def pack_values_def wf_dict_def)

end
