(* ===== verification/PyFloat.thy ===== *)
theory PyFloat
  imports Complex_Main "HOL-Library.Log_Nat" PyStr
begin

text \<open>
  Python's \<open>float\<close>: IEEE 754 binary64 with round to nearest, ties to even.  A finite float is
  its exact rational value; the negative zero, the infinities and NaN are constructors of
  their own.  \<open>fl\<close> rounds a non-negative rational to 53 significant bits (fewer below
  \<open>2^-1022\<close>), and every arithmetic operation is the exact result put through \<open>mk_float\<close>.
  Conversions that raise in Python (\<open>float('x')\<close>, \<open>int(inf)\<close>, division by zero) return the
  exception.
\<close>

section \<open>Values and rounding\<close>

datatype pyfloat = NegZero | Fin rat | PosInf | NegInf | NaN

abbreviation pow2 :: "int \<Rightarrow> rat" where
  "pow2 k \<equiv> 2 powi k"

text \<open>The exponent \<open>k\<close> with \<open>2^k \<le> r < 2^(k+1)\<close>, for positive \<open>r\<close>.\<close>

definition binexp :: "rat \<Rightarrow> int" where
  "binexp r = (case quotient_of r of (n, d) \<Rightarrow>
     let k = bitlen n - bitlen d in if pow2 k \<le> r then k else k - 1)"

definition round_even :: "rat \<Rightarrow> int" where
  "round_even x = (let f = \<lfloor>x\<rfloor>; d = x - of_int f in
     if d < 1 / 2 \<or> d = 1 / 2 \<and> even f then f else f + 1)"

definition ulp_exp :: "rat \<Rightarrow> int" where
  "ulp_exp r = max (binexp r - 52) (- 1074)"

definition fl :: "rat \<Rightarrow> rat" where
  "fl r = (if r = 0 then 0
           else of_int (round_even (r / pow2 (ulp_exp r))) * pow2 (ulp_exp r))"

definition mk_float :: "bool \<Rightarrow> rat \<Rightarrow> pyfloat" where
  "mk_float neg r = (let m = fl r in
     if m = 0 then (if neg then NegZero else Fin 0)
     else if pow2 1024 \<le> m then (if neg then NegInf else PosInf)
     else Fin (if neg then - m else m))"

fun neg_of :: "pyfloat \<Rightarrow> bool" where
  "neg_of NegZero = True"
| "neg_of (Fin r) = (r < 0)"
| "neg_of NegInf = True"
| "neg_of _ = False"

fun mag :: "pyfloat \<Rightarrow> rat" where
  "mag (Fin r) = \<bar>r\<bar>"
| "mag _ = 0"

fun finite_val :: "pyfloat \<Rightarrow> rat option" where
  "finite_val NegZero = Some 0"
| "finite_val (Fin r) = Some r"
| "finite_val _ = None"

definition is_inf :: "pyfloat \<Rightarrow> bool" where
  "is_inf x \<longleftrightarrow> x = PosInf \<or> x = NegInf"

definition is_zero :: "pyfloat \<Rightarrow> bool" where
  "is_zero x \<longleftrightarrow> x = NegZero \<or> x = Fin 0"

section \<open>Arithmetic and comparison\<close>

definition fmul :: "pyfloat \<Rightarrow> pyfloat \<Rightarrow> pyfloat" where
  "fmul x y =
     (if x = NaN \<or> y = NaN then NaN
      else let s = (neg_of x \<noteq> neg_of y) in
        if is_inf x \<or> is_inf y
        then (if is_zero x \<or> is_zero y then NaN else if s then NegInf else PosInf)
        else mk_float s (mag x * mag y))"

definition fdiv :: "pyfloat \<Rightarrow> pyfloat \<Rightarrow> pyfloat res" where
  "fdiv x y =
     (if is_zero y then Inl ZeroDivisionError
      else if x = NaN \<or> y = NaN then Inr NaN
      else let s = (neg_of x \<noteq> neg_of y) in
        if is_inf x then Inr (if is_inf y then NaN else if s then NegInf else PosInf)
        else if is_inf y then Inr (if s then NegZero else Fin 0)
        else Inr (mk_float s (mag x / mag y)))"

fun fneg :: "pyfloat \<Rightarrow> pyfloat" where
  "fneg NegZero = Fin 0"
| "fneg (Fin r) = (if r = 0 then NegZero else Fin (- r))"
| "fneg PosInf = NegInf"
| "fneg NegInf = PosInf"
| "fneg NaN = NaN"

definition fadd :: "pyfloat \<Rightarrow> pyfloat \<Rightarrow> pyfloat" where
  "fadd x y =
     (case (finite_val x, finite_val y) of
        (Some r, Some q) \<Rightarrow>
          (if r + q = 0 then (if x = NegZero \<and> y = NegZero then NegZero else Fin 0)
           else mk_float (r + q < 0) \<bar>r + q\<bar>)
      | (None, Some _) \<Rightarrow> x
      | (Some _, None) \<Rightarrow> y
      | (None, None) \<Rightarrow> (if x = y then x else NaN))"

definition fsub :: "pyfloat \<Rightarrow> pyfloat \<Rightarrow> pyfloat" where
  "fsub x y = fadd x (fneg y)"

fun fless :: "pyfloat \<Rightarrow> pyfloat \<Rightarrow> bool" where
  "fless NaN _ = False"
| "fless _ NaN = False"
| "fless PosInf _ = False"
| "fless _ NegInf = False"
| "fless NegInf _ = True"
| "fless _ PosInf = True"
| "fless NegZero (Fin q) = (0 < q)"
| "fless (Fin r) NegZero = (r < 0)"
| "fless NegZero NegZero = False"
| "fless (Fin r) (Fin q) = (r < q)"

section \<open>Conversions\<close>

text \<open>\<open>float(i)\<close>, \<open>int(x)\<close>, \<open>int(math.ceil(x))\<close>\<close>

definition float_of_int :: "int \<Rightarrow> pyfloat res" where
  "float_of_int i = (if pow2 1024 \<le> fl \<bar>of_int i\<bar> then Inl OverflowError
     else Inr (if i = 0 then Fin 0 else mk_float (i < 0) \<bar>of_int i\<bar>))"

fun trunc_float :: "pyfloat \<Rightarrow> int res" where
  "trunc_float NegZero = Inr 0"
| "trunc_float (Fin r) = Inr (if r < 0 then \<lceil>r\<rceil> else \<lfloor>r\<rfloor>)"
| "trunc_float NaN = Inl ValueError"
| "trunc_float _ = Inl OverflowError"

fun ceil_float :: "pyfloat \<Rightarrow> int res" where
  "ceil_float NegZero = Inr 0"
| "ceil_float (Fin r) = Inr \<lceil>r\<rceil>"
| "ceil_float NaN = Inl ValueError"
| "ceil_float _ = Inl OverflowError"

text \<open>\<open>float(s)\<close>: underscores only between two digits, then a decimal literal\<close>

fun drop_underscores :: "char \<Rightarrow> string \<Rightarrow> string option" where
  "drop_underscores prev [] = (if prev = CHR ''_'' then None else Some [])"
| "drop_underscores prev (c # cs) =
     (if c = CHR ''_'' then (if is_digit prev then drop_underscores c cs else None)
      else if prev = CHR ''_'' \<and> \<not> is_digit c then None
      else map_option (Cons c) (drop_underscores c cs))"

definition digits_val :: "string \<Rightarrow> int" where
  "digits_val ds = foldl (\<lambda>acc d. 10 * acc + digit_val d) 0 ds"

definition parse_exponent :: "string \<Rightarrow> int option" where
  "parse_exponent s = (case s of
     [] \<Rightarrow> Some 0
   | c # cs \<Rightarrow>
       (if c = CHR ''e'' \<or> c = CHR ''E'' then
          (case split_sign cs of (neg, ds) \<Rightarrow>
             if ds \<noteq> [] \<and> list_all is_digit ds
             then Some (if neg then - digits_val ds else digits_val ds) else None)
        else None))"

definition parse_decimal :: "string \<Rightarrow> rat option" where
  "parse_decimal s =
     (let ip = takeWhile is_digit s; r1 = dropWhile is_digit s;
          (fp, r2) = (case r1 of
             c # t \<Rightarrow> if c = CHR ''.'' then (takeWhile is_digit t, dropWhile is_digit t) else ([], r1)
           | [] \<Rightarrow> ([], []))
      in if ip @ fp = [] then None
         else map_option (\<lambda>ex. of_int (digits_val (ip @ fp)) * 10 powi (ex - int (length fp)))
                (parse_exponent r2))"

definition float_of_str :: "string \<Rightarrow> pyfloat res" where
  "float_of_str s =
     (case drop_underscores (CHR 0x00) (strip s) of
        None \<Rightarrow> Inl ValueError
      | Some t \<Rightarrow> (case split_sign t of (neg, u) \<Rightarrow>
          let l = lower u in
          if l = ''inf'' \<or> l = ''infinity'' then Inr (if neg then NegInf else PosInf)
          else if l = ''nan'' then Inr NaN
          else (case parse_decimal u of
                  None \<Rightarrow> Inl ValueError
                | Some r \<Rightarrow> Inr (mk_float neg r))))"

section \<open>The shortest decimal text of a float\<close>

text \<open>
  \<open>repr(x)\<close>, which \<open>str\<close> and \<open>format\<close> also use: the shortest digit string that reads back as
  \<open>x\<close>, the nearest to \<open>x\<close> among those, and an exponent outside \<open>1e-4 \<le> |x| < 1e16\<close>.  17 digits
  are always enough for a binary64 value, and 324 decimal places reach the least one.
\<close>

fun dec_down :: "nat \<Rightarrow> rat \<Rightarrow> int" where
  "dec_down 0 r = 0"
| "dec_down (Suc n) r = (if 1 \<le> r then 0 else dec_down n (10 * r) - 1)"

definition dec_exp :: "rat \<Rightarrow> int" where
  "dec_exp r = (if 1 \<le> r then int (length (show_int \<lfloor>r\<rfloor>)) - 1 else dec_down 324 r)"

definition reads_back :: "rat \<Rightarrow> int \<Rightarrow> int \<Rightarrow> bool" where
  "reads_back r sc c \<longleftrightarrow> fl (of_int c * 10 powi sc) = r"

definition digits_at :: "rat \<Rightarrow> nat \<Rightarrow> (int \<times> int) option" where
  "digits_at r n =
     (let sc = dec_exp r - int n + 1; x = r / 10 powi sc; f = \<lfloor>x\<rfloor>
      in if reads_back r sc f \<and> reads_back r sc (f + 1) then Some (round_even x, sc)
         else if reads_back r sc f then Some (f, sc)
         else if reads_back r sc (f + 1) then Some (f + 1, sc)
         else None)"

fun first_some :: "('a \<Rightarrow> 'b option) \<Rightarrow> 'a list \<Rightarrow> 'b option" where
  "first_some g [] = None"
| "first_some g (x # xs) = (case g x of None \<Rightarrow> first_some g xs | Some y \<Rightarrow> Some y)"

definition shortest :: "rat \<Rightarrow> int \<times> int" where
  "shortest r = (case first_some (digits_at r) [1..<18] of
     Some p \<Rightarrow> p
   | None \<Rightarrow> (round_even (r / 10 powi (dec_exp r - 16)), dec_exp r - 16))"

definition strip_zeros :: "string \<Rightarrow> string" where
  "strip_zeros s = rev (dropWhile (\<lambda>c. c = CHR ''0'') (rev s))"

definition format_exp :: "int \<Rightarrow> string" where
  "format_exp e = CHR ''e'' # (if e < 0 then CHR ''-'' else CHR ''+'') #
     (if \<bar>e\<bar> < 10 then CHR ''0'' # show_int \<bar>e\<bar> else show_int \<bar>e\<bar>)"

definition repr_pos :: "rat \<Rightarrow> string" where
  "repr_pos r = (case shortest r of (c, sc) \<Rightarrow>
     let ds = strip_zeros (show_int c); dp = int (length (show_int c)) + sc in
     if dp \<le> - 4 \<or> 16 < dp then
       hd ds # (if tl ds = [] then [] else CHR ''.'' # tl ds) @ format_exp (dp - 1)
     else if dp \<le> 0 then ''0.'' @ replicate (nat (- dp)) (CHR ''0'') @ ds
     else if int (length ds) \<le> dp then
       ds @ replicate (nat dp - length ds) (CHR ''0'') @ ''.0''
     else take (nat dp) ds @ CHR ''.'' # drop (nat dp) ds)"

fun repr_float :: "pyfloat \<Rightarrow> string" where
  "repr_float NegZero = ''-0.0''"
| "repr_float (Fin r) =
     (if r = 0 then ''0.0'' else if r < 0 then CHR ''-'' # repr_pos (- r) else repr_pos r)"
| "repr_float PosInf = ''inf''"
| "repr_float NegInf = ''-inf''"
| "repr_float NaN = ''nan''"

end
