(* ===== verification/FloatFacts.thy ===== *)
theory FloatFacts
  imports PyFloat
begin

text \<open>
  The facts about rounding the components rest on: \<open>fl\<close> is monotone, leaves representable
  values alone, errs by at most half a unit in the last place, and never rounds a quotient of
  small integers up to the next integer.  Every operation returns a well-formed float.
\<close>

section \<open>Exponents\<close>

lemma pow2_pos [simp]: "0 < pow2 k"
  by simp

lemma pow2_add: "pow2 (a + b) = pow2 a * pow2 b"
  by (simp add: power_int_add)

lemma pow2_diff: "pow2 (a - b) = pow2 a / pow2 b"
  by (simp add: power_int_diff)

lemma pow2_strict: "a < b \<Longrightarrow> pow2 a < pow2 b"
  by (rule power_int_strict_increasing) simp_all

lemma pow2_le_iff [simp]: "pow2 a \<le> pow2 b \<longleftrightarrow> a \<le> b"
  by (metis linorder_not_le order.asym pow2_strict less_le)

lemma pow2_less_iff [simp]: "pow2 a < pow2 b \<longleftrightarrow> a < b"
  by (metis linorder_not_le pow2_le_iff)

lemma pow2_nat: "0 \<le> k \<Longrightarrow> pow2 k = of_int (2 ^ nat k)"
  by (simp add: power_int_def)

lemma bitlen_powi_bounds:
  assumes "0 < n"
  shows "pow2 (bitlen n - 1) \<le> of_int n" "of_int n < pow2 (bitlen n)"
proof -
  have b: "2 ^ nat (bitlen n - 1) \<le> n \<and> n < 2 ^ nat (bitlen n)"
    using assms by (rule bitlen_bounds)
  then have pos: "0 < bitlen n" using assms by (cases "0 < bitlen n") simp_all
  have "pow2 (bitlen n - 1) = of_int (2 ^ nat (bitlen n - 1))"
    and "pow2 (bitlen n) = of_int (2 ^ nat (bitlen n))"
    using pos by (simp_all only: pow2_nat)
  with b show "pow2 (bitlen n - 1) \<le> of_int n" "of_int n < pow2 (bitlen n)"
    by (simp_all only: of_int_le_iff of_int_less_iff)
qed

lemma binexp_bounds:
  assumes "0 < r"
  shows "pow2 (binexp r) \<le> r" "r < pow2 (binexp r + 1)"
proof -
  obtain n d where q: "quotient_of r = (n, d)" by fastforce
  have d: "0 < d" using quotient_of_denom_pos [OF q] .
  have r: "r = of_int n / of_int d" using quotient_of_div [OF q] .
  with assms d have n: "0 < n" by (simp add: zero_less_divide_iff)
  define k where "k = bitlen n - bitlen d"
  note bn = bitlen_powi_bounds [OF n] and bd = bitlen_powi_bounds [OF d]
  have dpos: "(0::rat) < of_int d" using d by simp
  have low: "pow2 (k - 1) \<le> r"
  proof -
    have "pow2 (k - 1) * of_int d \<le> pow2 (k - 1) * pow2 (bitlen d)"
      using bd(2) by (intro mult_left_mono) simp_all
    also have "\<dots> = pow2 (bitlen n - 1)"
      by (simp add: pow2_add [symmetric] k_def)
    also have "\<dots> \<le> of_int n" by (rule bn(1))
    finally show ?thesis using dpos by (simp add: r pos_le_divide_eq)
  qed
  have high: "r < pow2 (k + 1)"
  proof -
    have "of_int n < pow2 (bitlen n)" by (rule bn(2))
    also have "\<dots> = pow2 (k + 1) * pow2 (bitlen d - 1)"
      by (simp add: pow2_add [symmetric] k_def)
    also have "\<dots> \<le> pow2 (k + 1) * of_int d"
      using bd(1) by (intro mult_left_mono) simp_all
    finally show ?thesis using dpos by (simp add: r pos_divide_less_eq)
  qed
  have e: "binexp r = (if pow2 k \<le> r then k else k - 1)"
    by (simp add: binexp_def q k_def Let_def)
  show "pow2 (binexp r) \<le> r" "r < pow2 (binexp r + 1)"
    using low high by (simp_all add: e)
qed

lemma binexp_le_iff:
  assumes "0 < r"
  shows "k \<le> binexp r \<longleftrightarrow> pow2 k \<le> r"
proof
  assume "k \<le> binexp r"
  then have "pow2 k \<le> pow2 (binexp r)" by (simp only: pow2_le_iff)
  then show "pow2 k \<le> r" using binexp_bounds(1) [OF assms] by (rule order_trans)
next
  assume "pow2 k \<le> r"
  then have "pow2 k < pow2 (binexp r + 1)"
    using binexp_bounds(2) [OF assms] by (rule order_le_less_trans)
  then have "k < binexp r + 1" by (simp only: pow2_less_iff)
  then show "k \<le> binexp r" by simp
qed

lemma binexp_mono: "0 < r \<Longrightarrow> r \<le> s \<Longrightarrow> binexp r \<le> binexp s"
  using binexp_bounds(1) [of r] by (subst binexp_le_iff) auto

lemma ulp_exp_mono: "0 < r \<Longrightarrow> r \<le> s \<Longrightarrow> ulp_exp r \<le> ulp_exp s"
  using binexp_mono [of r s] by (simp add: ulp_exp_def)

section \<open>Rounding to an integer\<close>

lemma round_even_int [simp]: "round_even (of_int z) = z"
  by (simp add: round_even_def)

lemma round_even_error: "\<bar>of_int (round_even x) - x\<bar> \<le> 1 / 2"
proof -
  have "of_int \<lfloor>x\<rfloor> \<le> x" "x < of_int \<lfloor>x\<rfloor> + 1" by linarith+
  then show ?thesis by (auto simp: round_even_def Let_def)
qed

lemma round_even_mono: "x \<le> y \<Longrightarrow> round_even x \<le> round_even y"
proof (rule ccontr)
  assume le: "x \<le> y" and "\<not> round_even x \<le> round_even y"
  then have "of_int (round_even y) + 1 \<le> (of_int (round_even x) :: rat)" by linarith
  then have "y \<le> x"
    using round_even_error [of x] round_even_error [of y] by linarith
  with le have "x = y" by simp
  with \<open>\<not> round_even x \<le> round_even y\<close> show False by simp
qed

lemma round_even_le: "x \<le> of_int z \<Longrightarrow> round_even x \<le> z"
  using round_even_mono [of x "of_int z"] by simp

lemma round_even_ge: "of_int z \<le> x \<Longrightarrow> z \<le> round_even x"
  using round_even_mono [of "of_int z" x] by simp

section \<open>Rounding to 53 bits\<close>

lemma fl_zero [simp]: "fl 0 = 0"
  by (simp add: fl_def)

lemma fl_error:
  assumes "0 < r"
  shows "\<bar>fl r - r\<bar> \<le> pow2 (ulp_exp r) / 2"
proof -
  let ?u = "pow2 (ulp_exp r)"
  have "fl r - r = (of_int (round_even (r / ?u)) - r / ?u) * ?u"
    using assms by (simp add: fl_def left_diff_distrib)
  then have "\<bar>fl r - r\<bar> = \<bar>of_int (round_even (r / ?u)) - r / ?u\<bar> * ?u"
    by (simp add: abs_mult)
  also have "\<dots> \<le> 1 / 2 * ?u"
    by (intro mult_right_mono round_even_error) simp
  finally show ?thesis by simp
qed

lemma fl_nonneg: "0 \<le> r \<Longrightarrow> 0 \<le> fl r"
proof (cases "r = 0")
  case False
  assume "0 \<le> r"
  then have "0 \<le> round_even (r / pow2 (ulp_exp r))"
    by (intro round_even_ge) simp
  with False show ?thesis by (simp add: fl_def)
qed simp

lemma scaled_upper:
  assumes "0 < r"
  shows "r / pow2 (ulp_exp r) < 2 ^ 53"
proof -
  have "binexp r + 1 \<le> ulp_exp r + 53" by (simp add: ulp_exp_def)
  then have "pow2 (binexp r + 1) \<le> pow2 (ulp_exp r + 53)" by (simp only: pow2_le_iff)
  then have "r < pow2 (ulp_exp r + 53)" using binexp_bounds(2) [OF assms] by linarith
  then show ?thesis by (simp add: pow2_add pos_divide_less_eq mult.commute)
qed

lemma fl_int_scaled:
  assumes "0 < r" "r / pow2 (ulp_exp r) = of_int z"
  shows "fl r = r"
  using assms by (simp add: fl_def) (metis assms(2) nonzero_eq_divide_eq pow2_pos less_irrefl)

lemma fl_exact:
  assumes "0 \<le> z" "z \<le> 2 ^ 53" "- 1074 \<le> e"
  shows "fl (of_int z * pow2 e) = of_int z * pow2 e"
proof (cases "z = 0")
  case False
  define r where "r = of_int z * pow2 e"
  from False assms have r: "0 < r" by (simp add: r_def)
  have scaled: "\<exists>k. r / pow2 (ulp_exp r) = of_int k"
  proof (cases "ulp_exp r \<le> e")
    case True
    then have "r / pow2 (ulp_exp r) = of_int z * pow2 (e - ulp_exp r)"
      by (simp add: r_def pow2_diff)
    also have "pow2 (e - ulp_exp r) = of_int (2 ^ nat (e - ulp_exp r))"
      using True by (intro pow2_nat) simp
    finally show ?thesis by (metis of_int_mult)
  next
    case False
    then have "e + 53 \<le> binexp r" using assms(3) by (simp add: ulp_exp_def)
    then have "pow2 (e + 53) \<le> r" by (simp only: binexp_le_iff [OF r])
    then have "2 ^ 53 \<le> z" by (simp add: r_def pow2_add)
    with assms have z: "z = 2 ^ 53" by simp
    then have r_eq: "r = pow2 (e + 53)" by (simp add: r_def pow2_add)
    then have "binexp r \<le> e + 53"
      using binexp_bounds(1) [OF r] by (simp only: pow2_le_iff)
    with \<open>e + 53 \<le> binexp r\<close> have "binexp r = e + 53" by simp
    then have "ulp_exp r = e + 1" using assms(3) by (simp add: ulp_exp_def)
    then have "r / pow2 (ulp_exp r) = pow2 52"
      by (simp add: r_eq pow2_diff [symmetric])
    also have "\<dots> = of_int (2 ^ 52)" by simp
    finally show ?thesis by blast
  qed
  then show ?thesis using fl_int_scaled [OF r] by (auto simp: r_def)
qed simp

lemma fl_of_int: "0 \<le> z \<Longrightarrow> z \<le> 2 ^ 53 \<Longrightarrow> fl (of_int z) = of_int z"
  using fl_exact [of z 0] by simp

lemma fl_pow2: "- 1074 \<le> k \<Longrightarrow> fl (pow2 k) = pow2 k"
  using fl_exact [of 1 k] by simp

lemma fl_as_scaled:
  assumes "0 < r"
  obtains z where "fl r = of_int z * pow2 (ulp_exp r)" "0 \<le> z" "z \<le> 2 ^ 53"
proof -
  let ?z = "round_even (r / pow2 (ulp_exp r))"
  have "0 \<le> ?z" using assms by (intro round_even_ge) simp
  moreover have "?z \<le> 2 ^ 53"
    using scaled_upper [OF assms] by (intro round_even_le) simp
  ultimately show ?thesis using that [of ?z] assms by (simp add: fl_def)
qed

lemma fl_idem: "0 \<le> r \<Longrightarrow> fl (fl r) = fl r"
proof (cases "r = 0")
  case False
  assume "0 \<le> r"
  with False have "0 < r" by simp
  then obtain z where "fl r = of_int z * pow2 (ulp_exp r)" "0 \<le> z" "z \<le> 2 ^ 53"
    by (rule fl_as_scaled)
  then show ?thesis using fl_exact [of z "ulp_exp r"] by (simp add: ulp_exp_def)
qed simp

lemma fl_mono:
  assumes "0 \<le> r" "r \<le> s"
  shows "fl r \<le> fl s"
proof (cases "r = 0")
  case True
  then show ?thesis using assms fl_nonneg [of s] by simp
next
  case False
  with assms have r: "0 < r" and s: "0 < s" by simp_all
  show ?thesis
  proof (cases "ulp_exp r = ulp_exp s")
    case True
    have "r / pow2 (ulp_exp s) \<le> s / pow2 (ulp_exp s)"
      using assms(2) by (simp add: divide_right_mono)
    then have "round_even (r / pow2 (ulp_exp s)) \<le> round_even (s / pow2 (ulp_exp s))"
      by (rule round_even_mono)
    then show ?thesis using r s True by (simp add: fl_def)
  next
    case False
    with ulp_exp_mono [OF r assms(2)] have less: "ulp_exp r < ulp_exp s" by simp
    then have us: "ulp_exp s = binexp s - 52" by (auto simp: ulp_exp_def max_def split: if_splits)
    obtain z where z: "fl r = of_int z * pow2 (ulp_exp r)" "z \<le> 2 ^ 53"
      using fl_as_scaled [OF r] by blast
    then have "fl r \<le> of_int (2 ^ 53) * pow2 (ulp_exp r)"
      by (simp only: z(1)) (intro mult_right_mono, simp_all only: of_int_le_iff, simp)
    also have "\<dots> = pow2 (ulp_exp r + 53)" by (simp add: pow2_add)
    also have "\<dots> \<le> pow2 (ulp_exp s + 52)" using less by (simp only: pow2_le_iff)
    also have "\<dots> = of_int (2 ^ 52) * pow2 (ulp_exp s)" by (simp add: pow2_add)
    also have "\<dots> \<le> of_int (round_even (s / pow2 (ulp_exp s))) * pow2 (ulp_exp s)"
    proof -
      have "pow2 (ulp_exp s + 52) \<le> s" using binexp_bounds(1) [OF s] by (simp add: us)
      then have "of_int (2 ^ 52) \<le> s / pow2 (ulp_exp s)"
        by (simp add: pow2_add pos_le_divide_eq mult.commute)
      then have "2 ^ 52 \<le> round_even (s / pow2 (ulp_exp s))" by (rule round_even_ge)
      then show ?thesis by (intro mult_right_mono) (simp_all only: of_int_le_iff, simp)
    qed
    also have "\<dots> = fl s" using s by (simp add: fl_def)
    finally show ?thesis .
  qed
qed

lemma fl_ge_int: "of_int z \<le> r \<Longrightarrow> 0 \<le> z \<Longrightarrow> z \<le> 2 ^ 53 \<Longrightarrow> of_int z \<le> fl r"
  using fl_mono [of "of_int z" r] by (simp add: fl_of_int)

lemma fl_le_int: "0 \<le> r \<Longrightarrow> r \<le> of_int z \<Longrightarrow> z \<le> 2 ^ 53 \<Longrightarrow> fl r \<le> of_int z"
proof -
  assume a: "0 \<le> r" "r \<le> of_int z" "z \<le> 2 ^ 53"
  then have "(0::rat) \<le> of_int z" by linarith
  with a show "fl r \<le> of_int z" using fl_mono [of r "of_int z"] by (simp add: fl_of_int)
qed

lemma fl_less_overflow:
  assumes "0 \<le> r" "r \<le> pow2 1023"
  shows "fl r < pow2 1024"
proof -
  have "fl r \<le> fl (pow2 1023)" using assms by (rule fl_mono)
  also have "\<dots> = pow2 1023" by (rule fl_pow2) simp
  also have "\<dots> < pow2 1024" by (simp only: pow2_less_iff)
  finally show ?thesis .
qed

text \<open>A correctly rounded quotient of two integers never reaches the next integer.\<close>

lemma floor_fl_div:
  assumes a: "0 \<le> a" "a < 2 ^ 53" and b: "0 < b" "b < 2 ^ 200"
  shows "\<lfloor>fl (of_int a / of_int b)\<rfloor> = a div b"
proof (cases "a = 0")
  case False
  define x :: rat where "x = of_int a / of_int b"
  define q where "q = a div b"
  have x: "0 < x" using False a b by (simp add: x_def)
  have fx: "\<lfloor>x\<rfloor> = q" by (simp add: x_def q_def floor_divide_of_int_eq)
  have "q \<le> a" using zdiv_mono2 [of a 1 b] a b by (simp add: q_def)
  then have q: "0 \<le> q" "q \<le> 2 ^ 53"
    using a b by (simp_all add: q_def pos_imp_zdiv_nonneg_iff)
  have "of_int q \<le> x" using fx by linarith
  then have lower: "of_int q \<le> fl x" using q by (rule fl_ge_int)
  have "fl x < of_int q + 1"
  proof (rule ccontr)
    assume "\<not> fl x < of_int q + 1"
    then have "of_int q + 1 - x \<le> pow2 (ulp_exp x) / 2"
      using fl_error [OF x] by linarith
    moreover have "1 / of_int b \<le> of_int q + 1 - x"
    proof -
      have "a = q * b + a mod b" by (simp add: q_def)
      moreover have "a mod b < b" using b(1) by simp
      moreover have "(q + 1) * b = q * b + b" by (simp add: distrib_right)
      ultimately have "a + 1 \<le> (q + 1) * b" by linarith
      then have "(of_int (a + 1) :: rat) \<le> of_int ((q + 1) * b)" by (simp only: of_int_le_iff)
      then show ?thesis using b by (simp add: x_def field_simps)
    qed
    ultimately have gap: "1 / of_int b \<le> pow2 (ulp_exp x) / 2" by linarith
    show False
    proof (cases "binexp x - 52 \<le> - 1074")
      case True
      then have "ulp_exp x = - 1074" by (simp add: ulp_exp_def)
      with gap have "1 / of_int b \<le> pow2 (- 1074) / 2" by simp
      then have "2 * pow2 1074 \<le> of_int b"
        using b by (simp add: power_int_minus field_simps)
      moreover have "of_int b < 2 * pow2 1074"
      proof -
        have "(of_int b :: rat) < of_int (2 ^ 200)" using b by (simp only: of_int_less_iff)
        also have "of_int (2 ^ 200) = pow2 200" by (simp add: pow2_nat)
        also have "\<dots> < pow2 (1 + 1074)" by (simp only: pow2_less_iff)
        also have "\<dots> = 2 * pow2 1074" by (simp only: pow2_add power_int_1_right)
        finally show ?thesis .
      qed
      ultimately show False by (rule leD [THEN notE])
    next
      case False
      then have "ulp_exp x = binexp x - 52" by (simp add: ulp_exp_def)
      then have "pow2 (ulp_exp x) = pow2 (binexp x) / 2 ^ 52" by (simp add: pow2_diff)
      also have "\<dots> \<le> x / 2 ^ 52"
        using binexp_bounds(1) [OF x] by (intro divide_right_mono) simp_all
      finally have "pow2 (ulp_exp x) / 2 \<le> x / 2 ^ 52 / 2" by (rule divide_right_mono) simp
      with gap have "1 / of_int b \<le> x / 2 ^ 52 / 2" by (rule order_trans)
      then have "(2 ^ 53 :: rat) \<le> of_int a" using b by (simp add: x_def field_simps)
      then have "2 ^ 53 \<le> a" by (metis of_int_le_iff of_int_numeral of_int_power)
      then show False using a by simp
    qed
  qed
  with lower have "\<lfloor>fl x\<rfloor> = q" by linarith
  then show ?thesis by (simp add: x_def q_def)
qed simp

section \<open>Well-formed floats\<close>

text \<open>A finite float holds a representable value; zero is \<open>Fin 0\<close> or \<open>NegZero\<close>.\<close>

fun wf_float :: "pyfloat \<Rightarrow> bool" where
  "wf_float (Fin r) = (fl \<bar>r\<bar> = \<bar>r\<bar> \<and> \<bar>r\<bar> < pow2 1024)"
| "wf_float _ = True"

lemma wf_mk_float [simp, intro]: "0 \<le> r \<Longrightarrow> wf_float (mk_float neg r)"
  by (auto simp: mk_float_def Let_def fl_idem fl_nonneg)

lemma wf_float_zero [simp]: "wf_float (Fin 0)"
  by simp

lemma wf_fneg [simp, intro]: "wf_float x \<Longrightarrow> wf_float (fneg x)"
  by (cases x) auto

lemma wf_fmul [simp, intro]: "wf_float (fmul x y)"
proof -
  have "0 \<le> mag z" for z by (cases z) simp_all
  then show ?thesis by (simp add: fmul_def Let_def)
qed

lemma wf_fdiv: "fdiv x y = Inr z \<Longrightarrow> wf_float z"
proof -
  have "0 \<le> mag z" for z by (cases z) simp_all
  then show "fdiv x y = Inr z \<Longrightarrow> wf_float z"
    by (auto simp: fdiv_def Let_def split: if_splits)
qed

lemma wf_fadd [intro]: "wf_float x \<Longrightarrow> wf_float y \<Longrightarrow> wf_float (fadd x y)"
  by (auto simp: fadd_def split: option.splits)

lemma wf_fsub [intro]: "wf_float x \<Longrightarrow> wf_float y \<Longrightarrow> wf_float (fsub x y)"
  by (auto simp: fsub_def)

lemma digits_val_nonneg: "list_all is_digit ds \<Longrightarrow> 0 \<le> digits_val ds"
proof -
  have "0 \<le> acc \<Longrightarrow> list_all is_digit ds \<Longrightarrow>
      0 \<le> foldl (\<lambda>acc d. 10 * acc + digit_val d) acc ds" for acc
    by (induction ds arbitrary: acc) (auto simp: is_digit_def digit_val_def)
  then show "list_all is_digit ds \<Longrightarrow> 0 \<le> digits_val ds" by (simp add: digits_val_def)
qed

lemma parse_decimal_nonneg: "parse_decimal s = Some r \<Longrightarrow> 0 \<le> r"
proof -
  have tw: "list_all is_digit (takeWhile is_digit t)" for t
    by (auto simp: list_all_iff dest: set_takeWhileD)
  show "parse_decimal s = Some r \<Longrightarrow> 0 \<le> r"
    unfolding parse_decimal_def Let_def
    by (auto split: list.splits if_splits prod.splits
        intro!: mult_nonneg_nonneg digits_val_nonneg simp: tw)
qed

lemma wf_float_of_str: "float_of_str s = Inr x \<Longrightarrow> wf_float x"
  by (auto simp: float_of_str_def Let_def dest: parse_decimal_nonneg
      split: option.splits prod.splits if_splits)

lemma float_of_str_raises: "float_of_str s = Inl e \<Longrightarrow> e = ValueError"
  by (auto simp: float_of_str_def Let_def split: option.splits prod.splits if_splits)

lemma parse_int_raises: "parse_int s = Inl e \<Longrightarrow> e = ValueError"
  by (auto simp: parse_int_def split: option.splits prod.splits if_splits)

lemma float_of_int_small: "\<bar>i\<bar> \<le> 2 ^ 53 \<Longrightarrow> float_of_int i = Inr (Fin (of_int i))"
proof -
  assume i: "\<bar>i\<bar> \<le> 2 ^ 53"
  then have f: "fl (of_int \<bar>i\<bar>) = of_int \<bar>i\<bar>" by (intro fl_of_int) simp_all
  have "(of_int \<bar>i\<bar> :: rat) \<le> of_int (2 ^ 53)" using i by (simp only: of_int_le_iff)
  also have "\<dots> = pow2 53" by simp
  also have "\<dots> < pow2 1024" by (simp only: pow2_less_iff)
  finally have "\<not> pow2 1024 \<le> (of_int \<bar>i\<bar> :: rat)" by (simp only: not_le)
  with f show ?thesis by (auto simp: float_of_int_def mk_float_def Let_def)
qed

text \<open>Every finite float is a multiple of the least one, so a difference is never lost.\<close>

lemma fl_grid: "0 \<le> r \<Longrightarrow> \<exists>z. fl r = of_int z * pow2 (- 1074)"
proof (cases "r = 0")
  case False
  assume "0 \<le> r"
  with False have "0 < r" by simp
  then obtain z where z: "fl r = of_int z * pow2 (ulp_exp r)" by (rule fl_as_scaled)
  have u: "0 \<le> ulp_exp r + 1074" by (simp add: ulp_exp_def)
  have "pow2 (ulp_exp r) = pow2 (ulp_exp r + 1074) * pow2 (- 1074)"
    by (simp only: pow2_add [symmetric]) simp
  also have "pow2 (ulp_exp r + 1074) = of_int (2 ^ nat (ulp_exp r + 1074))"
    using u by (rule pow2_nat)
  finally have "fl r = of_int (z * 2 ^ nat (ulp_exp r + 1074)) * pow2 (- 1074)"
    by (simp only: z of_int_mult mult.assoc)
  then show ?thesis ..
qed (simp add: exI [of _ 0])

lemma wf_float_grid:
  assumes "wf_float (Fin r)"
  obtains z where "r = of_int z * pow2 (- 1074)"
proof -
  obtain z where "\<bar>r\<bar> = of_int z * pow2 (- 1074)"
    using assms fl_grid [of "\<bar>r\<bar>"] by auto
  then have "r = of_int z * pow2 (- 1074) \<or> r = of_int (- z) * pow2 (- 1074)" by auto
  then show ?thesis using that by blast
qed

lemma fl_pos: "pow2 (- 1074) \<le> r \<Longrightarrow> 0 < fl r"
proof -
  assume r: "pow2 (- 1074) \<le> r"
  have "pow2 (- 1074) = fl (pow2 (- 1074))" by (rule fl_pow2 [symmetric]) simp
  also have "\<dots> \<le> fl r" using r by (intro fl_mono) simp_all
  finally show "0 < fl r" by (rule order_less_le_trans [rotated]) simp
qed

lemma mk_float_pos: "pow2 (- 1074) \<le> r \<Longrightarrow> fless (Fin 0) (mk_float False r)"
  using fl_pos [of r] by (simp add: mk_float_def Let_def)

lemma finite_val_fneg: "finite_val (fneg x) = map_option uminus (finite_val x)"
  by (cases x) simp_all

lemma fsub_finite:
  "finite_val x = Some q \<Longrightarrow> finite_val y = Some r \<Longrightarrow> r < q \<Longrightarrow> fsub x y = mk_float False (q - r)"
  by (simp add: fsub_def fadd_def finite_val_fneg)

lemma finite_val_grid:
  assumes "wf_float x" "finite_val x = Some q"
  obtains z where "q = of_int z * pow2 (- 1074)"
proof (cases x)
  case (Fin r)
  with assms have "wf_float (Fin q)" by auto
  then show ?thesis by (rule wf_float_grid) (rule that)
next
  case NegZero
  with assms show ?thesis using that [of 0] by simp
qed (use assms in auto)

lemma fless_finite:
  "finite_val x = Some q \<Longrightarrow> finite_val y = Some r \<Longrightarrow> fless y x \<longleftrightarrow> r < q"
  by (cases x; cases y) auto

lemma fsub_pos_finite:
  assumes "wf_float x" "wf_float y" "finite_val x = Some q" "finite_val y = Some r" "r < q"
  shows "fless (Fin 0) (fsub x y)"
proof -
  obtain z where z: "q = of_int z * pow2 (- 1074)" by (rule finite_val_grid [OF assms(1,3)])
  obtain w where w: "r = of_int w * pow2 (- 1074)" by (rule finite_val_grid [OF assms(2,4)])
  from assms(5) have "w < z" by (simp add: z w)
  then have "1 * pow2 (- 1074) \<le> of_int (z - w) * pow2 (- 1074)"
    by (intro mult_right_mono) simp_all
  also have "\<dots> = q - r" by (simp add: z w left_diff_distrib)
  finally show ?thesis
    unfolding fsub_finite [OF assms(3-5)] by (intro mk_float_pos) simp
qed

lemma fsub_inf_cases:
  "fless y PosInf \<Longrightarrow> fsub PosInf y = PosInf"
  "fless NegInf x \<Longrightarrow> fsub x NegInf = PosInf"
  by (cases y; simp add: fsub_def fadd_def) (cases x; simp add: fsub_def fadd_def)

lemma fsub_pos:
  assumes "wf_float x" "wf_float y" "fless y x"
  shows "fless (Fin 0) (fsub x y)"
proof (cases "finite_val x = None \<or> finite_val y = None")
  case True
  have "x = PosInf \<or> y = NegInf"
    using assms(3) True by (cases x; cases y) auto
  then show ?thesis using assms(3) by (auto simp: fsub_inf_cases)
next
  case False
  then obtain q r where qr: "finite_val x = Some q" "finite_val y = Some r" by auto
  with assms(3) have "r < q" by (simp only: fless_finite)
  with assms qr show ?thesis by (intro fsub_pos_finite)
qed

section \<open>Operations on non-negative floats\<close>

lemma mk_float_bounded: "fl r < pow2 1024 \<Longrightarrow> mk_float False r = Fin (fl r)"
  unfolding mk_float_def Let_def by (simp only: not_le [symmetric] if_False split: if_split) metis

lemma fmul_nonneg:
  assumes "0 \<le> a" "0 \<le> b" "fl (a * b) < pow2 1024"
  shows "fmul (Fin a) (Fin b) = Fin (fl (a * b))"
proof -
  have "\<not> a < 0" "\<not> b < 0" using assms by linarith+
  then show ?thesis
    using mk_float_bounded [OF assms(3)] assms(1,2) by (simp add: fmul_def is_inf_def)
qed

lemma fdiv_nonneg:
  assumes "0 \<le> a" "0 < b" "fl (a / b) < pow2 1024"
  shows "fdiv (Fin a) (Fin b) = Inr (Fin (fl (a / b)))"
proof -
  have "\<not> a < 0" "\<not> b < 0" "b \<noteq> 0" using assms by linarith+
  then show ?thesis
    using mk_float_bounded [OF assms(3)] assms(1,2) by (simp add: fdiv_def is_inf_def is_zero_def)
qed

text \<open>For \<open>r \<le> 2^100\<close> there is no overflow; the bounds of the models stay below it.\<close>

lemma fl_no_overflow: "0 \<le> r \<Longrightarrow> r \<le> 2 ^ 100 \<Longrightarrow> fl r < pow2 1024"
proof -
  assume r: "0 \<le> r" "r \<le> 2 ^ 100"
  have "(2 ^ 100 :: rat) = pow2 100" by simp
  also have "\<dots> \<le> pow2 1023" by (simp only: pow2_le_iff)
  finally have "r \<le> pow2 1023" using r(2) by (rule order_trans [rotated])
  with r(1) show "fl r < pow2 1024" by (rule fl_less_overflow)
qed

lemma fmul_bounded:
  "0 \<le> a \<Longrightarrow> 0 \<le> b \<Longrightarrow> a * b \<le> 2 ^ 100 \<Longrightarrow> fmul (Fin a) (Fin b) = Fin (fl (a * b))"
  by (intro fmul_nonneg fl_no_overflow) simp_all

lemma fdiv_bounded:
  "0 \<le> a \<Longrightarrow> 0 < b \<Longrightarrow> a / b \<le> 2 ^ 100 \<Longrightarrow> fdiv (Fin a) (Fin b) = Inr (Fin (fl (a / b)))"
  by (intro fdiv_nonneg fl_no_overflow) simp_all

definition eps :: rat where
  "eps = 1 / 2 ^ 53"

lemma fl_relative:
  assumes "r = 0 \<or> 1 / 2 ^ 100 \<le> r"
  shows "\<bar>fl r - r\<bar> \<le> r * eps"
proof (cases "r = 0")
  case False
  with assms have r: "1 / 2 ^ 100 \<le> r" by simp
  then have pos: "0 < r" by (rule order_less_le_trans [rotated]) simp
  have "pow2 (- 1022) \<le> pow2 (- 100)" by (simp only: pow2_le_iff)
  also have "\<dots> = 1 / 2 ^ 100" by (simp add: power_int_minus inverse_eq_divide)
  finally have "pow2 (- 1022) \<le> r" using r by (rule order_trans)
  then have "- 1022 \<le> binexp r" by (simp only: binexp_le_iff [OF pos])
  then have "ulp_exp r = binexp r - 52" by (simp add: ulp_exp_def)
  then have "pow2 (ulp_exp r) / 2 = pow2 (binexp r) * eps"
    by (simp add: pow2_diff eps_def)
  also have "\<dots> \<le> r * eps"
    by (intro mult_right_mono binexp_bounds(1) pos) (simp add: eps_def)
  finally show ?thesis using fl_error [OF pos] by linarith
qed simp

lemma fl_relative_bounds:
  assumes "r = 0 \<or> 1 / 2 ^ 100 \<le> r"
  shows "r * (1 - eps) \<le> fl r" "fl r \<le> r * (1 + eps)"
proof -
  have d: "fl r - r \<le> r * eps" "r - fl r \<le> r * eps"
    using fl_relative [OF assms] by linarith+
  show "r * (1 - eps) \<le> fl r" using d(2) unfolding right_diff_distrib mult_1_right by linarith
  show "fl r \<le> r * (1 + eps)" using d(1) unfolding distrib_left mult_1_right by linarith
qed

section \<open>Reading back a decimal integer\<close>

lemma digits_val_snoc: "digits_val (ds @ [c]) = 10 * digits_val ds + digit_val c"
  by (simp add: digits_val_def)

lemma digits_val_show: "0 \<le> n \<Longrightarrow> digits_val (show_digits n) = n"
proof (induction n rule: show_digits.induct)
  case (1 n)
  show ?case
  proof (cases "n < 10")
    case True
    with "1.prems" show ?thesis by (simp add: show_digits.simps [of n] digits_val_def)
  next
    case False
    with "1" have "digits_val (show_digits (n div 10)) = n div 10" by simp
    with False show ?thesis by (simp add: show_digits.simps [of n] digits_val_snoc)
  qed
qed

lemma drop_underscores_digits:
  "\<forall>c \<in> set s. c \<noteq> CHR ''_'' \<Longrightarrow> p \<noteq> CHR ''_'' \<Longrightarrow> drop_underscores p s = Some s"
  by (induction s arbitrary: p) auto

lemma parse_decimal_digits:
  assumes "s \<noteq> []" "\<forall>c \<in> set s. is_digit c"
  shows "parse_decimal s = Some (of_int (digits_val s))"
proof -
  have tw: "takeWhile is_digit s = s" and dw: "dropWhile is_digit s = []"
    using assms(2) by (simp_all add: takeWhile_eq_all_conv dropWhile_eq_Nil_conv)
  show ?thesis using assms(1) by (simp add: parse_decimal_def parse_exponent_def Let_def tw dw)
qed

lemma float_of_str_show_int:
  assumes "0 \<le> i" "i \<le> 2 ^ 53"
  shows "float_of_str (show_int i) = Inr (Fin (of_int i))"
proof -
  have s: "show_int i = show_digits i" using assms by (simp add: show_int_def)
  have dig: "\<forall>c \<in> set (show_digits i). is_digit c" using show_digits_digits assms by blast
  then have st: "strip (show_digits i) = show_digits i"
    using is_digit_not_special(12) by (intro strip_no_space) simp
  have du: "drop_underscores (CHR 0x00) (show_digits i) = Some (show_digits i)"
    using dig is_digit_not_special(3) by (intro drop_underscores_digits) auto
  have low: "hd (lower (show_digits i)) \<noteq> CHR ''i''" "hd (lower (show_digits i)) \<noteq> CHR ''n''"
  proof -
    have "is_digit (hd (show_digits i))" using dig by simp
    then have "lower_char (hd (show_digits i)) = hd (show_digits i)"
      by (simp add: is_digit_def lower_char_def Let_def)
    then show "hd (lower (show_digits i)) \<noteq> CHR ''i''" "hd (lower (show_digits i)) \<noteq> CHR ''n''"
      using \<open>is_digit (hd (show_digits i))\<close> by (auto simp: lower_def hd_map is_digit_def)
  qed
  then have names: "lower (show_digits i) \<noteq> ''inf''" "lower (show_digits i) \<noteq> ''infinity''"
    "lower (show_digits i) \<noteq> ''nan''" by auto
  have "mk_float False (of_int i) = Fin (of_int i)"
  proof -
    have f: "fl (of_int i) = of_int i" using assms by (rule fl_of_int)
    have "(of_int i :: rat) \<le> of_int (2 ^ 53)" using assms by (simp only: of_int_le_iff)
    then have "fl (of_int i) < pow2 1024" using assms by (intro fl_no_overflow) simp_all
    then show ?thesis by (simp only: mk_float_bounded f)
  qed
  moreover have "parse_decimal (show_digits i) = Some (of_int i)"
    using dig assms by (simp add: parse_decimal_digits digits_val_show)
  ultimately show ?thesis
    using assms names by (simp add: float_of_str_def s st du split_sign_show_digits Let_def)
qed

end
