(* ===== verification/LinkChar.thy ===== *)
theory LinkChar
  imports FloatFacts
begin

text \<open>
  \<open>core/topo.py\<close>, first part: \<open>NetemAt\<close>, \<open>get_bandwidth_delay_product_divided_by_mtu\<close> and
  \<open>LinkCharacteristics\<close> (the buffer and queue computations, the schedule of netem changes and
  the \<open>tc\<close> command lines).
\<close>

section \<open>Scheduled netem changes\<close>

text \<open>\<open>delta\<close> starts as the integer 0 and becomes a float when the change is accepted.\<close>

datatype pynum = IntNum int | FloatNum pyfloat

fun str_num :: "pynum \<Rightarrow> string" where
  "str_num (IntNum i) = show_int i"
| "str_num (FloatNum x) = repr_float x"

record netem =
  at_time :: pyfloat
  netem_cmd :: string
  delta :: pynum

definition new_netem :: "pyfloat \<Rightarrow> string \<Rightarrow> netem" where
  "new_netem t c = \<lparr>at_time = t, netem_cmd = c, delta = IntNum 0\<rparr>"

definition netem_str :: "netem \<Rightarrow> string" where
  "netem_str n = ''netem at '' @ repr_float (at_time n) @ '' ('' @ str_num (delta n) @
     '') will be '' @ netem_cmd n"

section \<open>Link characteristics\<close>

definition get_bandwidth_delay_product_divided_by_mtu :: "pyfloat \<Rightarrow> pyfloat \<Rightarrow> int res" where
  "get_bandwidth_delay_product_divided_by_mtu dly bw =
     (let rtt = fmul (Fin 2) dly in
      rbind (fdiv rtt (Fin 1000)) (\<lambda>secs.
      let bandwidth_delay_product = fmul (fmul bw (Fin 125000)) secs in
      rbind (fdiv (fmul bandwidth_delay_product (Fin 1)) (Fin 1500)) ceil_float))"

record link =
  link_id :: int
  link_type :: string
  delay :: pyfloat
  queue_size :: int
  bandwidth :: pyfloat
  loss :: pyfloat
  queuing_delay :: string
  netem_at :: "netem list"
  backup :: int

text \<open>\<open>mtu\<close> keeps its default, 1500\<close>

definition extract_queuing_delay :: "int \<Rightarrow> pyfloat \<Rightarrow> int res" where
  "extract_queuing_delay queue bw =
     rbind (float_of_int (queue * 1500)) (\<lambda>bytes.
     rbind (fdiv (fmul (fmul bytes (Fin 8)) (Fin 1000)) (fmul (fmul bw (Fin 1024)) (Fin 1024)))
       (\<lambda>qd. rbind (trunc_float qd) (\<lambda>i. Inr (max i 1))))"

text \<open>\<open>LinkCharacteristics.__init__\<close>\<close>

definition new_link ::
  "int \<Rightarrow> string \<Rightarrow> pyfloat \<Rightarrow> int \<Rightarrow> pyfloat \<Rightarrow> pyfloat \<Rightarrow> int \<Rightarrow> link res" where
  "new_link i lt dly queue bw lss bk =
     rbind (extract_queuing_delay queue bw) (\<lambda>qd.
       Inr \<lparr>link_id = i, link_type = lt, delay = dly, queue_size = queue, bandwidth = bw,
            loss = lss, queuing_delay = show_int qd, netem_at = [], backup = bk\<rparr>)"

definition bandwidth_delay_product_divided_by_mtu :: "link \<Rightarrow> int res" where
  "bandwidth_delay_product_divided_by_mtu l =
     get_bandwidth_delay_product_divided_by_mtu (delay l) (bandwidth l)"

definition buffer_size :: "link \<Rightarrow> pyfloat res" where
  "buffer_size l =
     rbind (bandwidth_delay_product_divided_by_mtu l) (\<lambda>bdp.
     rbind (float_of_int bdp) (\<lambda>packets.
     rbind (float_of_str (queuing_delay l)) (\<lambda>qd.
     rbind (fdiv (fmul (fmul (bandwidth l) (Fin 1000)) qd) (Fin 8)) (\<lambda>queued.
       Inr (fadd (fmul (Fin 1500) packets) queued)))))"

text \<open>The list part of \<open>add_netem_at\<close>; \<open>n.delta\<close> is set before the append.\<close>

definition push_netem :: "netem \<Rightarrow> netem list \<Rightarrow> netem list" where
  "push_netem n ns =
     (if length ns = 0 then ns @ [n\<lparr>delta := FloatNum (at_time n)\<rparr>]
      else if fless (at_time (last ns)) (at_time n)
      then ns @ [n\<lparr>delta := FloatNum (fsub (at_time n) (at_time (last ns)))\<rparr>]
      else ns)"

definition add_netem_at :: "netem \<Rightarrow> link \<Rightarrow> link" where
  "add_netem_at n l = l\<lparr>netem_at := push_netem n (netem_at l)\<rparr>"

section \<open>Command lines\<close>

definition build_delete_tc_cmd :: "string \<Rightarrow> string" where
  "build_delete_tc_cmd ifname =
     ''tc qdisc del dev '' @ ifname @ '' root; tc qdisc del dev '' @ ifname @ '' ingress ''"

definition replace_or_add :: "bool \<Rightarrow> string" where
  "replace_or_add replace = (if replace then ''replace'' else ''add'')"

definition build_bandwidth_cmd :: "link \<Rightarrow> string \<Rightarrow> bool \<Rightarrow> string res" where
  "build_bandwidth_cmd l ifname replace =
     rbind (buffer_size l) (\<lambda>buf.
       Inr (''tc qdisc '' @ replace_or_add replace @ '' dev '' @ ifname @
            '' root handle 1:0 tbf rate '' @ repr_float (bandwidth l) @
            ''mbit burst 15000 limit '' @ repr_float buf))"

definition build_changing_bandwidth_cmd :: "link \<Rightarrow> string \<Rightarrow> string res" where
  "build_changing_bandwidth_cmd l ifname =
     rbind (rmap (\<lambda>n. rbind (build_bandwidth_cmd l ifname True) (\<lambda>c.
         Inr (''sleep '' @ str_num (delta n) @ '' && ('' @ c @ '') ''))) (netem_at l))
       (\<lambda>cs. Inr (join ''&& '' (cs @ [''true &''])))"

definition build_netem_cmd :: "link \<Rightarrow> string \<Rightarrow> string \<Rightarrow> bool \<Rightarrow> string" where
  "build_netem_cmd l ifname c replace =
     ''tc qdisc '' @ replace_or_add replace @ '' dev '' @ ifname @ '' root handle 10: netem '' @ c @
     '' '' @ (if \<not> replace then ''delay '' @ repr_float (delay l) @ ''ms limit 50000'' else [])"

definition build_changing_netem_cmd :: "link \<Rightarrow> string \<Rightarrow> string" where
  "build_changing_netem_cmd l ifname =
     join ''&& ''
       (map (\<lambda>n. ''sleep '' @ str_num (delta n) @ '' && '' @
                 build_netem_cmd l ifname (netem_cmd n) True @ '' '') (netem_at l)
        @ [''true &''])"

record link_dict =
  d_link_id :: int
  d_link_type :: string
  d_bw :: pyfloat
  d_delay :: string
  d_loss :: pyfloat
  d_max_queue_size :: int

definition as_dict :: "link \<Rightarrow> link_dict" where
  "as_dict l = \<lparr>d_link_id = link_id l, d_link_type = link_type l, d_bw = bandwidth l,
     d_delay = repr_float (delay l) @ ''ms'', d_loss = loss l, d_max_queue_size = queue_size l\<rparr>"

abbreviation nl :: string where
  "nl \<equiv> [CHR 0x0A]"

definition link_str :: "link \<Rightarrow> string" where
  "link_str l =
     nl @ ''Link type: '' @ link_type l @ nl @ ''Link id: '' @ show_int (link_id l) @
     nl @ ''    Delay: '' @ repr_float (delay l) @
     nl @ ''    Queue Size: '' @ show_int (queue_size l) @
     nl @ ''    Bandwidth: '' @ repr_float (bandwidth l) @
     nl @ ''    Loss: '' @ repr_float (loss l) @
     nl @ ''    Backup: '' @ show_int (backup l) @ nl @ ''        '' @
     concat (map (\<lambda>n. CHR 0x09 # '' '' @ netem_str n @ '' '' @ nl) (netem_at l))"

section \<open>The bandwidth-delay product\<close>

text \<open>
  For whole milliseconds and Mbit/s up to \<open>2^20\<close> the exact number of 1500-byte packets is
  \<open>bw * delay / 6\<close>.  The float computation rounds three times.
\<close>

definition bdp_float :: "int \<Rightarrow> int \<Rightarrow> rat" where
  "bdp_float d b = fl (fl (of_int (125000 * b) * fl (of_int (2 * d) / 1000)) / 1500)"

lemma small_int:
  assumes "0 \<le> z" "z \<le> 2 ^ 50"
  shows "fl (of_int z) = of_int z" "(of_int z :: rat) \<le> 2 ^ 50"
proof -
  show "fl (of_int z) = of_int z" using assms by (intro fl_of_int) simp_all
  have "(of_int z :: rat) \<le> of_int (2 ^ 50)" using assms(2) by (simp only: of_int_le_iff)
  then show "(of_int z :: rat) \<le> 2 ^ 50" by simp
qed

lemma fmul_int:
  assumes "0 \<le> x" "0 \<le> y" "x * y \<le> 2 ^ 50"
  shows "fmul (Fin (of_int x)) (Fin (of_int y)) = Fin (of_int (x * y))"
proof -
  have z: "0 \<le> x * y" using assms by simp
  note small_int [OF z assms(3)]
  moreover from this(2) have "of_int x * of_int y \<le> (2 ^ 100 :: rat)" by simp
  ultimately show ?thesis
    using assms(1,2) fmul_bounded [of "of_int x" "of_int y"] by simp
qed

lemma bdp_stages:
  assumes d: "0 \<le> d" "d \<le> 2 ^ 20" and b: "0 \<le> b" "b \<le> 2 ^ 20"
  defines "s \<equiv> fl (of_int (2 * d) / 1000)"
  defines "p \<equiv> fl (of_int (125000 * b) * s)"
  shows "fmul (Fin 2) (Fin (of_int d)) = Fin (of_int (2 * d))"
    and "fdiv (Fin (of_int (2 * d))) (Fin 1000) = Inr (Fin s)"
    and "fmul (Fin (of_int b)) (Fin 125000) = Fin (of_int (125000 * b))"
    and "fmul (Fin (of_int (125000 * b))) (Fin s) = Fin p"
    and "fmul (Fin p) (Fin 1) = Fin p"
    and "fdiv (Fin p) (Fin 1500) = Inr (Fin (fl (p / 1500)))"
proof -
  show "fmul (Fin 2) (Fin (of_int d)) = Fin (of_int (2 * d))"
    using fmul_int [of 2 d] d by simp
  show "fmul (Fin (of_int b)) (Fin 125000) = Fin (of_int (125000 * b))"
    using fmul_int [of b 125000] b by (simp add: mult.commute)
  have d0: "(0::rat) \<le> of_int (2 * d)" and d1: "of_int (2 * d) / 1000 \<le> (of_int (2 ^ 12) :: rat)"
    using d by simp_all
  then show "fdiv (Fin (of_int (2 * d))) (Fin 1000) = Inr (Fin s)"
    unfolding s_def by (intro fdiv_bounded) simp_all
  have s: "0 \<le> s" unfolding s_def using d0 by (intro fl_nonneg) simp
  have s1: "s \<le> of_int (2 ^ 12)"
    unfolding s_def by (rule fl_le_int) (use d0 d1 in simp_all)
  have b0: "(0::rat) \<le> of_int (125000 * b)" "of_int (125000 * b) \<le> (of_int (2 ^ 37) :: rat)"
    using b by (simp, simp only: of_int_le_iff, simp)
  have bs: "of_int (125000 * b) * s \<le> of_int (2 ^ 37) * of_int (2 ^ 12)"
    using b0 s s1 by (intro mult_mono) simp_all
  then have bs': "of_int (125000 * b) * s \<le> of_int (2 ^ 49)" by simp
  then show "fmul (Fin (of_int (125000 * b))) (Fin s) = Fin p"
    unfolding p_def using b0 s by (intro fmul_bounded) simp_all
  have p: "0 \<le> p" unfolding p_def using b0 s by (intro fl_nonneg mult_nonneg_nonneg)
  have p1: "p \<le> of_int (2 ^ 49)"
    unfolding p_def by (rule fl_le_int) (use b0 s bs' in simp_all)
  have "fl p = p" unfolding p_def using b0 s by (intro fl_idem) simp
  then show "fmul (Fin p) (Fin 1) = Fin p"
    using fmul_bounded [of p 1] p p1 by simp
  show "fdiv (Fin p) (Fin 1500) = Inr (Fin (fl (p / 1500)))"
    using p p1 by (intro fdiv_bounded) simp_all
qed

lemma bdp_value:
  assumes "0 \<le> d" "d \<le> 2 ^ 20" "0 \<le> b" "b \<le> 2 ^ 20"
  shows "get_bandwidth_delay_product_divided_by_mtu (Fin (of_int d)) (Fin (of_int b))
    = Inr \<lceil>bdp_float d b\<rceil>"
  unfolding get_bandwidth_delay_product_divided_by_mtu_def Let_def
  by (simp only: bdp_stages [OF assms] rbind_simps ceil_float.simps bdp_float_def)

lemma three_roundings:
  assumes "0 \<le> v" "v \<le> 2 ^ 40"
  shows "v * (1 + eps) ^ 3 - v < 1 / 6" "v - v * (1 - eps) ^ 3 < 1 / 6"
proof -
  have up: "(1 + eps) ^ 3 - 1 \<le> 1 / 2 ^ 50" and low: "1 - (1 - eps) ^ 3 \<le> 1 / 2 ^ 50"
    by (simp_all add: eps_def power3_eq_cube)
  have e: "v * (1 / 2 ^ 50) \<le> 2 ^ 40 * (1 / 2 ^ 50)"
    using assms(2) by (intro mult_right_mono) simp_all
  have "v * ((1 + eps) ^ 3 - 1) \<le> v * (1 / 2 ^ 50)"
    using assms(1) up by (intro mult_left_mono)
  then show "v * (1 + eps) ^ 3 - v < 1 / 6" using e by (simp add: right_diff_distrib)
  have "v * (1 - (1 - eps) ^ 3) \<le> v * (1 / 2 ^ 50)"
    using assms(1) low by (intro mult_left_mono)
  then show "v - v * (1 - eps) ^ 3 < 1 / 6" using e by (simp add: right_diff_distrib)
qed

lemma bdp_float_near:
  assumes d: "0 \<le> d" "d \<le> 2 ^ 20" and b: "0 \<le> b" "b \<le> 2 ^ 20"
  shows "\<bar>bdp_float d b - of_int (b * d) / 6\<bar> < 1 / 6"
proof (cases "d = 0 \<or> b = 0")
  case True
  then show ?thesis by (auto simp: bdp_float_def)
next
  case False
  define s0 :: rat where "s0 = of_int (2 * d) / 1000"
  define B :: rat where "B = of_int (125000 * b)"
  define v :: rat where "v = of_int (b * d) / 6"
  have eps: "0 < eps" "eps < 1 / 2" by (simp_all add: eps_def)
  have d1: "1 \<le> d" and b1: "1 \<le> b" using False d b by auto
  have s0: "1 / 500 \<le> s0" using d1 by (simp add: s0_def)
  have B: "125000 \<le> B" using b1 by (simp add: B_def)
  have "s0 = 0 \<or> 1 / 2 ^ 100 \<le> s0" using s0 by simp
  note s = fl_relative_bounds [OF this]
  have s_pos: "1 / 1000 \<le> fl s0"
  proof -
    have "1 / 500 * (1 / 2) \<le> s0 * (1 - eps)" using s0 eps by (intro mult_mono) simp_all
    with s(1) show ?thesis by simp
  qed
  have Bs: "B * (s0 * (1 - eps)) \<le> B * fl s0" "B * fl s0 \<le> B * (s0 * (1 + eps))"
    using s B by (simp_all add: mult_left_mono)
  have "125000 * (1 / 1000) \<le> B * fl s0" using B s_pos by (intro mult_mono) simp_all
  then have "B * fl s0 = 0 \<or> 1 / 2 ^ 100 \<le> B * fl s0" and Bs_pos: "125 \<le> B * fl s0" by simp_all
  note p = fl_relative_bounds [OF this(1)]
  have p_pos: "60 \<le> fl (B * fl s0)"
  proof -
    have "125 * (1 / 2) \<le> B * fl s0 * (1 - eps)" using Bs_pos eps by (intro mult_mono) simp_all
    with p(1) show ?thesis by simp
  qed
  then have "fl (B * fl s0) / 1500 = 0 \<or> 1 / 2 ^ 100 \<le> fl (B * fl s0) / 1500" by simp
  note x = fl_relative_bounds [OF this]
  have v_eq: "B * s0 / 1500 = v" by (simp add: B_def s0_def v_def)
  have bf: "bdp_float d b = fl (fl (B * fl s0) / 1500)" by (simp only: bdp_float_def s0_def B_def)
  have upper: "bdp_float d b \<le> v * (1 + eps) ^ 3"
  proof -
    have "fl (B * fl s0) \<le> B * (s0 * (1 + eps)) * (1 + eps)"
      using p(2) Bs(2) eps by (meson mult_right_mono order_trans add_nonneg_nonneg less_imp_le zero_le_one)
    then have "fl (B * fl s0) / 1500 * (1 + eps) \<le> B * (s0 * (1 + eps)) * (1 + eps) / 1500 * (1 + eps)"
      using eps by (intro mult_right_mono divide_right_mono) simp_all
    also have "\<dots> = B * s0 / 1500 * (1 + eps) ^ 3" by (simp add: power3_eq_cube)
    finally show ?thesis using x(2) unfolding bf v_eq by (rule order_trans [rotated])
  qed
  have lower: "v * (1 - eps) ^ 3 \<le> bdp_float d b"
  proof -
    have "B * (s0 * (1 - eps)) * (1 - eps) \<le> fl (B * fl s0)"
    proof -
      have "B * (s0 * (1 - eps)) * (1 - eps) \<le> B * fl s0 * (1 - eps)"
        using Bs(1) eps by (intro mult_right_mono) simp_all
      then show ?thesis using p(1) by (rule order_trans)
    qed
    then have "B * (s0 * (1 - eps)) * (1 - eps) / 1500 * (1 - eps) \<le> fl (B * fl s0) / 1500 * (1 - eps)"
      using eps by (intro mult_right_mono divide_right_mono) simp_all
    moreover have "B * (s0 * (1 - eps)) * (1 - eps) / 1500 * (1 - eps) = B * s0 / 1500 * (1 - eps) ^ 3"
      by (simp add: power3_eq_cube)
    ultimately have "v * (1 - eps) ^ 3 \<le> fl (B * fl s0) / 1500 * (1 - eps)" by (simp only: v_eq)
    then show ?thesis using x(1) unfolding bf by (rule order_trans)
  qed
  have "0 \<le> v" using d b by (simp add: v_def)
  moreover have "v \<le> 2 ^ 40"
  proof -
    have "b * d \<le> 2 ^ 20 * 2 ^ 20" using d b by (intro mult_mono) simp_all
    then have "(of_int (b * d) :: rat) \<le> of_int (2 ^ 20 * 2 ^ 20)" by (simp only: of_int_le_iff)
    then show ?thesis by (simp add: v_def)
  qed
  ultimately have "v * (1 + eps) ^ 3 - v < 1 / 6" "v - v * (1 - eps) ^ 3 < 1 / 6"
    by (rule three_roundings)+
  with upper lower show ?thesis unfolding v_def [symmetric] abs_less_iff by simp
qed

lemma ceiling_near:
  assumes "\<bar>x - of_int n / 6\<bar> < (1 / 6 :: rat)"
  shows "\<lceil>x\<rceil> = (n + 5) div 6 \<or> 6 dvd n \<and> \<lceil>x\<rceil> = (n + 5) div 6 + 1"
proof -
  define q r where "q = n div 6" and "r = n mod 6"
  have n: "n = 6 * q + r" and r: "0 \<le> r" "r < 6" by (simp_all add: q_def r_def)
  define R :: rat where "R = of_int r / 6"
  have nR: "of_int n / 6 = of_int q + R" by (simp add: n R_def add_divide_distrib)
  have x: "of_int q + R - 1 / 6 < x" "x < of_int q + R + 1 / 6"
    using assms unfolding nR abs_less_iff by (simp_all add: algebra_simps)
  show ?thesis
  proof (cases "r = 0")
    case True
    then have "R = 0" by (simp add: R_def)
    with x have "of_int (q - 1) < x" "x < of_int (q + 1)" by simp_all
    then have "q \<le> \<lceil>x\<rceil>" "\<lceil>x\<rceil> \<le> q + 1" by linarith+
    moreover have "(n + 5) div 6 = q" "6 dvd n" using n True by simp_all
    ultimately show ?thesis by linarith
  next
    case False
    then have "1 \<le> r" "r \<le> 5" using r by simp_all
    then have "1 / 6 \<le> R" "R \<le> 5 / 6" by (simp_all add: R_def)
    with x have "of_int q < x" "x < of_int (q + 1)" by simp_all
    then have "\<lceil>x\<rceil> = q + 1" by linarith
    moreover have "(n + 5) div 6 = q + 1" using n \<open>1 \<le> r\<close> \<open>r \<le> 5\<close> by linarith
    ultimately show ?thesis by simp
  qed
qed

section \<open>The queuing delay\<close>

lemma extract_queuing_delay_int:
  assumes q: "0 \<le> q" "q \<le> 2 ^ 26" and b: "1 \<le> b" "b \<le> 2 ^ 29"
  shows "extract_queuing_delay q (Fin (of_int b)) = Inr (max (q * 12000000 div (b * 1048576)) 1)"
proof -
  have num: "float_of_int (q * 1500) = Inr (Fin (of_int (q * 1500)))"
    using q by (intro float_of_int_small) simp
  have f8: "fmul (Fin (of_int (q * 1500))) (Fin 8) = Fin (of_int (q * 12000))"
    using fmul_int [of "q * 1500" 8] q by simp
  have f1000: "fmul (Fin (of_int (q * 12000))) (Fin 1000) = Fin (of_int (q * 12000000))"
    using fmul_int [of "q * 12000" 1000] q by simp
  have k1: "fmul (Fin (of_int b)) (Fin 1024) = Fin (of_int (b * 1024))"
    using fmul_int [of b 1024] b by simp
  have k2: "fmul (Fin (of_int (b * 1024))) (Fin 1024) = Fin (of_int (b * 1048576))"
    using fmul_int [of "b * 1024" 1024] b by simp
  define a c where "a = q * 12000000" and "c = b * 1048576"
  have a: "0 \<le> a" "a < 2 ^ 53" "a \<le> 2 ^ 50" and c: "0 < c" "c < 2 ^ 200" "1 \<le> c"
    using q b by (simp_all add: a_def c_def)
  have "(of_int a :: rat) / of_int c \<le> of_int a / 1"
    using a(1) c(3) by (intro divide_left_mono) simp_all
  also have "of_int a / 1 \<le> (2 ^ 50 :: rat)" using small_int(2) [OF a(1,3)] by simp
  finally have "(of_int a :: rat) / of_int c \<le> 2 ^ 100" by simp
  then have quot: "fdiv (Fin (of_int a)) (Fin (of_int c)) = Inr (Fin (fl (of_int a / of_int c)))"
    using a(1) c(1) by (intro fdiv_bounded) simp_all
  have "0 \<le> fl (of_int a / of_int c)" using a(1) c(1) by (intro fl_nonneg) simp
  then have "trunc_float (Fin (fl (of_int a / of_int c))) = Inr (a div c)"
    using floor_fl_div [OF a(1,2) c(1,2)] by (simp add: not_less)
  with quot show ?thesis
    unfolding extract_queuing_delay_def num rbind_simps f8 f1000 k1 k2
    by (simp add: a_def c_def)
qed

lemma extract_queuing_delay_zero:
  "is_zero bw \<Longrightarrow> float_of_int (queue * 1500) = Inr f \<Longrightarrow>
     extract_queuing_delay queue bw = Inl ZeroDivisionError"
proof -
  assume z: "is_zero bw" and f: "float_of_int (queue * 1500) = Inr f"
  have m: "is_zero (fmul x (Fin 1024))" if "is_zero x" for x
    using that by (auto simp: is_zero_def fmul_def is_inf_def mk_float_def)
  from z have "is_zero (fmul (fmul bw (Fin 1024)) (Fin 1024))" by (intro m)
  with f show ?thesis by (simp add: extract_queuing_delay_def fdiv_def)
qed

section \<open>The contract of a schedule\<close>

text \<open>
  A list of timed changes to which a change is added only when it comes strictly after the
  last one; an accepted change records the time to wait after its predecessor.
\<close>

lemma fless_irrefl [simp]: "\<not> fless x x"
  by (cases x) auto

lemma fless_trans: "fless x y \<Longrightarrow> fless y z \<Longrightarrow> fless x z"
  by (cases x; cases y; cases z) auto

fun deltas_ok :: "('n \<Rightarrow> pyfloat) \<Rightarrow> ('n \<Rightarrow> pynum) \<Rightarrow> 'n list \<Rightarrow> bool" where
  "deltas_ok tm wait [] = True"
| "deltas_ok tm wait [x] = True"
| "deltas_ok tm wait (x # y # ns) =
     (wait y = FloatNum (fsub (tm y) (tm x)) \<and> deltas_ok tm wait (y # ns))"

definition schedule_ok :: "('n \<Rightarrow> pyfloat) \<Rightarrow> ('n \<Rightarrow> pynum) \<Rightarrow> 'n list \<Rightarrow> bool" where
  "schedule_ok tm wait ns \<longleftrightarrow>
     sorted_wrt (\<lambda>x y. fless (tm x) (tm y)) ns \<and> deltas_ok tm wait ns \<and>
     (ns \<noteq> [] \<longrightarrow> wait (hd ns) = FloatNum (tm (hd ns)))"

lemma deltas_snoc:
  "ns \<noteq> [] \<Longrightarrow> deltas_ok tm wait (ns @ [x]) \<longleftrightarrow>
     deltas_ok tm wait ns \<and> wait x = FloatNum (fsub (tm x) (tm (last ns)))"
  by (induction ns rule: induct_list012) auto

lemma deltas_take: "deltas_ok tm wait ns \<Longrightarrow> deltas_ok tm wait (take k ns)"
proof (induction tm wait ns arbitrary: k rule: deltas_ok.induct)
  case (3 tm wait x y ns)
  show ?case
  proof (cases k)
    case (Suc j)
    then show ?thesis using 3 by (cases j) (auto dest: "3.IH" [of j])
  qed simp
next
  case (2 tm wait x)
  then show ?case by (cases k) auto
qed simp

lemma schedule_ok_take: "schedule_ok tm wait ns \<Longrightarrow> schedule_ok tm wait (take k ns)"
  by (cases k; cases ns)
     (auto simp: schedule_ok_def sorted_wrt_take dest: deltas_take [where k = k] in_set_takeD)

locale schedule =
  fixes tm :: "'n \<Rightarrow> pyfloat"
    and wait :: "'n \<Rightarrow> pynum"
    and set_wait :: "pynum \<Rightarrow> 'n \<Rightarrow> 'n"
    and push :: "'n \<Rightarrow> 'n list \<Rightarrow> 'n list"
  assumes tm_set_wait: "tm (set_wait w n) = tm n"
    and wait_set_wait: "wait (set_wait w n) = w"
    and push_first: "push n [] = [set_wait (FloatNum (tm n)) n]"
    and push_later: "ns \<noteq> [] \<Longrightarrow> fless (tm (last ns)) (tm n) \<Longrightarrow>
        push n ns = ns @ [set_wait (FloatNum (fsub (tm n) (tm (last ns)))) n]"
    and push_early: "ns \<noteq> [] \<Longrightarrow> \<not> fless (tm (last ns)) (tm n) \<Longrightarrow> push n ns = ns"
begin

lemma sorted_snoc:
  assumes "sorted_wrt (\<lambda>x y. fless (tm x) (tm y)) ns" "ns \<noteq> []" "fless (tm (last ns)) (tm x)"
  shows "sorted_wrt (\<lambda>x y. fless (tm x) (tm y)) (ns @ [x])"
proof -
  have "fless (tm y) (tm x)" if "y \<in> set ns" for y
  proof (cases "y = last ns")
    case False
    obtain ms where ns: "ns = ms @ [last ns]" using assms(2) by (metis append_butlast_last_id)
    have "y \<in> set ms" using that False by (subst (asm) ns) auto
    then have "fless (tm y) (tm (last ns))"
      using assms(1) by (subst (asm) ns) (auto simp: sorted_wrt_append)
    then show ?thesis using assms(3) by (rule fless_trans)
  qed (use assms in simp)
  with assms(1) show ?thesis by (auto simp: sorted_wrt_append)
qed

lemma push_ok: "schedule_ok tm wait ns \<Longrightarrow> schedule_ok tm wait (push n ns)"
proof (cases "ns = []")
  case False
  assume ok: "schedule_ok tm wait ns"
  show ?thesis
  proof (cases "fless (tm (last ns)) (tm n)")
    case True
    with False ok show ?thesis
      by (simp add: schedule_ok_def push_later deltas_snoc sorted_snoc tm_set_wait wait_set_wait)
  qed (simp add: push_early False ok)
qed (simp add: schedule_ok_def push_first tm_set_wait wait_set_wait)

lemma fold_push_ok: "schedule_ok tm wait ns \<Longrightarrow> schedule_ok tm wait (fold push xs ns)"
  by (induction xs arbitrary: ns) (auto intro: push_ok)

text \<open>The times kept are among the times given.\<close>

lemma push_times: "tm ` set (push n ns) \<subseteq> insert (tm n) (tm ` set ns)"
  by (cases "ns = []"; cases "fless (tm (last ns)) (tm n)")
     (auto simp: push_first push_later push_early tm_set_wait)

lemma fold_push_times: "tm ` set (fold push xs ns) \<subseteq> tm ` set xs \<union> tm ` set ns"
proof (induction xs arbitrary: ns)
  case (Cons x xs)
  from Cons [of "push x ns"] push_times [of x ns] show ?case by auto
qed simp

lemma fold_push_all:
  "\<forall>n \<in> set xs \<union> set ns. P (tm n) \<Longrightarrow> \<forall>n \<in> set (fold push xs ns). P (tm n)"
  using fold_push_times [of xs ns] by (auto simp: image_subset_iff)

text \<open>Changes given in order are all accepted.\<close>

lemma fold_push_sorted:
  assumes "sorted_wrt (\<lambda>x y. fless (tm x) (tm y)) (ns @ xs)"
  shows "map tm (fold push xs ns) = map tm (ns @ xs)"
  using assms
proof (induction xs arbitrary: ns)
  case (Cons x xs)
  show ?case
  proof (cases "ns = []")
    case True
    let ?x = "set_wait (FloatNum (tm x)) x"
    have "sorted_wrt (\<lambda>x y. fless (tm x) (tm y)) ([?x] @ xs)"
      using Cons.prems True by (simp add: tm_set_wait)
    then show ?thesis using Cons.IH [of "[?x]"] True by (simp add: push_first tm_set_wait)
  next
    case False
    have late: "fless (tm (last ns)) (tm x)"
      using Cons.prems False by (auto simp: sorted_wrt_append)
    let ?x = "set_wait (FloatNum (fsub (tm x) (tm (last ns)))) x"
    have "sorted_wrt (\<lambda>x y. fless (tm x) (tm y)) ((ns @ [?x]) @ xs)"
      using Cons.prems by (auto simp: sorted_wrt_append tm_set_wait)
    then show ?thesis
      using Cons.IH [of "ns @ [?x]"] by (simp add: push_later False late tm_set_wait)
  qed
qed simp

end

interpretation netem_schedule: schedule at_time delta "\<lambda>w n. n\<lparr>delta := w\<rparr>" push_netem
  by unfold_locales (simp_all add: push_netem_def)

text \<open>The waits after the first change are positive, so the changes happen in order.\<close>

lemma deltas_positive:
  assumes "deltas_ok tm wait ns" "sorted_wrt (\<lambda>x y. fless (tm x) (tm y)) ns"
    "\<forall>n \<in> set ns. wf_float (tm n)" "n \<in> set (tl ns)"
  shows "\<exists>x. wait n = FloatNum x \<and> fless (Fin 0) x"
  using assms
proof (induction tm wait ns rule: deltas_ok.induct)
  case (3 tm wait x y ns)
  show ?case
  proof (cases "n = y")
    case True
    have "fless (Fin 0) (fsub (tm y) (tm x))" using "3.prems" by (intro fsub_pos) auto
    with True "3.prems"(1) show ?thesis by simp
  next
    case False
    then show ?thesis using "3.prems" by (intro "3.IH") auto
  qed
qed simp_all

text \<open>For whole-second times the waits add up exactly.\<close>

fun wait_sum :: "pynum list \<Rightarrow> rat" where
  "wait_sum [] = 0"
| "wait_sum (w # ws) = (case w of FloatNum x \<Rightarrow> (case finite_val x of Some r \<Rightarrow> r | None \<Rightarrow> 0)
      | IntNum i \<Rightarrow> of_int i) + wait_sum ws"

lemma wait_sum_append: "wait_sum (xs @ ys) = wait_sum xs + wait_sum ys"
  by (induction xs) simp_all

lemma fsub_int:
  assumes "0 \<le> z" "z < w" "w \<le> 2 ^ 53"
  shows "finite_val (fsub (Fin (of_int w)) (Fin (of_int z))) = Some (of_int (w - z))"
proof -
  have "fsub (Fin (of_int w)) (Fin (of_int z)) = mk_float False (of_int w - of_int z)"
    using assms by (intro fsub_finite) simp_all
  also have "(of_int w - of_int z :: rat) = of_int (w - z)" by simp
  finally have eq: "fsub (Fin (of_int w)) (Fin (of_int z)) = mk_float False (of_int (w - z))" .
  have f: "fl (of_int (w - z)) = of_int (w - z)" using assms by (intro fl_of_int) simp_all
  have "(of_int (w - z) :: rat) \<le> of_int (2 ^ 53)" using assms by (simp only: of_int_le_iff)
  then have "(of_int (w - z) :: rat) \<le> 2 ^ 100" by simp
  then have "fl (of_int (w - z)) < pow2 1024" using assms by (intro fl_no_overflow) simp_all
  then show ?thesis by (simp only: eq mk_float_bounded f finite_val.simps)
qed

lemma wait_sum_last:
  assumes "schedule_ok tm wait ns" "ns \<noteq> []"
    "\<forall>n \<in> set ns. \<exists>z. tm n = Fin (of_int z) \<and> 0 \<le> z \<and> z \<le> 2 ^ 53"
  shows "Some (wait_sum (map wait ns)) = finite_val (tm (last ns))"
  using assms
proof (induction ns rule: rev_induct)
  case (snoc x ns)
  obtain w where w: "tm x = Fin (of_int w)" "0 \<le> w" "w \<le> 2 ^ 53" using snoc.prems(3) by auto
  show ?case
  proof (cases "ns = []")
    case True
    then show ?thesis using snoc.prems(1) w by (simp add: schedule_ok_def)
  next
    case False
    from snoc.prems(1) False have ok: "schedule_ok tm wait ns"
      and wt: "wait x = FloatNum (fsub (tm x) (tm (last ns)))"
      and late: "fless (tm (last ns)) (tm x)"
      by (auto simp: schedule_ok_def deltas_snoc sorted_wrt_append)
    have "last ns \<in> set (ns @ [x])" using False by simp
    then obtain z where z: "tm (last ns) = Fin (of_int z)" "0 \<le> z" using snoc.prems(3) by blast
    have "Some (wait_sum (map wait ns)) = Some (of_int z)"
      using snoc.IH [OF ok False] snoc.prems(3) by (simp add: z)
    moreover have "z < w" using late by (simp add: z w)
    then have "finite_val (fsub (tm x) (tm (last ns))) = Some (of_int (w - z))"
      using z w by (simp only: fsub_int)
    ultimately show ?thesis by (simp add: wait_sum_append wt w)
  qed
qed simp

section \<open>The buffer\<close>

lemma fadd_int:
  assumes "0 \<le> x" "0 \<le> y" "x + y \<le> 2 ^ 50"
  shows "fadd (Fin (of_int x)) (Fin (of_int y)) = Fin (of_int (x + y))"
proof (cases "x + y = 0")
  case False
  have f: "fl (of_int (x + y)) = of_int (x + y)" and le: "(of_int (x + y) :: rat) \<le> 2 ^ 50"
    using small_int [of "x + y"] assms by simp_all
  from le have "fl (of_int (x + y)) < pow2 1024" using assms by (intro fl_no_overflow) simp_all
  then have "mk_float False (of_int (x + y)) = Fin (of_int (x + y))"
    by (simp only: mk_float_bounded f)
  moreover have "(of_int x + of_int y :: rat) = of_int (x + y)" by simp
  moreover have "\<not> (of_int (x + y) :: rat) < 0" "(of_int (x + y) :: rat) \<noteq> 0"
    "\<bar>of_int (x + y) :: rat\<bar> = of_int (x + y)"
    using False assms by (simp_all only: not_less of_int_0_le_iff of_int_eq_0_iff abs_of_nonneg) simp_all
  ultimately show ?thesis
    by (simp only: fadd_def finite_val.simps prod.case option.case if_False)
next
  case True
  then have "x = 0" "y = 0" using assms by linarith+
  then show ?thesis by (simp add: fadd_def)
qed

lemma fdiv8_int:
  assumes "0 \<le> z" "8 * z \<le> 2 ^ 50"
  shows "fdiv (Fin (of_int (8 * z))) (Fin 8) = Inr (Fin (of_int z))"
proof -
  have "(of_int (8 * z) :: rat) / 8 = of_int z" by simp
  moreover have "fl (of_int z) = of_int z" and le: "(of_int z :: rat) \<le> 2 ^ 50"
    using small_int [of z] assms by simp_all
  moreover have "fdiv (Fin (of_int (8 * z))) (Fin 8) = Inr (Fin (fl (of_int (8 * z) / 8)))"
    using assms le by (intro fdiv_bounded) simp_all
  ultimately show ?thesis by simp
qed

lemma buffer_size_int:
  assumes bdp: "bandwidth_delay_product_divided_by_mtu l = Inr p" "0 \<le> p" "p \<le> 2 ^ 39"
    and bw: "bandwidth l = Fin (of_int b)" "0 \<le> b"
    and qd: "queuing_delay l = show_int t" "0 \<le> t"
    and small: "b * t \<le> 2 ^ 40"
    and b1: "b \<le> 2 ^ 40" and t1: "t \<le> 2 ^ 40"
  shows "buffer_size l = Inr (Fin (of_int (1500 * p + 125 * b * t)))"
proof -
  have pk: "float_of_int p = Inr (Fin (of_int p))" using bdp by (intro float_of_int_small) simp
  have tt: "float_of_str (queuing_delay l) = Inr (Fin (of_int t))"
    unfolding qd(1) using qd(2) t1 by (intro float_of_str_show_int) simp_all
  have m1: "fmul (Fin (of_int b)) (Fin 1000) = Fin (of_int (b * 1000))"
    using fmul_int [of b 1000] bw(2) b1 by simp
  have m2: "fmul (Fin (of_int (b * 1000))) (Fin (of_int t)) = Fin (of_int (8 * (125 * b * t)))"
    using fmul_int [of "b * 1000" t] bw(2) qd(2) small by (simp add: algebra_simps)
  have m3: "fdiv (Fin (of_int (8 * (125 * b * t)))) (Fin 8) = Inr (Fin (of_int (125 * b * t)))"
    using bw(2) qd(2) small by (intro fdiv8_int) simp_all
  have m4: "fmul (Fin 1500) (Fin (of_int p)) = Fin (of_int (1500 * p))"
    using fmul_int [of 1500 p] bdp by simp
  have m5: "fadd (Fin (of_int (1500 * p))) (Fin (of_int (125 * b * t)))
      = Fin (of_int (1500 * p + 125 * b * t))"
    using bdp bw(2) qd(2) small by (intro fadd_int) simp_all
  show ?thesis unfolding buffer_size_def
    by (simp only: bdp(1) pk tt bw(1) m1 m2 m3 m4 m5 rbind_simps)
qed

section \<open>Properties\<close>

lemma bdp_exact:
  assumes "0 \<le> d" "d \<le> 2 ^ 20" "0 \<le> b" "b \<le> 2 ^ 20"
  shows "\<exists>p. get_bandwidth_delay_product_divided_by_mtu (Fin (of_int d)) (Fin (of_int b)) = Inr p \<and>
     (p = (b * d + 5) div 6 \<or> 6 dvd b * d \<and> p = (b * d + 5) div 6 + 1)"
  using bdp_value [OF assms] ceiling_near [OF bdp_float_near [OF assms]] by simp

lemma ceiling_sixth: "\<lceil>of_int n / (6 :: rat)\<rceil> = (n + 5) div 6"
proof -
  have "\<lceil>of_int n / (of_int 6 :: rat)\<rceil> = - (- n div 6)" by (rule ceiling_divide_eq_div)
  moreover have "- (- n div 6) = (n + 5) div 6" by presburger
  ultimately show ?thesis by simp
qed

lemma new_link_int:
  assumes "0 \<le> q" "q \<le> 2 ^ 26" "1 \<le> b" "b \<le> 2 ^ 29"
  shows "new_link i lt dly q (Fin (of_int b)) lss bk =
     Inr \<lparr>link_id = i, link_type = lt, delay = dly, queue_size = q, bandwidth = Fin (of_int b),
          loss = lss, queuing_delay = show_int (max (q * 12000000 div (b * 1048576)) 1),
          netem_at = [], backup = bk\<rparr>"
  using extract_queuing_delay_int [OF assms] by (simp add: new_link_def)

lemma share_bound:
  assumes "1 \<le> b" "0 \<le> a" "1 \<le> c"
  shows "b * (a div (b * c)) \<le> (a::int)"
proof -
  have bc: "0 < b * c" using assms by simp
  then have t: "0 \<le> a div (b * c)" using assms by (simp add: pos_imp_zdiv_nonneg_iff)
  then have "b * (a div (b * c)) * 1 \<le> b * (a div (b * c)) * c"
    using assms by (intro mult_left_mono) simp_all
  also have "\<dots> = (b * c) * (a div (b * c))" by simp
  also have "\<dots> \<le> a"
    using mult_div_mod_eq [of "b * c" a] pos_mod_sign [OF bc, of a] by linarith
  finally show ?thesis by simp
qed

lemma fold_add_netem_at: "netem_at (fold add_netem_at ns l) = fold push_netem ns (netem_at l)"
  by (induction ns arbitrary: l) (simp_all add: add_netem_at_def)

text \<open>
  C18.  The queue size computed for a link given by delay and bandwidth only: for whole
  milliseconds and whole Mbit/s it is the bandwidth-delay product in 1500-byte packets,
  rounded up.  The float computation can exceed it by one packet, and only when the exact
  product is a whole number of packets.
\<close>

theorem bdp_in_packets:
  assumes "0 \<le> d" "d \<le> 2 ^ 20" "0 \<le> b" "b \<le> 2 ^ 20"
  shows "\<exists>p. get_bandwidth_delay_product_divided_by_mtu (Fin (of_int d)) (Fin (of_int b)) = Inr p \<and>
     (p = \<lceil>of_int (125000 * b) * (of_int (2 * d) / 1000) / (1500 :: rat)\<rceil> \<or>
      6 dvd b * d \<and> p = b * d div 6 + 1)"
proof -
  have v: "of_int (125000 * b) * (of_int (2 * d) / 1000) / (1500 :: rat) = of_int (b * d) / 6"
    by simp
  have "\<lceil>of_int (b * d) / (6 :: rat)\<rceil> = (b * d + 5) div 6"
    by (rule ceiling_sixth)
  then show ?thesis using bdp_exact [OF assms] unfolding v by (auto elim!: dvdE)
qed

theorem bdp_in_packets_witness:
  "get_bandwidth_delay_product_divided_by_mtu (Fin 20) (Fin 4) = Inr 14"
  using bdp_in_packets [of 20 4] by (simp add: ceiling_eq_iff)

text \<open>
  The queuing delay of a link with a whole bandwidth is exactly the number of
  milliseconds its queue takes to drain (with Mbit counted as \<open>2^20\<close> bits), cut to a whole
  number and at least 1; the constructor stores it as text and starts with no netem change.
\<close>

lemma link_queuing_delay:
  assumes "0 \<le> q" "q \<le> 2 ^ 26" "1 \<le> b" "b \<le> 2 ^ 29"
  shows "\<exists>l. new_link i lt dly q (Fin (of_int b)) lss bk = Inr l \<and>
     parse_int (queuing_delay l) = Inr (max \<lfloor>of_int (q * 1500 * 8 * 1000) / (of_int (b * 1024 * 1024) :: rat)\<rfloor> 1) \<and>
     netem_at l = [] \<and> queue_size l = q \<and> link_id l = i \<and> link_type l = lt"
proof -
  have "\<lfloor>of_int (q * 1500 * 8 * 1000) / (of_int (b * 1024 * 1024) :: rat)\<rfloor>
      = q * 1500 * 8 * 1000 div (b * 1024 * 1024)" by (rule floor_divide_of_int_eq)
  also have "\<dots> = q * 12000000 div (b * 1048576)" by (simp add: mult.assoc)
  finally show ?thesis
    unfolding new_link_int [OF assms] by (simp only: parse_int_show_int) simp
qed

lemma link_queuing_delay_witness:
  "\<exists>l. new_link 0 ''c2r'' (Fin 10) 100 (Fin 4) (Fin 0) 0 = Inr l \<and> parse_int (queuing_delay l) = Inr 286"
  using link_queuing_delay [of 100 4 0 "''c2r''" "Fin 10" "Fin 0" 0] by (auto simp: floor_eq_iff)

text \<open>
  The buffer given to the shaper of a link with whole parameters, in bytes: the
  bandwidth-delay product in full packets (within one packet, as above) plus what the link
  sends during its queuing delay.
\<close>

lemma link_buffer_size:
  assumes d: "0 \<le> d" "d \<le> 2 ^ 20" and b: "1 \<le> b" "b \<le> 2 ^ 20" and q: "0 \<le> q" "q \<le> 2 ^ 16"
    and l: "new_link i lt (Fin (of_int d)) q (Fin (of_int b)) lss bk = Inr l"
  shows "\<exists>p. p \<in> {(b * d + 5) div 6, b * d div 6 + 1} \<and>
     buffer_size l = Inr (Fin (of_int (1500 * p + 125 * b * max (q * 12000000 div (b * 1048576)) 1)))"
proof -
  define t where "t = max (q * 12000000 div (b * 1048576)) 1"
  have fields: "delay l = Fin (of_int d)" "bandwidth l = Fin (of_int b)" "queuing_delay l = show_int t"
    using l new_link_int [of q b i lt "Fin (of_int d)" lss bk] q b by (auto simp: t_def)
  obtain p where p: "get_bandwidth_delay_product_divided_by_mtu (Fin (of_int d)) (Fin (of_int b)) = Inr p"
      "p = (b * d + 5) div 6 \<or> 6 dvd b * d \<and> p = (b * d + 5) div 6 + 1"
    using bdp_exact [of d b] d b by auto
  have "b * d \<le> 2 ^ 20 * 2 ^ 20" using d b by (intro mult_mono) simp_all
  moreover have "0 \<le> b * d" using d b by simp
  ultimately have p_bounds: "0 \<le> p" "p \<le> 2 ^ 39" using p(2) by auto
  have "b * (q * 12000000 div (b * 1048576)) \<le> q * 12000000"
    using b q by (intro share_bound) simp_all
  then have small: "b * t \<le> 2 ^ 40" using b q by (simp add: t_def max_def)
  have t1: "1 \<le> t" by (simp add: t_def)
  then have "1 * t \<le> b * t" using b by (intro mult_right_mono) simp_all
  with small have t2: "t \<le> 2 ^ 40" by linarith
  have "bandwidth_delay_product_divided_by_mtu l = Inr p"
    by (simp only: bandwidth_delay_product_divided_by_mtu_def fields p(1))
  then have "buffer_size l = Inr (Fin (of_int (1500 * p + 125 * b * t)))"
    using p_bounds fields(2) _ fields(3) _ small _ t2
    by (rule buffer_size_int) (use b t1 in simp_all)
  then show ?thesis using p(2) unfolding t_def by (auto elim!: dvdE)
qed

lemma link_buffer_size_witness:
  "\<exists>l. new_link 0 ''c2r'' (Fin 20) 100 (Fin 4) (Fin 0) 0 = Inr l \<and>
     buffer_size l = Inr (Fin (of_int (1500 * 14 + 125 * 4 * 286)))"
proof -
  obtain l where l: "new_link 0 ''c2r'' (Fin 20) 100 (Fin 4) (Fin 0) 0 = Inr l"
    using new_link_int [of 100 4 0 "''c2r''" "Fin 20" "Fin 0" 0] by simp
  then show ?thesis using link_buffer_size [of 20 4 100 0 "''c2r''" "Fin 0" 0 l] by simp
qed

text \<open>
  C17.  Whatever changes are added to a link, the ones it keeps are in strictly increasing
  order of time, the first waits for its own time and each other for the difference with its
  predecessor, which is positive.
\<close>

theorem netem_schedule_ordered:
  assumes "new_link i lt dly q bw lss bk = Inr l0" and "\<forall>n \<in> set ns. wf_float (at_time n)"
  shows "schedule_ok at_time delta (netem_at (fold add_netem_at ns l0)) \<and>
     (\<forall>n \<in> set (tl (netem_at (fold add_netem_at ns l0))). \<exists>x. delta n = FloatNum x \<and> fless (Fin 0) x)"
proof -
  have empty: "netem_at l0 = []" using assms(1) by (auto simp: new_link_def rbind_eq_Inr)
  have ok: "schedule_ok at_time delta (fold push_netem ns [])"
    by (rule netem_schedule.fold_push_ok) (simp add: schedule_ok_def)
  have "\<forall>n \<in> set (fold push_netem ns []). wf_float (at_time n)"
    by (rule netem_schedule.fold_push_all) (use assms(2) in simp)
  with ok show ?thesis
    by (auto simp: fold_add_netem_at empty schedule_ok_def intro: deltas_positive)
qed

text \<open>Three changes, the second of them out of order.\<close>

definition demo_changes :: "netem list" where
  "demo_changes = [new_netem (Fin 5) ''loss 1'', new_netem (Fin 3) ''loss 2'', new_netem (Fin 9) ''loss 3'']"

lemma demo_changes_wf: "\<forall>n \<in> set demo_changes. wf_float (at_time n)"
proof -
  have "wf_float (Fin (of_int i))" if "0 \<le> i" "i \<le> 2 ^ 53" for i
    using wf_float_of_str [OF float_of_str_show_int [OF that]] .
  from this [of 5] this [of 3] this [of 9] show ?thesis by (simp add: demo_changes_def new_netem_def)
qed

theorem netem_schedule_ordered_witness:
  "\<exists>l. new_link 0 ''c2r'' (Fin 20) 100 (Fin 4) (Fin 0) 0 = Inr l \<and>
     schedule_ok at_time delta (netem_at (fold add_netem_at demo_changes l))"
proof -
  obtain l where l: "new_link 0 ''c2r'' (Fin 20) 100 (Fin 4) (Fin 0) 0 = Inr l"
    using new_link_int [of 100 4 0 "''c2r''" "Fin 20" "Fin 0" 0] by simp
  then show ?thesis using netem_schedule_ordered [OF l demo_changes_wf] by blast
qed

text \<open>
  With whole-second times the commands run on time: the delays slept before the change
  of position \<open>k\<close>, its own included, add up exactly to the time asked for it.
\<close>

lemma netem_runs_on_time:
  assumes "new_link i lt dly q bw lss bk = Inr l0"
    and "\<forall>n \<in> set ns. \<exists>z. at_time n = Fin (of_int z) \<and> 0 \<le> z \<and> z \<le> 2 ^ 53"
    and "k < length (netem_at (fold add_netem_at ns l0))"
  shows "Some (wait_sum (map delta (take (Suc k) (netem_at (fold add_netem_at ns l0)))))
    = finite_val (at_time (netem_at (fold add_netem_at ns l0) ! k))"
proof -
  let ?ms = "fold push_netem ns []"
  have empty: "netem_at l0 = []" using assms(1) by (auto simp: new_link_def rbind_eq_Inr)
  then have ms: "netem_at (fold add_netem_at ns l0) = ?ms" by (simp add: fold_add_netem_at)
  have "schedule_ok at_time delta ?ms"
    by (rule netem_schedule.fold_push_ok) (simp add: schedule_ok_def)
  then have ok: "schedule_ok at_time delta (take (Suc k) ?ms)" by (rule schedule_ok_take)
  have ints: "\<forall>n \<in> set ?ms. \<exists>z. at_time n = Fin (of_int z) \<and> 0 \<le> z \<and> z \<le> 2 ^ 53"
    by (rule netem_schedule.fold_push_all) (use assms(2) in simp)
  have k: "k < length ?ms" using assms(3) by (simp add: ms)
  then have last: "last (take (Suc k) ?ms) = ?ms ! k" by (simp add: take_Suc_conv_app_nth)
  have "take (Suc k) ?ms \<noteq> []" using k by auto
  then show ?thesis
    using wait_sum_last [OF ok] ints last
    by (simp add: ms) (meson in_set_takeD)
qed

lemma netem_runs_on_time_witness:
  "\<exists>l. new_link 0 ''c2r'' (Fin 20) 100 (Fin 4) (Fin 0) 0 = Inr l \<and>
     Some (wait_sum (map delta (take 2 (netem_at (fold add_netem_at demo_changes l))))) = Some 9"
proof -
  obtain l where l: "new_link 0 ''c2r'' (Fin 20) 100 (Fin 4) (Fin 0) 0 = Inr l" "netem_at l = []"
    using new_link_int [of 100 4 0 "''c2r''" "Fin 20" "Fin 0" 0] by simp
  have kept: "netem_at (fold add_netem_at demo_changes l) =
      [new_netem (Fin 5) ''loss 1''\<lparr>delta := FloatNum (Fin 5)\<rparr>,
       new_netem (Fin 9) ''loss 3''\<lparr>delta := FloatNum (fsub (Fin 9) (Fin 5))\<rparr>]"
    by (simp add: add_netem_at_def l(2) demo_changes_def push_netem_def new_netem_def)
  have times: "\<forall>n \<in> set demo_changes. \<exists>z. at_time n = Fin (of_int z) \<and> 0 \<le> z \<and> z \<le> 2 ^ 53"
    by (auto simp: demo_changes_def new_netem_def intro: exI [of _ 5] exI [of _ 3] exI [of _ 9])
  have "1 < length (netem_at (fold add_netem_at demo_changes l))" by (simp add: kept)
  from netem_runs_on_time [OF l(1) times this]
  have "Some (wait_sum (map delta (take 2 (netem_at (fold add_netem_at demo_changes l))))) = Some 9"
    by (simp add: kept new_netem_def numeral_2_eq_2)
  with l(1) show ?thesis by blast
qed

end
