(* ===== verification/TopoParam.thy ===== *)
theory TopoParam
  imports ParamFile LinkChar
begin

text \<open>
  \<open>core/topo.py\<close>, second part: \<open>TopoParameter\<close>, which reads the links and the scheduled netem
  changes out of the parameters.  The list of links is mutated in place by the netem
  loader; a link is addressed by its position.
\<close>

section \<open>The data\<close>

record topo_param = params +
  link_characteristics :: "link list"

definition LEFT_SUBNET :: string where "LEFT_SUBNET = ''leftSubnet''"
definition RIGHT_SUBNET :: string where "RIGHT_SUBNET = ''rightSubnet''"
definition NETEM_AT :: string where "NETEM_AT = ''netemAt_''"
definition CHANGE_NETEM :: string where "CHANGE_NETEM = ''changeNetem''"

definition TOPO_DEFAULT_PARAMETERS :: "pval dict" where
  "TOPO_DEFAULT_PARAMETERS =
     [(LEFT_SUBNET, PStr ''10.1.''), (RIGHT_SUBNET, PStr ''10.2.''), (CHANGE_NETEM, PStr ''false'')]"

section \<open>Parsing\<close>

text \<open>\<open>_, link_type, link_id = key.split("_")\<close>, the same code for both kinds of key\<close>

definition parse_link_id_and_type :: "string \<Rightarrow> (string \<times> int) res" where
  "parse_link_id_and_type key = (case split_on (CHR ''_'') key of
     [_, lt, i] \<Rightarrow> rbind (parse_int i) (\<lambda>n. Inr (lt, n))
   | _ \<Rightarrow> Inl ValueError)"

definition parse_netem_at :: "string \<Rightarrow> (string \<times> int) res" where
  "parse_netem_at key = (case split_on (CHR ''_'') key of
     [_, lt, i] \<Rightarrow> rbind (parse_int i) (\<lambda>n. Inr (lt, n))
   | _ \<Rightarrow> Inl ValueError)"

text \<open>\<open>value.split(c)\<close>: only a string has the method.\<close>

definition pval_split :: "char \<Rightarrow> pval \<Rightarrow> string list res" where
  "pval_split c v = (case v of PStr s \<Rightarrow> Inr (split_on c s) | _ \<Rightarrow> Inl AttributeError)"

text \<open>Delay, bandwidth, queue size, loss and backup flag, in the order the code returns them.\<close>

definition parse_link_characteristics ::
  "pval \<Rightarrow> (pyfloat \<times> pyfloat \<times> int \<times> pyfloat \<times> int) res" where
  "parse_link_characteristics v = rbind (pval_split (CHR '','') v) (\<lambda>c. case c of
     [d, b] \<Rightarrow>
       rbind (float_of_str d) (\<lambda>dly. rbind (float_of_str b) (\<lambda>bw.
       rbind (get_bandwidth_delay_product_divided_by_mtu dly bw) (\<lambda>q. Inr (dly, bw, q, Fin 0, 0))))
   | [d, q, b] \<Rightarrow>
       rbind (float_of_str d) (\<lambda>dly. rbind (float_of_str b) (\<lambda>bw.
       rbind (parse_int q) (\<lambda>n. Inr (dly, bw, n, Fin 0, 0))))
   | [d, q, b, l] \<Rightarrow>
       rbind (float_of_str d) (\<lambda>dly. rbind (float_of_str b) (\<lambda>bw.
       rbind (parse_int q) (\<lambda>n. rbind (float_of_str l) (\<lambda>lss. Inr (dly, bw, n, lss, 0)))))
   | [d, q, b, l, k] \<Rightarrow>
       rbind (float_of_str d) (\<lambda>dly. rbind (float_of_str b) (\<lambda>bw.
       rbind (parse_int q) (\<lambda>n. rbind (float_of_str l) (\<lambda>lss.
       rbind (parse_int k) (\<lambda>bk. Inr (dly, bw, n, lss, bk))))))
   | _ \<Rightarrow> Inl ValueError)"

text \<open>The \<open>try\<close> block of one path key; the tuple is what it binds.\<close>

definition parse_path ::
  "string \<Rightarrow> pval \<Rightarrow> (string \<times> int \<times> pyfloat \<times> pyfloat \<times> int \<times> pyfloat \<times> int) res" where
  "parse_path k v =
     rbind (parse_link_id_and_type k) (\<lambda>(lt, i).
     rbind (parse_link_characteristics v) (\<lambda>(dly, bw, q, lss, bk). Inr (lt, i, dly, bw, q, lss, bk)))"

definition load_link :: "string \<Rightarrow> pval \<Rightarrow> link list \<Rightarrow> link list res" where
  "load_link k v ls =
     (if \<not> starts_with ''path'' k then Inr ls
      else case parse_path k v of
        Inl e \<Rightarrow> (if e = ValueError then Inr ls else Inl e)
      | Inr (lt, i, dly, bw, q, lss, bk) \<Rightarrow>
          rbind (new_link i lt dly q bw lss bk) (\<lambda>path. Inr (ls @ [path])))"

definition load_link_characteristics :: "pval dict \<Rightarrow> link list \<Rightarrow> link list res" where
  "load_link_characteristics d ls =
     rfold (\<lambda>k ls. rbind (some_or KeyError (dict_get d k)) (\<lambda>v. load_link k v ls))
       (sort (dict_keys d)) ls"

section \<open>Netem changes\<close>

text \<open>
  The position of the first link that matches.  \<open>None\<close> stands for the \<open>ValueError\<close> object
  that \<open>find_link_characteristic\<close> returns (it does not raise it).
\<close>

fun find_link_characteristic :: "string \<Rightarrow> int \<Rightarrow> link list \<Rightarrow> nat option" where
  "find_link_characteristic lt i [] = None"
| "find_link_characteristic lt i (l # ls) =
     (if link_type l = lt \<and> link_id l = i then Some 0
      else map_option Suc (find_link_characteristic lt i ls))"

text \<open>The \<open>try\<close> block; calling a method of the returned \<open>ValueError\<close> is an \<open>AttributeError\<close>.\<close>

definition set_netem :: "string \<Rightarrow> int \<Rightarrow> pval \<Rightarrow> link list \<Rightarrow> link list res" where
  "set_netem lt i n ls =
     rbind (pval_split (CHR '','') n) (\<lambda>parts. case parts of
       [t, c] \<Rightarrow>
         rbind (float_of_str t) (\<lambda>tm.
           case find_link_characteristic lt i ls of
             None \<Rightarrow> Inl AttributeError
           | Some k \<Rightarrow> Inr (ls[k := add_netem_at (new_netem tm c) (ls ! k)]))
     | _ \<Rightarrow> Inl ValueError)"

text \<open>\<open>xs[i]\<close> with an \<open>int\<close> index, counted from the end when negative\<close>

definition index_ok :: "'a list \<Rightarrow> int \<Rightarrow> bool" where
  "index_ok xs i \<longleftrightarrow> - int (length xs) \<le> i \<and> i < int (length xs)"

text \<open>
  After the \<open>try\<close> statement the code logs \<open>self.link_characteristics[link_id].netem_at\<close>.
\<close>

definition load_netem_at_value :: "string \<Rightarrow> int \<Rightarrow> pval \<Rightarrow> link list \<Rightarrow> link list res" where
  "load_netem_at_value lt i n ls =
     rbind (case set_netem lt i n ls of
              Inl e \<Rightarrow> (if e = ValueError then Inr ls else Inl e)
            | Inr ls' \<Rightarrow> Inr ls')
       (\<lambda>ls'. if index_ok ls' i then Inr ls' else Inl IndexError)"

definition load_netem_key :: "string \<Rightarrow> pval \<Rightarrow> link list \<Rightarrow> link list res" where
  "load_netem_key k v ls =
     (if starts_with NETEM_AT k
      then rbind (parse_netem_at k) (\<lambda>(lt, i). load_netem_at_value lt i v ls)
      else Inr ls)"

definition load_netem_at :: "topo_param \<Rightarrow> link list res" where
  "load_netem_at tp =
     rbind (get_param tp CHANGE_NETEM) (\<lambda>change.
       if change \<noteq> PStr ''yes'' then Inr (link_characteristics tp)
       else rfold (\<lambda>k ls. rbind (some_or KeyError (dict_get (parameters tp) k)) (\<lambda>v. load_netem_key k v ls))
              (sort (dict_keys (parameters tp))) (link_characteristics tp))"

section \<open>The constructor\<close>

definition new_topo_parameter :: "(string \<Rightarrow> string option) \<Rightarrow> string option \<Rightarrow> topo_param res" where
  "new_topo_parameter fs filename =
     rbind (new_parameter fs filename) (\<lambda>p0.
     let p = add_defaults TOPO_DEFAULT_PARAMETERS p0 in
     rbind (load_link_characteristics (parameters p) []) (\<lambda>ls.
     let tp = \<lparr>parameters = parameters p, default_parameters = default_parameters p,
               link_characteristics = ls\<rparr> in
     rbind (load_netem_at tp) (\<lambda>ls'. Inr (tp\<lparr>link_characteristics := ls'\<rparr>))))"

definition topo_param_str :: "topo_param \<Rightarrow> string" where
  "topo_param_str tp = dict_str (parameters tp) @ concat (map link_str (link_characteristics tp))"

section \<open>Well-formed links\<close>

text \<open>What every link in the list satisfies, whatever the file says.\<close>

definition wf_link :: "link \<Rightarrow> bool" where
  "wf_link l \<longleftrightarrow>
     (\<exists>q \<ge> 1. queuing_delay l = show_int q) \<and> schedule_ok at_time delta (netem_at l) \<and>
     wf_float (delay l) \<and> wf_float (bandwidth l) \<and> wf_float (loss l) \<and>
     (\<forall>n \<in> set (netem_at l). wf_float (at_time n))"

lemma parse_link_characteristics_wf:
  "parse_link_characteristics v = Inr (dly, bw, q, lss, bk) \<Longrightarrow>
     wf_float dly \<and> wf_float bw \<and> wf_float lss"
  unfolding parse_link_characteristics_def
  by (cases "pval_split (CHR '','') v")
     (auto simp: rbind_eq_Inr split: list.split_asm intro: wf_float_of_str)

lemma new_link_wf:
  assumes "new_link i lt dly q bw lss bk = Inr l" "wf_float dly" "wf_float bw" "wf_float lss"
  shows "wf_link l" "netem_at l = []" "link_id l = i" "link_type l = lt"
  using assms
  by (auto simp: new_link_def wf_link_def extract_queuing_delay_def rbind_eq_Inr schedule_ok_def)

lemma load_link_cases:
  assumes "load_link k v ls = Inr ls'"
  obtains "ls' = ls"
  | l where "ls' = ls @ [l]" "wf_link l" "netem_at l = []" "starts_with ''path'' k"
      "parse_link_id_and_type k = Inr (link_type l, link_id l)"
proof (cases "starts_with ''path'' k \<and> ls' \<noteq> ls")
  case True
  have "\<exists>r. parse_path k v = Inr r"
    using True assms by (cases "parse_path k v") (auto simp: load_link_def split: if_splits)
  then obtain lt i dly bw q lss bk where
    parse: "parse_path k v = Inr (lt, i, dly, bw, q, lss, bk)" by (metis prod_cases7)
  obtain l where l: "new_link i lt dly q bw lss bk = Inr l" "ls' = ls @ [l]"
    using True assms by (auto simp: load_link_def parse rbind_eq_Inr)
  from parse have id: "parse_link_id_and_type k = Inr (lt, i)"
    and ch: "parse_link_characteristics v = Inr (dly, bw, q, lss, bk)"
    by (auto simp: parse_path_def rbind_eq_Inr)
  from parse_link_characteristics_wf [OF ch] have w: "wf_float dly" "wf_float bw" "wf_float lss" by auto
  show thesis
    using that(2) [OF l(2)] new_link_wf [OF l(1) w] id True by auto
next
  case False
  with assms that(1) show thesis by (auto simp: load_link_def)
qed

lemma load_link_characteristics_wf:
  assumes "load_link_characteristics d [] = Inr ls" "l \<in> set ls"
  shows "wf_link l" "netem_at l = []"
    "\<exists>k \<in> set (dict_keys d). starts_with ''path'' k \<and> parse_link_id_and_type k = Inr (link_type l, link_id l)"
proof -
  let ?P = "\<lambda>ls. \<forall>l \<in> set ls. wf_link l \<and> netem_at l = [] \<and> (\<exists>k \<in> set (dict_keys d).
     starts_with ''path'' k \<and> parse_link_id_and_type k = Inr (link_type l, link_id l))"
  have "?P ls"
    using assms(1) unfolding load_link_characteristics_def
  proof (rule rfold_invariant)
    fix k ls ls'
    assume k: "k \<in> set (sort (dict_keys d))" and P: "?P ls"
      and st: "rbind (some_or KeyError (dict_get d k)) (\<lambda>v. load_link k v ls) = Inr ls'"
    from st obtain v where "load_link k v ls = Inr ls'" by (auto simp: rbind_eq_Inr)
    then show "?P ls'" using P k by (cases rule: load_link_cases) auto
  qed simp
  with assms(2) show "wf_link l" "netem_at l = []"
    "\<exists>k \<in> set (dict_keys d). starts_with ''path'' k \<and> parse_link_id_and_type k = Inr (link_type l, link_id l)"
    by blast+
qed

lemma find_link_characteristic_bound:
  "find_link_characteristic lt i ls = Some k \<Longrightarrow>
     k < length ls \<and> link_type (ls ! k) = lt \<and> link_id (ls ! k) = i"
  by (induction lt i ls arbitrary: k rule: find_link_characteristic.induct) (auto split: if_splits)

lemma find_link_characteristic_None:
  "find_link_characteristic lt i ls = None \<longleftrightarrow> (\<forall>l \<in> set ls. \<not> (link_type l = lt \<and> link_id l = i))"
  by (induction lt i ls rule: find_link_characteristic.induct) auto

lemma add_netem_at_wf:
  assumes "wf_link l" "wf_float (at_time n)"
  shows "wf_link (add_netem_at n l)"
proof -
  have "schedule_ok at_time delta (push_netem n (netem_at l))"
    using assms(1) by (intro netem_schedule.push_ok) (simp add: wf_link_def)
  moreover have "\<forall>m \<in> set (push_netem n (netem_at l)). wf_float (at_time m)"
    using assms netem_schedule.push_times [of n "netem_at l"]
    by (auto simp: wf_link_def image_subset_iff)
  ultimately show ?thesis using assms(1) by (simp add: wf_link_def add_netem_at_def)
qed

text \<open>The characteristics a netem change leaves alone.\<close>

definition same_but_netem :: "link list \<Rightarrow> link list \<Rightarrow> bool" where
  "same_but_netem ls ms \<longleftrightarrow> map (\<lambda>l. l\<lparr>netem_at := []\<rparr>) ls = map (\<lambda>l. l\<lparr>netem_at := []\<rparr>) ms"

lemma same_but_netem_ids:
  "same_but_netem ls ms \<Longrightarrow> map (\<lambda>l. (link_type l, link_id l)) ls = map (\<lambda>l. (link_type l, link_id l)) ms"
  unfolding same_but_netem_def
  by (drule arg_cong [where f = "map (\<lambda>l. (link_type l, link_id l))"]) (simp add: comp_def)

lemma set_netem_effect:
  assumes "set_netem lt i v ls = Inr ls'"
  shows "same_but_netem ls ls'" "\<forall>l \<in> set ls. wf_link l \<Longrightarrow> \<forall>l \<in> set ls'. wf_link l"
proof -
  from assms obtain t c tm k where tm: "float_of_str t = Inr tm"
    and k: "find_link_characteristic lt i ls = Some k"
    and ls': "ls' = ls[k := add_netem_at (new_netem tm c) (ls ! k)]"
    unfolding set_netem_def
    by (cases "pval_split (CHR '','') v")
       (auto simp: rbind_eq_Inr split: list.split_asm option.split_asm)
  note bound = find_link_characteristic_bound [OF k]
  have "map (\<lambda>l. l\<lparr>netem_at := []\<rparr>) ls' =
      (map (\<lambda>l. l\<lparr>netem_at := []\<rparr>) ls)[k := (ls ! k)\<lparr>netem_at := []\<rparr>]"
    by (simp add: ls' map_update add_netem_at_def)
  also have "\<dots> = map (\<lambda>l. l\<lparr>netem_at := []\<rparr>) ls"
    using bound by (metis (no_types, lifting) length_map list_update_id nth_map)
  finally show "same_but_netem ls ls'" by (simp add: same_but_netem_def)
  assume wf: "\<forall>l \<in> set ls. wf_link l"
  have "wf_link (add_netem_at (new_netem tm c) (ls ! k))"
    using wf bound wf_float_of_str [OF tm] by (intro add_netem_at_wf) (auto simp: new_netem_def)
  then show "\<forall>l \<in> set ls'. wf_link l"
    using wf set_update_subset_insert [of ls k] by (auto simp: ls')
qed

lemma load_netem_at_value_effect:
  assumes "load_netem_at_value lt i v ls = Inr ls'"
  shows "same_but_netem ls ls'" "\<forall>l \<in> set ls. wf_link l \<Longrightarrow> \<forall>l \<in> set ls'. wf_link l"
  using assms set_netem_effect [of lt i v ls]
  by (auto simp: load_netem_at_value_def rbind_eq_Inr same_but_netem_def split: sum.splits if_splits)

lemma load_netem_at_effect:
  assumes "load_netem_at tp = Inr ls"
  shows "same_but_netem (link_characteristics tp) ls"
    "\<forall>l \<in> set (link_characteristics tp). wf_link l \<Longrightarrow> \<forall>l \<in> set ls. wf_link l"
proof -
  let ?P = "\<lambda>ms. same_but_netem (link_characteristics tp) ms \<and>
     ((\<forall>l \<in> set (link_characteristics tp). wf_link l) \<longrightarrow> (\<forall>l \<in> set ms. wf_link l))"
  have P0: "?P (link_characteristics tp)" by (simp add: same_but_netem_def)
  have step: "?P ms'" if P: "?P ms" and
    st: "rbind (some_or KeyError (dict_get (parameters tp) k)) (\<lambda>v. load_netem_key k v ms) = Inr ms'" for k ms ms'
  proof -
    from st obtain v where "ms' = ms \<or> (\<exists>lt i. load_netem_at_value lt i v ms = Inr ms')"
      by (auto simp: load_netem_key_def rbind_eq_Inr split: if_splits)
    then show ?thesis
      using P load_netem_at_value_effect [of _ _ v ms ms'] by (metis same_but_netem_def)
  qed
  have "?P ls"
  proof (cases "link_characteristics tp = ls")
    case False
    with assms have "rfold (\<lambda>k ls. rbind (some_or KeyError (dict_get (parameters tp) k)) (\<lambda>v. load_netem_key k v ls))
        (sort (dict_keys (parameters tp))) (link_characteristics tp) = Inr ls"
      by (auto simp: load_netem_at_def rbind_eq_Inr split: if_splits)
    then show ?thesis using P0 by (rule rfold_invariant) (rule step)
  qed (use P0 in simp)
  then show "same_but_netem (link_characteristics tp) ls"
    "\<forall>l \<in> set (link_characteristics tp). wf_link l \<Longrightarrow> \<forall>l \<in> set ls. wf_link l" by blast+
qed

text \<open>The constructor, step by step.\<close>

lemma new_topo_parameter_steps:
  assumes "new_topo_parameter fs f = Inr tp"
  obtains p ls where "new_parameter fs f = Inr p" "parameters tp = parameters p"
    "load_link_characteristics (parameters p) [] = Inr ls"
    "load_netem_at (tp\<lparr>link_characteristics := ls\<rparr>) = Inr (link_characteristics tp)"
    "default_parameters tp = dict_update (default_parameters p) TOPO_DEFAULT_PARAMETERS"
  using assms by (auto simp: new_topo_parameter_def Let_def rbind_eq_Inr add_defaults_def)

section \<open>Files that describe links\<close>

record path_spec =
  spec_type :: string
  spec_id :: int
  spec_delay :: int
  spec_queue :: int
  spec_bw :: int

definition path_key :: "path_spec \<Rightarrow> string" where
  "path_key s = ''path_'' @ spec_type s @ ''_'' @ show_int (spec_id s)"

definition path_value :: "path_spec \<Rightarrow> string" where
  "path_value s = join '','' [show_int (spec_delay s), show_int (spec_queue s), show_int (spec_bw s)]"

definition path_spec_ok :: "path_spec \<Rightarrow> bool" where
  "path_spec_ok s \<longleftrightarrow>
     (\<forall>c \<in> set (spec_type s). c \<notin> set [CHR ''_'', CHR '':'', CHR 0x0A, CHR 0x0D]) \<and>
     0 \<le> spec_delay s \<and> spec_delay s \<le> 2 ^ 53 \<and> 0 \<le> spec_queue s \<and> spec_queue s \<le> 2 ^ 26 \<and>
     1 \<le> spec_bw s \<and> spec_bw s \<le> 2 ^ 29"

definition path_entry :: "path_spec \<Rightarrow> string \<times> string" where
  "path_entry s = (path_key s, path_value s)"

text \<open>The link such a line stands for.\<close>

definition spec_link :: "path_spec \<Rightarrow> link" where
  "spec_link s = \<lparr>link_id = spec_id s, link_type = spec_type s, delay = Fin (of_int (spec_delay s)),
     queue_size = spec_queue s, bandwidth = Fin (of_int (spec_bw s)), loss = Fin 0,
     queuing_delay = show_int (max (spec_queue s * 12000000 div (spec_bw s * 1048576)) 1),
     netem_at = [], backup = 0\<rparr>"

lemma show_int_not_in:
  "c \<in> set (show_int i) \<Longrightarrow> c \<noteq> CHR ''_'' \<and> c \<noteq> CHR '':'' \<and> c \<noteq> CHR '','' \<and> c \<noteq> CHR 0x0A \<and> c \<noteq> CHR 0x0D"
  using show_int_chars [of c i] is_digit_not_special(3,4,5,8,9) [of c] by auto

lemma parse_path_key:
  assumes "path_spec_ok s"
  shows "parse_link_id_and_type (path_key s) = Inr (spec_type s, spec_id s)"
proof -
  have lt: "CHR ''_'' \<notin> set (spec_type s)" using assms by (auto simp: path_spec_ok_def)
  have i: "CHR ''_'' \<notin> set (show_int (spec_id s))" using show_int_not_in by blast
  have "split_on (CHR ''_'') (path_key s) = [''path'', spec_type s, show_int (spec_id s)]"
    using split_on_append_sep [of "CHR ''_''" "''path''"] split_on_append_sep [OF lt] split_on_no_occ [OF i]
    by (simp add: path_key_def)
  then show ?thesis by (simp add: parse_link_id_and_type_def)
qed

lemma parse_path_value:
  assumes "path_spec_ok s"
  shows "parse_link_characteristics (PStr (path_value s)) =
     Inr (Fin (of_int (spec_delay s)), Fin (of_int (spec_bw s)), spec_queue s, Fin 0, 0)"
proof -
  have "CHR '','' \<notin> set (show_int i)" for i using show_int_not_in by blast
  then have "split_on (CHR '','') (path_value s)
      = [show_int (spec_delay s), show_int (spec_queue s), show_int (spec_bw s)]"
    unfolding path_value_def by (intro split_on_join) auto
  moreover have "float_of_str (show_int (spec_delay s)) = Inr (Fin (of_int (spec_delay s)))"
    "float_of_str (show_int (spec_bw s)) = Inr (Fin (of_int (spec_bw s)))"
    using assms by (intro float_of_str_show_int; simp add: path_spec_ok_def)+
  ultimately show ?thesis by (simp add: parse_link_characteristics_def pval_split_def)
qed

lemma path_key_starts: "starts_with ''path'' (path_key s)"
  using starts_with_append [of "''path''" "CHR ''_'' # spec_type s @ ''_'' @ show_int (spec_id s)"]
  by (simp add: path_key_def)

lemma load_link_spec:
  assumes "path_spec_ok s"
  shows "load_link (path_key s) (PStr (path_value s)) ls = Inr (ls @ [spec_link s])"
proof -
  have "parse_path (path_key s) (PStr (path_value s)) =
      Inr (spec_type s, spec_id s, Fin (of_int (spec_delay s)), Fin (of_int (spec_bw s)), spec_queue s, Fin 0, 0)"
    by (simp add: parse_path_def parse_path_key parse_path_value assms)
  moreover have "new_link (spec_id s) (spec_type s) (Fin (of_int (spec_delay s))) (spec_queue s)
      (Fin (of_int (spec_bw s))) (Fin 0) 0 = Inr (spec_link s)"
    using assms by (subst new_link_int) (simp_all add: path_spec_ok_def spec_link_def)
  ultimately show ?thesis by (simp add: load_link_def path_key_starts)
qed

lemma clean_path_entry:
  assumes "path_spec_ok s"
  shows "clean_entry (path_entry s)"
proof -
  have chars: "\<forall>c \<in> set (path_key s) \<union> set (path_value s). c \<noteq> CHR '':'' \<and> c \<noteq> CHR 0x0A \<and> c \<noteq> CHR 0x0D"
    using assms show_int_not_in by (fastforce simp: path_key_def path_value_def path_spec_ok_def)
  have "last (path_value s) \<in> set (show_int (spec_bw s))" by (simp add: path_value_def)
  then have "\<not> is_space (last (path_value s))" by (rule show_int_no_space)
  then show ?thesis using chars by (simp add: clean_entry_def path_entry_def path_key_def is_space_def)
qed

lemma path_key_inj:
  assumes "path_spec_ok s" "path_spec_ok t" "path_key s = path_key t"
  shows "spec_type s = spec_type t" "spec_id s = spec_id t"
  using parse_path_key [OF assms(1)] parse_path_key [OF assms(2)] assms(3) by simp_all

lemma load_specs:
  "\<forall>s \<in> set ss. path_spec_ok s \<and> dict_get d (path_key s) = Some (PStr (path_value s)) \<Longrightarrow>
     rfold (\<lambda>k ls. rbind (some_or KeyError (dict_get d k)) (\<lambda>v. load_link k v ls)) (map path_key ss) ls
       = Inr (ls @ map spec_link ss)"
  by (induction ss arbitrary: ls) (simp_all add: load_link_spec)

text \<open>The keys of a dictionary visited by \<open>sorted\<close>, cut down to the ones of the links.\<close>

lemma sorted_path_keys:
  assumes "wf_dict d" "distinct (map path_key specs)"
    and "{k \<in> set (dict_keys d). starts_with ''path'' k} = path_key ` set specs"
  shows "filter (starts_with ''path'') (sort (dict_keys d)) = map path_key (sort_key path_key specs)"
proof (rule sorted_distinct_set_unique)
  show "distinct (filter (starts_with ''path'') (sort (dict_keys d)))"
    using assms(1) by (simp add: wf_dict_def)
  show "distinct (map path_key (sort_key path_key specs))"
    using assms(2) by (simp add: distinct_map)
  show "set (filter (starts_with ''path'') (sort (dict_keys d))) = set (map path_key (sort_key path_key specs))"
    using assms(3) by auto
  show "sorted (filter (starts_with ''path'') (sort (dict_keys d)))"
    using sorted_filter [of "\<lambda>k. k" "sort (dict_keys d)"] by simp
qed simp

lemma file_keys:
  "k \<in> set (dict_keys (load_parameter_text text [])) \<longleftrightarrow> k \<in> fst ` set (file_entries text)"
proof -
  have "k \<in> set (dict_keys (load_parameter_text text [])) \<longleftrightarrow>
      dict_get (load_parameter_text text []) k \<noteq> None" by (simp add: map_of_eq_None_iff)
  also have "\<dots> \<longleftrightarrow> filter (\<lambda>e. fst e = k) (file_entries text) \<noteq> []"
    by (auto simp: loaded_value pack_values_def split: list.splits)
  finally show ?thesis by (force simp: filter_empty_conv)
qed

lemma load_link_characteristics_specs:
  assumes ok: "\<forall>s \<in> set specs. path_spec_ok s"
    and distinct: "distinct (map (\<lambda>s. (spec_type s, spec_id s)) specs)"
    and others: "\<forall>e \<in> set (before @ others). \<not> starts_with ''path'' (fst e)"
    and es: "file_entries text = before @ map path_entry specs @ others"
  shows "load_link_characteristics (load_parameter_text text []) [] = Inr (map spec_link (sort_key path_key specs))"
proof -
  let ?d = "load_parameter_text text []"
  have dist: "distinct (map path_key specs)"
    using distinct ok path_key_inj by (auto simp: distinct_map inj_on_def)
  have keys: "{k \<in> set (dict_keys ?d). starts_with ''path'' k} = path_key ` set specs"
    using others by (simp only: file_keys es) (auto simp: path_entry_def path_key_starts image_Un image_image)
  have vals: "dict_get ?d (path_key s) = Some (PStr (path_value s))" if "s \<in> set specs" for s
  proof -
    have "filter (\<lambda>e. fst e = path_key s) before = []" "filter (\<lambda>e. fst e = path_key s) others = []"
      using others path_key_starts [of s] by (force simp: filter_empty_conv)+
    moreover have "filter (\<lambda>e. fst e = path_key s) (map path_entry specs) = [path_entry s]"
      using that dist
    proof (induction specs)
      case (Cons t ts)
      then have "path_key u \<noteq> path_key t" if "u \<in> set ts" for u using that by (metis (no_types, lifting) distinct.simps(2) image_eqI list.set_map list.simps(9))
      then have "s = t \<Longrightarrow> filter (\<lambda>e. fst e = path_key s) (map path_entry ts) = []"
        by (auto simp: path_entry_def filter_empty_conv)
      then show ?case using Cons by (auto simp: path_entry_def [of t])
    qed simp
    ultimately show ?thesis by (simp add: loaded_value es pack_values_def path_entry_def)
  qed
  have wf: "wf_dict ?d" using wf_load_parameter_text by (simp add: wf_file_dict_def)
  let ?f = "\<lambda>k ls. rbind (some_or KeyError (dict_get ?d k)) (\<lambda>v. load_link k v ls)"
  have "rfold ?f (sort (dict_keys ?d)) [] = rfold ?f (filter (starts_with ''path'') (sort (dict_keys ?d))) []"
  proof (rule rfold_filter)
    fix k ls assume "k \<in> set (sort (dict_keys ?d))" "\<not> starts_with ''path'' k"
    moreover from this(1) obtain v where "dict_get ?d k = Some v"
      by (auto simp: map_of_eq_None_iff [THEN iffD1] dest: weak_map_of_SomeI)
    ultimately show "?f k ls = Inr ls" by (simp add: load_link_def)
  qed
  also have "\<dots> = rfold ?f (map path_key (sort_key path_key specs)) []"
    by (simp only: sorted_path_keys [OF wf dist keys])
  also have "\<dots> = Inr ([] @ map spec_link (sort_key path_key specs))"
    by (rule load_specs) (use ok vals in simp)
  finally show ?thesis by (simp add: load_link_characteristics_def)
qed

section \<open>Properties\<close>

lemma pack_not_yes:
  "(k, ''yes'') \<notin> set es \<Longrightarrow> pack_values (map snd (filter (\<lambda>e. fst e = k) es)) \<noteq> Some (PStr ''yes'')"
proof
  assume no: "(k, ''yes'') \<notin> set es"
    and p: "pack_values (map snd (filter (\<lambda>e. fst e = k) es)) = Some (PStr ''yes'')"
  then have "map snd (filter (\<lambda>e. fst e = k) es) = [''yes'']"
    by (auto simp: pack_values_def split: list.splits)
  then have "''yes'' \<in> set (map snd (filter (\<lambda>e. fst e = k) es))" by simp
  with no show False by auto
qed

lemma get_param_topo:
  "get_param (add_defaults TOPO_DEFAULT_PARAMETERS \<lparr>parameters = d, default_parameters = []\<rparr>) CHANGE_NETEM =
     Inr (case dict_get d CHANGE_NETEM of Some v \<Rightarrow> v | None \<Rightarrow> PStr ''false'')"
proof -
  have "wf_dict TOPO_DEFAULT_PARAMETERS" by code_simp
  moreover have "dict_get TOPO_DEFAULT_PARAMETERS CHANGE_NETEM = Some (PStr ''false'')" by code_simp
  ultimately show ?thesis by (simp add: get_param_loaded split: option.splits)
qed

lemma get_param_scheme:
  "parameters p = parameters q \<Longrightarrow> default_parameters p = default_parameters q \<Longrightarrow>
     get_param p k = get_param q k"
  by (simp add: get_param_def split: option.split)

lemma new_topo_parameter_text:
  assumes present: "fs f = Some text"
    and ls: "load_link_characteristics (load_parameter_text text []) [] = Inr ls"
    and quiet: "dict_get (load_parameter_text text []) CHANGE_NETEM \<noteq> Some (PStr ''yes'')"
  shows "new_topo_parameter fs (Some f) = Inr \<lparr>parameters = load_parameter_text text [],
     default_parameters = TOPO_DEFAULT_PARAMETERS, link_characteristics = ls\<rparr>"
proof -
  let ?d = "load_parameter_text text []"
  have defs: "dict_update [] TOPO_DEFAULT_PARAMETERS = TOPO_DEFAULT_PARAMETERS" by code_simp
  define tp where "tp = \<lparr>parameters = ?d, default_parameters = TOPO_DEFAULT_PARAMETERS, link_characteristics = ls\<rparr>"
  have "get_param tp CHANGE_NETEM = get_param (add_defaults TOPO_DEFAULT_PARAMETERS
      \<lparr>parameters = ?d, default_parameters = []\<rparr>) CHANGE_NETEM"
    by (rule get_param_scheme) (simp_all add: tp_def add_defaults_def defs)
  then have "load_netem_at tp = Inr ls"
    using quiet by (auto simp: load_netem_at_def get_param_topo tp_def split: option.splits)
  then show ?thesis using present ls
    by (simp add: new_topo_parameter_def new_parameter_def load_parameter_file_def Let_def
        add_defaults_def defs tp_def)
qed

text \<open>
  C1.  A topology file written from link descriptions with distinct (type, id) pairs, among
  any other entries, loads to exactly these links, with the values of the file and the
  defaults of the class, in the order of their keys as strings.
\<close>

theorem topo_file_roundtrip:
  assumes "\<forall>s \<in> set specs. path_spec_ok s"
    and "distinct (map (\<lambda>s. (spec_type s, spec_id s)) specs)"
    and "\<forall>e \<in> set others. clean_entry e \<and> \<not> starts_with ''path'' (fst e)"
    and "(CHANGE_NETEM, ''yes'') \<notin> set others"
    and "fs f = Some (entries_text (map path_entry specs @ others))"
  shows "\<exists>tp. new_topo_parameter fs (Some f) = Inr tp \<and>
     link_characteristics tp = map spec_link (sort_key path_key specs)"
proof -
  let ?es = "map path_entry specs @ others"
  have es: "file_entries (entries_text ?es) = ?es"
    using assms(1,3) by (intro file_entries_text) (simp add: ball_Un clean_path_entry)
  have "(CHANGE_NETEM, ''yes'') \<notin> set ?es"
    using assms(4) by (auto simp: path_entry_def path_key_def CHANGE_NETEM_def)
  then have "dict_get (load_parameter_text (entries_text ?es) []) CHANGE_NETEM \<noteq> Some (PStr ''yes'')"
    unfolding loaded_value es by (rule pack_not_yes)
  moreover have "load_link_characteristics (load_parameter_text (entries_text ?es) []) []
      = Inr (map spec_link (sort_key path_key specs))"
    using assms(1,2,3) es by (intro load_link_characteristics_specs [where before = "[]" and others = others]) auto
  ultimately show ?thesis using new_topo_parameter_text [where fs = fs and f = f, OF assms(5)] by simp
qed

theorem topo_file_roundtrip_witness:
  "\<exists>tp. new_topo_parameter (\<lambda>_. Some (entries_text
      [(''path_c2r_1'', ''10,100,4''), (''path_c2r_0'', ''25,50,20''), (''topoType'', ''MultiIf'')])) (Some ''f'') = Inr tp \<and>
     map (\<lambda>l. (link_type l, link_id l, delay l, queuing_delay l)) (link_characteristics tp) =
       [(''c2r'', 0, Fin 25, show_int 28), (''c2r'', 1, Fin 10, show_int 286)]"
proof -
  let ?a = "\<lparr>spec_type = ''c2r'', spec_id = 1, spec_delay = 10, spec_queue = 100, spec_bw = 4\<rparr>"
  let ?b = "\<lparr>spec_type = ''c2r'', spec_id = 0, spec_delay = 25, spec_queue = 50, spec_bw = 20\<rparr>"
  have e: "path_entry ?a = (''path_c2r_1'', ''10,100,4'')" "path_entry ?b = (''path_c2r_0'', ''25,50,20'')"
    by code_simp+
  have k: "path_key ?b < path_key ?a" by code_simp
  then have sorted: "sort_key path_key [?a, ?b] = [?b, ?a]" by (simp add: less_le_not_le)
  let ?others = "[(''topoType'', ''MultiIf'')]"
  have "\<exists>tp. new_topo_parameter (\<lambda>_. Some (entries_text (map path_entry [?a, ?b] @ ?others))) (Some ''f'') = Inr tp \<and>
     link_characteristics tp = map spec_link (sort_key path_key [?a, ?b])"
    by (rule topo_file_roundtrip)
       (simp_all add: path_spec_ok_def clean_entry_def is_space_def starts_with_def CHANGE_NETEM_def)
  then show ?thesis unfolding sorted by (auto simp: e spec_link_def)
qed


lemma empty_topo:
  "new_topo_parameter (\<lambda>_. Some (entries_text [])) (Some ''f'') = Inr \<lparr>parameters = [],
     default_parameters = TOPO_DEFAULT_PARAMETERS, link_characteristics = []\<rparr>"
proof -
  have "load_parameter_text (entries_text []) [] = []" by code_simp
  moreover from this
  have "load_link_characteristics (load_parameter_text (entries_text []) []) [] = Inr []"
    by (simp add: load_link_characteristics_def)
  ultimately show ?thesis
    using new_topo_parameter_text [where fs = "\<lambda>_. Some (entries_text [])" and f = "''f''"] by simp
qed




lemma path_key_loaded:
  assumes "new_topo_parameter fs (Some f) = Inr tp" "fs f = Some text"
    and "starts_with ''path'' k" "dict_get (load_parameter_text text []) k = Some v"
  shows "\<exists>ls ls'. load_link k v ls = Inr ls'"
  using assms(1)
proof (rule new_topo_parameter_steps)
  fix p ls
  assume p: "new_parameter fs (Some f) = Inr p" and ls: "load_link_characteristics (parameters p) [] = Inr ls"
  from p assms(2) have d: "parameters p = load_parameter_text text []"
    by (auto simp: new_parameter_def load_parameter_file_def)
  have "k \<in> set (sort (dict_keys (parameters p)))"
    using map_of_SomeD [OF assms(4)] by (force simp: d)
  then obtain u w where "rbind (some_or KeyError (dict_get (parameters p) k)) (\<lambda>v. load_link k v u) = Inr w"
    using rfold_step [OF ls [unfolded load_link_characteristics_def], where P = "\<lambda>_. True"] by blast
  then show ?thesis using assms(4) d by auto
qed

lemma new_link_zero: "is_zero bw \<Longrightarrow> \<exists>e. new_link i lt dly q bw lss bk = Inl e"
  using extract_queuing_delay_zero [of bw q]
  by (cases "float_of_int (q * 1500)") (simp_all add: new_link_def extract_queuing_delay_def)

lemma raises_iff: "(\<exists>e. r = Inl e) \<longleftrightarrow> (\<forall>x. r \<noteq> Inr x)"
  by (cases r) auto

text \<open>
  A path line whose bandwidth is zero is not ignored as other wrong lines are: the link
  is built outside the \<open>try\<close> block and the whole topology fails to load.
\<close>

lemma zero_bandwidth_aborts:
  assumes "fs f = Some text" and "starts_with ''path'' k"
    and "dict_get (load_parameter_text text []) k = Some v"
    and "parse_path k v = Inr (lt, i, dly, bw, q, lss, bk)" and "is_zero bw"
  shows "\<exists>e. new_topo_parameter fs (Some f) = Inl e"
proof -
  have "\<exists>e. load_link k v ls = Inl e" for ls
    using new_link_zero [OF assms(5), of i lt dly q lss bk] assms(2) by (auto simp: load_link_def assms(4))
  then have "load_link k v ls \<noteq> Inr ls'" for ls ls' by (metis sum.distinct(1))
  then show ?thesis unfolding raises_iff using path_key_loaded [where fs = fs and f = f, OF _ assms(1-3)] by blast
qed

theorem zero_bandwidth_aborts_witness:
  "\<exists>e. new_topo_parameter (\<lambda>_. Some (entries_text [(''path_c2r_0'', ''1,10,0'')])) (Some ''f'') = Inl e"
proof (rule zero_bandwidth_aborts)
  show "dict_get (load_parameter_text (entries_text [(''path_c2r_0'', ''1,10,0'')]) []) ''path_c2r_0''
      = Some (PStr ''1,10,0'')" by code_simp
  show "parse_path ''path_c2r_0'' (PStr ''1,10,0'') = Inr (''c2r'', 0, Fin 1, Fin 0, 10, Fin 0, 0)"
  proof -
    have "split_on (CHR '','') ''1,10,0'' = [''1'', ''10'', ''0'']" by code_simp
    moreover have "''1'' = show_int 1" "''10'' = show_int 10" "''0'' = show_int 0" by code_simp+
    moreover have "parse_link_id_and_type ''path_c2r_0'' = Inr (''c2r'', 0)" by code_simp
    ultimately show ?thesis
      using float_of_str_show_int [of 1] float_of_str_show_int [of 0] parse_int_show_int [of 10]
      by (simp add: parse_path_def parse_link_characteristics_def pval_split_def)
  qed
qed (simp_all add: starts_with_def is_zero_def)

text \<open>
  C21.  A path key given twice aborts the load as well: its value is then a list, which has
  no \<open>split\<close> method, and only \<open>ValueError\<close> is caught.
\<close>

theorem duplicate_path_aborts:
  assumes "fs f = Some text" and "starts_with ''path'' k" and "parse_link_id_and_type k = Inr (lt, i)"
    and "2 \<le> length (filter (\<lambda>e. fst e = k) (file_entries text))"
  shows "\<exists>e. new_topo_parameter fs (Some f) = Inl e"
proof -
  obtain a b r where "filter (\<lambda>e. fst e = k) (file_entries text) = a # b # r"
    using assms(4) by (metis One_nat_def Suc_1 Suc_le_length_iff)
  then have v: "dict_get (load_parameter_text text []) k = Some (PList (map PStr (map snd (a # b # r))))"
    by (simp add: loaded_value pack_values_def)
  have "load_link k (PList vs) ls = Inl AttributeError" for vs ls
    using assms(2,3) by (simp add: load_link_def parse_path_def parse_link_characteristics_def pval_split_def)
  then show ?thesis unfolding raises_iff using path_key_loaded [where fs = fs and f = f, OF _ assms(1,2) v] by force
qed

lemma netem_key_loaded:
  assumes "new_topo_parameter fs (Some f) = Inr tp" "fs f = Some text"
    and "get_param tp CHANGE_NETEM = Inr (PStr ''yes'')"
    and "starts_with NETEM_AT k" "dict_get (load_parameter_text text []) k = Some v"
    and "parse_netem_at k = Inr (lt, i)"
  shows "\<exists>ls ls'. load_netem_at_value lt i v ls = Inr ls' \<and> same_but_netem (link_characteristics tp) ls"
  using assms(1)
proof (rule new_topo_parameter_steps)
  fix p ls
  assume p: "new_parameter fs (Some f) = Inr p" "parameters tp = parameters p"
    and netem: "load_netem_at (tp\<lparr>link_characteristics := ls\<rparr>) = Inr (link_characteristics tp)"
  from p assms(2) have d: "parameters tp = load_parameter_text text []"
    by (auto simp: new_parameter_def load_parameter_file_def)
  have k: "k \<in> set (sort (dict_keys (parameters tp)))"
    using map_of_SomeD [OF assms(5)] by (force simp: d)
  let ?f = "\<lambda>k ls. rbind (some_or KeyError (dict_get (parameters tp) k)) (\<lambda>v. load_netem_key k v ls)"
  let ?P = "same_but_netem (link_characteristics tp)"
  have fold: "rfold ?f (sort (dict_keys (parameters tp))) ls = Inr (link_characteristics tp)"
    using netem assms(3) get_param_scheme [of "tp\<lparr>link_characteristics := ls\<rparr>" tp CHANGE_NETEM]
    by (simp add: load_netem_at_def)
  have P: "?P ls" using load_netem_at_effect(1) [OF netem] by (simp add: same_but_netem_def)
  have step: "?P ms'" if "?P ms" "?f j ms = Inr ms'" for j ms ms'
    using that load_netem_at_value_effect(1)
    by (auto simp: load_netem_key_def rbind_eq_Inr same_but_netem_def split: if_splits)
  have "\<exists>u v. ?P u \<and> ?f k u = Inr v"
    by (rule rfold_step [OF fold, where P = ?P, OF P k]) (rule step)
  then obtain u w where "?P u" "?f k u = Inr w" by blast
  then show ?thesis using assms(4,5,6) by (auto simp: load_netem_key_def d)
qed

theorem duplicate_path_aborts_witness:
  "\<exists>e. new_topo_parameter (\<lambda>_. Some (entries_text [(''path_c2r_0'', ''1,10,1''), (''path_c2r_0'', ''2,10,1'')]))
     (Some ''f'') = Inl e"
proof (rule duplicate_path_aborts)
  show "parse_link_id_and_type ''path_c2r_0'' = Inr (''c2r'', 0)" by code_simp
  show "2 \<le> length (filter (\<lambda>e. fst e = ''path_c2r_0'')
      (file_entries (entries_text [(''path_c2r_0'', ''1,10,1''), (''path_c2r_0'', ''2,10,1'')])))"
    by code_simp
qed (simp_all add: starts_with_def)

text \<open>
  C25.  With netem changes on, a well-formed change for a link that no path line describes
  aborts the load (the error object is returned, not raised, and then used as a link), and so
  does any change whose link id is not below the number of links, even when that link
  exists: the id is used as a position to log the schedule.
\<close>

theorem bad_netem_target_aborts:
  assumes "fs f = Some text" and "starts_with NETEM_AT k"
    and "dict_get (load_parameter_text text []) k = Some v"
    and "parse_netem_at k = Inr (lt, i)"
    and "dict_get (load_parameter_text text []) CHANGE_NETEM = Some (PStr ''yes'')"
    and "load_link_characteristics (load_parameter_text text []) [] = Inr ls"
    and "int (length ls) \<le> i \<or>
      (\<exists>t c tm. v = PStr (t @ CHR '','' # c) \<and> CHR '','' \<notin> set t \<union> set c \<and> float_of_str t = Inr tm) \<and>
      (\<forall>l \<in> set ls. link_type l \<noteq> lt \<or> link_id l \<noteq> i)"
  shows "\<exists>e. new_topo_parameter fs (Some f) = Inl e"
  unfolding raises_iff
proof (intro allI notI)
  fix tp assume tp: "new_topo_parameter fs (Some f) = Inr tp"
  obtain p ls0 where p: "new_parameter fs (Some f) = Inr p" "parameters tp = parameters p"
      "load_link_characteristics (parameters p) [] = Inr ls0"
    and netem: "load_netem_at (tp\<lparr>link_characteristics := ls0\<rparr>) = Inr (link_characteristics tp)"
    using tp by (rule new_topo_parameter_steps)
  from p(1) assms(1) have d: "parameters p = load_parameter_text text []"
    by (auto simp: new_parameter_def load_parameter_file_def)
  have "ls0 = ls" using p(3) assms(6) by (simp add: d)
  then have same: "same_but_netem (link_characteristics tp) ls"
    using load_netem_at_effect(1) [OF netem] by (simp add: same_but_netem_def)
  have "get_param tp CHANGE_NETEM = Inr (PStr ''yes'')"
    using assms(5) by (simp add: get_param_def p(2) d)
  from netem_key_loaded [OF tp assms(1) this assms(2-4)]
  obtain us us' where us: "load_netem_at_value lt i v us = Inr us'" "same_but_netem (link_characteristics tp) us"
    by blast
  then have u: "same_but_netem ls us" "same_but_netem ls us'"
    using same load_netem_at_value_effect(1) [OF us(1)] by (simp_all add: same_but_netem_def)
  then have "length us' = length ls" unfolding same_but_netem_def by (metis length_map)
  moreover have "index_ok us' i"
    using us(1) by (auto simp: load_netem_at_value_def rbind_eq_Inr split: if_splits)
  ultimately have "i < int (length ls)" by (simp add: index_ok_def)
  with assms(7) obtain t c tm where v: "v = PStr (t @ CHR '','' # c)" "CHR '','' \<notin> set t \<union> set c"
      "float_of_str t = Inr tm" and none: "\<forall>l \<in> set ls. link_type l \<noteq> lt \<or> link_id l \<noteq> i"
    by auto
  have ids: "map (\<lambda>l. (link_type l, link_id l)) us = map (\<lambda>l. (link_type l, link_id l)) ls"
    by (rule same_but_netem_ids [OF u(1), symmetric])
  have "(lt, i) \<notin> set (map (\<lambda>l. (link_type l, link_id l)) ls)" using none by auto
  then have "find_link_characteristic lt i us = None"
    unfolding ids [symmetric] by (auto simp: find_link_characteristic_None)
  moreover have "split_on (CHR '','') (t @ CHR '','' # c) = [t, c]"
    using v(2) by (simp add: split_on_append_sep split_on_no_occ)
  ultimately have "set_netem lt i v us = Inl AttributeError"
    by (simp add: set_netem_def pval_split_def v)
  with us(1) show False by (simp add: load_netem_at_value_def)
qed

theorem bad_netem_target_aborts_witness:
  "\<exists>e. new_topo_parameter (\<lambda>_. Some (entries_text [(''changeNetem'', ''yes''), (''netemAt_c2r_0'', ''5,loss 1'')]))
     (Some ''f'') = Inl e"
proof (rule bad_netem_target_aborts)
  let ?text = "entries_text [(''changeNetem'', ''yes''), (''netemAt_c2r_0'', ''5,loss 1'')]"
  show "dict_get (load_parameter_text ?text []) ''netemAt_c2r_0'' = Some (PStr ''5,loss 1'')" by code_simp
  show "dict_get (load_parameter_text ?text []) CHANGE_NETEM = Some (PStr ''yes'')" by code_simp
  show "parse_netem_at ''netemAt_c2r_0'' = Inr (''c2r'', 0)" by code_simp
  show "starts_with NETEM_AT ''netemAt_c2r_0''" by code_simp
  show "load_link_characteristics (load_parameter_text ?text []) [] = Inr []" by code_simp
qed simp_all

end
