(* ===== verification/TopoCore.thy ===== *)
theory TopoCore
  imports Builder TopoParam
begin

text \<open>
  \<open>core/topo.py\<close>, third part: \<open>BottleneckLink\<close>, \<open>Topo\<close> and \<open>TopoConfig\<close>.  Objects that are
  shared (the bottleneck links, held by \<open>Topo\<close> and by its subclasses) live in one list and
  are referred to by position.  \<open>log_lines\<close> is the content of \<open>command.log\<close>.
\<close>

section \<open>State\<close>

record bottleneck =
  bl_link :: link
  bs0 :: handle
  bs1 :: handle
  bs2 :: handle
  bs3 :: handle

record topo = builder +
  topo_parameter :: topo_param
  change_netem :: bool
  log_lines :: "string list"
  log_open :: bool
  clients :: "handle list"
  routers :: "handle list"
  servers :: "handle list"
  bottleneck_links :: "bottleneck list"

record topo_config = topo +
  param :: topo_param

fun handle_str :: "mininet \<Rightarrow> handle \<Rightarrow> string" where
  "handle_str m (Name n) = n"
| "handle_str m (Node n) = node_str m n"

definition log_write :: "string \<Rightarrow> ('a topo_scheme, unit) py" where
  "log_write l = py_bind (py_get log_open) (\<lambda>ok.
     if ok then py_modify (\<lambda>s. s\<lparr>log_lines := log_lines s @ [l]\<rparr>) else py_raise ValueError)"

definition topo_command_to :: "mininet \<Rightarrow> handle \<Rightarrow> string \<Rightarrow> ('a topo_scheme, string) py" where
  "topo_command_to m who cmd =
     py_bind (log_write (handle_str m who @ '' : '' @ cmd @ nl)) (\<lambda>_. builder_command_to m who cmd)"

definition topo_command_global :: "mininet \<Rightarrow> string \<Rightarrow> ('a topo_scheme, shell_out) py" where
  "topo_command_global m cmd =
     py_bind (log_write (''Global : '' @ cmd @ nl)) (\<lambda>_. builder_command_global m cmd)"

text \<open>A command whose output is not used.\<close>

abbreviation run_on :: "mininet \<Rightarrow> handle \<Rightarrow> string \<Rightarrow> ('a topo_scheme, unit) py" where
  "run_on m who cmd \<equiv> stmt (topo_command_to m who cmd)"

section \<open>\<open>Topo\<close>\<close>

text \<open>\<open>Topo.__init__\<close>; opening the log for writing empties it.\<close>

definition topo_init :: "topo_param \<Rightarrow> ('a topo_scheme, unit) py" where
  "topo_init tp =
     py_bind (py_modify (\<lambda>s. s\<lparr>topo_parameter := tp\<rparr>)) (\<lambda>_.
     py_bind (py_lift (get_param tp CHANGE_NETEM)) (\<lambda>v.
     py_bind (py_lift (case v of PStr t \<Rightarrow> Inr (lower t = ''yes'') | _ \<Rightarrow> Inl AttributeError)) (\<lambda>b.
     py_modify (\<lambda>s. s\<lparr>change_netem := b, log_lines := [], log_open := True, clients := [],
       routers := [], servers := [], bottleneck_links := []\<rparr>))))"

definition get_client_name :: "nat \<Rightarrow> string" where
  "get_client_name i = ''Client_'' @ show_nat i"

definition get_router_name :: "nat \<Rightarrow> string" where
  "get_router_name i = ''Router_'' @ show_nat i"

definition get_server_name :: "nat \<Rightarrow> string" where
  "get_server_name i = ''Server_'' @ show_nat i"

definition client_count :: "'a topo_scheme \<Rightarrow> nat" where "client_count s = length (clients s)"
definition router_count :: "'a topo_scheme \<Rightarrow> nat" where "router_count s = length (routers s)"
definition server_count :: "'a topo_scheme \<Rightarrow> nat" where "server_count s = length (servers s)"

definition bottleneck_link_count :: "'a topo_scheme \<Rightarrow> nat" where
  "bottleneck_link_count s = length (bottleneck_links s)"

text \<open>The operations \<open>Topo\<close> hands to its builder.\<close>

abbreviation topo_get_host :: "mininet \<Rightarrow> string \<Rightarrow> ('a topo_scheme, handle) py" where
  "topo_get_host m who \<equiv> builder_get_host m who"

abbreviation topo_get_interface_names :: "mininet \<Rightarrow> handle \<Rightarrow> ('a topo_scheme, string list) py" where
  "topo_get_interface_names m who \<equiv> builder_get_interface_names m who"

abbreviation topo_add_host :: "mininet \<Rightarrow> string \<Rightarrow> ('a topo_scheme, handle) py" where
  "topo_add_host m host \<equiv> builder_add_host m host"

abbreviation topo_add_link :: "handle \<Rightarrow> handle \<Rightarrow> ('a topo_scheme, unit) py" where
  "topo_add_link a b \<equiv> builder_add_link a b"

abbreviation topo_get_cli :: "('a topo_scheme, unit) py" where
  "topo_get_cli \<equiv> builder_get_cli"

abbreviation topo_start_network :: "mininet \<Rightarrow> ('a topo_scheme, unit) py" where
  "topo_start_network m \<equiv> builder_start_network m"

abbreviation topo_stop_network :: "mininet \<Rightarrow> ('a topo_scheme, unit) py" where
  "topo_stop_network m \<equiv> builder_stop_network m"

definition add_client :: "mininet \<Rightarrow> ('a topo_scheme, handle) py" where
  "add_client m = py_bind (py_get client_count) (\<lambda>n.
     py_bind (topo_add_host m (get_client_name n)) (\<lambda>h.
     py_bind (py_modify (\<lambda>s. s\<lparr>clients := clients s @ [h]\<rparr>)) (\<lambda>_. py_return h)))"

definition add_router :: "mininet \<Rightarrow> ('a topo_scheme, handle) py" where
  "add_router m = py_bind (py_get router_count) (\<lambda>n.
     py_bind (topo_add_host m (get_router_name n)) (\<lambda>h.
     py_bind (py_modify (\<lambda>s. s\<lparr>routers := routers s @ [h]\<rparr>)) (\<lambda>_. py_return h)))"

definition add_server :: "mininet \<Rightarrow> ('a topo_scheme, handle) py" where
  "add_server m = py_bind (py_get server_count) (\<lambda>n.
     py_bind (topo_add_host m (get_server_name n)) (\<lambda>h.
     py_bind (py_modify (\<lambda>s. s\<lparr>servers := servers s @ [h]\<rparr>)) (\<lambda>_. py_return h)))"

text \<open>\<open>xs[i]\<close> for an index that is not negative, \<open>xs[0]\<close> and \<open>xs[-1]\<close>\<close>

definition py_nth :: "'b list \<Rightarrow> nat \<Rightarrow> ('s, 'b) py" where
  "py_nth xs i = (if i < length xs then py_return (xs ! i) else py_raise IndexError)"

definition py_last :: "'b list \<Rightarrow> ('s, 'b) py" where
  "py_last xs = (if xs = [] then py_raise IndexError else py_return (last xs))"

definition get_client :: "nat \<Rightarrow> ('a topo_scheme, handle) py" where
  "get_client i = py_bind (py_get clients) (\<lambda>xs. py_nth xs i)"

definition get_router :: "nat \<Rightarrow> ('a topo_scheme, handle) py" where
  "get_router i = py_bind (py_get routers) (\<lambda>xs. py_nth xs i)"

definition get_server :: "nat \<Rightarrow> ('a topo_scheme, handle) py" where
  "get_server i = py_bind (py_get servers) (\<lambda>xs. py_nth xs i)"

definition close_log_file :: "('a topo_scheme, unit) py" where
  "close_log_file = py_modify (\<lambda>s. s\<lparr>log_open := False\<rparr>)"

section \<open>\<open>BottleneckLink\<close>\<close>

definition get_bs_name :: "link \<Rightarrow> nat \<Rightarrow> string" where
  "get_bs_name l i = ''bs_'' @ link_type l @ ''_'' @ show_int (link_id l) @ ''_'' @ show_nat i"

abbreviation get_left :: "bottleneck \<Rightarrow> handle" where "get_left b \<equiv> bs0 b"
abbreviation get_right :: "bottleneck \<Rightarrow> handle" where "get_right b \<equiv> bs3 b"

definition new_bottleneck :: "mininet \<Rightarrow> link \<Rightarrow> ('a topo_scheme, bottleneck) py" where
  "new_bottleneck m l =
     py_bind (builder_add_switch m (get_bs_name l 0)) (\<lambda>h0.
     py_bind (builder_add_switch m (get_bs_name l 1)) (\<lambda>h1.
     py_bind (builder_add_switch m (get_bs_name l 2)) (\<lambda>h2.
     py_bind (builder_add_switch m (get_bs_name l 3)) (\<lambda>h3.
     py_bind (builder_add_link h0 h1) (\<lambda>_.
     py_bind (builder_add_link h1 h2) (\<lambda>_.
     py_bind (builder_add_link h2 h3) (\<lambda>_.
       py_return \<lparr>bl_link = l, bs0 = h0, bs1 = h1, bs2 = h2, bs3 = h3\<rparr>)))))))"

definition set_bottleneck :: "nat \<Rightarrow> (bottleneck \<Rightarrow> bottleneck) \<Rightarrow> ('a topo_scheme, unit) py" where
  "set_bottleneck k f = py_modify (\<lambda>s. s\<lparr>bottleneck_links := (bottleneck_links s)[k := f (bottleneck_links s ! k)]\<rparr>)"

text \<open>\<open>BottleneckLink.reinit_variables\<close> of the object at position \<open>k\<close>\<close>

definition reinit_bottleneck :: "mininet \<Rightarrow> nat \<Rightarrow> ('a topo_scheme, unit) py" where
  "reinit_bottleneck m k = py_bind (py_get (\<lambda>s. bl_link (bottleneck_links s ! k))) (\<lambda>l. block
     [py_bind (topo_get_host m (get_bs_name l 0)) (\<lambda>h. set_bottleneck k (\<lambda>b. b\<lparr>bs0 := h\<rparr>)),
      py_bind (topo_get_host m (get_bs_name l 1)) (\<lambda>h. set_bottleneck k (\<lambda>b. b\<lparr>bs1 := h\<rparr>)),
      py_bind (topo_get_host m (get_bs_name l 2)) (\<lambda>h. set_bottleneck k (\<lambda>b. b\<lparr>bs2 := h\<rparr>)),
      py_bind (topo_get_host m (get_bs_name l 3)) (\<lambda>h. set_bottleneck k (\<lambda>b. b\<lparr>bs3 := h\<rparr>))])"

definition netem_loss :: "link \<Rightarrow> string" where
  "netem_loss l = (if fless (Fin 0) (loss l) then ''loss '' @ repr_float (loss l) else [])"

text \<open>The cleanup loop on one of the two middle switches\<close>

definition delete_tc :: "mininet \<Rightarrow> handle \<Rightarrow> string list \<Rightarrow> ('a topo_scheme, unit) py" where
  "delete_tc m who ifs = for_each ifs (\<lambda>i. run_on m who (build_delete_tc_cmd i))"

definition configure_bottleneck :: "mininet \<Rightarrow> bottleneck \<Rightarrow> ('a topo_scheme, unit) py" where
  "configure_bottleneck m b =
     py_bind (topo_get_interface_names m (bs1 b)) (\<lambda>ifs1.
     py_bind (topo_get_interface_names m (bs2 b)) (\<lambda>ifs2. block
       [delete_tc m (bs1 b) ifs1,
        delete_tc m (bs2 b) ifs2,
        py_bind (py_last ifs1) (\<lambda>i. run_on m (bs1 b) (build_netem_cmd (bl_link b) i (netem_loss (bl_link b)) False)),
        py_bind (py_last ifs2) (\<lambda>i. py_bind (py_lift (build_bandwidth_cmd (bl_link b) i False)) (run_on m (bs2 b))),
        py_bind (py_nth ifs2 0) (\<lambda>i. run_on m (bs2 b) (build_netem_cmd (bl_link b) i (netem_loss (bl_link b)) False)),
        py_bind (py_nth ifs1 0) (\<lambda>i. py_bind (py_lift (build_bandwidth_cmd (bl_link b) i False)) (run_on m (bs1 b)))]))"

definition configure_changing_bottleneck :: "mininet \<Rightarrow> bottleneck \<Rightarrow> ('a topo_scheme, unit) py" where
  "configure_changing_bottleneck m b =
     py_bind (topo_get_interface_names m (bs1 b)) (\<lambda>ifs1.
     py_bind (topo_get_interface_names m (bs2 b)) (\<lambda>ifs2. block
       [py_bind (py_last ifs1) (\<lambda>i. py_bind (py_lift (build_changing_bandwidth_cmd (bl_link b) i)) (run_on m (bs1 b))),
        py_bind (py_last ifs2) (\<lambda>i. run_on m (bs2 b) (build_changing_netem_cmd (bl_link b) i)),
        py_bind (py_nth ifs2 0) (\<lambda>i. py_bind (py_lift (build_changing_bandwidth_cmd (bl_link b) i)) (run_on m (bs2 b))),
        py_bind (py_nth ifs1 0) (\<lambda>i. run_on m (bs1 b) (build_changing_netem_cmd (bl_link b) i))]))"

text \<open>
  \<open>Topo.add_bottleneck_link\<close> returns the bottleneck link, here its position.  Without link
  characteristics the constructor asks \<open>None\<close> for its \<open>link_type\<close>.
\<close>

definition add_bottleneck_link ::
  "mininet \<Rightarrow> handle \<Rightarrow> handle \<Rightarrow> link option \<Rightarrow> nat option \<Rightarrow> ('a topo_scheme, nat) py" where
  "add_bottleneck_link m from_a to_b l bl =
     py_bind (case bl of
         Some k \<Rightarrow> py_return k
       | None \<Rightarrow> (case l of
           None \<Rightarrow> py_raise AttributeError
         | Some lc \<Rightarrow> py_bind (new_bottleneck m lc) (\<lambda>b.
             py_bind (py_modify (\<lambda>s. s\<lparr>bottleneck_links := bottleneck_links s @ [b]\<rparr>)) (\<lambda>_.
             py_get (\<lambda>s. length (bottleneck_links s) - 1))))) (\<lambda>k.
     py_bind (py_get (\<lambda>s. bottleneck_links s ! k)) (\<lambda>b.
     py_bind (builder_add_link from_a (get_left b)) (\<lambda>_.
     py_bind (builder_add_link (get_right b) to_b) (\<lambda>_. py_return k))))"

text \<open>\<open>Topo.reinit_variables\<close>: the attributes become node objects, list by list.\<close>

definition topo_reinit_variables :: "mininet \<Rightarrow> ('a topo_scheme, unit) py" where
  "topo_reinit_variables m = block
     [py_bind (py_get client_count) (\<lambda>n. py_bind (py_collect [0..<n] (\<lambda>i. topo_get_host m (get_client_name i)))
        (\<lambda>hs. py_modify (\<lambda>s. s\<lparr>clients := hs\<rparr>))),
      py_bind (py_get router_count) (\<lambda>n. py_bind (py_collect [0..<n] (\<lambda>i. topo_get_host m (get_router_name i)))
        (\<lambda>hs. py_modify (\<lambda>s. s\<lparr>routers := hs\<rparr>))),
      py_bind (py_get server_count) (\<lambda>n. py_bind (py_collect [0..<n] (\<lambda>i. topo_get_host m (get_server_name i)))
        (\<lambda>hs. py_modify (\<lambda>s. s\<lparr>servers := hs\<rparr>))),
      py_bind (py_get bottleneck_link_count) (\<lambda>n. for_each [0..<n] (reinit_bottleneck m))]"

section \<open>\<open>TopoConfig\<close>\<close>

definition topo_config_init :: "topo_param \<Rightarrow> ('a topo_config_scheme, unit) py" where
  "topo_config_init p = py_modify (\<lambda>s. s\<lparr>param := p\<rparr>)"

text \<open>Iterating over \<open>None\<close> is a \<open>TypeError\<close>.\<close>

definition net_names :: "mininet \<Rightarrow> ('a builder_scheme, string list) py" where
  "net_names m = py_bind (py_get net) (\<lambda>n. case n of
     None \<Rightarrow> py_raise TypeError | Some g \<Rightarrow> py_return (net_nodes m g))"

definition tso_cmd :: "string \<Rightarrow> string" where
  "tso_cmd i = ''ethtool -K '' @ i @ '' tso off; ethtool -K '' @ i @ '' gso off; ethtool -K '' @ i @ '' gro off''"

definition disable_tso :: "mininet \<Rightarrow> ('a topo_scheme, unit) py" where
  "disable_tso m =
     py_bind (net_names m) (\<lambda>names.
     py_bind (py_collect names (topo_get_host m)) (\<lambda>nodes.
     for_each nodes (\<lambda>node. py_bind (topo_get_interface_names m node) (\<lambda>ifs.
       for_each ifs (\<lambda>i. run_on m node (tso_cmd i))))))"

definition run_netem_at :: "mininet \<Rightarrow> ('a topo_scheme, unit) py" where
  "run_netem_at m = py_bind (py_get change_netem) (\<lambda>c. py_when c
     (py_bind (py_get bottleneck_links) (\<lambda>bs. for_each bs (configure_changing_bottleneck m))))"

text \<open>\<open>TopoConfig.configure_interfaces\<close> of the base class\<close>

definition configure_bottlenecks :: "mininet \<Rightarrow> ('a topo_scheme, unit) py" where
  "configure_bottlenecks m = py_bind (py_get bottleneck_links) (\<lambda>bs. for_each bs (configure_bottleneck m))"

text \<open>\<open>configure_network\<close> calls two methods that the subclasses override.\<close>

definition configure_network ::
  "mininet \<Rightarrow> ('a topo_config_scheme, unit) py \<Rightarrow> ('a topo_config_scheme, unit) py \<Rightarrow> ('a topo_config_scheme, unit) py" where
  "configure_network m interfaces routing =
     block [topo_reinit_variables m, disable_tso m, interfaces, routing]"

definition interface_backup_command :: "string \<Rightarrow> string" where
  "interface_backup_command i = ''ip link set dev '' @ i @ '' multipath backup ''"

definition interface_up_command :: "string \<Rightarrow> string \<Rightarrow> string \<Rightarrow> string" where
  "interface_up_command i ip subnet = ''ifconfig '' @ i @ '' '' @ ip @ '' netmask '' @ subnet"

definition add_table_route_command :: "string \<Rightarrow> nat \<Rightarrow> string" where
  "add_table_route_command ip i = ''ip rule add from '' @ ip @ '' table '' @ show_nat (i + 1)"

definition add_link_scope_route_command :: "string \<Rightarrow> string \<Rightarrow> nat \<Rightarrow> string" where
  "add_link_scope_route_command network ifname i =
     ''ip route add '' @ network @ '' dev '' @ ifname @ '' scope link table '' @ show_nat (i + 1)"

definition add_table_default_route_command :: "string \<Rightarrow> nat \<Rightarrow> string" where
  "add_table_default_route_command via i = ''ip route add default via '' @ via @ '' table '' @ show_nat (i + 1)"

definition add_global_default_route_command :: "string \<Rightarrow> string \<Rightarrow> string" where
  "add_global_default_route_command via ifname =
     ''ip route add default scope global nexthop via '' @ via @ '' dev '' @ ifname"

definition arp_command :: "string \<Rightarrow> string \<Rightarrow> string" where
  "arp_command ip mac = ''arp -s '' @ ip @ '' '' @ mac"

definition add_simple_default_route_command :: "string \<Rightarrow> string" where
  "add_simple_default_route_command via = ''ip route add default via '' @ via"

end
