(* ===== verification/Scripts.thy ===== *)
theory Scripts
  imports TopoCore
begin

text \<open>
  How the component proofs reason about configuration code: a handler is a script when, in
  every live state with a stable precondition, it finishes and changes nothing but the events
  and the log, by a known list of commands.  Scripts compose like the statements they model.
\<close>

section \<open>The log\<close>

definition log_entry :: "mininet \<Rightarrow> event \<Rightarrow> string list" where
  "log_entry m e = (case e of
     NodeCmd n c \<Rightarrow> [node_str m n @ '' : '' @ c @ nl]
   | GlobalCmd c \<Rightarrow> [''Global : '' @ c @ nl]
   | _ \<Rightarrow> [])"

definition log_of :: "mininet \<Rightarrow> event list \<Rightarrow> string list" where
  "log_of m es = concat (map (log_entry m) es)"

lemma log_of_simps [simp]:
  "log_of m [] = []"
  "log_of m (es @ fs) = log_of m es @ log_of m fs"
  "log_of m (NodeCmd n c # es) = (node_str m n @ '' : '' @ c @ nl) # log_of m es"
  "log_of m (GlobalCmd c # es) = (''Global : '' @ c @ nl) # log_of m es"
  "log_of m (NetStart # es) = log_of m es"
  "log_of m (NetStop # es) = log_of m es"
  "log_of m (OpenCli # es) = log_of m es"
  "log_of m (NodeSend n c # es) = log_of m es"
  "log_of m (NodeWait n # es) = log_of m es"
  by (simp_all add: log_of_def log_entry_def)

text \<open>The log holds the commands issued, in order.\<close>

definition log_exact :: "mininet \<Rightarrow> 'a topo_scheme \<Rightarrow> bool" where
  "log_exact m s \<longleftrightarrow> log_lines s = log_of m (events s)"

lemma keeps_emit_silent:
  "log_entry m e = [] \<Longrightarrow> keeps (log_exact m) (emit e)"
  unfolding emit_def by (intro keeps_modify) (simp add: log_exact_def log_of_def)

lemma keeps_log_grow [keeps_intro]: "keeps (log_exact m) (grow g)"
  unfolding grow_def by (intro keeps_modify) (simp add: log_exact_def)

lemma keeps_log_add [keeps_intro]:
  "keeps (log_exact m) (builder_add_host m' h)"
  "keeps (log_exact m) (builder_add_switch m' h)"
  "keeps (log_exact m) (builder_add_link a b)"
  unfolding builder_add_host_def builder_add_switch_def builder_add_link_def
  by (intro keeps_intro)+

lemma keeps_pure:
  "(\<And>s. snd (f s) = s) \<Longrightarrow> keeps P f"
  by (rule keepsI) (metis snd_conv)

lemma pure_get_host: "snd (builder_get_host m who s) = s"
  by (simp add: builder_get_host_def split: option.split)

lemma pure_interface_names: "snd (builder_get_interface_names m who s) = s"
  by (simp add: builder_get_interface_names_def split: handle.split)

lemma pure_node_mac: "snd (node_mac m who i s) = s"
  by (simp add: node_mac_def split: handle.split)

lemma pure_index: "snd (py_nth xs i s) = s" "snd (py_last xs s) = s"
  by (simp_all add: py_nth_def py_last_def)

lemma pure_net_names: "snd (net_names m s) = s"
  by (simp add: net_names_def split: option.split)

lemma keeps_queries [keeps_intro]:
  "keeps P (builder_get_host m who)"
  "keeps P (builder_get_interface_names m w)"
  "keeps P (node_mac m w i)"
  "keeps P (py_nth xs n)"
  "keeps P (py_last xs)"
  "keeps P (net_names m)"
  by (intro keeps_pure pure_get_host pure_interface_names pure_node_mac pure_index pure_net_names)+

lemma keeps_log_command_to [keeps_intro]: "keeps (log_exact m) (topo_command_to m who cmd)"
  by (rule keepsI)
     (auto simp: topo_command_to_def log_write_def builder_command_to_def emit_def log_exact_def py_bind_eq_Inr
       split: handle.splits if_splits)

lemma keeps_log_command_global [keeps_intro]: "keeps (log_exact m) (topo_command_global m cmd)"
  by (rule keepsI)
     (auto simp: topo_command_global_def log_write_def builder_command_global_def emit_def log_exact_def py_bind_eq_Inr
         Let_def split_def split: if_splits)

section \<open>Scripts\<close>

text \<open>The state after the commands \<open>es\<close>.\<close>

definition ran :: "mininet \<Rightarrow> event list \<Rightarrow> 'a topo_scheme \<Rightarrow> 'a topo_scheme" where
  "ran m es s = s\<lparr>events := events s @ es, log_lines := log_lines s @ log_of m es\<rparr>"

lemma ran_Nil [simp]: "ran m [] s = s"
  by (simp add: ran_def)

lemma ran_ran [simp]: "ran m fs (ran m es s) = ran m (es @ fs) s"
  by (simp add: ran_def)

lemma ran_fields [simp]:
  "graph (ran m es s) = graph s"
  "net (ran m es s) = net s"
  "net_graph (ran m es s) = net_graph s"
  "events (ran m es s) = events s @ es"
  "topo_parameter (ran m es s) = topo_parameter s"
  "change_netem (ran m es s) = change_netem s"
  "log_lines (ran m es s) = log_lines s @ log_of m es"
  "log_open (ran m es s) = log_open s"
  "clients (ran m es s) = clients s"
  "routers (ran m es s) = routers s"
  "servers (ran m es s) = servers s"
  "bottleneck_links (ran m es s) = bottleneck_links s"
  by (simp_all add: ran_def net_graph_def)

lemma ran_param [simp]: "param (ran m es s) = param s"
  by (simp add: ran_def)

definition live :: "'a topo_scheme \<Rightarrow> bool" where
  "live s \<longleftrightarrow> log_open s \<and> NetStop \<notin> set (events s)"

text \<open>A precondition that commands do not disturb.\<close>

definition stable :: "mininet \<Rightarrow> ('a topo_scheme \<Rightarrow> bool) \<Rightarrow> bool" where
  "stable m P \<longleftrightarrow> (\<forall>s es. P s \<longrightarrow> P (ran m es s))"

definition does :: "mininet \<Rightarrow> ('a topo_scheme \<Rightarrow> bool) \<Rightarrow> event list \<Rightarrow> ('a topo_scheme, unit) py \<Rightarrow> bool" where
  "does m P es f \<longleftrightarrow> NetStop \<notin> set es \<and> (\<forall>s. live s \<longrightarrow> P s \<longrightarrow> f s = (Inr (), ran m es s))"

lemma doesD: "does m P es f \<Longrightarrow> live s \<Longrightarrow> P s \<Longrightarrow> f s = (Inr (), ran m es s)"
  by (simp add: does_def)

lemma does_live: "does m P es f \<Longrightarrow> NetStop \<notin> set es"
  by (simp add: does_def)

lemma live_ran: "live s \<Longrightarrow> NetStop \<notin> set es \<Longrightarrow> live (ran m es s)"
  by (simp add: live_def)

lemma does_return: "does m P [] (py_return ())"
  by (simp add: does_def)

lemma does_seq:
  assumes "stable m P" "does m P es f" "does m P fs g"
  shows "does m P (es @ fs) (py_bind f (\<lambda>_. g))"
  using assms by (auto simp: does_def stable_def py_bind_apply live_ran)

lemma does_block_Nil: "does m P [] (block [])"
  by (simp add: does_return)

lemma does_block_Cons:
  "stable m P \<Longrightarrow> does m P es c \<Longrightarrow> does m P fs (block cs) \<Longrightarrow> does m P (es @ fs) (block (c # cs))"
  using does_seq [of m P es c fs "block cs"] by simp

lemma does_for_each:
  assumes "stable m P" "\<And>x. x \<in> set xs \<Longrightarrow> does m P (g x) (f x)"
  shows "does m P (concat (map g xs)) (for_each xs f)"
  using assms(2)
proof (induction xs)
  case (Cons x xs)
  then have "does m P (concat (map g xs)) (for_each xs f)" "does m P (g x) (f x)" by simp_all
  then show ?case using does_seq [OF assms(1)] by fastforce
qed (simp add: does_return)

text \<open>A value that the precondition determines.\<close>

lemma does_bind_value:
  assumes "\<And>s. live s \<Longrightarrow> P s \<Longrightarrow> f s = (Inr x, s)" and "does m P es (k x)"
  shows "does m P es (py_bind f k)"
  using assms by (simp add: does_def py_bind_apply)

lemma does_bind_get: "(\<And>s. P s \<Longrightarrow> f s = x) \<Longrightarrow> does m P es (k x) \<Longrightarrow> does m P es (py_bind (py_get f) k)"
  by (rule does_bind_value) simp

lemma does_bind_lift: "r = Inr x \<Longrightarrow> does m P es (k x) \<Longrightarrow> does m P es (py_bind (py_lift r) k)"
  by (rule does_bind_value) simp_all

lemma does_command:
  assumes "mininet_ok m"
  shows "does m P [NodeCmd n c] (run_on m (Node n) c)"
  unfolding does_def
proof (intro conjI allI impI)
  fix s :: "'a topo_scheme" assume s: "live s" "P s"
  then obtain r where "node_cmd m (events s) n c = Inr r"
    using mininet_okD(6) [OF assms, of "events s" n c] by (auto simp: live_def)
  then show "run_on m (Node n) c s = (Inr (), ran m [NodeCmd n c] s)"
    using s by (simp add: stmt_apply topo_command_to_def log_write_def builder_command_to_def emit_def
        live_def py_bind_apply ran_def)
qed simp

lemma does_weaken: "does m P es f \<Longrightarrow> (\<And>s. Q s \<Longrightarrow> P s) \<Longrightarrow> does m Q es f"
  by (simp add: does_def)

lemma does_cong: "does m P es f \<Longrightarrow> es = fs \<Longrightarrow> does m P fs f"
  by simp

lemma does_noop: "(\<And>s. live s \<Longrightarrow> P s \<Longrightarrow> f s = (Inr (), s)) \<Longrightarrow> does m P [] f"
  by (simp add: does_def)

lemmas does_script = does_command does_block_Nil does_block_Cons does_return

section \<open>The bottleneck links\<close>

text \<open>The interfaces of a node of the running network, without the loopback.\<close>

definition interfaces :: "mininet \<Rightarrow> graph_op list \<Rightarrow> string \<Rightarrow> string list" where
  "interfaces m g n = filter (\<lambda>i. i \<noteq> ''lo'') (intf_names m g n)"

lemma get_interface_names_Node:
  "net s = Some g \<Longrightarrow> builder_get_interface_names m (Node n) s = (Inr (interfaces m g n), s)"
  by (simp add: builder_get_interface_names_def interfaces_def net_graph_def)

lemma stable_net: "stable m (\<lambda>s. net s = Some g)"
  by (simp add: stable_def)

lemma py_nth_ok [simp]: "i < length xs \<Longrightarrow> py_nth xs i = py_return (xs ! i)"
  by (simp add: py_nth_def)

lemma py_last_ok [simp]: "xs \<noteq> [] \<Longrightarrow> py_last xs = py_return (last xs)"
  by (simp add: py_last_def)

text \<open>The commands of \<open>configure_bottleneck\<close> for the two middle switches \<open>n1\<close>, \<open>n2\<close>.\<close>

definition bottleneck_cmds :: "link \<Rightarrow> string \<Rightarrow> string \<Rightarrow> string list \<Rightarrow> string list \<Rightarrow> pyfloat \<Rightarrow> event list" where
  "bottleneck_cmds l n1 n2 ifs1 ifs2 buf =
     (let netem = (\<lambda>i. build_netem_cmd l i (netem_loss l) False);
          shape = (\<lambda>i. ''tc qdisc add dev '' @ i @ '' root handle 1:0 tbf rate '' @ repr_float (bandwidth l) @
                     ''mbit burst 15000 limit '' @ repr_float buf)
      in map (\<lambda>i. NodeCmd n1 (build_delete_tc_cmd i)) ifs1 @ map (\<lambda>i. NodeCmd n2 (build_delete_tc_cmd i)) ifs2 @
         [NodeCmd n1 (netem (last ifs1)), NodeCmd n2 (shape (last ifs2)),
          NodeCmd n2 (netem (hd ifs2)), NodeCmd n1 (shape (hd ifs1))])"

lemma does_delete_tc:
  "mininet_ok m \<Longrightarrow> stable m P \<Longrightarrow>
     does m P (map (\<lambda>i. NodeCmd n (build_delete_tc_cmd i)) ifs) (delete_tc m (Node n) ifs)"
  unfolding delete_tc_def
  by (rule does_cong [OF does_for_each [where g = "\<lambda>i. [NodeCmd n (build_delete_tc_cmd i)]"]])
     (auto intro: does_command simp: concat_map_singleton)

lemma does_configure_bottleneck:
  assumes m: "mininet_ok m" and b: "bs1 b = Node n1" "bs2 b = Node n2"
    and ifs: "interfaces m g n1 \<noteq> []" "interfaces m g n2 \<noteq> []"
    and buf: "buffer_size (bl_link b) = Inr buf"
  shows "does m (\<lambda>s. net s = Some g)
     (bottleneck_cmds (bl_link b) n1 n2 (interfaces m g n1) (interfaces m g n2) buf) (configure_bottleneck m b)"
proof -
  have bw: "build_bandwidth_cmd (bl_link b) i False = Inr (''tc qdisc add dev '' @ i @
      '' root handle 1:0 tbf rate '' @ repr_float (bandwidth (bl_link b)) @ ''mbit burst 15000 limit '' @ repr_float buf)" for i
    by (simp add: build_bandwidth_cmd_def buf replace_or_add_def)
  show ?thesis
    unfolding configure_bottleneck_def b
    apply (rule does_bind_value [OF get_interface_names_Node], assumption)
    apply (rule does_bind_value [OF get_interface_names_Node], assumption)
    apply (rule does_cong)
     apply (use m ifs in \<open>simp only: bw py_bind_basic py_last_ok py_nth_ok length_greater_0_conv not_False_eq_True\<close>)
     apply (rule does_block_Cons stable_net does_delete_tc does_command does_block_Nil m)+
    using ifs by (simp add: bottleneck_cmds_def hd_conv_nth)
qed

text \<open>The commands of \<open>configure_changing_bottleneck\<close>.\<close>

definition changing_shape :: "link \<Rightarrow> pyfloat \<Rightarrow> string \<Rightarrow> string" where
  "changing_shape l buf i = join ''&& ''
     (map (\<lambda>n. ''sleep '' @ str_num (delta n) @ '' && (tc qdisc replace dev '' @ i @ '' root handle 1:0 tbf rate '' @
        repr_float (bandwidth l) @ ''mbit burst 15000 limit '' @ repr_float buf @ '') '') (netem_at l) @ [''true &''])"

definition changing_cmds :: "link \<Rightarrow> string \<Rightarrow> string \<Rightarrow> string list \<Rightarrow> string list \<Rightarrow> pyfloat \<Rightarrow> event list" where
  "changing_cmds l n1 n2 ifs1 ifs2 buf =
     [NodeCmd n1 (changing_shape l buf (last ifs1)), NodeCmd n2 (build_changing_netem_cmd l (last ifs2)),
      NodeCmd n2 (changing_shape l buf (hd ifs2)), NodeCmd n1 (build_changing_netem_cmd l (hd ifs1))]"

lemma build_changing_bandwidth_ok:
  assumes "buffer_size l = Inr buf"
  shows "build_changing_bandwidth_cmd l i = Inr (changing_shape l buf i)"
  unfolding build_changing_bandwidth_cmd_def
  by (subst rmap_Inr [where g = "\<lambda>n. ''sleep '' @ str_num (delta n) @ '' && (tc qdisc replace dev '' @ i @
        '' root handle 1:0 tbf rate '' @ repr_float (bandwidth l) @ ''mbit burst 15000 limit '' @ repr_float buf @ '') ''"])
     (simp_all add: build_bandwidth_cmd_def assms replace_or_add_def changing_shape_def)

lemma does_configure_changing_bottleneck:
  assumes m: "mininet_ok m" and b: "bs1 b = Node n1" "bs2 b = Node n2"
    and ifs: "interfaces m g n1 \<noteq> []" "interfaces m g n2 \<noteq> []"
    and buf: "buffer_size (bl_link b) = Inr buf"
  shows "does m (\<lambda>s. net s = Some g)
     (changing_cmds (bl_link b) n1 n2 (interfaces m g n1) (interfaces m g n2) buf) (configure_changing_bottleneck m b)"
  unfolding configure_changing_bottleneck_def b
  apply (rule does_bind_value [OF get_interface_names_Node], assumption)
  apply (rule does_bind_value [OF get_interface_names_Node], assumption)
  apply (rule does_cong)
   apply (use m ifs in \<open>simp only: build_changing_bandwidth_ok [OF buf] py_bind_basic py_last_ok py_nth_ok
      length_greater_0_conv not_False_eq_True\<close>)
   apply (rule does_block_Cons stable_net does_command does_block_Nil m)+
  using ifs by (simp add: changing_cmds_def hd_conv_nth)

end
