(* ===== verification/MultiIf.thy ===== *)
theory MultiIf
  imports Scripts
begin

text \<open>
  \<open>topos/multi_interface.py\<close>: one client, one router and one server, a bottleneck link for
  every \<open>c2r\<close> and every \<open>r2s\<close> path.  The configuration gives addresses, ARP entries and
  policy routes.  The two lists of bottleneck links are lists of positions in
  \<open>bottleneck_links\<close>.  The progress messages printed by the code are left out, except where
  the expression printed can raise before anything else does.
\<close>

section \<open>State\<close>

record multi_if = topo_config +
  mi_client :: handle
  mi_server :: handle
  mi_router :: handle
  c2r_links :: "nat list"
  r2s_links :: "nat list"
  cfg_client :: "handle option"
  cfg_server :: "handle option"
  cfg_router :: "handle option"
  cfg_clients :: "handle list option"
  cfg_servers :: "handle list option"

text \<open>An attribute of the configuration object, set or not.\<close>

definition py_attr :: "('s \<Rightarrow> 'a option) \<Rightarrow> ('s, 'a) py" where
  "py_attr f = py_bind (py_get f) (\<lambda>v. py_lift (some_or AttributeError v))"

section \<open>\<open>MultiInterfaceTopo\<close>\<close>

definition get_client_to_router_links :: "topo_param \<Rightarrow> link list" where
  "get_client_to_router_links tp = filter (\<lambda>l. link_type l = ''c2r'') (link_characteristics tp)"

definition get_router_to_server_links :: "topo_param \<Rightarrow> link list" where
  "get_router_to_server_links tp = filter (\<lambda>l. link_type l = ''r2s'') (link_characteristics tp)"

definition add_c2r_link :: "mininet \<Rightarrow> link \<Rightarrow> ('a multi_if_scheme, unit) py" where
  "add_c2r_link m l =
     py_bind (py_get mi_client) (\<lambda>c. py_bind (py_get mi_router) (\<lambda>r.
     py_bind (add_bottleneck_link m c r (Some l) None) (\<lambda>k.
       py_modify (\<lambda>s. s\<lparr>c2r_links := c2r_links s @ [k]\<rparr>))))"

definition add_r2s_link :: "mininet \<Rightarrow> link \<Rightarrow> ('a multi_if_scheme, unit) py" where
  "add_r2s_link m l =
     py_bind (py_get mi_router) (\<lambda>r. py_bind (py_get mi_server) (\<lambda>sv.
     py_bind (add_bottleneck_link m r sv (Some l) None) (\<lambda>k.
       py_modify (\<lambda>s. s\<lparr>r2s_links := r2s_links s @ [k]\<rparr>))))"

definition multi_if_topo_init :: "mininet \<Rightarrow> topo_param \<Rightarrow> ('a multi_if_scheme, unit) py" where
  "multi_if_topo_init m tp = block
     [topo_init tp,
      py_bind (add_client m) (\<lambda>h. py_modify (\<lambda>s. s\<lparr>mi_client := h\<rparr>)),
      py_bind (add_server m) (\<lambda>h. py_modify (\<lambda>s. s\<lparr>mi_server := h\<rparr>)),
      py_bind (add_router m) (\<lambda>h. py_modify (\<lambda>s. s\<lparr>mi_router := h\<rparr>)),
      py_modify (\<lambda>s. s\<lparr>c2r_links := [], r2s_links := []\<rparr>),
      for_each (get_client_to_router_links tp) (add_c2r_link m),
      if get_router_to_server_links tp \<noteq> []
      then for_each (get_router_to_server_links tp) (add_r2s_link m)
      else py_bind (py_get mi_router) (\<lambda>r. py_bind (py_get mi_server) (\<lambda>sv. topo_add_link r sv))]"

text \<open>The drawing printed by \<open>__str__\<close>: one line per row, with the count of skipped rows.\<close>

definition bs :: char where "bs = CHR 0x5C"

definition draw_row :: "nat \<Rightarrow> nat \<Rightarrow> nat \<Rightarrow> nat \<Rightarrow> string \<times> nat \<Rightarrow> string \<times> nat" where
  "draw_row nc ns mx i st = (let (s, skipped) = st in
     if i = mx div 2 then
       (if mx mod 2 = 0
        then (s @ ''c                r                s'' @ nl @
              '' '' @ [bs] @ ''-sw---bl---sw-/ '' @ [bs] @ ''-sw---bl---sw-/'' @ nl, skipped)
        else (s @ ''c--sw---bl---sw--r--sw---bl---sw--s'' @ nl, skipped))
     else if i < mx div 2 then
       (if nc = mx \<and> ns + skipped = mx \<or> ns = mx \<and> nc + skipped = mx
        then (s @ '' /-sw---bl---sw-'' @ [bs] @ '' /-sw---bl---sw-'' @ [bs] @ '' '' @ nl, skipped)
        else if nc = mx then (s @ '' /-sw---bl---sw-'' @ [bs] @ '' '' @ nl, skipped + 1)
        else (s @ ''                  /-sw---bl---sw-'' @ [bs] @ '' '' @ nl, skipped + 1))
     else
       (if nc = mx \<and> ns + skipped = mx \<or> ns = mx \<and> nc + skipped = mx
        then (s @ '' '' @ [bs] @ ''-sw---bl---sw-/ '' @ [bs] @ ''-sw---bl---sw-/ '' @ nl, skipped)
        else if nc = mx then (s @ '' '' @ [bs] @ ''-sw---bl---sw-/ '' @ nl, skipped + 1)
        else (s @ ''                  '' @ [bs] @ ''-sw---bl---sw-/ '' @ nl, skipped + 1)))"

definition multi_if_topo_str :: "topo_param \<Rightarrow> string" where
  "multi_if_topo_str tp =
     (let nc = length (get_client_to_router_links tp);
          ns = length (get_router_to_server_links tp);
          mx = max nc ns
      in fst (fold (draw_row nc ns mx) [0..<mx] (''Simple multiple interface topology '' @ nl, 0)))"

section \<open>Addresses and interfaces\<close>

definition subnet_text :: "string \<Rightarrow> topo_param \<Rightarrow> nat \<Rightarrow> string \<Rightarrow> string res" where
  "subnet_text key p i suffix =
     rbind (get_param p key) (\<lambda>v. Inr (str_pval v @ show_nat i @ suffix))"

definition get_client_ip :: "topo_param \<Rightarrow> nat \<Rightarrow> string res" where
  "get_client_ip p i = subnet_text ''leftSubnet'' p i ''.1''"

definition get_client_subnet :: "topo_param \<Rightarrow> nat \<Rightarrow> string res" where
  "get_client_subnet p i = subnet_text ''leftSubnet'' p i ''.0/24''"

definition get_router_ip_to_client_switch :: "topo_param \<Rightarrow> nat \<Rightarrow> string res" where
  "get_router_ip_to_client_switch p i = subnet_text ''leftSubnet'' p i ''.2''"

definition get_router_ip_to_server_switch :: "topo_param \<Rightarrow> nat \<Rightarrow> string res" where
  "get_router_ip_to_server_switch p i = subnet_text ''rightSubnet'' p i ''.2''"

definition get_server_ip :: "topo_param \<Rightarrow> nat \<Rightarrow> string res" where
  "get_server_ip p i = subnet_text ''rightSubnet'' p i ''.1''"

definition get_server_subnet :: "topo_param \<Rightarrow> nat \<Rightarrow> string res" where
  "get_server_subnet p i = subnet_text ''rightSubnet'' p i ''.0/24''"

definition client_interface_count :: "'a multi_if_scheme \<Rightarrow> nat" where
  "client_interface_count s = max (length (c2r_links s)) 1"

definition server_interface_count :: "'a multi_if_scheme \<Rightarrow> nat" where
  "server_interface_count s = max (length (r2s_links s)) 1"

definition get_router_interface_to_client_switch :: "nat \<Rightarrow> string" where
  "get_router_interface_to_client_switch i = get_router_name 0 @ ''-eth'' @ show_nat i"

definition get_router_interface_to_server_switch :: "'a multi_if_scheme \<Rightarrow> nat \<Rightarrow> string" where
  "get_router_interface_to_server_switch s i =
     get_router_interface_to_client_switch (length (c2r_links s) + i)"

definition get_client_interface :: "nat \<Rightarrow> nat \<Rightarrow> string" where
  "get_client_interface c i = get_client_name c @ ''-eth'' @ show_nat i"

definition get_server_interface :: "nat \<Rightarrow> nat \<Rightarrow> string" where
  "get_server_interface c i = get_server_name c @ ''-eth'' @ show_nat i"

section \<open>\<open>MultiInterfaceConfig\<close>\<close>

text \<open>\<open>self.topo.command_to(self.<who>, cmd)\<close> for a command that depends on the parameters\<close>

definition tell :: "mininet \<Rightarrow> ('a multi_if_scheme \<Rightarrow> handle option) \<Rightarrow>
    ('a multi_if_scheme \<Rightarrow> string res) \<Rightarrow> ('a multi_if_scheme, unit) py" where
  "tell m who cmd = py_bind (py_get cmd) (\<lambda>r. py_bind (py_lift r) (\<lambda>c.
     py_bind (py_attr who) (\<lambda>h. run_on m h c)))"

definition netmask :: string where "netmask = ''255.255.255.0''"

text \<open>Bring an interface up with its address, then tell a peer its MAC address.\<close>

definition up_cmd :: "string res \<Rightarrow> string \<Rightarrow> string res" where
  "up_cmd ip ifname = rbind ip (\<lambda>a. Inr (interface_up_command ifname a netmask))"

definition tell_mac :: "mininet \<Rightarrow> ('a multi_if_scheme \<Rightarrow> handle option) \<Rightarrow> ('a multi_if_scheme \<Rightarrow> string) \<Rightarrow>
    ('a multi_if_scheme \<Rightarrow> handle option) \<Rightarrow> ('a multi_if_scheme \<Rightarrow> string res) \<Rightarrow> ('a multi_if_scheme, unit) py" where
  "tell_mac m owner ifname peer ip =
     py_bind (py_attr owner) (\<lambda>h. py_bind (py_get ifname) (\<lambda>i.
     py_bind (node_mac m h i) (\<lambda>mac.
       tell m peer (\<lambda>s. rbind (ip s) (\<lambda>a. Inr (''arp -s '' @ a @ '' '' @ mac))))))"

definition configure_c2r_client :: "mininet \<Rightarrow> nat \<Rightarrow> ('a multi_if_scheme, unit) py" where
  "configure_c2r_client m i = block
     [tell m cfg_client (\<lambda>s. up_cmd (get_client_ip (param s) i) (get_client_interface 0 i)),
      tell_mac m cfg_client (\<lambda>s. get_client_interface 0 i) cfg_router (\<lambda>s. get_client_ip (param s) i)]"

definition configure_c2r_router :: "mininet \<Rightarrow> nat \<Rightarrow> ('a multi_if_scheme, unit) py" where
  "configure_c2r_router m i = block
     [tell m cfg_router (\<lambda>s. up_cmd (get_router_ip_to_client_switch (param s) i) (get_router_interface_to_client_switch i)),
      tell_mac m cfg_router (\<lambda>s. get_router_interface_to_client_switch i) cfg_client
        (\<lambda>s. get_router_ip_to_client_switch (param s) i)]"

text \<open>The body is the same with and without \<open>r2s\<close> links (then for index 0).\<close>

definition configure_r2s :: "mininet \<Rightarrow> nat \<Rightarrow> ('a multi_if_scheme, unit) py" where
  "configure_r2s m i = block
     [py_bind (py_get param) (\<lambda>p. stmt (py_lift (get_server_ip p i))),
      tell m cfg_router (\<lambda>s. Inr (''ip -4 addr flush dev '' @ get_router_interface_to_server_switch s i)),
      tell m cfg_server (\<lambda>s. Inr (''ip -4 addr flush dev '' @ get_server_interface 0 i)),
      tell m cfg_router (\<lambda>s. up_cmd (get_router_ip_to_server_switch (param s) i) (get_router_interface_to_server_switch s i)),
      tell_mac m cfg_router (\<lambda>s. get_router_interface_to_server_switch s i) cfg_server
        (\<lambda>s. get_router_ip_to_server_switch (param s) i),
      tell m cfg_server (\<lambda>s. up_cmd (get_server_ip (param s) i) (get_server_interface 0 i)),
      tell_mac m cfg_server (\<lambda>s. get_server_interface 0 i) cfg_router (\<lambda>s. get_server_ip (param s) i)]"

definition multi_if_configure_interfaces :: "mininet \<Rightarrow> ('a multi_if_scheme, unit) py" where
  "multi_if_configure_interfaces m = block
     [configure_bottlenecks m,
      py_bind (get_client 0) (\<lambda>h. py_modify (\<lambda>s. s\<lparr>cfg_client := Some h\<rparr>)),
      py_bind (get_server 0) (\<lambda>h. py_modify (\<lambda>s. s\<lparr>cfg_server := Some h\<rparr>)),
      py_bind (get_router 0) (\<lambda>h. py_modify (\<lambda>s. s\<lparr>cfg_router := Some h\<rparr>)),
      py_bind (py_get param) (\<lambda>p. stmt (py_lift (get_param p ''rightSubnet''))),
      py_bind (py_get topo_parameter) (\<lambda>p. stmt (py_lift (get_param p ''rightSubnet''))),
      py_bind (py_get param) (\<lambda>p. stmt (py_lift (get_param p ''leftSubnet''))),
      py_bind (py_get (\<lambda>s. length (c2r_links s))) (\<lambda>n. for_each [0..<n] (configure_c2r_client m)),
      py_bind (py_get (\<lambda>s. length (c2r_links s))) (\<lambda>n. for_each [0..<n] (configure_c2r_router m)),
      py_bind (py_get (\<lambda>s. length (r2s_links s))) (\<lambda>n.
        if n = 0 then configure_r2s m 0 else for_each [0..<n] (configure_r2s m)),
      tell m cfg_client (\<lambda>s. Inr ''ip -br -4 addr''),
      tell m cfg_router (\<lambda>s. Inr ''ip -br -4 addr''),
      tell m cfg_server (\<lambda>s. Inr ''ip -br -4 addr'')]"

definition client_routes :: "mininet \<Rightarrow> nat \<Rightarrow> ('a multi_if_scheme, unit) py" where
  "client_routes m i = block
     [tell m cfg_client (\<lambda>s. rbind (get_client_ip (param s) i) (\<lambda>a. Inr (add_table_route_command a i))),
      tell m cfg_client (\<lambda>s. rbind (get_client_subnet (param s) i)
        (\<lambda>a. Inr (add_link_scope_route_command a (get_client_interface 0 i) i))),
      tell m cfg_client (\<lambda>s. rbind (get_router_ip_to_client_switch (param s) i)
        (\<lambda>a. Inr (add_table_default_route_command a i)))]"

definition server_routes :: "mininet \<Rightarrow> nat \<Rightarrow> ('a multi_if_scheme, unit) py" where
  "server_routes m i = block
     [tell m cfg_server (\<lambda>s. rbind (get_server_ip (param s) i) (\<lambda>a. Inr (add_table_route_command a i))),
      tell m cfg_server (\<lambda>s. rbind (get_server_subnet (param s) i)
        (\<lambda>a. Inr (add_link_scope_route_command a (get_server_interface 0 i) i))),
      tell m cfg_server (\<lambda>s. rbind (get_router_ip_to_server_switch (param s) i)
        (\<lambda>a. Inr (add_table_default_route_command a i)))]"

definition route_snapshot :: string where
  "route_snapshot = ''ip rule; echo; ip route show table main; echo; '' @
     ''for i in $(seq 0 4); do ip route show table $i; done''"

definition multi_if_configure_routing :: "mininet \<Rightarrow> ('a multi_if_scheme, unit) py" where
  "multi_if_configure_routing m = block
     [py_bind (py_get (\<lambda>s. length (c2r_links s))) (\<lambda>n. for_each [0..<n] (client_routes m)),
      py_bind (py_get (\<lambda>s. length (r2s_links s))) (\<lambda>n. for_each [0..<n] (server_routes m)),
      tell m cfg_client (\<lambda>s. rbind (get_router_ip_to_client_switch (param s) 0)
        (\<lambda>a. Inr (add_global_default_route_command a (get_client_interface 0 0)))),
      tell m cfg_server (\<lambda>s. rbind (get_router_ip_to_server_switch (param s) 0)
        (\<lambda>a. Inr (add_simple_default_route_command a))),
      tell m cfg_client (\<lambda>s. Inr route_snapshot),
      tell m cfg_server (\<lambda>s. Inr route_snapshot)]"

end
