(* ===== verification/MultiIfGraph.thy ===== *)
theory MultiIfGraph
  imports MultiIf
begin

text \<open>
  What \<open>MultiInterfaceTopo.__init__\<close> builds: the graph handed to Mininet, the positions of
  the bottleneck links, and the order of the links at every node, on which the interface
  names used by the configuration depend.
\<close>

section \<open>The reference graph\<close>

definition bottleneck_of :: "link \<Rightarrow> bottleneck" where
  "bottleneck_of l = \<lparr>bl_link = l, bs0 = Name (get_bs_name l 0), bs1 = Name (get_bs_name l 1),
     bs2 = Name (get_bs_name l 2), bs3 = Name (get_bs_name l 3)\<rparr>"

definition switch_chain :: "link \<Rightarrow> graph_op list" where
  "switch_chain l =
     [AddSwitch (get_bs_name l 0), AddSwitch (get_bs_name l 1),
      AddSwitch (get_bs_name l 2), AddSwitch (get_bs_name l 3),
      AddLink (Name (get_bs_name l 0)) (Name (get_bs_name l 1)),
      AddLink (Name (get_bs_name l 1)) (Name (get_bs_name l 2)),
      AddLink (Name (get_bs_name l 2)) (Name (get_bs_name l 3))]"

definition path_graph :: "string \<Rightarrow> string \<Rightarrow> link \<Rightarrow> graph_op list" where
  "path_graph a b l = switch_chain l @
     [AddLink (Name a) (Name (get_bs_name l 0)), AddLink (Name (get_bs_name l 3)) (Name b)]"

abbreviation Client :: string where "Client \<equiv> get_client_name 0"
abbreviation Router :: string where "Router \<equiv> get_router_name 0"
abbreviation Server :: string where "Server \<equiv> get_server_name 0"

definition multi_if_graph :: "link list \<Rightarrow> link list \<Rightarrow> graph_op list" where
  "multi_if_graph cs rs =
     [AddHost Client, AddHost Server, AddHost Router] @
     concat (map (path_graph Client Router) cs) @
     (if rs = [] then [AddLink (Name Router) (Name Server)]
      else concat (map (path_graph Router Server) rs))"

text \<open>The state the constructor leaves, over the one it starts from.\<close>

definition multi_if_built :: "topo_param \<Rightarrow> bool \<Rightarrow> 'a multi_if_scheme \<Rightarrow> 'a multi_if_scheme" where
  "multi_if_built tp change s =
     (let cs = get_client_to_router_links tp; rs = get_router_to_server_links tp in
      s\<lparr>graph := graph s @ multi_if_graph cs rs, topo_parameter := tp, change_netem := change,
        log_lines := [], log_open := True, clients := [Name Client], routers := [Name Router],
        servers := [Name Server], bottleneck_links := map bottleneck_of (cs @ rs),
        mi_client := Name Client, mi_server := Name Server, mi_router := Name Router,
        c2r_links := [0..<length cs], r2s_links := [length cs..<length cs + length rs]\<rparr>)"

section \<open>The constructor\<close>

lemma added_name_ok: "mininet_ok m \<Longrightarrow> added_name m n = n"
  by (rule mininet_okD)

lemma add_bottleneck_link_ok:
  assumes "mininet_ok m"
  shows "add_bottleneck_link m (Name a) (Name b) (Some l) None s =
     (Inr (length (bottleneck_links s)),
      s\<lparr>graph := graph s @ path_graph a b l, bottleneck_links := bottleneck_links s @ [bottleneck_of l]\<rparr>)"
  by (simp add: add_bottleneck_link_def new_bottleneck_def builder_add_switch_def builder_add_link_def
      grow_def py_bind_apply added_name_ok [OF assms] bottleneck_of_def path_graph_def switch_chain_def
      nth_append)

lemma add_c2r_link_ok:
  assumes "mininet_ok m" "mi_client s = Name Client" "mi_router s = Name Router"
  shows "add_c2r_link m l s = (Inr (),
     s\<lparr>graph := graph s @ path_graph Client Router l, bottleneck_links := bottleneck_links s @ [bottleneck_of l],
       c2r_links := c2r_links s @ [length (bottleneck_links s)]\<rparr>)"
  by (simp add: add_c2r_link_def assms py_bind_ok [OF add_bottleneck_link_ok [OF assms(1)]])

lemma add_r2s_link_ok:
  assumes "mininet_ok m" "mi_router s = Name Router" "mi_server s = Name Server"
  shows "add_r2s_link m l s = (Inr (),
     s\<lparr>graph := graph s @ path_graph Router Server l, bottleneck_links := bottleneck_links s @ [bottleneck_of l],
       r2s_links := r2s_links s @ [length (bottleneck_links s)]\<rparr>)"
  by (simp add: add_r2s_link_def assms py_bind_ok [OF add_bottleneck_link_ok [OF assms(1)]])

lemma for_each_c2r:
  assumes "mininet_ok m" "mi_client s = Name Client" "mi_router s = Name Router"
  shows "for_each ls (add_c2r_link m) s = (Inr (),
     s\<lparr>graph := graph s @ concat (map (path_graph Client Router) ls),
       bottleneck_links := bottleneck_links s @ map bottleneck_of ls,
       c2r_links := c2r_links s @ [length (bottleneck_links s)..<length (bottleneck_links s) + length ls]\<rparr>)"
  using assms(2,3)
proof (induction ls arbitrary: s)
  case (Cons l ls)
  show ?case
    using Cons.prems
    by (simp add: py_bind_apply add_c2r_link_ok [OF assms(1) Cons.prems] Cons.IH upt_conv_Cons del: upt_Suc)
qed simp

lemma for_each_r2s:
  assumes "mininet_ok m" "mi_router s = Name Router" "mi_server s = Name Server"
  shows "for_each ls (add_r2s_link m) s = (Inr (),
     s\<lparr>graph := graph s @ concat (map (path_graph Router Server) ls),
       bottleneck_links := bottleneck_links s @ map bottleneck_of ls,
       r2s_links := r2s_links s @ [length (bottleneck_links s)..<length (bottleneck_links s) + length ls]\<rparr>)"
  using assms(2,3)
proof (induction ls arbitrary: s)
  case (Cons l ls)
  show ?case
    using Cons.prems
    by (simp add: py_bind_apply add_r2s_link_ok [OF assms(1) Cons.prems] Cons.IH upt_conv_Cons del: upt_Suc)
qed simp

lemma multi_if_init_ok:
  assumes "mininet_ok m" and "get_param tp CHANGE_NETEM = Inr (PStr v)"
  shows "multi_if_topo_init m tp s = (Inr (), multi_if_built tp (lower v = ''yes'') s)"
  by (simp add: multi_if_topo_init_def multi_if_built_def topo_init_def assms(2) py_bind_apply
      add_client_def add_server_def add_router_def builder_add_host_def grow_def added_name_ok [OF assms(1)]
      client_count_def server_count_def router_count_def for_each_c2r [OF assms(1)] for_each_r2s [OF assms(1)]
      builder_add_link_def multi_if_graph_def Let_def)

section \<open>Names\<close>

lemma host_names_distinct [simp]:
  "get_client_name i \<noteq> get_server_name j" "get_server_name j \<noteq> get_client_name i"
  "get_client_name i \<noteq> get_router_name j" "get_router_name j \<noteq> get_client_name i"
  "get_server_name i \<noteq> get_router_name j" "get_router_name j \<noteq> get_server_name i"
  by (simp_all add: get_client_name_def get_server_name_def get_router_name_def)

lemma host_names_inject [simp]:
  "get_client_name i = get_client_name j \<longleftrightarrow> i = j"
  "get_server_name i = get_server_name j \<longleftrightarrow> i = j"
  "get_router_name i = get_router_name j \<longleftrightarrow> i = j"
  by (simp_all add: get_client_name_def get_server_name_def get_router_name_def)

lemma bs_name_not_host [simp]:
  "get_bs_name l k \<noteq> get_client_name i" "get_client_name i \<noteq> get_bs_name l k"
  "get_bs_name l k \<noteq> get_server_name i" "get_server_name i \<noteq> get_bs_name l k"
  "get_bs_name l k \<noteq> get_router_name i" "get_router_name i \<noteq> get_bs_name l k"
  by (simp_all add: get_bs_name_def get_client_name_def get_server_name_def get_router_name_def)

text \<open>A link type that keeps the names of the switches apart.\<close>

definition plain_type :: "link \<Rightarrow> bool" where
  "plain_type l \<longleftrightarrow> CHR ''_'' \<notin> set (link_type l)"

definition link_key :: "link \<Rightarrow> string \<times> int" where
  "link_key l = (link_type l, link_id l)"

lemma split_bs_name:
  assumes "plain_type l"
  shows "split_on (CHR ''_'') (get_bs_name l k) = [''bs'', link_type l, show_int (link_id l), show_nat k]"
proof -
  have i: "CHR ''_'' \<notin> set (show_int n)" for n using show_int_not_in by blast
  have "CHR ''_'' \<notin> set (link_type l)" using assms by (simp add: plain_type_def)
  then show ?thesis
    using split_on_append_sep [of "CHR ''_''" "''bs''"] split_on_append_sep [OF i] split_on_no_occ [OF i]
    by (simp add: get_bs_name_def split_on_append_sep)
qed

lemma bs_name_inject:
  assumes "plain_type l" "plain_type l'"
  shows "get_bs_name l k = get_bs_name l' k' \<longleftrightarrow> link_key l = link_key l' \<and> k = k'"
proof
  assume "get_bs_name l k = get_bs_name l' k'"
  then have "split_on (CHR ''_'') (get_bs_name l k) = split_on (CHR ''_'') (get_bs_name l' k')" by simp
  then show "link_key l = link_key l' \<and> k = k'"
    unfolding split_bs_name [OF assms(1)] split_bs_name [OF assms(2)] by (simp add: link_key_def)
qed (simp add: get_bs_name_def link_key_def)

lemma bs_name_index: "plain_type l \<Longrightarrow> get_bs_name l k = get_bs_name l k' \<longleftrightarrow> k = k'"
  by (simp add: bs_name_inject)

section \<open>The links at a node, in order\<close>

definition ports :: "string \<Rightarrow> graph_op list \<Rightarrow> graph_op list" where
  "ports n g = filter (\<lambda>e. link_ends n e \<noteq> 0) g"

lemma ports_simps [simp]:
  "ports n [] = []"
  "ports n (g @ h) = ports n g @ ports n h"
  "ports n (AddHost c # g) = ports n g"
  "ports n (AddSwitch c # g) = ports n g"
  "ports n (AddLink a b # g) = (if a = Name n \<or> b = Name n then AddLink a b # ports n g else ports n g)"
  by (auto simp: ports_def)

lemma ports_concat: "ports n (concat gs) = concat (map (ports n) gs)"
  by (induction gs) simp_all

lemma degree_ports:
  "\<forall>e \<in> set g. link_ends n e \<le> 1 \<Longrightarrow> degree g n = length (ports n g)"
proof (induction g)
  case (Cons e g)
  then show ?case by (cases "link_ends n e") (auto simp: ports_def)
qed simp

lemma ports_path_host:
  "ports (get_client_name i) (path_graph a b l) =
     (if a = get_client_name i then [AddLink (Name a) (Name (get_bs_name l 0))] else []) @
     (if b = get_client_name i then [AddLink (Name (get_bs_name l 3)) (Name b)] else [])"
  "ports (get_server_name i) (path_graph a b l) =
     (if a = get_server_name i then [AddLink (Name a) (Name (get_bs_name l 0))] else []) @
     (if b = get_server_name i then [AddLink (Name (get_bs_name l 3)) (Name b)] else [])"
  "ports (get_router_name i) (path_graph a b l) =
     (if a = get_router_name i then [AddLink (Name a) (Name (get_bs_name l 0))] else []) @
     (if b = get_router_name i then [AddLink (Name (get_bs_name l 3)) (Name b)] else [])"
  by (simp_all add: path_graph_def switch_chain_def)

definition is_host_name :: "string \<Rightarrow> bool" where
  "is_host_name n \<longleftrightarrow> (\<exists>i. n = get_client_name i \<or> n = get_server_name i \<or> n = get_router_name i)"

lemma is_host_name_simps [simp]:
  "is_host_name (get_client_name i)" "is_host_name (get_server_name i)" "is_host_name (get_router_name i)"
  "\<not> is_host_name (get_bs_name l k)"
  by (auto simp: is_host_name_def)

lemma ports_path_switch:
  assumes "is_host_name a" "is_host_name b" "plain_type l" "plain_type l'"
  shows "ports (get_bs_name l (Suc 0)) (path_graph a b l') =
     (if link_key l' = link_key l
      then [AddLink (Name (get_bs_name l 0)) (Name (get_bs_name l (Suc 0))),
            AddLink (Name (get_bs_name l (Suc 0))) (Name (get_bs_name l 2))] else [])"
    and "ports (get_bs_name l 2) (path_graph a b l') =
     (if link_key l' = link_key l
      then [AddLink (Name (get_bs_name l (Suc 0))) (Name (get_bs_name l 2)),
            AddLink (Name (get_bs_name l 2)) (Name (get_bs_name l 3))] else [])"
proof -
  have ab: "a \<noteq> get_bs_name l k" "b \<noteq> get_bs_name l k" for k
    using assms(1,2) by (auto simp: is_host_name_def)
  have same: "get_bs_name l' k = get_bs_name l k" if "link_key l' = link_key l" for k
    using that by (simp add: get_bs_name_def link_key_def)
  show "ports (get_bs_name l (Suc 0)) (path_graph a b l') =
     (if link_key l' = link_key l
      then [AddLink (Name (get_bs_name l 0)) (Name (get_bs_name l (Suc 0))),
            AddLink (Name (get_bs_name l (Suc 0))) (Name (get_bs_name l 2))] else [])"
    using ab same by (simp add: path_graph_def switch_chain_def bs_name_inject assms(3,4))
  show "ports (get_bs_name l 2) (path_graph a b l') =
     (if link_key l' = link_key l
      then [AddLink (Name (get_bs_name l (Suc 0))) (Name (get_bs_name l 2)),
            AddLink (Name (get_bs_name l 2)) (Name (get_bs_name l 3))] else [])"
    using ab same by (simp add: path_graph_def switch_chain_def bs_name_inject assms(3,4))
qed

text \<open>The links a topology uses: of the two types, and distinct.\<close>

definition links_ok :: "link list \<Rightarrow> link list \<Rightarrow> bool" where
  "links_ok cs rs \<longleftrightarrow> (\<forall>l \<in> set (cs @ rs). plain_type l) \<and> distinct (map link_key (cs @ rs))"

lemma links_ok_filter:
  assumes "distinct (map link_key (link_characteristics tp))"
  shows "links_ok (get_client_to_router_links tp) (get_router_to_server_links tp)"
proof -
  have "distinct (map link_key (filter P (link_characteristics tp)))" for P
    using assms by (rule distinct_map_filter)
  then show ?thesis
    by (auto simp: links_ok_def get_client_to_router_links_def get_router_to_server_links_def
        plain_type_def link_key_def)
qed

lemma ports_switch_concat:
  assumes "is_host_name a" "is_host_name b" "plain_type l" "\<forall>l' \<in> set ls. plain_type l'"
    and "distinct (map link_key ls)"
  shows "ports (get_bs_name l (Suc 0)) (concat (map (path_graph a b) ls)) =
     (if link_key l \<in> link_key ` set ls
      then [AddLink (Name (get_bs_name l 0)) (Name (get_bs_name l (Suc 0))),
            AddLink (Name (get_bs_name l (Suc 0))) (Name (get_bs_name l 2))] else [])"
    and "ports (get_bs_name l 2) (concat (map (path_graph a b) ls)) =
     (if link_key l \<in> link_key ` set ls
      then [AddLink (Name (get_bs_name l (Suc 0))) (Name (get_bs_name l 2)),
            AddLink (Name (get_bs_name l 2)) (Name (get_bs_name l 3))] else [])"
  using assms(4,5) by (induction ls) (auto simp: ports_path_switch assms(1-3))

lemma ports_multi_if:
  "ports Client (multi_if_graph cs rs) = map (\<lambda>l. AddLink (Name Client) (Name (get_bs_name l 0))) cs"
  "ports Router (multi_if_graph cs rs) =
     map (\<lambda>l. AddLink (Name (get_bs_name l 3)) (Name Router)) cs @
     (if rs = [] then [AddLink (Name Router) (Name Server)]
      else map (\<lambda>l. AddLink (Name Router) (Name (get_bs_name l 0))) rs)"
  "ports Server (multi_if_graph cs rs) =
     (if rs = [] then [AddLink (Name Router) (Name Server)]
      else map (\<lambda>l. AddLink (Name (get_bs_name l 3)) (Name Server)) rs)"
  by (simp_all add: multi_if_graph_def ports_concat ports_path_host comp_def concat_map_singleton)

lemma ports_multi_if_switch:
  assumes "links_ok cs rs" "l \<in> set (cs @ rs)"
  shows "ports (get_bs_name l (Suc 0)) (multi_if_graph cs rs) =
      [AddLink (Name (get_bs_name l 0)) (Name (get_bs_name l (Suc 0))),
       AddLink (Name (get_bs_name l (Suc 0))) (Name (get_bs_name l 2))]"
    and "ports (get_bs_name l 2) (multi_if_graph cs rs) =
      [AddLink (Name (get_bs_name l (Suc 0))) (Name (get_bs_name l 2)),
       AddLink (Name (get_bs_name l 2)) (Name (get_bs_name l 3))]"
proof -
  have l: "plain_type l" and plain: "\<forall>l \<in> set cs. plain_type l" "\<forall>l \<in> set rs. plain_type l"
    and dist: "distinct (map link_key cs)" "distinct (map link_key rs)"
    and excl: "(link_key l \<in> link_key ` set cs) \<noteq> (link_key l \<in> link_key ` set rs)"
    using assms by (auto simp: links_ok_def)
  note conc = ports_switch_concat [OF _ _ l plain(1) dist(1)] ports_switch_concat [OF _ _ l plain(2) dist(2)]
  show "ports (get_bs_name l (Suc 0)) (multi_if_graph cs rs) =
      [AddLink (Name (get_bs_name l 0)) (Name (get_bs_name l (Suc 0))),
       AddLink (Name (get_bs_name l (Suc 0))) (Name (get_bs_name l 2))]"
    using excl by (auto simp: multi_if_graph_def conc)
  show "ports (get_bs_name l 2) (multi_if_graph cs rs) =
      [AddLink (Name (get_bs_name l (Suc 0))) (Name (get_bs_name l 2)),
       AddLink (Name (get_bs_name l 2)) (Name (get_bs_name l 3))]"
    using excl by (auto simp: multi_if_graph_def conc)
qed

end
