(* ===== verification/MultiIfNet.thy ===== *)
theory MultiIfNet
  imports MultiIfGraph
begin

text \<open>
  The running network: node handles after \<open>reinit_variables\<close>, and the exact commands of the
  configuration of \<open>MultiInterfaceConfig\<close>, compared with reference lists.
\<close>

section \<open>Handles of a running network\<close>

definition node_bottleneck :: "link \<Rightarrow> bottleneck" where
  "node_bottleneck l = \<lparr>bl_link = l, bs0 = Node (get_bs_name l 0), bs1 = Node (get_bs_name l 1),
     bs2 = Node (get_bs_name l 2), bs3 = Node (get_bs_name l 3)\<rparr>"

definition reinit_of :: "'a topo_scheme \<Rightarrow> 'a topo_scheme" where
  "reinit_of s = s\<lparr>
     clients := map (\<lambda>i. Node (get_client_name i)) [0..<length (clients s)],
     routers := map (\<lambda>i. Node (get_router_name i)) [0..<length (routers s)],
     servers := map (\<lambda>i. Node (get_server_name i)) [0..<length (servers s)],
     bottleneck_links := map (\<lambda>b. node_bottleneck (bl_link b)) (bottleneck_links s)\<rparr>"

text \<open>All the names the topology asks for are nodes of the network.\<close>

definition names_known :: "graph_op list \<Rightarrow> 'a topo_scheme \<Rightarrow> bool" where
  "names_known g s \<longleftrightarrow>
     (\<forall>i < length (clients s). get_client_name i \<in> set (graph_names g)) \<and>
     (\<forall>i < length (routers s). get_router_name i \<in> set (graph_names g)) \<and>
     (\<forall>i < length (servers s). get_server_name i \<in> set (graph_names g)) \<and>
     (\<forall>b \<in> set (bottleneck_links s). \<forall>i < 4. get_bs_name (bl_link b) i \<in> set (graph_names g))"

lemma get_host_ok:
  assumes "mininet_ok m" "net s = Some g" "n \<in> set (graph_names g)"
  shows "builder_get_host m n s = (Inr (Node n), s)"
  using assms(2) mininet_okD(2) [OF assms(1,3)] by (simp add: builder_get_host_def)

lemma collect_ok:
  "\<forall>x \<in> set xs. f x s = (Inr (g x), s) \<Longrightarrow> py_collect xs f s = (Inr (map g xs), s)"
  by (induction xs) (simp_all add: py_bind_apply)

lemma node_bottleneck_updates:
  "b\<lparr>bs0 := Node (get_bs_name (bl_link b) 0), bs1 := Node (get_bs_name (bl_link b) (Suc 0)),
     bs2 := Node (get_bs_name (bl_link b) 2), bs3 := Node (get_bs_name (bl_link b) 3)\<rparr> =
   node_bottleneck (bl_link b)"
  by (cases b) (simp add: node_bottleneck_def)

lemma reinit_bottleneck_ok:
  assumes m: "mininet_ok m" and s: "net s = Some g" "k < length (bottleneck_links s)"
    and names: "\<forall>i < 4. get_bs_name (bl_link (bottleneck_links s ! k)) i \<in> set (graph_names g)"
  shows "reinit_bottleneck m k s = (Inr (),
     s\<lparr>bottleneck_links := (bottleneck_links s)[k := node_bottleneck (bl_link (bottleneck_links s ! k))]\<rparr>)"
proof -
  have host: "builder_get_host m (get_bs_name (bl_link (bottleneck_links s ! k)) i) t =
      (Inr (Node (get_bs_name (bl_link (bottleneck_links s ! k)) i)), t)" if "i < 4" "net t = Some g" for i t
    using names that by (blast intro: get_host_ok [OF m])
  show ?thesis
    using s by (simp add: reinit_bottleneck_def py_bind_apply host set_bottleneck_def node_bottleneck_updates)
qed

lemma reinit_bottlenecks_ok:
  assumes m: "mininet_ok m" and s: "net s = Some g"
    and names: "\<forall>b \<in> set (bottleneck_links s). \<forall>i < 4. get_bs_name (bl_link b) i \<in> set (graph_names g)"
    and k: "k \<le> length (bottleneck_links s)"
  shows "for_each [0..<k] (reinit_bottleneck m) s = (Inr (),
     s\<lparr>bottleneck_links := map (\<lambda>b. node_bottleneck (bl_link b)) (take k (bottleneck_links s)) @
        drop k (bottleneck_links s)\<rparr>)"
  using k
proof (induction k)
  case (Suc k)
  let ?t = "s\<lparr>bottleneck_links := map (\<lambda>b. node_bottleneck (bl_link b)) (take k (bottleneck_links s)) @
      drop k (bottleneck_links s)\<rparr>"
  have k: "k < length (bottleneck_links s)" using Suc.prems by simp
  then have nth: "bottleneck_links ?t ! k = bottleneck_links s ! k" by (simp add: nth_append)
  have "reinit_bottleneck m k ?t = (Inr (), ?t\<lparr>bottleneck_links :=
      (bottleneck_links ?t)[k := node_bottleneck (bl_link (bottleneck_links ?t ! k))]\<rparr>)"
  proof (rule reinit_bottleneck_ok [OF m])
    show "\<forall>i < 4. get_bs_name (bl_link (bottleneck_links ?t ! k)) i \<in> set (graph_names g)"
      unfolding nth using names nth_mem [OF k] by blast
  qed (use s k in simp_all)
  moreover have "(bottleneck_links ?t)[k := node_bottleneck (bl_link (bottleneck_links s ! k))] =
      map (\<lambda>b. node_bottleneck (bl_link b)) (take (Suc k) (bottleneck_links s)) @ drop (Suc k) (bottleneck_links s)"
    using k by (intro nth_equalityI) (auto simp: nth_append nth_list_update less_Suc_eq min_def)
  ultimately show ?case
    using Suc.IH k unfolding nth by (simp add: for_each_append py_bind_apply)
qed simp

lemma topo_reinit_ok:
  assumes m: "mininet_ok m" and s: "net s = Some g" and names: "names_known g s"
  shows "topo_reinit_variables m s = (Inr (), reinit_of s)"
proof -
  have host: "py_collect [0..<k] (\<lambda>i. builder_get_host m (f i)) t = (Inr (map (\<lambda>i. Node (f i)) [0..<k]), t)"
    if "net t = Some g" "\<forall>i<k. f i \<in> set (graph_names g)" for f k and t :: "'a topo_scheme"
    using that by (intro collect_ok) (auto intro: get_host_ok [OF m])
  have bls: "for_each [0..<length (bottleneck_links s)] (reinit_bottleneck m) t =
      (Inr (), t\<lparr>bottleneck_links := map (\<lambda>b. node_bottleneck (bl_link b)) (bottleneck_links t)\<rparr>)"
    if "net t = Some g" "bottleneck_links t = bottleneck_links s" for t :: "'a topo_scheme"
    using that names reinit_bottlenecks_ok [OF m that(1), of "length (bottleneck_links t)"]
    by (simp add: names_known_def)
  from names show ?thesis
    by (simp add: topo_reinit_variables_def py_bind_apply host s client_count_def router_count_def
        server_count_def bottleneck_link_count_def bls reinit_of_def names_known_def)
qed

section \<open>Disabling the offloads\<close>

definition tso_events :: "mininet \<Rightarrow> graph_op list \<Rightarrow> event list" where
  "tso_events m g = concat (map (\<lambda>n. map (\<lambda>i. NodeCmd n (tso_cmd i)) (interfaces m g n)) (graph_names g))"

lemma does_disable_tso:
  assumes m: "mininet_ok m"
  shows "does m (\<lambda>s. net s = Some g) (tso_events m g) (disable_tso m)"
proof -
  let ?P = "\<lambda>s. net s = Some g"
  have names: "net_names m s = (Inr (graph_names g), s)" if "?P s" for s :: "'a topo_scheme"
    using that by (simp add: net_names_def mininet_okD(3) [OF m])
  have nodes: "py_collect (graph_names g) (builder_get_host m) s = (Inr (map Node (graph_names g)), s)"
    if "?P s" for s :: "'a topo_scheme"
    using that by (intro collect_ok) (auto intro: get_host_ok [OF m])
  have node: "does m ?P (map (\<lambda>i. NodeCmd n (tso_cmd i)) (interfaces m g n))
      (py_bind (builder_get_interface_names m (Node n)) (\<lambda>ifs. for_each ifs (\<lambda>i. run_on m (Node n) (tso_cmd i))))" for n
    by (rule does_bind_value [OF get_interface_names_Node], assumption,
        rule does_cong [OF does_for_each [OF stable_net does_command [OF m]]]) (simp add: concat_map_singleton)
  have main: "does m ?P (tso_events m g) (for_each (map Node (graph_names g)) (\<lambda>node.
      py_bind (builder_get_interface_names m node) (\<lambda>ifs. for_each ifs (\<lambda>i. run_on m node (tso_cmd i)))))"
    unfolding tso_events_def for_each_map by (rule does_for_each [OF stable_net]) (rule node)
  show ?thesis
    unfolding disable_tso_def
    by (rule does_bind_value [OF names], assumption, rule does_bind_value [OF nodes], assumption, rule main)
qed

section \<open>The commands of the configuration\<close>

text \<open>
  What the configuration knows while it runs: the network \<open>g\<close>, the two subnet prefixes, and
  the numbers of links on both sides.
\<close>

definition mac_of :: "mininet \<Rightarrow> graph_op list \<Rightarrow> string \<Rightarrow> string \<Rightarrow> string" where
  "mac_of m g n i = (case intf_mac m g n i of Inr a \<Rightarrow> a | Inl _ \<Rightarrow> [])"

definition ip_text :: "string \<Rightarrow> nat \<Rightarrow> string \<Rightarrow> string" where
  "ip_text subnet i suffix = subnet @ show_nat i @ suffix"

definition up_event :: "string \<Rightarrow> nat \<Rightarrow> string \<Rightarrow> event" where
  "up_event n k ip = NodeCmd n (interface_up_command (port_name n k) ip netmask)"

text \<open>Peer \<open>p\<close> learns the MAC address of port \<open>k\<close> of \<open>n\<close>.\<close>

definition arp_event :: "mininet \<Rightarrow> graph_op list \<Rightarrow> string \<Rightarrow> string \<Rightarrow> nat \<Rightarrow> string \<Rightarrow> event" where
  "arp_event m g p n k ip = NodeCmd p (arp_command ip (mac_of m g n (port_name n k)))"

definition flush_event :: "string \<Rightarrow> nat \<Rightarrow> event" where
  "flush_event n k = NodeCmd n (''ip -4 addr flush dev '' @ port_name n k)"

definition c2r_client_events :: "mininet \<Rightarrow> graph_op list \<Rightarrow> string \<Rightarrow> nat \<Rightarrow> event list" where
  "c2r_client_events m g left i =
     [up_event Client i (ip_text left i ''.1''), arp_event m g Router Client i (ip_text left i ''.1'')]"

definition c2r_router_events :: "mininet \<Rightarrow> graph_op list \<Rightarrow> string \<Rightarrow> nat \<Rightarrow> event list" where
  "c2r_router_events m g left i =
     [up_event Router i (ip_text left i ''.2''), arp_event m g Client Router i (ip_text left i ''.2'')]"

definition r2s_events :: "mininet \<Rightarrow> graph_op list \<Rightarrow> string \<Rightarrow> nat \<Rightarrow> nat \<Rightarrow> event list" where
  "r2s_events m g right nc i =
     [flush_event Router (nc + i), flush_event Server i,
      up_event Router (nc + i) (ip_text right i ''.2''),
      arp_event m g Server Router (nc + i) (ip_text right i ''.2''),
      up_event Server i (ip_text right i ''.1''),
      arp_event m g Router Server i (ip_text right i ''.1'')]"

definition interface_events :: "mininet \<Rightarrow> graph_op list \<Rightarrow> string \<Rightarrow> string \<Rightarrow> nat \<Rightarrow> nat \<Rightarrow> event list" where
  "interface_events m g left right nc nr =
     concat (map (c2r_client_events m g left) [0..<nc]) @
     concat (map (c2r_router_events m g left) [0..<nc]) @
     concat (map (r2s_events m g right nc) [0..<max nr 1]) @
     map (\<lambda>n. NodeCmd n ''ip -br -4 addr'') [Client, Router, Server]"

definition table_events :: "string \<Rightarrow> string \<Rightarrow> nat \<Rightarrow> event list" where
  "table_events n subnet i =
     [NodeCmd n (''ip rule add from '' @ ip_text subnet i ''.1'' @ '' table '' @ show_nat (i + 1)),
      NodeCmd n (''ip route add '' @ ip_text subnet i ''.0/24'' @ '' dev '' @ port_name n i @
        '' scope link table '' @ show_nat (i + 1)),
      NodeCmd n (''ip route add default via '' @ ip_text subnet i ''.2'' @ '' table '' @ show_nat (i + 1))]"

definition routing_events :: "string \<Rightarrow> string \<Rightarrow> nat \<Rightarrow> nat \<Rightarrow> event list" where
  "routing_events left right nc nr =
     concat (map (table_events Client left) [0..<nc]) @
     concat (map (table_events Server right) [0..<nr]) @
     [NodeCmd Client (''ip route add default scope global nexthop via '' @ ip_text left 0 ''.2'' @ '' dev '' @ port_name Client 0),
      NodeCmd Server (''ip route add default via '' @ ip_text right 0 ''.2''),
      NodeCmd Client route_snapshot, NodeCmd Server route_snapshot]"

text \<open>The facts about the state that these commands depend on.\<close>

record plan =
  pl_graph :: "graph_op list"
  pl_left :: string
  pl_right :: string
  pl_nc :: nat
  pl_nr :: nat

definition has_subnets :: "string \<Rightarrow> string \<Rightarrow> topo_param \<Rightarrow> bool" where
  "has_subnets left right p \<longleftrightarrow>
     (\<exists>v w. get_param p ''leftSubnet'' = Inr v \<and> str_pval v = left \<and>
            get_param p ''rightSubnet'' = Inr w \<and> str_pval w = right)"

definition configured :: "plan \<Rightarrow> 'a multi_if_scheme \<Rightarrow> bool" where
  "configured pl s \<longleftrightarrow>
     net s = Some (pl_graph pl) \<and> has_subnets (pl_left pl) (pl_right pl) (param s) \<and>
     length (c2r_links s) = pl_nc pl \<and> length (r2s_links s) = pl_nr pl \<and>
     cfg_client s = Some (Node Client) \<and> cfg_router s = Some (Node Router) \<and>
     cfg_server s = Some (Node Server)"

text \<open>The nodes have the ports the configuration names.\<close>

definition ports_exist :: "plan \<Rightarrow> bool" where
  "ports_exist pl \<longleftrightarrow>
     {Client, Router, Server} \<subseteq> set (host_names (pl_graph pl)) \<and>
     pl_nc pl \<le> degree (pl_graph pl) Client \<and>
     pl_nc pl + max (pl_nr pl) 1 \<le> degree (pl_graph pl) Router \<and>
     max (pl_nr pl) 1 \<le> degree (pl_graph pl) Server"

lemma ran_multi_if [simp]:
  "mi_client (ran m es s) = mi_client s" "mi_server (ran m es s) = mi_server s"
  "mi_router (ran m es s) = mi_router s" "c2r_links (ran m es s) = c2r_links s"
  "r2s_links (ran m es s) = r2s_links s" "cfg_client (ran m es s) = cfg_client s"
  "cfg_server (ran m es s) = cfg_server s" "cfg_router (ran m es s) = cfg_router s"
  "cfg_clients (ran m es s) = cfg_clients s" "cfg_servers (ran m es s) = cfg_servers s"
  by (simp_all add: ran_def)

lemma stable_configured: "stable m (configured pl)"
  by (simp add: stable_def configured_def)

lemma interface_names [simp]:
  "get_client_interface c i = port_name (get_client_name c) i"
  "get_router_interface_to_client_switch i = port_name Router i"
  "get_server_interface c i = port_name (get_server_name c) i"
  by (simp_all add: get_client_interface_def get_router_interface_to_client_switch_def
      get_server_interface_def port_name_def)

lemma address_texts:
  assumes "has_subnets left right p"
  shows "get_client_ip p i = Inr (ip_text left i ''.1'')"
    "get_client_subnet p i = Inr (ip_text left i ''.0/24'')"
    "get_router_ip_to_client_switch p i = Inr (ip_text left i ''.2'')"
    "get_router_ip_to_server_switch p i = Inr (ip_text right i ''.2'')"
    "get_server_ip p i = Inr (ip_text right i ''.1'')"
    "get_server_subnet p i = Inr (ip_text right i ''.0/24'')"
  using assms
  by (auto simp: has_subnets_def get_client_ip_def get_client_subnet_def get_router_ip_to_client_switch_def
      get_router_ip_to_server_switch_def get_server_ip_def get_server_subnet_def subnet_text_def ip_text_def)

lemma does_tell:
  assumes "mininet_ok m" "\<And>s. configured pl s \<Longrightarrow> who s = Some (Node n)"
    and "\<And>s. configured pl s \<Longrightarrow> cmd s = Inr c"
  shows "does m (configured pl) [NodeCmd n c] (tell m who cmd)"
  unfolding tell_def
  by (rule does_bind_get [OF assms(3)], assumption, rule does_bind_lift [OF refl], unfold py_attr_def,
      rule does_bind_value [where x = "Node n"]) (simp add: assms(2), rule does_command [OF assms(1)])

lemma does_tell_mac:
  assumes m: "mininet_ok m" and owner: "\<And>s. configured pl s \<Longrightarrow> owner s = Some (Node n)"
    and peer: "\<And>s. configured pl s \<Longrightarrow> peer s = Some (Node p)"
    and i: "\<And>s. configured pl s \<Longrightarrow> ifname s = port_name n k"
    and ip: "\<And>s. configured pl s \<Longrightarrow> ip s = Inr a"
    and port: "n \<in> set (host_names (pl_graph pl))" "k < degree (pl_graph pl) n"
  shows "does m (configured pl) [arp_event m (pl_graph pl) p n k a] (tell_mac m owner ifname peer ip)"
proof -
  obtain mac where mac: "intf_mac m (pl_graph pl) n (port_name n k) = Inr mac"
    using mininet_ok_mac [OF m port] by blast
  have "does m (configured pl) [arp_event m (pl_graph pl) p n k a]
      (tell m peer (\<lambda>s. rbind (ip s) (\<lambda>a. Inr (''arp -s '' @ a @ '' '' @ mac))))"
    unfolding arp_event_def by (rule does_tell [OF m peer]) (simp_all add: ip arp_command_def mac_of_def mac)
  moreover have "node_mac m (Node n) (port_name n k) s = (Inr mac, s)" if "configured pl s" for s :: "'a multi_if_scheme"
    using that by (simp add: node_mac_def net_graph_def configured_def mac)
  ultimately show ?thesis
    unfolding tell_mac_def py_attr_def
    by (intro does_bind_value [where x = "Node n"] does_bind_get [OF i] does_bind_value [where x = mac])
      (simp_all add: owner)
qed

lemma configured_who:
  "configured pl s \<Longrightarrow> cfg_client s = Some (Node Client)"
  "configured pl s \<Longrightarrow> cfg_router s = Some (Node Router)"
  "configured pl s \<Longrightarrow> cfg_server s = Some (Node Server)"
  by (simp_all add: configured_def)

lemma configured_ip:
  assumes "configured pl s"
  shows "get_client_ip (param s) i = Inr (ip_text (pl_left pl) i ''.1'')"
    "get_client_subnet (param s) i = Inr (ip_text (pl_left pl) i ''.0/24'')"
    "get_router_ip_to_client_switch (param s) i = Inr (ip_text (pl_left pl) i ''.2'')"
    "get_router_ip_to_server_switch (param s) i = Inr (ip_text (pl_right pl) i ''.2'')"
    "get_server_ip (param s) i = Inr (ip_text (pl_right pl) i ''.1'')"
    "get_server_subnet (param s) i = Inr (ip_text (pl_right pl) i ''.0/24'')"
    "get_router_interface_to_server_switch s i = port_name Router (pl_nc pl + i)"
  using assms by (auto simp: configured_def address_texts get_router_interface_to_server_switch_def)

lemmas configured_facts = configured_who configured_ip

lemma does_up:
  assumes "mininet_ok m" "\<And>s. configured pl s \<Longrightarrow> who s = Some (Node n)"
    and "\<And>s. configured pl s \<Longrightarrow> ip s = Inr a" and "\<And>s. configured pl s \<Longrightarrow> ifname s = port_name n k"
  shows "does m (configured pl) [up_event n k a] (tell m who (\<lambda>s. up_cmd (ip s) (ifname s)))"
  unfolding up_event_def by (rule does_tell [OF assms(1,2)]) (simp_all add: up_cmd_def assms(3,4))

lemma does_route:
  assumes "mininet_ok m" "\<And>s. configured pl s \<Longrightarrow> who s = Some (Node n)"
    and "\<And>s. configured pl s \<Longrightarrow> ip s = Inr a"
  shows "does m (configured pl) [NodeCmd n (c a)] (tell m who (\<lambda>s. rbind (ip s) (\<lambda>a. Inr (c a))))"
  by (rule does_tell [OF assms(1,2)]) (simp_all add: assms(3))

text \<open>A block whose commands are scripts, with the list of its events cut up.\<close>

lemmas does_configured = does_block_Cons [OF stable_configured] does_block_Nil does_up does_tell_mac does_route

lemma does_c2r_client:
  assumes "mininet_ok m" "ports_exist pl" "i < pl_nc pl"
  shows "does m (configured pl) (c2r_client_events m (pl_graph pl) (pl_left pl) i) (configure_c2r_client m i)"
proof -
  have "does m (configured pl)
      ([up_event Client i (ip_text (pl_left pl) i ''.1'')] @
       [arp_event m (pl_graph pl) Router Client i (ip_text (pl_left pl) i ''.1'')] @ []) (configure_c2r_client m i)"
    unfolding configure_c2r_client_def
    by (intro does_configured assms(1))
       (use assms in \<open>auto simp: configured_facts ports_exist_def\<close>)
  then show ?thesis by (simp add: c2r_client_events_def)
qed

lemma does_c2r_router:
  assumes "mininet_ok m" "ports_exist pl" "i < pl_nc pl"
  shows "does m (configured pl) (c2r_router_events m (pl_graph pl) (pl_left pl) i) (configure_c2r_router m i)"
proof -
  have "does m (configured pl)
      ([up_event Router i (ip_text (pl_left pl) i ''.2'')] @
       [arp_event m (pl_graph pl) Client Router i (ip_text (pl_left pl) i ''.2'')] @ []) (configure_c2r_router m i)"
    unfolding configure_c2r_router_def
    by (intro does_configured assms(1))
       (use assms in \<open>auto simp: configured_facts ports_exist_def\<close>)
  then show ?thesis by (simp add: c2r_router_events_def)
qed

lemma does_r2s:
  assumes "mininet_ok m" "ports_exist pl" "i < max (pl_nr pl) 1"
  shows "does m (configured pl) (r2s_events m (pl_graph pl) (pl_right pl) (pl_nc pl) i) (configure_r2s m i)"
proof -
  have first: "does m (configured pl) [] (py_bind (py_get param) (\<lambda>p. stmt (py_lift (get_server_ip p i))))"
    by (rule does_noop) (simp add: configured_facts stmt_apply)
  have flush: "does m (configured pl) [flush_event Router (pl_nc pl + i)]
      (tell m cfg_router (\<lambda>s. Inr (''ip -4 addr flush dev '' @ get_router_interface_to_server_switch s i)))"
    "does m (configured pl) [flush_event Server i]
      (tell m cfg_server (\<lambda>s. Inr (''ip -4 addr flush dev '' @ get_server_interface 0 i)))"
    unfolding flush_event_def by (rule does_tell [OF assms(1)]; simp add: configured_facts)+
  have "does m (configured pl)
      ([] @ [flush_event Router (pl_nc pl + i)] @ [flush_event Server i] @
       [up_event Router (pl_nc pl + i) (ip_text (pl_right pl) i ''.2'')] @
       [arp_event m (pl_graph pl) Server Router (pl_nc pl + i) (ip_text (pl_right pl) i ''.2'')] @
       [up_event Server i (ip_text (pl_right pl) i ''.1'')] @
       [arp_event m (pl_graph pl) Router Server i (ip_text (pl_right pl) i ''.1'')] @ []) (configure_r2s m i)"
    unfolding configure_r2s_def
    by (intro does_configured first flush assms(1))
       (use assms in \<open>auto simp: configured_facts ports_exist_def\<close>)
  then show ?thesis by (simp add: r2s_events_def)
qed

lemma does_client_routes:
  assumes "mininet_ok m"
  shows "does m (configured pl) (table_events Client (pl_left pl) i) (client_routes m i)"
  unfolding client_routes_def
  by (rule does_cong, (rule does_configured assms; (simp only: configured_facts)?)+)
     (simp add: table_events_def add_table_route_command_def add_link_scope_route_command_def
        add_table_default_route_command_def)

lemma does_server_routes:
  assumes "mininet_ok m"
  shows "does m (configured pl) (table_events Server (pl_right pl) i) (server_routes m i)"
  unfolding server_routes_def
  by (rule does_cong, (rule does_configured assms; (simp only: configured_facts)?)+)
     (simp add: table_events_def add_table_route_command_def add_link_scope_route_command_def
        add_table_default_route_command_def)

section \<open>The two configuration methods\<close>

lemma does_loop:
  assumes "\<And>s. configured pl s \<Longrightarrow> f s = n" and "\<And>i. i < n \<Longrightarrow> does m (configured pl) (g i) (h i)"
  shows "does m (configured pl) (concat (map g [0..<n])) (py_bind (py_get f) (\<lambda>n. for_each [0..<n] h))"
  by (rule does_bind_get [OF assms(1)], assumption, rule does_for_each [OF stable_configured]) (simp add: assms(2))

lemma configured_counts:
  "configured pl s \<Longrightarrow> length (c2r_links s) = pl_nc pl"
  "configured pl s \<Longrightarrow> length (r2s_links s) = pl_nr pl"
  by (simp_all add: configured_def)

lemma does_r2s_loop:
  assumes "mininet_ok m" "ports_exist pl"
  shows "does m (configured pl) (concat (map (r2s_events m (pl_graph pl) (pl_right pl) (pl_nc pl)) [0..<max (pl_nr pl) 1]))
     (py_bind (py_get (\<lambda>s. length (r2s_links s))) (\<lambda>n.
        if n = 0 then configure_r2s m 0 else for_each [0..<n] (configure_r2s m)))"
proof (rule does_bind_get [OF configured_counts(2)], assumption)
  show "does m (configured pl) (concat (map (r2s_events m (pl_graph pl) (pl_right pl) (pl_nc pl)) [0..<max (pl_nr pl) 1]))
      (if pl_nr pl = 0 then configure_r2s m 0 else for_each [0..<pl_nr pl] (configure_r2s m))"
  proof (cases "pl_nr pl = 0")
    case True
    then show ?thesis using does_r2s [OF assms, of 0] by simp
  next
    case False
    then have n: "max (pl_nr pl) 1 = pl_nr pl" by simp
    have "does m (configured pl) (concat (map (r2s_events m (pl_graph pl) (pl_right pl) (pl_nc pl)) [0..<pl_nr pl]))
        (for_each [0..<pl_nr pl] (configure_r2s m))"
      by (rule does_for_each [OF stable_configured]) (simp add: does_r2s [OF assms])
    then show ?thesis using False by (simp only: n if_False)
  qed
qed

lemma does_routing:
  assumes "mininet_ok m"
  shows "does m (configured pl) (routing_events (pl_left pl) (pl_right pl) (pl_nc pl) (pl_nr pl)) (multi_if_configure_routing m)"
proof -
  have tell: "does m (configured pl) [NodeCmd Client c] (tell m cfg_client (\<lambda>s. Inr c))"
    "does m (configured pl) [NodeCmd Server c] (tell m cfg_server (\<lambda>s. Inr c))" for c
    by (rule does_tell [OF assms]; simp add: configured_facts)+
  have "does m (configured pl)
     (concat (map (table_events Client (pl_left pl)) [0..<pl_nc pl]) @
      concat (map (table_events Server (pl_right pl)) [0..<pl_nr pl]) @
      [NodeCmd Client (add_global_default_route_command (ip_text (pl_left pl) 0 ''.2'') (get_client_interface 0 0))] @
      [NodeCmd Server (add_simple_default_route_command (ip_text (pl_right pl) 0 ''.2''))] @
      [NodeCmd Client route_snapshot] @ [NodeCmd Server route_snapshot] @ []) (multi_if_configure_routing m)"
    unfolding multi_if_configure_routing_def
    by (intro does_configured does_loop tell assms configured_counts)
       (simp_all add: does_client_routes does_server_routes assms configured_facts)
  then show ?thesis
    by (simp add: routing_events_def add_global_default_route_command_def add_simple_default_route_command_def)
qed

text \<open>The second half of \<open>configure_interfaces\<close>, once the node attributes are set.\<close>

lemma does_interfaces_tail:
  assumes "mininet_ok m" "ports_exist pl"
  shows "does m (configured pl)
     (interface_events m (pl_graph pl) (pl_left pl) (pl_right pl) (pl_nc pl) (pl_nr pl))
     (block
       [py_bind (py_get (\<lambda>s. length (c2r_links s))) (\<lambda>n. for_each [0..<n] (configure_c2r_client m)),
        py_bind (py_get (\<lambda>s. length (c2r_links s))) (\<lambda>n. for_each [0..<n] (configure_c2r_router m)),
        py_bind (py_get (\<lambda>s. length (r2s_links s))) (\<lambda>n.
          if n = 0 then configure_r2s m 0 else for_each [0..<n] (configure_r2s m)),
        tell m cfg_client (\<lambda>s. Inr ''ip -br -4 addr''),
        tell m cfg_router (\<lambda>s. Inr ''ip -br -4 addr''),
        tell m cfg_server (\<lambda>s. Inr ''ip -br -4 addr'')])"
proof -
  let ?addr = "''ip -br -4 addr''"
  have tell: "does m (configured pl) [NodeCmd Client ?addr] (tell m cfg_client (\<lambda>s. Inr ?addr))"
    "does m (configured pl) [NodeCmd Router ?addr] (tell m cfg_router (\<lambda>s. Inr ?addr))"
    "does m (configured pl) [NodeCmd Server ?addr] (tell m cfg_server (\<lambda>s. Inr ?addr))"
    by (rule does_tell [OF assms(1)]; simp add: configured_facts)+
  note loops = does_loop [OF configured_counts(1) does_c2r_client [OF assms]]
    does_loop [OF configured_counts(1) does_c2r_router [OF assms]] does_r2s_loop [OF assms]
  show ?thesis
    by (rule does_cong, (rule does_block_Cons [OF stable_configured] does_block_Nil loops tell; assumption?)+)
       (simp add: interface_events_def)
qed

definition bottleneck_events :: "mininet \<Rightarrow> graph_op list \<Rightarrow> link \<Rightarrow> event list" where
  "bottleneck_events m g l =
     bottleneck_cmds l (get_bs_name l 1) (get_bs_name l 2) (interfaces m g (get_bs_name l 1))
       (interfaces m g (get_bs_name l 2)) (case buffer_size l of Inr b \<Rightarrow> b | Inl _ \<Rightarrow> NaN)"

lemma does_configure_bottlenecks:
  assumes m: "mininet_ok m" and ls: "\<forall>l \<in> set ls. (\<exists>b. buffer_size l = Inr b) \<and>
      interfaces m g (get_bs_name l 1) \<noteq> [] \<and> interfaces m g (get_bs_name l 2) \<noteq> []"
  shows "does m (\<lambda>s. net s = Some g \<and> bottleneck_links s = map node_bottleneck ls)
     (concat (map (bottleneck_events m g) ls)) (configure_bottlenecks m)"
proof -
  let ?P = "\<lambda>s. net s = Some g \<and> bottleneck_links s = map node_bottleneck ls"
  have each: "does m ?P (bottleneck_events m g l) (configure_bottleneck m (node_bottleneck l))" if "l \<in> set ls" for l
  proof -
    obtain b where "buffer_size l = Inr b" using ls \<open>l \<in> set ls\<close> by blast
    then show ?thesis
      using does_configure_bottleneck [OF m, of "node_bottleneck l" "get_bs_name l 1" "get_bs_name l 2" g b] ls that
      by (auto simp: node_bottleneck_def bottleneck_events_def intro: does_weaken)
  qed
  have "stable m ?P" by (simp add: stable_def)
  then have "does m ?P (concat (map (bottleneck_events m g) ls)) (for_each (map node_bottleneck ls) (configure_bottleneck m))"
    unfolding for_each_map by (rule does_for_each) (rule each)
  then show ?thesis
    unfolding configure_bottlenecks_def by (intro does_bind_get [where x = "map node_bottleneck ls"]) simp_all
qed

end
