(* ===== verification/MultiIfRun.thy ===== *)
theory MultiIfRun
  imports MultiIfNet
begin

text \<open>
  \<open>MultiInterfaceTopo\<close> and \<open>MultiInterfaceConfig\<close> together: from the loaded parameters to
  the configured network, with the properties of the topology.
\<close>

section \<open>Degrees and names in the graph\<close>

definition loop_free :: "graph_op \<Rightarrow> bool" where
  "loop_free e \<longleftrightarrow> (case e of AddLink a b \<Rightarrow> a \<noteq> b | _ \<Rightarrow> True)"

lemma loop_free_ends: "loop_free e \<Longrightarrow> link_ends n e \<le> 1"
  by (cases e) (auto simp: loop_free_def)

lemma loop_free_path:
  assumes "is_host_name a" "is_host_name b" "plain_type l" "e \<in> set (path_graph a b l)"
  shows "loop_free e"
  using assms by (auto simp: path_graph_def switch_chain_def loop_free_def bs_name_index)

lemma loop_free_multi_if:
  assumes "links_ok cs rs" "e \<in> set (multi_if_graph cs rs)"
  shows "loop_free e"
proof -
  have "loop_free e" if "e \<in> set (path_graph a b l)" "l \<in> set (cs @ rs)" "is_host_name a" "is_host_name b" for a b l
    using that(2) assms(1) by (intro loop_free_path [OF that(3,4) _ that(1)]) (auto simp: links_ok_def)
  then show ?thesis
    using assms(2) by (auto simp: multi_if_graph_def loop_free_def split: if_splits)
qed

lemma degree_multi_if: "links_ok cs rs \<Longrightarrow> degree (multi_if_graph cs rs) n = length (ports n (multi_if_graph cs rs))"
  by (rule degree_ports) (blast intro: loop_free_ends loop_free_multi_if)

lemma multi_if_hosts: "host_names (multi_if_graph cs rs) = [Client, Server, Router]"
proof -
  have "host_names (path_graph a b l) = []" for a b l by (simp add: path_graph_def switch_chain_def)
  then have "host_names (concat (map (path_graph a b) ls)) = []" for a b ls by (induction ls) simp_all
  then show ?thesis by (simp add: multi_if_graph_def)
qed

lemma multi_if_names:
  "graph_names (multi_if_graph cs rs) =
     [Client, Server, Router] @ concat (map (\<lambda>l. map (get_bs_name l) [0..<4]) (cs @ rs))"
proof -
  have four: "[0..<4] = [0, Suc 0, 2, 3::nat]" by code_simp
  have "graph_names (path_graph a b l) = map (get_bs_name l) [0..<4]" for a b l
    by (simp add: path_graph_def switch_chain_def four)
  then have "graph_names (concat (map (path_graph a b) ls)) = concat (map (\<lambda>l. map (get_bs_name l) [0..<4]) ls)" for a b ls
    by (induction ls) simp_all
  then show ?thesis by (simp add: multi_if_graph_def del: upt.simps)
qed

lemma bs_name_known:
  "l \<in> set (cs @ rs) \<Longrightarrow> k < 4 \<Longrightarrow> get_bs_name l k \<in> set (graph_names (multi_if_graph cs rs))"
  unfolding multi_if_names by force

definition multi_if_plan :: "string \<Rightarrow> string \<Rightarrow> link list \<Rightarrow> link list \<Rightarrow> plan" where
  "multi_if_plan left right cs rs = \<lparr>pl_graph = multi_if_graph cs rs, pl_left = left, pl_right = right,
     pl_nc = length cs, pl_nr = length rs\<rparr>"

lemma multi_if_ports_exist: "links_ok cs rs \<Longrightarrow> ports_exist (multi_if_plan left right cs rs)"
  by (simp add: ports_exist_def multi_if_plan_def multi_if_hosts degree_multi_if ports_multi_if max_def
      Suc_le_eq)

lemma switch_interfaces:
  assumes m: "mininet_ok m" and ok: "links_ok cs rs" and l: "l \<in> set (cs @ rs)"
  shows "interfaces m (multi_if_graph cs rs) (get_bs_name l 1) = [port_name (get_bs_name l 1) 1, port_name (get_bs_name l 1) 2]"
    and "interfaces m (multi_if_graph cs rs) (get_bs_name l 2) = [port_name (get_bs_name l 2) 1, port_name (get_bs_name l 2) 2]"
proof -
  have names: "get_bs_name l k \<in> set (graph_names (multi_if_graph cs rs))" if "k < 4" for k
    using l that by (rule bs_name_known)
  have two: "[1..<Suc 2] = [1, 2::nat]" by code_simp
  have sw: "interfaces m (multi_if_graph cs rs) (get_bs_name l k) = [port_name (get_bs_name l k) 1, port_name (get_bs_name l k) 2]"
    if "k < 4" "degree (multi_if_graph cs rs) (get_bs_name l k) = 2" for k
    using mininet_okD(5) [OF m names [OF that(1)]] that(2) unfolding interfaces_def
    by (simp only: two) (simp add: multi_if_hosts)
  show "interfaces m (multi_if_graph cs rs) (get_bs_name l 1) = [port_name (get_bs_name l 1) 1, port_name (get_bs_name l 1) 2]"
    using ok l by (intro sw) (simp_all add: degree_multi_if ports_multi_if_switch)
  show "interfaces m (multi_if_graph cs rs) (get_bs_name l 2) = [port_name (get_bs_name l 2) 1, port_name (get_bs_name l 2) 2]"
    using ok l by (intro sw) (simp_all add: degree_multi_if ports_multi_if_switch)
qed

section \<open>From the parameters to the configured network\<close>

text \<open>\<open>Runner.apply_topo\<close>, \<open>apply_topo_config\<close> and \<open>start_topo\<close> for this topology\<close>

definition multi_if_configure :: "mininet \<Rightarrow> ('a multi_if_scheme, unit) py" where
  "multi_if_configure m =
     configure_network m (multi_if_configure_interfaces m) (multi_if_configure_routing m)"

definition multi_if_start :: "mininet \<Rightarrow> topo_param \<Rightarrow> ('a multi_if_scheme, unit) py" where
  "multi_if_start m tp = block
     [multi_if_topo_init m tp, topo_config_init tp, builder_start_network m, multi_if_configure m]"

text \<open>The events of the configuration, in order.\<close>

definition configure_events :: "mininet \<Rightarrow> string \<Rightarrow> string \<Rightarrow> link list \<Rightarrow> link list \<Rightarrow> event list" where
  "configure_events m left right cs rs =
     (let g = multi_if_graph cs rs in
      tso_events m g @ concat (map (bottleneck_events m g) (cs @ rs)) @
      interface_events m g left right (length cs) (length rs) @
      routing_events left right (length cs) (length rs))"

lemma multi_if_interfaces_ok:
  fixes s :: "'a multi_if_scheme"
  assumes m: "mininet_ok m" and live: "live s"
    and plan: "ports_exist pl" "net s = Some (pl_graph pl)" "has_subnets (pl_left pl) (pl_right pl) (param s)"
      "length (c2r_links s) = pl_nc pl" "length (r2s_links s) = pl_nr pl" "topo_parameter s = param s"
    and bls: "bottleneck_links s = map node_bottleneck ls"
      "\<forall>l \<in> set ls. (\<exists>b. buffer_size l = Inr b) \<and> interfaces m (pl_graph pl) (get_bs_name l 1) \<noteq> [] \<and>
         interfaces m (pl_graph pl) (get_bs_name l 2) \<noteq> []"
    and hosts: "clients s = Node Client # xs" "servers s = Node Server # ys" "routers s = Node Router # zs"
  shows "multi_if_configure_interfaces m s = (Inr (),
     ran m (concat (map (bottleneck_events m (pl_graph pl)) ls) @
            interface_events m (pl_graph pl) (pl_left pl) (pl_right pl) (pl_nc pl) (pl_nr pl))
       (s\<lparr>cfg_client := Some (Node Client), cfg_server := Some (Node Server), cfg_router := Some (Node Router)\<rparr>))"
proof -
  let ?bs = "concat (map (bottleneck_events m (pl_graph pl)) ls)"
  let ?s1 = "ran m ?bs s"
  let ?s2 = "?s1\<lparr>cfg_client := Some (Node Client), cfg_server := Some (Node Server), cfg_router := Some (Node Router)\<rparr>"
  note does1 = does_configure_bottlenecks [OF m bls(2)]
  have step1: "configure_bottlenecks m s = (Inr (), ?s1)"
    by (rule doesD [OF does1 live]) (simp add: plan bls)
  have "live ?s1" using live does_live [OF does1] by (rule live_ran)
  then have live2: "live ?s2" by (simp add: live_def)
  have conf: "configured pl ?s2" using plan by (simp add: configured_def)
  obtain v w where vw: "get_param (param s) ''leftSubnet'' = Inr v" "get_param (param s) ''rightSubnet'' = Inr w"
    using plan(3) by (auto simp: has_subnets_def)
  have "?s2 = ran m ?bs (s\<lparr>cfg_client := Some (Node Client), cfg_server := Some (Node Server), cfg_router := Some (Node Router)\<rparr>)"
    by (simp add: ran_def)
  moreover have "block
      (py_bind (get_client 0) (\<lambda>h. py_modify (\<lambda>s. s\<lparr>cfg_client := Some h\<rparr>)) #
       py_bind (get_server 0) (\<lambda>h. py_modify (\<lambda>s. s\<lparr>cfg_server := Some h\<rparr>)) #
       py_bind (get_router 0) (\<lambda>h. py_modify (\<lambda>s. s\<lparr>cfg_router := Some h\<rparr>)) #
       py_bind (py_get param) (\<lambda>p. stmt (py_lift (get_param p ''rightSubnet''))) #
       py_bind (py_get topo_parameter) (\<lambda>p. stmt (py_lift (get_param p ''rightSubnet''))) #
       py_bind (py_get param) (\<lambda>p. stmt (py_lift (get_param p ''leftSubnet''))) # rest) ?s1 = block rest ?s2" for rest
    by (simp add: py_bind_apply get_client_def get_server_def get_router_def hosts vw plan(6) stmt_apply)
  moreover note doesD [OF does_interfaces_tail [OF m plan(1)] live2 conf]
  ultimately show ?thesis
    unfolding multi_if_configure_interfaces_def
    by (simp only: block_step [where c = "configure_bottlenecks m" and s = s, OF step1] ran_ran [symmetric])
qed

text \<open>The state of the running, configured topology, before the commands are counted.\<close>

definition multi_if_running :: "topo_param \<Rightarrow> bool \<Rightarrow> 'a multi_if_scheme \<Rightarrow> 'a multi_if_scheme" where
  "multi_if_running tp change s =
     (reinit_of (multi_if_built tp change s))\<lparr>
       param := tp, net := Some (graph (multi_if_built tp change s)), events := events s @ [NetStart],
       cfg_client := Some (Node Client), cfg_server := Some (Node Server), cfg_router := Some (Node Router)\<rparr>"

lemma multi_if_names_known:
  assumes "graph s = []"
  shows "names_known (graph (multi_if_built tp change s)) (multi_if_built tp change s)"
  using assms
  by (auto simp: names_known_def multi_if_built_def Let_def bottleneck_of_def intro!: bs_name_known)
     (simp_all add: multi_if_names)

text \<open>
  The first three statements of \<open>configure_network\<close>, for any started topology that has the
  client, router and server of this class among its hosts.
\<close>

lemma multi_if_prepare_ok:
  fixes s :: "'a multi_if_scheme"
  assumes m: "mininet_ok m" and live: "live s" and known: "names_known (pl_graph pl) s"
    and plan: "ports_exist pl" "net s = Some (pl_graph pl)" "has_subnets (pl_left pl) (pl_right pl) (param s)"
      "length (c2r_links s) = pl_nc pl" "length (r2s_links s) = pl_nr pl" "topo_parameter s = param s"
    and bls: "map bl_link (bottleneck_links s) = ls"
      "\<forall>l \<in> set ls. (\<exists>b. buffer_size l = Inr b) \<and> interfaces m (pl_graph pl) (get_bs_name l 1) \<noteq> [] \<and>
         interfaces m (pl_graph pl) (get_bs_name l 2) \<noteq> []"
    and hosts: "clients s \<noteq> []" "servers s \<noteq> []" "routers s \<noteq> []"
  defines "es \<equiv> tso_events m (pl_graph pl) @ concat (map (bottleneck_events m (pl_graph pl)) ls) @
      interface_events m (pl_graph pl) (pl_left pl) (pl_right pl) (pl_nc pl) (pl_nr pl)"
    and "t \<equiv> (reinit_of s)\<lparr>cfg_client := Some (Node Client), cfg_server := Some (Node Server), cfg_router := Some (Node Router)\<rparr>"
  shows "configure_network m (multi_if_configure_interfaces m) routing s = py_bind routing (\<lambda>_. py_return ()) (ran m es t)"
    and "configure_network m (block (multi_if_configure_interfaces m # cs)) routing s =
      py_bind (block cs) (\<lambda>_. py_bind routing (\<lambda>_. py_return ())) (ran m es t)"
    and "live (ran m es t)" and "configured pl (ran m es t)"
proof -
  have step1: "topo_reinit_variables m s = (Inr (), reinit_of s)"
    by (rule topo_reinit_ok [OF m plan(2) known])
  have live1: "live (reinit_of s)" using live by (simp add: live_def reinit_of_def)
  note tso = does_disable_tso [OF m, of "pl_graph pl"]
  define s2 where "s2 = ran m (tso_events m (pl_graph pl)) (reinit_of s)"
  have step2: "disable_tso m (reinit_of s) = (Inr (), s2)"
    unfolding s2_def by (rule doesD [OF tso live1]) (simp add: reinit_of_def plan)
  have live2: "live s2" unfolding s2_def using live1 does_live [OF tso] by (rule live_ran)
  have heads: "\<exists>zs. map (\<lambda>i. f i) [0..<length xs] = f 0 # zs" if "xs \<noteq> []" for f :: "nat \<Rightarrow> handle" and xs :: "handle list"
    using that by (cases xs) (simp_all add: upt_conv_Cons del: upt_Suc)
  obtain xs ys zs where hs: "clients s2 = Node Client # xs" "servers s2 = Node Server # ys" "routers s2 = Node Router # zs"
    using heads [OF hosts(1), of "\<lambda>i. Node (get_client_name i)"] heads [OF hosts(2), of "\<lambda>i. Node (get_server_name i)"]
      heads [OF hosts(3), of "\<lambda>i. Node (get_router_name i)"] by (auto simp: s2_def reinit_of_def)
  have "bottleneck_links s2 = map node_bottleneck ls"
    using bls(1) by (auto simp: s2_def reinit_of_def)
  note step3 = multi_if_interfaces_ok [OF m live2 plan(1) _ _ _ _ _ this bls(2) hs]
  have end_state: "ran m (concat (map (bottleneck_events m (pl_graph pl)) ls) @
         interface_events m (pl_graph pl) (pl_left pl) (pl_right pl) (pl_nc pl) (pl_nr pl))
       (s2\<lparr>cfg_client := Some (Node Client), cfg_server := Some (Node Server), cfg_router := Some (Node Router)\<rparr>) = ran m es t"
    by (simp add: s2_def es_def t_def ran_def)
  have step3: "multi_if_configure_interfaces m s2 = (Inr (), ran m es t)"
    unfolding end_state [symmetric] by (rule step3) (simp_all add: s2_def reinit_of_def plan)
  show "configure_network m (multi_if_configure_interfaces m) routing s = py_bind routing (\<lambda>_. py_return ()) (ran m es t)"
    unfolding configure_network_def using step1 step2 step3 by (simp add: py_bind_apply)
  show "configure_network m (block (multi_if_configure_interfaces m # cs)) routing s =
      py_bind (block cs) (\<lambda>_. py_bind routing (\<lambda>_. py_return ())) (ran m es t)"
    unfolding configure_network_def using step1 step2 step3 by (simp add: py_bind_apply)
  have "NetStop \<notin> set es"
    using does_live [OF tso] does_live [OF does_configure_bottlenecks [OF m bls(2)]]
      does_live [OF does_interfaces_tail [OF m plan(1)]] by (simp add: es_def)
  moreover have "live t" using live1 by (simp add: t_def live_def)
  ultimately show "live (ran m es t)" by (intro live_ran)
  show "configured pl (ran m es t)" using plan by (simp add: configured_def t_def reinit_of_def)
qed

lemma multi_if_start_ok:
  fixes s :: "'a multi_if_scheme" and tp :: topo_param
  defines "cs \<equiv> get_client_to_router_links tp" and "rs \<equiv> get_router_to_server_links tp"
  assumes m: "mininet_ok m" and keys: "distinct (map link_key (link_characteristics tp))"
    and bufs: "\<forall>l \<in> set (cs @ rs). \<exists>b. buffer_size l = Inr b"
    and subnets: "has_subnets left right tp" and change: "get_param tp CHANGE_NETEM = Inr (PStr v)"
    and s: "graph s = []" "NetStop \<notin> set (events s)"
  shows "multi_if_start m tp s = (Inr (), ran m (configure_events m left right cs rs)
     (multi_if_running tp (lower v = ''yes'') s))"
proof -
  let ?g = "multi_if_graph cs rs" and ?pl = "multi_if_plan left right cs rs"
  define s1 where "s1 = (multi_if_built tp (lower v = ''yes'') s)
     \<lparr>param := tp, net := Some ?g, events := events s @ [NetStart]\<rparr>"
  have ok: "links_ok cs rs" unfolding cs_def rs_def by (rule links_ok_filter [OF keys])
  have g: "graph (multi_if_built tp (lower v = ''yes'') s) = ?g"
    by (simp add: multi_if_built_def Let_def s cs_def rs_def)
  have start: "multi_if_start m tp s = multi_if_configure m s1"
    by (simp add: multi_if_start_def py_bind_apply multi_if_init_ok [OF m change] topo_config_init_def
        builder_start_network_def mininet_okD [OF m] emit_def s1_def g)
       (simp add: multi_if_built_def Let_def split: prod.split sum.split)
  have "names_known ?g (multi_if_built tp (lower v = ''yes'') s)"
    using multi_if_names_known [OF s(1), of tp "lower v = ''yes''"] by (simp only: g)
  then have known: "names_known (pl_graph ?pl) s1" by (simp add: names_known_def s1_def multi_if_plan_def)
  have live: "live s1" using s(2) by (simp add: live_def s1_def multi_if_built_def Let_def)
  have links: "map bl_link (bottleneck_links s1) = cs @ rs"
    by (simp add: s1_def multi_if_built_def Let_def cs_def rs_def comp_def) (simp add: bottleneck_of_def)
  have ifs: "\<forall>l \<in> set (cs @ rs). (\<exists>b. buffer_size l = Inr b) \<and>
      interfaces m (pl_graph ?pl) (get_bs_name l 1) \<noteq> [] \<and> interfaces m (pl_graph ?pl) (get_bs_name l 2) \<noteq> []"
    using bufs switch_interfaces [OF m ok] by (auto simp: multi_if_plan_def)
  let ?t = "(reinit_of s1)\<lparr>cfg_client := Some (Node Client), cfg_server := Some (Node Server), cfg_router := Some (Node Router)\<rparr>"
  let ?es = "tso_events m ?g @ concat (map (bottleneck_events m ?g) (cs @ rs)) @
      interface_events m ?g left right (length cs) (length rs)"
  have facts: "net s1 = Some (pl_graph ?pl)" "has_subnets (pl_left ?pl) (pl_right ?pl) (param s1)"
      "length (c2r_links s1) = pl_nc ?pl" "length (r2s_links s1) = pl_nr ?pl" "topo_parameter s1 = param s1"
      "clients s1 \<noteq> []" "servers s1 \<noteq> []" "routers s1 \<noteq> []"
    by (simp_all add: s1_def multi_if_plan_def multi_if_built_def Let_def subnets cs_def rs_def)
  note prep = multi_if_prepare_ok [OF m live known multi_if_ports_exist [OF ok] facts(1-5) links ifs facts(6-8)]
  have "multi_if_configure m s1 = py_bind (multi_if_configure_routing m) (\<lambda>_. py_return ()) (ran m ?es ?t)"
    unfolding multi_if_configure_def using prep(1) by (simp add: multi_if_plan_def)
  also have "\<dots> = (Inr (), ran m (routing_events left right (length cs) (length rs)) (ran m ?es ?t))"
    using doesD [OF does_routing [OF m] prep(3,4)] by (simp add: multi_if_plan_def py_bind_apply)
  also have "ran m (routing_events left right (length cs) (length rs)) (ran m ?es ?t) =
      ran m (configure_events m left right cs rs) (multi_if_running tp (lower v = ''yes'') s)"
    by (rule multi_if.equality)
       (simp_all add: multi_if_running_def g s1_def reinit_of_def configure_events_def Let_def,
        simp_all add: multi_if_built_def Let_def ran_def)
  finally show ?thesis unfolding start .
qed

end
