(* ===== verification/MultiIfProps.thy ===== *)
theory MultiIfProps
  imports MultiIfRun "HOL-Library.Sublist"
begin

text \<open>Properties of the single-client topology: graph, ports, addresses, routes, bottlenecks.\<close>

section \<open>The contract of an addressing function\<close>

text \<open>An address of interface \<open>i\<close>: the prefix in the parameters, the index, a fixed suffix.\<close>

locale addressing =
  fixes addr :: "topo_param \<Rightarrow> nat \<Rightarrow> string res"
    and key suffix :: string
  assumes addr_eq: "addr p i = rbind (get_param p key) (\<lambda>v. Inr (str_pval v @ show_nat i @ suffix))"
begin

lemma addr_inject:
  assumes "addr p i = Inr a" "addr p j = Inr a"
  shows "i = j"
proof -
  obtain v where "a = str_pval v @ show_nat i @ suffix" "a = str_pval v @ show_nat j @ suffix"
    using assms by (auto simp: addr_eq rbind_eq_Inr)
  then show ?thesis by simp
qed

lemma addr_fails: "addr p i = Inl e \<longleftrightarrow> get_param p key = Inl e"
  by (simp add: addr_eq rbind_eq_Inl)

lemma addrs_distinct: "rmap (addr p) is = Inr as \<Longrightarrow> distinct is \<Longrightarrow> distinct as"
proof (induction "is" arbitrary: as)
  case (Cons i "is")
  then obtain a bs' where as: "addr p i = Inr a" "rmap (addr p) is = Inr bs'" "as = a # bs'"
    by (auto simp: rbind_eq_Inr)
  have "set bs' \<subseteq> {b. \<exists>j \<in> set is. addr p j = Inr b}"
    using as(2) by (induction "is" arbitrary: bs') (fastforce simp: rbind_eq_Inr)+
  then have "a \<notin> set bs'" using addr_inject [OF as(1)] Cons.prems(2) by auto
  then show ?case using Cons.IH [OF as(2)] Cons.prems(2) as(3) by simp
qed simp

end

interpretation client_addr: addressing get_client_ip "''leftSubnet''" "''.1''"
  by unfold_locales (simp add: get_client_ip_def subnet_text_def)

interpretation client_net: addressing get_client_subnet "''leftSubnet''" "''.0/24''"
  by unfold_locales (simp add: get_client_subnet_def subnet_text_def)

interpretation router_left: addressing get_router_ip_to_client_switch "''leftSubnet''" "''.2''"
  by unfold_locales (simp add: get_router_ip_to_client_switch_def subnet_text_def)

interpretation router_right: addressing get_router_ip_to_server_switch "''rightSubnet''" "''.2''"
  by unfold_locales (simp add: get_router_ip_to_server_switch_def subnet_text_def)

interpretation server_addr: addressing get_server_ip "''rightSubnet''" "''.1''"
  by unfold_locales (simp add: get_server_ip_def subnet_text_def)

interpretation server_net: addressing get_server_subnet "''rightSubnet''" "''.0/24''"
  by unfold_locales (simp add: get_server_subnet_def subnet_text_def)

section \<open>A concrete topology for the examples\<close>

definition demo_link :: "string \<Rightarrow> int \<Rightarrow> link" where
  "demo_link t i = \<lparr>link_id = i, link_type = t, delay = Fin 20, queue_size = 100, bandwidth = Fin 4,
     loss = Fin 0, queuing_delay = show_int 286, netem_at = [], backup = 0\<rparr>"

definition demo_tp :: topo_param where
  "demo_tp = \<lparr>parameters = [], default_parameters = TOPO_DEFAULT_PARAMETERS,
     link_characteristics = [demo_link ''c2r'' 0, demo_link ''c2r'' 1, demo_link ''r2s'' 0]\<rparr>"

lemma demo_links:
  "get_client_to_router_links demo_tp = [demo_link ''c2r'' 0, demo_link ''c2r'' 1]"
  "get_router_to_server_links demo_tp = [demo_link ''r2s'' 0]"
  "distinct (map link_key (link_characteristics demo_tp))"
  by (simp_all add: demo_tp_def demo_link_def get_client_to_router_links_def get_router_to_server_links_def link_key_def)

lemma demo_params:
  "get_param demo_tp CHANGE_NETEM = Inr (PStr ''false'')"
  "has_subnets ''10.1.'' ''10.2.'' demo_tp"
proof -
  show "get_param demo_tp CHANGE_NETEM = Inr (PStr ''false'')" by code_simp
  have "get_param demo_tp ''leftSubnet'' = Inr (PStr ''10.1.'')" by code_simp
  moreover have "get_param demo_tp ''rightSubnet'' = Inr (PStr ''10.2.'')" by code_simp
  ultimately show "has_subnets ''10.1.'' ''10.2.'' demo_tp" by (simp add: has_subnets_def)
qed

definition fresh_multi_if :: "unit multi_if_scheme" where
  "fresh_multi_if = \<lparr>graph = [], net = None, events = [], topo_parameter = demo_tp, change_netem = False,
     log_lines = [], log_open = False, clients = [], routers = [], servers = [], bottleneck_links = [],
     param = demo_tp, mi_client = Name [], mi_server = Name [], mi_router = Name [], c2r_links = [],
     r2s_links = [], cfg_client = None, cfg_server = None, cfg_router = None, cfg_clients = None,
     cfg_servers = None\<rparr>"

lemma demo_buffer: "\<exists>b. buffer_size (demo_link t i) = Inr b"
proof -
  have "get_bandwidth_delay_product_divided_by_mtu (Fin 20) (Fin 4) = Inr 14 \<or>
      get_bandwidth_delay_product_divided_by_mtu (Fin 20) (Fin 4) = Inr 15"
    using bdp_exact [of 20 4] by auto
  then obtain p where p: "bandwidth_delay_product_divided_by_mtu (demo_link t i) = Inr p" "0 \<le> p" "p \<le> 15"
    by (auto simp: bandwidth_delay_product_divided_by_mtu_def demo_link_def)
  then show ?thesis
    using buffer_size_int [OF p(1), of 4 286] by (simp add: demo_link_def)
qed

section \<open>Properties\<close>

text \<open>
  C11.  From any list of links, the constructor hands Mininet exactly the reference graph: the
  three hosts, then for every \<open>c2r\<close> and every \<open>r2s\<close> link a chain of four switches between its
  two ends, and a direct link between router and server when there is no \<open>r2s\<close> link.  The
  bottleneck links are recorded in this order and the two lists of the topology split them.
\<close>

theorem multi_if_builds_graph:
  assumes "mininet_ok m" and "get_param tp CHANGE_NETEM = Inr (PStr v)" and "graph s = []"
  shows "\<exists>t. multi_if_topo_init m tp s = (Inr (), t) \<and>
     graph t = multi_if_graph (get_client_to_router_links tp) (get_router_to_server_links tp) \<and>
     map (\<lambda>k. bl_link (bottleneck_links t ! k)) (c2r_links t) = get_client_to_router_links tp \<and>
     map (\<lambda>k. bl_link (bottleneck_links t ! k)) (r2s_links t) = get_router_to_server_links tp \<and>
     change_netem t = (lower v = ''yes'')"
proof -
  have split: "map (\<lambda>k. f ((xs @ ys) ! k)) [0..<length xs] = map f xs"
    "map (\<lambda>k. f ((xs @ ys) ! k)) [length xs..<length xs + length ys] = map f ys" for f :: "bottleneck \<Rightarrow> link" and xs ys
    by (auto intro!: nth_equalityI simp: nth_append)
  show ?thesis
    unfolding multi_if_init_ok [OF assms(1,2)]
    using split [of bl_link "map bottleneck_of (get_client_to_router_links tp)"
        "map bottleneck_of (get_router_to_server_links tp)"] assms(3)
    by (simp add: multi_if_built_def Let_def comp_def) (simp add: bottleneck_of_def)
qed

theorem multi_if_builds_graph_witness:
  "\<exists>t. multi_if_topo_init demo_net demo_tp fresh_multi_if = (Inr (), t) \<and> length (graph t) = 3 + 9 * 3"
  using multi_if_builds_graph [OF demo_net_ok demo_params(1), of fresh_multi_if]
  by (force simp: fresh_multi_if_def demo_links multi_if_graph_def path_graph_def switch_chain_def)

text \<open>
  C12.  The interface names used by the configuration are the ones of the links: the \<open>i\<close>-th
  port of the client and of the router is the \<open>i\<close>-th \<open>c2r\<close> link, the router's ports after
  those are the \<open>r2s\<close> links (or its direct link to the server), and there are no other ports.
\<close>

theorem multi_if_port_order:
  assumes "i < length cs" and "j < max (length rs) 1" and "length (c2r_links s) = length cs"
  defines "g \<equiv> multi_if_graph cs rs"
  shows "get_client_interface 0 i = port_name Client i \<and>
     ports Client g ! i = AddLink (Name Client) (Name (get_bs_name (cs ! i) 0)) \<and>
     get_router_interface_to_client_switch i = port_name Router i \<and>
     ports Router g ! i = AddLink (Name (get_bs_name (cs ! i) 3)) (Name Router) \<and>
     get_router_interface_to_server_switch s j = port_name Router (length cs + j) \<and>
     ports Router g ! (length cs + j) =
       (if rs = [] then AddLink (Name Router) (Name Server)
        else AddLink (Name Router) (Name (get_bs_name (rs ! j) 0))) \<and>
     get_server_interface 0 j = port_name Server j \<and>
     ports Server g ! j =
       (if rs = [] then AddLink (Name Router) (Name Server)
        else AddLink (Name (get_bs_name (rs ! j) 3)) (Name Server)) \<and>
     length (ports Client g) = length cs \<and> length (ports Router g) = length cs + max (length rs) 1 \<and>
     length (ports Server g) = max (length rs) 1"
  using assms(1-3)
  by (auto simp: g_def ports_multi_if nth_append get_router_interface_to_server_switch_def max_def Suc_le_eq le_Suc_eq
      split: if_splits)

theorem multi_if_port_order_witness:
  "ports Router (multi_if_graph [demo_link ''c2r'' 0] []) ! 1 = AddLink (Name Router) (Name Server)"
  using multi_if_port_order [of 0 "[demo_link ''c2r'' 0]" 0 "[]" "fresh_multi_if\<lparr>c2r_links := [0]\<rparr>"] by simp



section \<open>Addresses\<close>

definition is_up :: "event \<Rightarrow> bool" where
  "is_up e = (case e of NodeCmd n c \<Rightarrow> starts_with ''ifconfig '' c | _ \<Rightarrow> False)"

text \<open>Node, port and address of every interface that is brought up, in order.\<close>

definition address_plan :: "string \<Rightarrow> string \<Rightarrow> nat \<Rightarrow> nat \<Rightarrow> (string \<times> nat \<times> string) list" where
  "address_plan left right nc nr =
     map (\<lambda>i. (Client, i, ip_text left i ''.1'')) [0..<nc] @
     map (\<lambda>i. (Router, i, ip_text left i ''.2'')) [0..<nc] @
     concat (map (\<lambda>i. [(Router, nc + i, ip_text right i ''.2''), (Server, i, ip_text right i ''.1'')]) [0..<nr])"

lemma is_up_simps [simp]:
  "is_up (up_event n k ip)" "\<not> is_up (arp_event m g p n k ip)" "\<not> is_up (flush_event n k)"
  "\<not> is_up (NodeCmd n ''ip -br -4 addr'')"
  by (simp_all add: is_up_def up_event_def arp_event_def flush_event_def interface_up_command_def
      arp_command_def starts_with_def)

lemma filter_concat_map: "filter P (concat (map f xs)) = concat (map (\<lambda>x. filter P (f x)) xs)"
  by (induction xs) simp_all

lemma up_events:
  "filter is_up (interface_events m g left right nc nr) =
     map (\<lambda>(n, k, ip). up_event n k ip) (address_plan left right nc (max nr 1))"
  by (simp add: interface_events_def address_plan_def filter_concat_map c2r_client_events_def
      c2r_router_events_def r2s_events_def map_concat comp_def concat_map_singleton)

lemma ip_text_inject [simp]: "ip_text s i x = ip_text s j x \<longleftrightarrow> i = j"
  by (simp add: ip_text_def)

lemma ip_text_suffix [simp]: "ip_text s i ''.1'' \<noteq> ip_text t j ''.2''" "ip_text s i ''.2'' \<noteq> ip_text t j ''.1''"
  by (auto simp: ip_text_def dest: arg_cong [where f = last])

definition unrelated :: "string \<Rightarrow> string \<Rightarrow> bool" where
  "unrelated s t \<longleftrightarrow> \<not> prefix s t \<and> \<not> prefix t s"

lemma ip_text_unrelated: "unrelated s t \<Longrightarrow> ip_text s i x \<noteq> ip_text t j y"
  by (auto simp: unrelated_def ip_text_def prefix_def append_eq_append_conv2)

lemma distinct_address_plan:
  assumes "unrelated left right"
  shows "distinct (map (\<lambda>(n, k, ip). (n, k)) (address_plan left right nc nr))"
    "distinct (map (\<lambda>(n, k, ip). ip) (address_plan left right nc nr))"
proof -
  note u = ip_text_unrelated [OF assms]
  have "distinct (concat (map (\<lambda>i. [(Router, nc + i), (Server, i)]) is))" if "distinct is" for "is"
    using that by (induction "is") auto
  then show "distinct (map (\<lambda>(n, k, ip). (n, k)) (address_plan left right nc nr))"
    by (auto simp: address_plan_def map_concat comp_def distinct_map inj_on_def)
  have "distinct (concat (map (\<lambda>i. [ip_text right i ''.2'', ip_text right i ''.1'']) is))" if "distinct is" for "is"
    using that by (induction "is") auto
  then show "distinct (map (\<lambda>(n, k, ip). ip) (address_plan left right nc nr))"
    using u by (auto simp: address_plan_def map_concat comp_def distinct_map inj_on_def)
qed



section \<open>Policy routing\<close>

definition is_rule :: "event \<Rightarrow> bool" where
  "is_rule e = (case e of NodeCmd n c \<Rightarrow> starts_with ''ip rule add from '' c | _ \<Rightarrow> False)"

lemma is_rule_table:
  "filter is_rule (table_events n s i) =
     [NodeCmd n (''ip rule add from '' @ ip_text s i ''.1'' @ '' table '' @ show_nat (i + 1))]"
  by (simp add: table_events_def is_rule_def starts_with_def)



section \<open>Traffic control\<close>

definition shape_cmd :: "link \<Rightarrow> pyfloat \<Rightarrow> string \<Rightarrow> string" where
  "shape_cmd l buf i = ''tc qdisc add dev '' @ i @ '' root handle 1:0 tbf rate '' @ repr_float (bandwidth l) @
     ''mbit burst 15000 limit '' @ repr_float buf"


lemma demo_links_ok: "links_ok [demo_link ''c2r'' 0] []"
  by (simp add: links_ok_def plain_type_def demo_link_def)


definition changing_events :: "mininet \<Rightarrow> graph_op list \<Rightarrow> link \<Rightarrow> event list" where
  "changing_events m g l =
     changing_cmds l (get_bs_name l 1) (get_bs_name l 2) (interfaces m g (get_bs_name l 1))
       (interfaces m g (get_bs_name l 2)) (case buffer_size l of Inr b \<Rightarrow> b | Inl _ \<Rightarrow> NaN)"

lemma does_run_netem_at:
  assumes m: "mininet_ok m" and ls: "\<forall>l \<in> set ls. (\<exists>b. buffer_size l = Inr b) \<and>
      interfaces m g (get_bs_name l 1) \<noteq> [] \<and> interfaces m g (get_bs_name l 2) \<noteq> []"
  shows "does m (\<lambda>s. net s = Some g \<and> bottleneck_links s = map node_bottleneck ls \<and> change_netem s)
     (concat (map (changing_events m g) ls)) (run_netem_at m)"
proof -
  let ?P = "\<lambda>s. net s = Some g \<and> bottleneck_links s = map node_bottleneck ls \<and> change_netem s"
  have each: "does m ?P (changing_events m g l) (configure_changing_bottleneck m (node_bottleneck l))" if "l \<in> set ls" for l
  proof -
    obtain b where "buffer_size l = Inr b" using ls \<open>l \<in> set ls\<close> by blast
    then show ?thesis
      using does_configure_changing_bottleneck [OF m, of "node_bottleneck l" "get_bs_name l 1" "get_bs_name l 2" g b] ls that
      by (auto simp: node_bottleneck_def changing_events_def intro: does_weaken)
  qed
  have "stable m ?P" by (simp add: stable_def)
  then have "does m ?P (concat (map (changing_events m g) ls)) (for_each (map node_bottleneck ls) (configure_changing_bottleneck m))"
    unfolding for_each_map by (rule does_for_each) (rule each)
  then show ?thesis
    unfolding run_netem_at_def
    by (intro does_bind_get [where x = True] does_bind_get [where x = "map node_bottleneck ls"]) (auto intro: does_bind_get)
qed

text \<open>
  C16.  The scheduled changes of a bottleneck link are run on the other qdiscs: the command
  that replaces the shaper goes to port 2 of the second switch, where the setup put delay and
  loss, and the one that changes delay and loss replaces the root qdisc of port 2 of the
  third switch, which is the shaper (and the same the other way round).  Without
  \<open>changeNetem\<close> nothing is run.
\<close>

theorem netem_changes_cross:
  assumes "mininet_ok m" and "links_ok cs rs" and "\<forall>l \<in> set (cs @ rs). \<exists>buf. buffer_size l = Inr buf"
    and "live t" and "net t = Some (multi_if_graph cs rs)" and "bottleneck_links t = map node_bottleneck (cs @ rs)"
  shows "run_netem_at m t = (Inr (), if change_netem t
       then ran m (concat (map (changing_events m (multi_if_graph cs rs)) (cs @ rs))) t else t) \<and>
     (\<forall>l \<in> set (cs @ rs). \<forall>buf. buffer_size l = Inr buf \<longrightarrow>
        (let n1 = get_bs_name l 1; n2 = get_bs_name l 2 in
         changing_events m (multi_if_graph cs rs) l =
          [NodeCmd n1 (changing_shape l buf (port_name n1 2)), NodeCmd n2 (build_changing_netem_cmd l (port_name n2 2)),
           NodeCmd n2 (changing_shape l buf (port_name n2 1)), NodeCmd n1 (build_changing_netem_cmd l (port_name n1 1))] \<and>
         {NodeCmd n1 (build_netem_cmd l (port_name n1 2) (netem_loss l) False), NodeCmd n2 (shape_cmd l buf (port_name n2 2))}
           \<subseteq> set (bottleneck_events m (multi_if_graph cs rs) l)))"
proof (intro conjI ballI allI impI)
  have ls: "\<forall>l \<in> set (cs @ rs). (\<exists>b. buffer_size l = Inr b) \<and>
      interfaces m (multi_if_graph cs rs) (get_bs_name l 1) \<noteq> [] \<and> interfaces m (multi_if_graph cs rs) (get_bs_name l 2) \<noteq> []"
    using assms(3) switch_interfaces [OF assms(1,2)] by simp
  show "run_netem_at m t = (Inr (), if change_netem t
      then ran m (concat (map (changing_events m (multi_if_graph cs rs)) (cs @ rs))) t else t)"
    using doesD [OF does_run_netem_at [OF assms(1) ls] assms(4)] assms(5,6)
    by (cases "change_netem t") (simp_all add: run_netem_at_def py_bind_apply)
next
  fix l buf assume l: "l \<in> set (cs @ rs)" "buffer_size l = Inr buf"
  show "let n1 = get_bs_name l 1; n2 = get_bs_name l 2 in
         changing_events m (multi_if_graph cs rs) l =
          [NodeCmd n1 (changing_shape l buf (port_name n1 2)), NodeCmd n2 (build_changing_netem_cmd l (port_name n2 2)),
           NodeCmd n2 (changing_shape l buf (port_name n2 1)), NodeCmd n1 (build_changing_netem_cmd l (port_name n1 1))] \<and>
         {NodeCmd n1 (build_netem_cmd l (port_name n1 2) (netem_loss l) False), NodeCmd n2 (shape_cmd l buf (port_name n2 2))}
           \<subseteq> set (bottleneck_events m (multi_if_graph cs rs) l)"
    using switch_interfaces [OF assms(1,2) l(1)] l(2)
    by (simp add: changing_events_def changing_cmds_def bottleneck_events_def bottleneck_cmds_def shape_cmd_def Let_def)
qed

theorem netem_changes_cross_witness:
  "run_netem_at demo_net (fresh_multi_if\<lparr>net := Some (multi_if_graph [demo_link ''c2r'' 0] []), log_open := True,
      bottleneck_links := [node_bottleneck (demo_link ''c2r'' 0)]\<rparr>) =
   (Inr (), fresh_multi_if\<lparr>net := Some (multi_if_graph [demo_link ''c2r'' 0] []), log_open := True,
      bottleneck_links := [node_bottleneck (demo_link ''c2r'' 0)]\<rparr>)"
  using netem_changes_cross [OF demo_net_ok demo_links_ok, of
      "fresh_multi_if\<lparr>net := Some (multi_if_graph [demo_link ''c2r'' 0] []), log_open := True,
         bottleneck_links := [node_bottleneck (demo_link ''c2r'' 0)]\<rparr>"] demo_buffer
  by (simp add: live_def fresh_multi_if_def)

end
