(* ===== verification/MultiClient.thy ===== *)
theory MultiClient
  imports MultiIfRun
begin

text \<open>
  \<open>topos/multi_interface_multi_client.py\<close>: the topology of \<open>MultiIf\<close> with, for every \<open>c2r\<close>
  link, one more client on the left end of the link and one more server on the router.
\<close>

section \<open>\<open>MultiInterfaceMultiClientTopo\<close>\<close>

definition add_congestion_pair :: "mininet \<Rightarrow> nat \<Rightarrow> ('a multi_if_scheme, unit) py" where
  "add_congestion_pair m k =
     py_bind (add_client m) (\<lambda>c. py_bind (add_server m) (\<lambda>_.
     py_bind (py_get (\<lambda>s. get_left (bottleneck_links s ! k))) (\<lambda>left. topo_add_link c left)))"

definition multi_client_topo_init :: "mininet \<Rightarrow> topo_param \<Rightarrow> ('a multi_if_scheme, unit) py" where
  "multi_client_topo_init m tp = block
     [multi_if_topo_init m tp,
      py_bind (py_get c2r_links) (\<lambda>ks. for_each ks (add_congestion_pair m)),
      py_bind (py_get servers) (\<lambda>svs. for_each (tl svs) (\<lambda>sv.
        py_bind (py_get mi_router) (\<lambda>r. topo_add_link r sv)))]"

definition multi_client_row :: "nat \<Rightarrow> nat \<Rightarrow> string" where
  "multi_client_row nc i =
     (if i = nc div 2
      then ''c-               r--s'' @ nl @ ''c-'' @ [bs] @ ''sw---bl---sw-/ '' @ [bs] @ ''-s'' @ nl
      else ''c-/sw---bl---sw-'' @ [bs] @ '' /-s'' @ nl)"

definition multi_client_topo_str :: "topo_param \<Rightarrow> string" where
  "multi_client_topo_str tp =
     (let nc = length (get_client_to_router_links tp) in
      ''Multiple interface topology with several clients and servers'' @ nl @
      concat (map (multi_client_row nc) [0..<nc]))"

section \<open>\<open>MultiInterfaceMultiClientConfig\<close>\<close>

text \<open>The overriding \<open>get_client_ip\<close>; with the flag off it is the one of the base class.\<close>

definition multi_client_ip :: "topo_param \<Rightarrow> nat \<Rightarrow> bool \<Rightarrow> string res" where
  "multi_client_ip p i congestion_client =
     subnet_text LEFT_SUBNET p i (''.'' @ (if congestion_client then ''10'' else ''1''))"

definition multi_client_server_interface_count :: "'a multi_if_scheme \<Rightarrow> nat res" where
  "multi_client_server_interface_count s =
     rbind (some_or AttributeError (cfg_servers s)) (\<lambda>svs. Inr (max (length svs) 1))"

text \<open>\<open>self.clients[i]\<close> on the configuration object\<close>

definition cfg_client_at :: "nat \<Rightarrow> ('a multi_if_scheme, handle) py" where
  "cfg_client_at i = py_bind (py_attr cfg_clients) (\<lambda>hs. py_nth hs i)"

text \<open>The command is computed before, or after, the node is looked up.\<close>

definition cmd_then_node :: "mininet \<Rightarrow> ('a multi_if_scheme \<Rightarrow> string res) \<Rightarrow> ('a multi_if_scheme, handle) py \<Rightarrow>
    ('a multi_if_scheme, unit) py" where
  "cmd_then_node m cmd who = py_bind (py_get cmd) (\<lambda>r. py_bind (py_lift r) (\<lambda>c.
     py_bind who (\<lambda>h. run_on m h c)))"

definition node_then_cmd :: "mininet \<Rightarrow> ('a multi_if_scheme, handle) py \<Rightarrow> ('a multi_if_scheme \<Rightarrow> string res) \<Rightarrow>
    ('a multi_if_scheme, unit) py" where
  "node_then_cmd m who cmd = py_bind who (\<lambda>h. py_bind (py_get cmd) (\<lambda>r. py_bind (py_lift r) (\<lambda>c. run_on m h c)))"

definition arp_text :: "string res \<Rightarrow> string \<Rightarrow> string res" where
  "arp_text ip mac = rbind ip (\<lambda>a. Inr (''arp -s '' @ a @ '' '' @ mac))"

definition configure_congestion_client :: "mininet \<Rightarrow> nat \<Rightarrow> ('a multi_if_scheme, unit) py" where
  "configure_congestion_client m i = block
     [cmd_then_node m (\<lambda>s. up_cmd (multi_client_ip (param s) i True) (get_client_interface (i + 1) 0)) (cfg_client_at (i + 1)),
      py_bind (cfg_client_at (i + 1)) (\<lambda>h. py_bind (node_mac m h (get_client_interface (i + 1) 0)) (\<lambda>mac.
        node_then_cmd m (py_attr cfg_router) (\<lambda>s. arp_text (multi_client_ip (param s) i True) mac))),
      py_bind (py_attr cfg_router) (\<lambda>h. py_bind (node_mac m h (get_router_interface_to_client_switch i)) (\<lambda>mac.
        node_then_cmd m (cfg_client_at (i + 1)) (\<lambda>s. arp_text (get_router_ip_to_client_switch (param s) i) mac)))]"

definition configure_congestion_server :: "mininet \<Rightarrow> nat \<times> handle \<Rightarrow> ('a multi_if_scheme, unit) py" where
  "configure_congestion_server m isv = (case isv of (i, sv) \<Rightarrow> block
     [cmd_then_node m (\<lambda>s. up_cmd (get_router_ip_to_server_switch (param s) i) (get_router_interface_to_server_switch s i))
        (py_attr cfg_router),
      py_bind (py_attr cfg_router) (\<lambda>h. py_bind (py_get (\<lambda>s. get_router_interface_to_server_switch s i)) (\<lambda>r_if.
        py_bind (node_mac m h r_if) (\<lambda>mac.
        node_then_cmd m (py_return sv) (\<lambda>s. arp_text (get_router_ip_to_server_switch (param s) i) mac)))),
      cmd_then_node m (\<lambda>s. up_cmd (get_server_ip (param s) i) (get_server_interface i 0)) (py_return sv),
      py_bind (node_mac m sv (get_server_interface i 0)) (\<lambda>mac.
        node_then_cmd m (py_attr cfg_router) (\<lambda>s. arp_text (get_server_ip (param s) i) mac))])"

definition multi_client_configure_interfaces :: "mininet \<Rightarrow> ('a multi_if_scheme, unit) py" where
  "multi_client_configure_interfaces m = block
     [multi_if_configure_interfaces m,
      py_bind (py_get client_count) (\<lambda>n. py_bind (py_collect [0..<n] get_client) (\<lambda>hs.
        py_modify (\<lambda>s. s\<lparr>cfg_clients := Some hs\<rparr>))),
      py_bind (py_get server_count) (\<lambda>n. py_bind (py_collect [0..<n] get_server) (\<lambda>hs.
        py_modify (\<lambda>s. s\<lparr>cfg_servers := Some hs\<rparr>))),
      py_bind (py_get (\<lambda>s. length (c2r_links s))) (\<lambda>n. for_each [0..<n] (configure_congestion_client m)),
      py_bind (py_attr cfg_servers) (\<lambda>svs. for_each (enumerate 0 svs) (configure_congestion_server m))]"

definition congestion_client_route :: "mininet \<Rightarrow> nat \<Rightarrow> ('a multi_if_scheme, unit) py" where
  "congestion_client_route m i =
     cmd_then_node m (\<lambda>s. rbind (get_router_ip_to_client_switch (param s) i)
        (\<lambda>a. Inr (add_global_default_route_command a (get_client_interface (i + 1) 0)))) (cfg_client_at (i + 1))"

definition congestion_server_route :: "mininet \<Rightarrow> nat \<times> handle \<Rightarrow> ('a multi_if_scheme, unit) py" where
  "congestion_server_route m isv = (case isv of (i, sv) \<Rightarrow>
     cmd_then_node m (\<lambda>s. rbind (get_router_ip_to_server_switch (param s) i)
        (\<lambda>a. Inr (add_simple_default_route_command a))) (py_return sv))"

definition multi_client_configure_routing :: "mininet \<Rightarrow> ('a multi_if_scheme, unit) py" where
  "multi_client_configure_routing m = block
     [multi_if_configure_routing m,
      py_bind (py_get (\<lambda>s. length (c2r_links s))) (\<lambda>n. for_each [0..<n] (congestion_client_route m)),
      py_bind (py_get servers) (\<lambda>svs. for_each (enumerate 0 svs) (congestion_server_route m))]"

section \<open>The graph\<close>

text \<open>The part added to the graph of the base class, for the links \<open>cs\<close>.\<close>

definition pair_graph :: "nat \<Rightarrow> link \<Rightarrow> graph_op list" where
  "pair_graph i l = [AddHost (get_client_name i), AddHost (get_server_name i),
     AddLink (Name (get_client_name i)) (Name (get_bs_name l 0))]"

definition multi_client_graph :: "link list \<Rightarrow> link list \<Rightarrow> graph_op list" where
  "multi_client_graph cs rs = multi_if_graph cs rs @
     concat (map (\<lambda>(i, l). pair_graph i l) (enumerate 1 cs)) @
     map (\<lambda>i. AddLink (Name Router) (Name (get_server_name i))) [1..<Suc (length cs)]"

lemma add_congestion_pair_ok:
  assumes "mininet_ok m" "length (servers s) = length (clients s)" "k < length (bottleneck_links s)"
  shows "add_congestion_pair m k s = (Inr (),
     s\<lparr>graph := graph s @ [AddHost (get_client_name (length (clients s))), AddHost (get_server_name (length (clients s))),
         AddLink (Name (get_client_name (length (clients s)))) (bs0 (bottleneck_links s ! k))],
       clients := clients s @ [Name (get_client_name (length (clients s)))],
       servers := servers s @ [Name (get_server_name (length (clients s)))]\<rparr>)"
  using assms by (simp add: add_congestion_pair_def add_client_def add_server_def builder_add_host_def
      builder_add_link_def grow_def py_bind_apply added_name_ok client_count_def server_count_def)

lemma congestion_pairs_ok:
  assumes m: "mininet_ok m"
  shows "\<forall>i < length ls. ks ! i < length (bottleneck_links s) \<and>
       bottleneck_links s ! (ks ! i) = bottleneck_of (ls ! i) \<Longrightarrow> length ks = length ls \<Longrightarrow>
     clients s = map (\<lambda>i. Name (get_client_name i)) [0..<n] \<Longrightarrow> servers s = map (\<lambda>i. Name (get_server_name i)) [0..<n] \<Longrightarrow>
     for_each ks (add_congestion_pair m) s = (Inr (),
     s\<lparr>graph := graph s @ concat (map (\<lambda>(i, l). pair_graph i l) (enumerate n ls)),
       clients := map (\<lambda>i. Name (get_client_name i)) [0..<n + length ls],
       servers := map (\<lambda>i. Name (get_server_name i)) [0..<n + length ls]\<rparr>)"
proof (induction ls arbitrary: ks n s)
  case Nil
  then show ?case by simp
next
  case (Cons l ls)
  obtain k ks' where ks: "ks = k # ks'" using Cons.prems(2) by (cases ks) auto
  have k: "k < length (bottleneck_links s)" "bottleneck_links s ! k = bottleneck_of l"
    using Cons.prems(1) ks by auto
  let ?t = "s\<lparr>graph := graph s @ pair_graph n l, clients := map (\<lambda>i. Name (get_client_name i)) [0..<Suc n],
      servers := map (\<lambda>i. Name (get_server_name i)) [0..<Suc n]\<rparr>"
  have step: "add_congestion_pair m k s = (Inr (), ?t)"
    using k Cons.prems(3,4) by (subst add_congestion_pair_ok [OF m]) (simp_all add: pair_graph_def bottleneck_of_def)
  have "for_each ks' (add_congestion_pair m) ?t = (Inr (),
     ?t\<lparr>graph := graph ?t @ concat (map (\<lambda>(i, l). pair_graph i l) (enumerate (Suc n) ls)),
       clients := map (\<lambda>i. Name (get_client_name i)) [0..<Suc n + length ls],
       servers := map (\<lambda>i. Name (get_server_name i)) [0..<Suc n + length ls]\<rparr>)"
    by (rule Cons.IH) (use Cons.prems ks in force)+
  then show ?case using step by (simp add: ks py_bind_apply del: upt_Suc)
qed

lemma server_links_ok:
  assumes "mi_router s = Name Router"
  shows "for_each (map (\<lambda>i. Name (get_server_name i)) is)
      (\<lambda>sv. py_bind (py_get mi_router) (\<lambda>r. builder_add_link r sv)) s =
    (Inr (), s\<lparr>graph := graph s @ map (\<lambda>i. AddLink (Name Router) (Name (get_server_name i))) is\<rparr>)"
  using assms by (induction "is" arbitrary: s) (simp_all add: py_bind_apply builder_add_link_def grow_def)

definition multi_client_built :: "topo_param \<Rightarrow> bool \<Rightarrow> 'a multi_if_scheme \<Rightarrow> 'a multi_if_scheme" where
  "multi_client_built tp change s =
     (let cs = get_client_to_router_links tp; rs = get_router_to_server_links tp in
      (multi_if_built tp change s)\<lparr>graph := graph s @ multi_client_graph cs rs,
        clients := map (\<lambda>i. Name (get_client_name i)) [0..<Suc (length cs)],
        servers := map (\<lambda>i. Name (get_server_name i)) [0..<Suc (length cs)]\<rparr>)"

lemma multi_client_init_ok:
  assumes m: "mininet_ok m" and change: "get_param tp CHANGE_NETEM = Inr (PStr v)"
  shows "multi_client_topo_init m tp s = (Inr (), multi_client_built tp (lower v = ''yes'') s)"
proof -
  let ?cs = "get_client_to_router_links tp" and ?rs = "get_router_to_server_links tp"
  let ?b = "multi_if_built tp (lower v = ''yes'') s"
  have b: "c2r_links ?b = [0..<length ?cs]" "bottleneck_links ?b = map bottleneck_of (?cs @ ?rs)"
    "clients ?b = map (\<lambda>i. Name (get_client_name i)) [0..<1]" "servers ?b = map (\<lambda>i. Name (get_server_name i)) [0..<1]"
    "mi_router ?b = Name Router" "graph ?b = graph s @ multi_if_graph ?cs ?rs"
    by (simp_all add: multi_if_built_def Let_def)
  let ?t = "?b\<lparr>graph := graph ?b @ concat (map (\<lambda>(i, l). pair_graph i l) (enumerate 1 ?cs)),
      clients := map (\<lambda>i. Name (get_client_name i)) [0..<1 + length ?cs],
      servers := map (\<lambda>i. Name (get_server_name i)) [0..<1 + length ?cs]\<rparr>"
  have pairs: "for_each [0..<length ?cs] (add_congestion_pair m) ?b = (Inr (), ?t)"
    by (rule congestion_pairs_ok [OF m _ _ b(3,4)]) (simp_all add: b(2) nth_append)
  have tail: "tl (servers ?t) = map (\<lambda>i. Name (get_server_name i)) [1..<Suc (length ?cs)]"
    by (simp add: upt_conv_Cons del: upt_Suc)
  have router: "mi_router ?t = Name Router" by (simp add: b(5))
  let ?u = "?t\<lparr>graph := graph ?t @
      map (\<lambda>i. AddLink (Name Router) (Name (get_server_name i))) [1..<Suc (length ?cs)]\<rparr>"
  have step2: "py_bind (py_get c2r_links) (\<lambda>ks. for_each ks (add_congestion_pair m)) ?b = (Inr (), ?t)"
    by (simp only: py_bind_get b(1) pairs)
  have step3: "py_bind (py_get servers) (\<lambda>svs. for_each (tl svs) (\<lambda>sv.
        py_bind (py_get mi_router) (\<lambda>r. builder_add_link r sv))) ?t = (Inr (), ?u)"
    by (simp only: py_bind_get tail server_links_ok [OF router])
  have "multi_client_topo_init m tp s = (Inr (), ?u)"
    unfolding multi_client_topo_init_def
    by (rule trans, rule block_step, rule multi_if_init_ok [OF m change], rule trans, rule block_step, rule step2,
        rule trans, rule block_step, rule step3) simp
  then show ?thesis
    by (simp add: multi_client_built_def Let_def b(6) multi_client_graph_def del: upt_Suc)
qed

section \<open>The ports\<close>

lemma ports_pairs:
  "ports Router (concat (map (\<lambda>(i, l). pair_graph i l) (enumerate n cs))) = []"
  "ports (get_server_name j) (concat (map (\<lambda>(i, l). pair_graph i l) (enumerate n cs))) = []"
  by (induction cs arbitrary: n) (simp_all add: pair_graph_def)

lemma ports_pairs_client:
  "ports (get_client_name j) (concat (map (\<lambda>(i, l). pair_graph i l) (enumerate n cs))) =
     (if n \<le> j \<and> j < n + length cs
      then [AddLink (Name (get_client_name j)) (Name (get_bs_name (cs ! (j - n)) 0))] else [])"
proof (induction cs arbitrary: n)
  case (Cons l cs)
  show ?case
  proof (cases "j = n")
    case True
    then show ?thesis using Cons [of "Suc n"] by (simp add: pair_graph_def)
  next
    case False
    then show ?thesis using Cons [of "Suc n"] by (auto simp: pair_graph_def nth_Cons split: nat.splits)
       (metis Suc_diff_Suc Suc_le_lessD diff_Suc_1 nat.inject less_Suc_eq_le not_less_eq)+
  qed
qed simp

lemma ports_server_links:
  "ports Router (map (\<lambda>i. AddLink (Name Router) (Name (get_server_name i))) is) =
     map (\<lambda>i. AddLink (Name Router) (Name (get_server_name i))) is"
  "ports (get_client_name j) (map (\<lambda>i. AddLink (Name Router) (Name (get_server_name i))) is) = []"
  "distinct is \<Longrightarrow> ports (get_server_name j) (map (\<lambda>i. AddLink (Name Router) (Name (get_server_name i))) is) =
     (if j \<in> set is then [AddLink (Name Router) (Name (get_server_name j))] else [])"
  by (induction "is") auto

lemma ports_multi_if_other:
  "0 < j \<Longrightarrow> ports (get_client_name j) (multi_if_graph cs rs) = []"
  "0 < j \<Longrightarrow> ports (get_server_name j) (multi_if_graph cs rs) = []"
  by (simp_all add: multi_if_graph_def ports_concat ports_path_host comp_def)

lemma ports_multi_client:
  "ports Router (multi_client_graph cs rs) = ports Router (multi_if_graph cs rs) @
     map (\<lambda>i. AddLink (Name Router) (Name (get_server_name i))) [1..<Suc (length cs)]"
  "ports Client (multi_client_graph cs rs) = ports Client (multi_if_graph cs rs)"
  "ports Server (multi_client_graph cs rs) = ports Server (multi_if_graph cs rs)"
  "i < length cs \<Longrightarrow> ports (get_client_name (Suc i)) (multi_client_graph cs rs) =
     [AddLink (Name (get_client_name (Suc i))) (Name (get_bs_name (cs ! i) 0))]"
  "1 \<le> i \<Longrightarrow> i \<le> length cs \<Longrightarrow> ports (get_server_name i) (multi_client_graph cs rs) =
     [AddLink (Name Router) (Name (get_server_name i))]"
  by (simp_all add: multi_client_graph_def ports_pairs ports_pairs_client ports_server_links
      ports_multi_if_other del: upt_Suc)

lemma length_ports_router: "length (ports Router (multi_if_graph cs rs)) = length cs + max (length rs) 1"
  by (simp add: ports_multi_if max_def le_Suc_eq)

lemma loop_free_multi_client:
  assumes "links_ok cs rs" "e \<in> set (multi_client_graph cs rs)"
  shows "loop_free e"
proof -
  have "loop_free e" if "e \<in> set (pair_graph i l)" for i l
    using that by (auto simp: pair_graph_def loop_free_def)
  moreover have "loop_free (AddLink (Name Router) (Name (get_server_name i)))" for i
    by (simp add: loop_free_def)
  ultimately show ?thesis
    using assms loop_free_multi_if by (auto simp: multi_client_graph_def)
qed

lemma degree_multi_client:
  "links_ok cs rs \<Longrightarrow> degree (multi_client_graph cs rs) n = length (ports n (multi_client_graph cs rs))"
  by (rule degree_ports) (blast intro: loop_free_ends loop_free_multi_client)

lemma multi_client_hosts:
  "host_names (multi_client_graph cs rs) = [Client, Server, Router] @
     concat (map (\<lambda>i. [get_client_name i, get_server_name i]) [1..<Suc (length cs)])"
proof -
  have "host_names (concat (map (\<lambda>(i, l). pair_graph i l) (enumerate n ls))) =
      concat (map (\<lambda>i. [get_client_name i, get_server_name i]) [n..<n + length ls])" for n ls
    by (induction ls arbitrary: n) (simp_all add: pair_graph_def upt_conv_Cons del: upt_Suc)
  moreover have "host_names (map (\<lambda>i. AddLink (Name Router) (Name (get_server_name i))) is) = []" for "is"
    by (induction "is") simp_all
  ultimately show ?thesis by (simp add: multi_client_graph_def multi_if_hosts del: upt_Suc)
qed

section \<open>The commands of the configuration\<close>

definition congestion_client_events :: "mininet \<Rightarrow> graph_op list \<Rightarrow> string \<Rightarrow> nat \<Rightarrow> event list" where
  "congestion_client_events m g left i =
     [up_event (get_client_name (Suc i)) 0 (ip_text left i ''.10''),
      arp_event m g Router (get_client_name (Suc i)) 0 (ip_text left i ''.10''),
      arp_event m g (get_client_name (Suc i)) Router i (ip_text left i ''.2'')]"

definition congestion_server_events :: "mininet \<Rightarrow> graph_op list \<Rightarrow> string \<Rightarrow> nat \<Rightarrow> nat \<Rightarrow> event list" where
  "congestion_server_events m g right nc i =
     [up_event Router (nc + i) (ip_text right i ''.2''),
      arp_event m g (get_server_name i) Router (nc + i) (ip_text right i ''.2''),
      up_event (get_server_name i) 0 (ip_text right i ''.1''),
      arp_event m g Router (get_server_name i) 0 (ip_text right i ''.1'')]"

definition multi_client_configured :: "plan \<Rightarrow> 'a multi_if_scheme \<Rightarrow> bool" where
  "multi_client_configured pl s \<longleftrightarrow> configured pl s \<and>
     cfg_clients s = Some (map (\<lambda>i. Node (get_client_name i)) [0..<Suc (pl_nc pl)]) \<and>
     cfg_servers s = Some (map (\<lambda>i. Node (get_server_name i)) [0..<Suc (pl_nc pl)]) \<and>
     servers s = map (\<lambda>i. Node (get_server_name i)) [0..<Suc (pl_nc pl)]"

definition multi_client_ports_exist :: "plan \<Rightarrow> bool" where
  "multi_client_ports_exist pl \<longleftrightarrow> ports_exist pl \<and>
     (\<forall>i \<le> pl_nc pl. {get_client_name i, get_server_name i} \<subseteq> set (host_names (pl_graph pl))) \<and>
     (\<forall>i < pl_nc pl. 0 < degree (pl_graph pl) (get_client_name (Suc i))) \<and>
     (\<forall>i \<le> pl_nc pl. 0 < degree (pl_graph pl) (get_server_name i)) \<and>
     pl_nc pl + Suc (pl_nc pl) \<le> degree (pl_graph pl) Router"

lemma stable_multi_client: "stable m (multi_client_configured pl)"
  by (simp add: stable_def multi_client_configured_def configured_def)

lemma does_cmd_then_node:
  assumes "mininet_ok m" "\<And>s. live s \<Longrightarrow> P s \<Longrightarrow> who s = (Inr (Node n), s)" "\<And>s. P s \<Longrightarrow> cmd s = Inr c"
  shows "does m P [NodeCmd n c] (cmd_then_node m cmd who)"
  unfolding cmd_then_node_def
  by (rule does_bind_get [OF assms(3)], assumption, rule does_bind_lift [OF refl],
      rule does_bind_value [OF assms(2)], assumption, assumption, rule does_command [OF assms(1)])

lemma does_node_then_cmd:
  assumes "mininet_ok m" "\<And>s. live s \<Longrightarrow> P s \<Longrightarrow> who s = (Inr (Node n), s)" "\<And>s. P s \<Longrightarrow> cmd s = Inr c"
  shows "does m P [NodeCmd n c] (node_then_cmd m who cmd)"
  unfolding node_then_cmd_def
  by (rule does_bind_value [OF assms(2)], assumption, assumption, rule does_bind_get [OF assms(3)], assumption,
      rule does_bind_lift [OF refl], rule does_command [OF assms(1)])

text \<open>What the statements read from a configured state.\<close>

lemma multi_client_reads:
  assumes "multi_client_configured pl s"
  shows "py_attr cfg_router s = (Inr (Node Router), s)"
    "i \<le> pl_nc pl \<Longrightarrow> cfg_client_at i s = (Inr (Node (get_client_name i)), s)"
    "multi_client_ip (param s) i True = Inr (ip_text (pl_left pl) i ''.10'')"
    "get_router_ip_to_client_switch (param s) i = Inr (ip_text (pl_left pl) i ''.2'')"
    "get_router_ip_to_server_switch (param s) i = Inr (ip_text (pl_right pl) i ''.2'')"
    "get_server_ip (param s) i = Inr (ip_text (pl_right pl) i ''.1'')"
    "get_router_interface_to_server_switch s i = port_name Router (pl_nc pl + i)"
    "net_graph s = pl_graph pl"
proof -
  have conf: "configured pl s" using assms by (simp add: multi_client_configured_def)
  show "py_attr cfg_router s = (Inr (Node Router), s)"
    using conf by (simp add: py_attr_def py_bind_apply configured_who)
  show "cfg_client_at i s = (Inr (Node (get_client_name i)), s)" if "i \<le> pl_nc pl"
    using assms that
    by (simp add: cfg_client_at_def py_attr_def py_bind_apply multi_client_configured_def nth_append del: upt_Suc)
  show "multi_client_ip (param s) i True = Inr (ip_text (pl_left pl) i ''.10'')"
    using conf by (auto simp: multi_client_ip_def subnet_text_def LEFT_SUBNET_def configured_def has_subnets_def ip_text_def)
  show "net_graph s = pl_graph pl" using conf by (simp add: net_graph_def configured_def)
qed (use assms in \<open>simp_all add: multi_client_configured_def configured_facts\<close>)

lemma node_mac_at:
  assumes "mininet_ok m" "n \<in> set (host_names (pl_graph pl))" "k < degree (pl_graph pl) n"
    and "multi_client_configured pl s"
  shows "node_mac m (Node n) (port_name n k) s = (Inr (mac_of m (pl_graph pl) n (port_name n k)), s)"
  using mininet_ok_mac [OF assms(1-3)] multi_client_reads(8) [OF assms(4)]
  by (auto simp: node_mac_def mac_of_def py_bind_apply)

lemma does_congestion_client:
  assumes m: "mininet_ok m" and pl: "multi_client_ports_exist pl" and i: "i < pl_nc pl"
  shows "does m (multi_client_configured pl) (congestion_client_events m (pl_graph pl) (pl_left pl) i)
     (configure_congestion_client m i)"
proof -
  let ?P = "multi_client_configured pl" and ?c = "get_client_name (Suc i)"
  have host: "?c \<in> set (host_names (pl_graph pl))" "Router \<in> set (host_names (pl_graph pl))"
    and deg: "0 < degree (pl_graph pl) ?c" "i < degree (pl_graph pl) Router"
    using pl i by (auto simp: multi_client_ports_exist_def ports_exist_def)
  have "Suc i \<le> pl_nc pl" using i by simp
  note client = multi_client_reads(2) [OF _ this]
  note mac = node_mac_at [OF m host(1) deg(1)] node_mac_at [OF m host(2) deg(2)]
  have 1: "does m ?P [up_event ?c 0 (ip_text (pl_left pl) i ''.10'')]
     (cmd_then_node m (\<lambda>s. up_cmd (multi_client_ip (param s) i True) (get_client_interface (i + 1) 0)) (cfg_client_at (i + 1)))"
    unfolding up_event_def by (rule does_cmd_then_node [OF m]) (simp_all add: client up_cmd_def multi_client_reads)
  have 2: "does m ?P [arp_event m (pl_graph pl) Router ?c 0 (ip_text (pl_left pl) i ''.10'')]
     (py_bind (cfg_client_at (i + 1)) (\<lambda>h. py_bind (node_mac m h (get_client_interface (i + 1) 0)) (\<lambda>mac.
        node_then_cmd m (py_attr cfg_router) (\<lambda>s. arp_text (multi_client_ip (param s) i True) mac))))"
    unfolding arp_event_def
    by (rule does_bind_value [where x = "Node ?c"], simp add: client, rule does_bind_value, simp add: mac,
        rule does_node_then_cmd [OF m]) (simp_all add: multi_client_reads arp_text_def arp_command_def)
  have 3: "does m ?P [arp_event m (pl_graph pl) ?c Router i (ip_text (pl_left pl) i ''.2'')]
     (py_bind (py_attr cfg_router) (\<lambda>h. py_bind (node_mac m h (get_router_interface_to_client_switch i)) (\<lambda>mac.
        node_then_cmd m (cfg_client_at (i + 1)) (\<lambda>s. arp_text (get_router_ip_to_client_switch (param s) i) mac))))"
    unfolding arp_event_def
    by (rule does_bind_value [where x = "Node Router"], simp add: multi_client_reads, rule does_bind_value, simp add: mac,
        rule does_node_then_cmd [OF m]) (simp_all add: client multi_client_reads arp_text_def arp_command_def)
  have "does m ?P ([up_event ?c 0 (ip_text (pl_left pl) i ''.10'')] @
      [arp_event m (pl_graph pl) Router ?c 0 (ip_text (pl_left pl) i ''.10'')] @
      [arp_event m (pl_graph pl) ?c Router i (ip_text (pl_left pl) i ''.2'')] @ []) (configure_congestion_client m i)"
    unfolding configure_congestion_client_def by (intro does_block_Cons [OF stable_multi_client] does_block_Nil 1 2 3)
  then show ?thesis by (simp add: congestion_client_events_def)
qed

lemma does_congestion_server:
  assumes m: "mininet_ok m" and pl: "multi_client_ports_exist pl" and i: "i \<le> pl_nc pl"
  shows "does m (multi_client_configured pl) (congestion_server_events m (pl_graph pl) (pl_right pl) (pl_nc pl) i)
     (configure_congestion_server m (i, Node (get_server_name i)))"
proof -
  let ?P = "multi_client_configured pl" and ?s = "get_server_name i"
  have host: "?s \<in> set (host_names (pl_graph pl))" "Router \<in> set (host_names (pl_graph pl))"
    and deg: "0 < degree (pl_graph pl) ?s" "pl_nc pl + i < degree (pl_graph pl) Router"
    using pl i by (auto simp: multi_client_ports_exist_def ports_exist_def)
  note mac = node_mac_at [OF m host(1) deg(1)] node_mac_at [OF m host(2) deg(2)]
  have 1: "does m ?P [up_event Router (pl_nc pl + i) (ip_text (pl_right pl) i ''.2'')]
     (cmd_then_node m (\<lambda>s. up_cmd (get_router_ip_to_server_switch (param s) i) (get_router_interface_to_server_switch s i))
        (py_attr cfg_router))"
    unfolding up_event_def by (rule does_cmd_then_node [OF m]) (simp_all add: up_cmd_def multi_client_reads)
  have 2: "does m ?P [arp_event m (pl_graph pl) ?s Router (pl_nc pl + i) (ip_text (pl_right pl) i ''.2'')]
     (py_bind (py_attr cfg_router) (\<lambda>h. py_bind (py_get (\<lambda>s. get_router_interface_to_server_switch s i)) (\<lambda>r_if.
        py_bind (node_mac m h r_if) (\<lambda>mac.
        node_then_cmd m (py_return (Node ?s)) (\<lambda>s. arp_text (get_router_ip_to_server_switch (param s) i) mac)))))"
    unfolding arp_event_def
    by (rule does_bind_value [where x = "Node Router"], simp add: multi_client_reads,
        rule does_bind_get [where x = "port_name Router (pl_nc pl + i)"], simp add: multi_client_reads,
        rule does_bind_value, simp add: mac,
        rule does_node_then_cmd [OF m]) (simp_all add: multi_client_reads arp_text_def arp_command_def)
  have 3: "does m ?P [up_event ?s 0 (ip_text (pl_right pl) i ''.1'')]
     (cmd_then_node m (\<lambda>s. up_cmd (get_server_ip (param s) i) (get_server_interface i 0)) (py_return (Node ?s)))"
    unfolding up_event_def by (rule does_cmd_then_node [OF m]) (simp_all add: up_cmd_def multi_client_reads)
  have 4: "does m ?P [arp_event m (pl_graph pl) Router ?s 0 (ip_text (pl_right pl) i ''.1'')]
     (py_bind (node_mac m (Node ?s) (get_server_interface i 0)) (\<lambda>mac.
        node_then_cmd m (py_attr cfg_router) (\<lambda>s. arp_text (get_server_ip (param s) i) mac)))"
    unfolding arp_event_def
    by (rule does_bind_value, simp add: mac,
        rule does_node_then_cmd [OF m]) (simp_all add: multi_client_reads arp_text_def arp_command_def)
  have "does m ?P ([up_event Router (pl_nc pl + i) (ip_text (pl_right pl) i ''.2'')] @
      [arp_event m (pl_graph pl) ?s Router (pl_nc pl + i) (ip_text (pl_right pl) i ''.2'')] @
      [up_event ?s 0 (ip_text (pl_right pl) i ''.1'')] @
      [arp_event m (pl_graph pl) Router ?s 0 (ip_text (pl_right pl) i ''.1'')] @ [])
      (configure_congestion_server m (i, Node ?s))"
    unfolding configure_congestion_server_def prod.case
    by (intro does_block_Cons [OF stable_multi_client] does_block_Nil 1 2 3 4)
  then show ?thesis by (simp add: congestion_server_events_def)
qed

definition congestion_route_events :: "string \<Rightarrow> string \<Rightarrow> nat \<Rightarrow> event list" where
  "congestion_route_events left right nc =
     map (\<lambda>i. NodeCmd (get_client_name (Suc i)) (add_global_default_route_command (ip_text left i ''.2'')
        (port_name (get_client_name (Suc i)) 0))) [0..<nc] @
     map (\<lambda>i. NodeCmd (get_server_name i) (add_simple_default_route_command (ip_text right i ''.2''))) [0..<Suc nc]"

lemma enumerate_nodes:
  "enumerate 0 (map (\<lambda>i. Node (f i)) [0..<n]) = map (\<lambda>i. (i, Node (f i))) [0..<n]"
  by (intro nth_equalityI) (simp_all add: nth_enumerate_eq)

lemma does_congestion_routes:
  assumes m: "mininet_ok m"
  shows "does m (multi_client_configured pl) (congestion_route_events (pl_left pl) (pl_right pl) (pl_nc pl))
     (block
       [py_bind (py_get (\<lambda>s. length (c2r_links s))) (\<lambda>n. for_each [0..<n] (congestion_client_route m)),
        py_bind (py_get servers) (\<lambda>svs. for_each (enumerate 0 svs) (congestion_server_route m))])"
proof -
  let ?P = "multi_client_configured pl"
  let ?c = "\<lambda>i. NodeCmd (get_client_name (Suc i)) (add_global_default_route_command (ip_text (pl_left pl) i ''.2'')
      (port_name (get_client_name (Suc i)) 0))"
  let ?s = "\<lambda>i. NodeCmd (get_server_name i) (add_simple_default_route_command (ip_text (pl_right pl) i ''.2''))"
  have client: "does m ?P [?c i] (congestion_client_route m i)" if i: "i < pl_nc pl" for i
  proof -
    have "Suc i \<le> pl_nc pl" using i by simp
    note client = multi_client_reads(2) [OF _ this]
    show ?thesis unfolding congestion_client_route_def
      by (rule does_cmd_then_node [OF m]) (simp_all add: client multi_client_reads)
  qed
  have server: "does m ?P [?s i] (congestion_server_route m (i, Node (get_server_name i)))" for i
    unfolding congestion_server_route_def prod.case
    by (rule does_cmd_then_node [OF m]) (simp_all add: multi_client_reads)
  have 1: "does m ?P (concat (map (\<lambda>i. [?c i]) [0..<pl_nc pl]))
      (py_bind (py_get (\<lambda>s. length (c2r_links s))) (\<lambda>n. for_each [0..<n] (congestion_client_route m)))"
    by (rule does_bind_get [where x = "pl_nc pl"], simp add: multi_client_configured_def configured_counts,
        rule does_for_each [OF stable_multi_client], rule client) simp
  have 2: "does m ?P (concat (map (\<lambda>i. [?s i]) [0..<Suc (pl_nc pl)]))
      (py_bind (py_get servers) (\<lambda>svs. for_each (enumerate 0 svs) (congestion_server_route m)))"
    by (rule does_bind_get [where x = "map (\<lambda>i. Node (get_server_name i)) [0..<Suc (pl_nc pl)]"],
        simp add: multi_client_configured_def, unfold enumerate_nodes for_each_map,
        rule does_for_each [OF stable_multi_client], rule server)
  have "does m ?P (concat (map (\<lambda>i. [?c i]) [0..<pl_nc pl]) @ concat (map (\<lambda>i. [?s i]) [0..<Suc (pl_nc pl)]) @ [])
     (block
       [py_bind (py_get (\<lambda>s. length (c2r_links s))) (\<lambda>n. for_each [0..<n] (congestion_client_route m)),
        py_bind (py_get servers) (\<lambda>svs. for_each (enumerate 0 svs) (congestion_server_route m))])"
    by (intro does_block_Cons [OF stable_multi_client] does_block_Nil 1 2)
  then show ?thesis by (simp add: congestion_route_events_def concat_map_singleton del: upt_Suc)
qed

lemma does_congestion_interfaces:
  assumes m: "mininet_ok m" and pl: "multi_client_ports_exist pl"
  shows "does m (multi_client_configured pl)
     (concat (map (congestion_client_events m (pl_graph pl) (pl_left pl)) [0..<pl_nc pl]) @
      concat (map (congestion_server_events m (pl_graph pl) (pl_right pl) (pl_nc pl)) [0..<Suc (pl_nc pl)]))
     (block
       [py_bind (py_get (\<lambda>s. length (c2r_links s))) (\<lambda>n. for_each [0..<n] (configure_congestion_client m)),
        py_bind (py_attr cfg_servers) (\<lambda>svs. for_each (enumerate 0 svs) (configure_congestion_server m))])"
proof -
  let ?P = "multi_client_configured pl"
  let ?cs = "concat (map (congestion_client_events m (pl_graph pl) (pl_left pl)) [0..<pl_nc pl])"
  let ?ss = "concat (map (congestion_server_events m (pl_graph pl) (pl_right pl) (pl_nc pl)) [0..<Suc (pl_nc pl)])"
  have 1: "does m ?P ?cs
      (py_bind (py_get (\<lambda>s. length (c2r_links s))) (\<lambda>n. for_each [0..<n] (configure_congestion_client m)))"
    by (rule does_bind_get [where x = "pl_nc pl"], simp add: multi_client_configured_def configured_counts,
        rule does_for_each [OF stable_multi_client], rule does_congestion_client [OF m pl]) simp
  have 2: "does m ?P ?ss
      (py_bind (py_attr cfg_servers) (\<lambda>svs. for_each (enumerate 0 svs) (configure_congestion_server m)))"
    by (rule does_bind_value [where x = "map (\<lambda>i. Node (get_server_name i)) [0..<Suc (pl_nc pl)]"],
        simp add: multi_client_configured_def py_attr_def py_bind_apply, unfold enumerate_nodes for_each_map,
        rule does_for_each [OF stable_multi_client], rule does_congestion_server [OF m pl]) auto
  have "does m ?P (?cs @ ?ss @ []) (block
       [py_bind (py_get (\<lambda>s. length (c2r_links s))) (\<lambda>n. for_each [0..<n] (configure_congestion_client m)),
        py_bind (py_attr cfg_servers) (\<lambda>svs. for_each (enumerate 0 svs) (configure_congestion_server m))])"
    by (intro does_block_Cons [OF stable_multi_client] does_block_Nil 1 2)
  then show ?thesis by (simp del: upt_Suc)
qed

section \<open>From the parameters to the configured network\<close>

definition multi_client_configure :: "mininet \<Rightarrow> ('a multi_if_scheme, unit) py" where
  "multi_client_configure m =
     configure_network m (multi_client_configure_interfaces m) (multi_client_configure_routing m)"

definition multi_client_start :: "mininet \<Rightarrow> topo_param \<Rightarrow> ('a multi_if_scheme, unit) py" where
  "multi_client_start m tp = block
     [multi_client_topo_init m tp, topo_config_init tp, builder_start_network m, multi_client_configure m]"

definition multi_client_events :: "mininet \<Rightarrow> string \<Rightarrow> string \<Rightarrow> link list \<Rightarrow> link list \<Rightarrow> event list" where
  "multi_client_events m left right cs rs =
     (let g = multi_client_graph cs rs; nc = length cs; nr = length rs in
      tso_events m g @ concat (map (bottleneck_events m g) (cs @ rs)) @
      interface_events m g left right nc nr @
      concat (map (congestion_client_events m g left) [0..<nc]) @
      concat (map (congestion_server_events m g right nc) [0..<Suc nc]) @
      routing_events left right nc nr @ congestion_route_events left right nc)"

definition multi_client_plan :: "string \<Rightarrow> string \<Rightarrow> link list \<Rightarrow> link list \<Rightarrow> plan" where
  "multi_client_plan left right cs rs = \<lparr>pl_graph = multi_client_graph cs rs, pl_left = left, pl_right = right,
     pl_nc = length cs, pl_nr = length rs\<rparr>"

lemma degree_server:
  assumes "links_ok cs rs" "i \<le> length cs"
  shows "0 < degree (multi_client_graph cs rs) (get_server_name i)"
proof (cases "i = 0")
  case True
  then show ?thesis using assms(1) by (simp add: degree_multi_client ports_multi_client ports_multi_if)
next
  case False
  then show ?thesis using assms by (simp add: degree_multi_client ports_multi_client)
qed

lemma multi_client_hosts_mem:
  "i \<le> length cs \<Longrightarrow> get_client_name i \<in> set (host_names (multi_client_graph cs rs))"
  "i \<le> length cs \<Longrightarrow> get_server_name i \<in> set (host_names (multi_client_graph cs rs))"
  "Router \<in> set (host_names (multi_client_graph cs rs))"
  by (cases "i = 0"; force simp: multi_client_hosts simp del: upt_Suc)+

lemma host_names_known: "n \<in> set (host_names g) \<Longrightarrow> n \<in> set (graph_names g)"
  by (auto simp: graph_names_def host_names_def split: graph_op.splits)

lemma multi_client_plan_ok:
  assumes "links_ok cs rs"
  shows "multi_client_ports_exist (multi_client_plan left right cs rs)"
proof -
  have "ports_exist (multi_client_plan left right cs rs)"
    using assms multi_client_hosts_mem(1,2) [of 0 cs rs] multi_client_hosts_mem(3) [of cs rs] length_ports_router [of cs rs]
    by (simp add: ports_exist_def multi_client_plan_def degree_multi_client ports_multi_client ports_multi_if max_def Suc_le_eq)
  then show ?thesis
    using assms multi_client_hosts_mem length_ports_router [of cs rs]
    by (simp add: multi_client_ports_exist_def multi_client_plan_def degree_server)
       (simp add: degree_multi_client ports_multi_client del: upt_Suc)
qed

text \<open>The middle switches keep their two ports.\<close>

lemma ports_switch_client:
  assumes "k \<noteq> 0" "plain_type l" "\<forall>l' \<in> set cs. plain_type l'"
  shows "ports (get_bs_name l k) (multi_client_graph cs rs) = ports (get_bs_name l k) (multi_if_graph cs rs)"
proof -
  have "ports (get_bs_name l k) (concat (map (\<lambda>(i, l). pair_graph i l) (enumerate n ls))) = []"
    if "\<forall>l' \<in> set ls. plain_type l'" for n ls
    using that assms(1,2) by (induction ls arbitrary: n) (auto simp: pair_graph_def bs_name_inject)
  moreover have "ports (get_bs_name l k) (map (\<lambda>i. AddLink (Name Router) (Name (get_server_name i))) is) = []" for "is"
    by (induction "is") simp_all
  ultimately show ?thesis using assms(3) by (simp add: multi_client_graph_def del: upt_Suc)
qed

lemma multi_client_switch_interfaces:
  assumes m: "mininet_ok m" and ok: "links_ok cs rs" and l: "l \<in> set (cs @ rs)" and k: "k = 1 \<or> k = 2"
  shows "interfaces m (multi_client_graph cs rs) (get_bs_name l k) =
     [port_name (get_bs_name l k) 1, port_name (get_bs_name l k) 2]"
proof -
  have plain: "plain_type l" "\<forall>l' \<in> set cs. plain_type l'" using ok l by (auto simp: links_ok_def)
  have "get_bs_name l k \<in> set (graph_names (multi_if_graph cs rs))" using l k by (intro bs_name_known) auto
  then have known: "get_bs_name l k \<in> set (graph_names (multi_client_graph cs rs))"
    by (simp add: multi_client_graph_def)
  have host: "get_bs_name l k \<notin> set (host_names (multi_client_graph cs rs))"
    by (auto simp: multi_client_hosts simp del: upt_Suc)
  have "degree (multi_client_graph cs rs) (get_bs_name l k) = 2"
    using k ports_switch_client [OF _ plain, of k] ports_multi_if_switch [OF ok l]
    by (auto simp: degree_multi_client [OF ok])
  moreover have "[1..<Suc 2] = [1, 2::nat]" by code_simp
  ultimately show ?thesis
    using mininet_okD(5) [where m = m, OF m known host] by (simp add: interfaces_def del: upt_Suc)
qed

lemma multi_client_names_known:
  assumes "graph s = []"
  shows "names_known (graph (multi_client_built tp change s)) (multi_client_built tp change s)"
proof -
  let ?cs = "get_client_to_router_links tp" and ?rs = "get_router_to_server_links tp"
  have g: "graph (multi_client_built tp change s) = multi_client_graph ?cs ?rs"
    by (simp add: multi_client_built_def Let_def assms)
  have "get_bs_name l i \<in> set (graph_names (multi_client_graph ?cs ?rs))" if "l \<in> set (?cs @ ?rs)" "i < 4" for l i
    using bs_name_known [OF that] by (simp add: multi_client_graph_def)
  note hosts = this host_names_known [OF multi_client_hosts_mem(1)] host_names_known [OF multi_client_hosts_mem(2)]
    host_names_known [OF multi_client_hosts_mem(3)]
  show ?thesis
    unfolding g names_known_def
    by (auto simp: multi_client_built_def multi_if_built_def Let_def bottleneck_of_def less_Suc_eq_le
        intro!: hosts simp del: upt_Suc)
qed

lemma collect_nodes:
  "py_collect [0..<client_count s] get_client s = (Inr (clients s), s)"
  "py_collect [0..<server_count s] get_server s = (Inr (servers s), s)"
proof -
  have "py_collect [0..<client_count s] get_client s = (Inr (map (\<lambda>i. clients s ! i) [0..<client_count s]), s)"
    by (rule collect_ok) (simp add: get_client_def client_count_def)
  then show "py_collect [0..<client_count s] get_client s = (Inr (clients s), s)"
    by (simp add: client_count_def map_nth)
  have "py_collect [0..<server_count s] get_server s = (Inr (map (\<lambda>i. servers s ! i) [0..<server_count s]), s)"
    by (rule collect_ok) (simp add: get_server_def server_count_def)
  then show "py_collect [0..<server_count s] get_server s = (Inr (servers s), s)"
    by (simp add: server_count_def map_nth)
qed

text \<open>The state on the running network.\<close>

definition multi_client_running :: "topo_param \<Rightarrow> bool \<Rightarrow> 'a multi_if_scheme \<Rightarrow> 'a multi_if_scheme" where
  "multi_client_running tp change s =
     (let t = reinit_of (multi_client_built tp change s) in
      t\<lparr>param := tp, net := Some (graph t), events := events s @ [NetStart],
        cfg_client := Some (Node Client), cfg_server := Some (Node Server), cfg_router := Some (Node Router),
        cfg_clients := Some (clients t), cfg_servers := Some (servers t)\<rparr>)"

lemma multi_client_start_ok:
  fixes s :: "'a multi_if_scheme" and tp :: topo_param
  defines "cs \<equiv> get_client_to_router_links tp" and "rs \<equiv> get_router_to_server_links tp"
  assumes m: "mininet_ok m" and keys: "distinct (map link_key (link_characteristics tp))"
    and bufs: "\<forall>l \<in> set (cs @ rs). \<exists>b. buffer_size l = Inr b"
    and subnets: "has_subnets left right tp" and change: "get_param tp CHANGE_NETEM = Inr (PStr v)"
    and s: "graph s = []" "NetStop \<notin> set (events s)"
  shows "multi_client_start m tp s = (Inr (), ran m (multi_client_events m left right cs rs)
     (multi_client_running tp (lower v = ''yes'') s))"
proof -
  let ?g = "multi_client_graph cs rs" and ?pl = "multi_client_plan left right cs rs"
  let ?b = "multi_client_built tp (lower v = ''yes'') s"
  define s1 where "s1 = ?b\<lparr>param := tp, net := Some ?g, events := events s @ [NetStart]\<rparr>"
  have ok: "links_ok cs rs" unfolding cs_def rs_def by (rule links_ok_filter [OF keys])
  have g: "graph ?b = ?g" by (simp add: multi_client_built_def Let_def s cs_def rs_def)
  have ev: "events ?b = events s" by (simp add: multi_client_built_def multi_if_built_def Let_def)
  have start: "multi_client_start m tp s = multi_client_configure m s1"
    by (simp add: multi_client_start_def py_bind_apply multi_client_init_ok [OF m change] topo_config_init_def
        builder_start_network_def mininet_okD [OF m] emit_def s1_def g ev split: prod.split sum.split)
  have "names_known ?g ?b" using multi_client_names_known [OF s(1), of tp "lower v = ''yes''"] by (simp only: g)
  then have known: "names_known (pl_graph ?pl) s1" by (simp add: names_known_def s1_def multi_client_plan_def)
  have live: "live s1" using s(2) by (simp add: live_def s1_def multi_client_built_def multi_if_built_def Let_def)
  have links: "map bl_link (bottleneck_links s1) = cs @ rs"
    by (simp add: s1_def multi_client_built_def multi_if_built_def Let_def cs_def rs_def comp_def) (simp add: bottleneck_of_def)
  have ifs: "\<forall>l \<in> set (cs @ rs). (\<exists>b. buffer_size l = Inr b) \<and>
      interfaces m (pl_graph ?pl) (get_bs_name l 1) \<noteq> [] \<and> interfaces m (pl_graph ?pl) (get_bs_name l 2) \<noteq> []"
    using bufs multi_client_switch_interfaces [OF m ok] by (auto simp: multi_client_plan_def)
  have facts: "net s1 = Some (pl_graph ?pl)" "has_subnets (pl_left ?pl) (pl_right ?pl) (param s1)"
      "length (c2r_links s1) = pl_nc ?pl" "length (r2s_links s1) = pl_nr ?pl" "topo_parameter s1 = param s1"
      "clients s1 \<noteq> []" "servers s1 \<noteq> []" "routers s1 \<noteq> []"
    by (simp_all add: s1_def multi_client_plan_def multi_client_built_def multi_if_built_def Let_def subnets cs_def rs_def)
  note plan = multi_client_plan_ok [OF ok, of left right]
  then have ports: "ports_exist ?pl" by (simp add: multi_client_ports_exist_def)
  note prep = multi_if_prepare_ok [OF m live known ports facts(1-5) links ifs facts(6-8)]
  let ?t = "(reinit_of s1)\<lparr>cfg_client := Some (Node Client), cfg_server := Some (Node Server), cfg_router := Some (Node Router)\<rparr>"
  let ?es = "tso_events m (pl_graph ?pl) @ concat (map (bottleneck_events m (pl_graph ?pl)) (cs @ rs)) @
      interface_events m (pl_graph ?pl) (pl_left ?pl) (pl_right ?pl) (pl_nc ?pl) (pl_nr ?pl)"
  define u where "u = (ran m ?es ?t)\<lparr>cfg_clients := Some (clients ?t), cfg_servers := Some (servers ?t)\<rparr>"
  have nodes: "clients ?t = map (\<lambda>i. Node (get_client_name i)) [0..<Suc (length cs)]"
    "servers ?t = map (\<lambda>i. Node (get_server_name i)) [0..<Suc (length cs)]"
    by (simp_all add: reinit_of_def s1_def multi_client_built_def Let_def cs_def del: upt_Suc)
  have conf: "multi_client_configured ?pl u"
    using prep(4) nodes
    by (simp add: u_def multi_client_configured_def configured_def multi_client_plan_def del: upt_Suc)
  have live_u: "live u" using prep(3) by (simp add: u_def live_def)
  let ?cs = "concat (map (congestion_client_events m (pl_graph ?pl) (pl_left ?pl)) [0..<pl_nc ?pl]) @
      concat (map (congestion_server_events m (pl_graph ?pl) (pl_right ?pl) (pl_nc ?pl)) [0..<Suc (pl_nc ?pl)])"
  let ?r1 = "routing_events (pl_left ?pl) (pl_right ?pl) (pl_nc ?pl) (pl_nr ?pl)"
  let ?r2 = "congestion_route_events (pl_left ?pl) (pl_right ?pl) (pl_nc ?pl)"
  note ifaces = does_congestion_interfaces [OF m plan]
  note routes = does_routing [OF m, of ?pl] does_congestion_routes [OF m, of ?pl]
  define u1 where "u1 = ran m ?cs u"
  have live1: "live u1" unfolding u1_def using live_u does_live [OF ifaces] by (rule live_ran)
  have conf1: "multi_client_configured ?pl u1"
    unfolding u1_def using stable_multi_client conf by (auto simp: stable_def)
  then have c1: "configured ?pl u1" by (simp add: multi_client_configured_def)
  have step1: "multi_if_configure_routing m u1 = (Inr (), ran m ?r1 u1)" by (rule doesD [OF routes(1) live1 c1])
  have live2: "live (ran m ?r1 u1)" using live1 does_live [OF routes(1)] by (rule live_ran)
  have conf2: "multi_client_configured ?pl (ran m ?r1 u1)"
    using stable_multi_client conf1 by (auto simp: stable_def)
  note step2 = doesD [OF routes(2) live2 conf2]
  have routing: "multi_client_configure_routing m u1 = (Inr (), ran m ?r2 (ran m ?r1 u1))"
    unfolding multi_client_configure_routing_def by (rule trans, rule block_step, rule step1, rule step2)
  have "multi_client_configure m s1 = (Inr (), ran m ?r2 (ran m ?r1 u1))"
    unfolding multi_client_configure_def multi_client_configure_interfaces_def prep(2)
    using doesD [OF ifaces live_u conf] routing
    by (simp add: py_bind_apply collect_nodes u_def u1_def)
  moreover have "ran m ?r2 (ran m ?r1 u1) = ran m (multi_client_events m left right cs rs)
      (multi_client_running tp (lower v = ''yes'') s)"
    by (rule multi_if.equality)
       (simp_all add: u1_def u_def reinit_of_def s1_def multi_client_events_def multi_client_plan_def multi_client_running_def
        multi_client_built_def multi_if_built_def Let_def ran_def s(1) cs_def rs_def del: upt_Suc)
  ultimately show ?thesis unfolding start by simp
qed

end
