(* ===== verification/MultiClientProps.thy ===== *)
theory MultiClientProps
  imports MultiClient MultiIfProps
begin

text \<open>Properties of the topology with congestion clients and servers.\<close>



lemma nth_server_links: "k < n \<Longrightarrow> [Suc 0..<Suc n] ! k = Suc k"
  by (subst nth_upt) simp_all

text \<open>
  C32.  Each additional client has one port, on the left end of its link, and each additional
  server one port, on the router.  The configuration takes the router's port after the \<open>c2r\<close>
  links, plus \<open>i\<close>, to be the one of server \<open>i\<close>; that is right exactly when the topology has at
  most one \<open>r2s\<close> link.
\<close>

theorem multi_client_port_order:
  fixes cs rs :: "link list"
  assumes "1 \<le> i" and "i \<le> length cs" and "length (c2r_links s) = length cs"
  defines "g \<equiv> multi_client_graph cs rs"
  shows "ports (get_client_name i) g = [AddLink (Name (get_client_name i)) (Name (get_bs_name (cs ! (i - 1)) 0))] \<and>
     ports (get_server_name i) g = [AddLink (Name Router) (Name (get_server_name i))] \<and>
     get_router_interface_to_server_switch s i = port_name Router (length cs + i) \<and>
     (ports Router g ! (length cs + i) = AddLink (Name Router) (Name (get_server_name i)) \<longleftrightarrow> length rs \<le> 1)"
proof -
  let ?L = "\<lambda>i. AddLink (Name Router) (Name (get_server_name i))"
  let ?n = "length cs + max (length rs) 1"
  have router: "ports Router g = ports Router (multi_if_graph cs rs) @ map ?L [1..<Suc (length cs)]"
    by (simp add: g_def ports_multi_client)
  have client: "ports (get_client_name i) g = [AddLink (Name (get_client_name i)) (Name (get_bs_name (cs ! (i - 1)) 0))]"
    using assms(1,2) ports_multi_client(4) [of "i - 1" cs rs] by (simp add: g_def)
  have "(ports Router g ! (length cs + i) = ?L i) \<longleftrightarrow> length rs \<le> 1"
  proof (cases "length rs \<le> 1")
    case True
    then have "ports Router g ! (length cs + i) = map ?L [1..<Suc (length cs)] ! (i - 1)"
      using assms(1) by (simp add: router nth_append length_ports_router max_def del: upt_Suc)
    also have "\<dots> = ?L i" using assms(1,2) nth_server_links [of "i - 1" "length cs"] by (simp del: upt_Suc)
    finally show ?thesis using True by simp
  next
    case False
    then have rs: "rs \<noteq> []" "max (length rs) 1 = length rs" by auto
    have "ports Router g ! (length cs + i) \<noteq> ?L i"
    proof (cases "i < length rs")
      case True
      then have "ports Router g ! (length cs + i) = AddLink (Name Router) (Name (get_bs_name (rs ! i) 0))"
        using rs by (simp add: router nth_append ports_multi_if del: upt_Suc)
      then show ?thesis by simp
    next
      case late: False
      then have "ports Router g ! (length cs + i) = map ?L [1..<Suc (length cs)] ! (i - length rs)"
        using rs by (simp add: router nth_append length_ports_router del: upt_Suc)
      also have "\<dots> = ?L (Suc (i - length rs))"
        using late assms(1,2) rs False by (simp add: nth_server_links del: upt_Suc)
      also have "\<dots> \<noteq> ?L i" using False late by auto
      finally show ?thesis .
    qed
    then show ?thesis using False by simp
  qed
  then show ?thesis
    using client assms(1-3) ports_multi_client(5) [of i cs rs]
    by (simp add: g_def get_router_interface_to_server_switch_def)
qed

theorem multi_client_port_order_witness:
  "ports Router (multi_client_graph [demo_link ''c2r'' 0] [demo_link ''r2s'' 0, demo_link ''r2s'' 1]) ! 2 \<noteq>
     AddLink (Name Router) (Name (get_server_name 1))"
  using multi_client_port_order [of 1 "[demo_link ''c2r'' 0]" "fresh_multi_if\<lparr>c2r_links := [0]\<rparr>"
      "[demo_link ''r2s'' 0, demo_link ''r2s'' 1]"] by (simp add: numeral_2_eq_2)

section \<open>Addresses\<close>

definition congestion_plan :: "string \<Rightarrow> string \<Rightarrow> nat \<Rightarrow> nat \<Rightarrow> (string \<times> nat \<times> string) list" where
  "congestion_plan left right nc nr = address_plan left right nc (max nr 1) @
     map (\<lambda>i. (get_client_name (Suc i), 0, ip_text left i ''.10'')) [0..<nc] @
     concat (map (\<lambda>i. [(Router, nc + i, ip_text right i ''.2''), (get_server_name i, 0, ip_text right i ''.1'')]) [0..<Suc nc])"

lemma not_is_up [simp]:
  "\<not> is_up (NodeCmd n (''ip '' @ c))" "\<not> is_up (NodeCmd n (tso_cmd i))" "\<not> is_up (NodeCmd n (''tc '' @ c))"
  by (simp_all add: is_up_def starts_with_def tso_cmd_def)

lemma quiet_parts:
  "filter is_up (tso_events m g) = []"
  "filter is_up (bottleneck_events m g l) = []"
  "filter is_up (routing_events left right nc nr) = []"
  "filter is_up (congestion_route_events left right nc) = []"
proof -
  have "is_up (NodeCmd n (build_delete_tc_cmd i)) = False" "is_up (NodeCmd n (build_netem_cmd l i c b)) = False" for n i c b
    by (simp_all add: is_up_def starts_with_def build_delete_tc_cmd_def build_netem_cmd_def)
  then show "filter is_up (bottleneck_events m g l) = []"
    by (simp add: bottleneck_events_def bottleneck_cmds_def Let_def filter_empty_conv)
       (simp add: is_up_def starts_with_def)
  show "filter is_up (tso_events m g) = []"
    by (simp add: tso_events_def filter_empty_conv) 
  show "filter is_up (routing_events left right nc nr) = []"
    by (auto simp: routing_events_def table_events_def filter_empty_conv is_up_def starts_with_def route_snapshot_def)
  show "filter is_up (congestion_route_events left right nc) = []"
    by (auto simp: congestion_route_events_def filter_empty_conv is_up_def starts_with_def
        add_global_default_route_command_def add_simple_default_route_command_def)
qed

lemma multi_client_up_events:
  "filter is_up (multi_client_events m left right cs rs) =
     map (\<lambda>(n, k, ip). up_event n k ip) (congestion_plan left right (length cs) (length rs))"
  by (simp add: multi_client_events_def Let_def filter_concat_map quiet_parts up_events congestion_plan_def
      congestion_client_events_def congestion_server_events_def map_concat comp_def concat_map_singleton del: upt_Suc)

lemma ip_text_suffix10 [simp]:
  "ip_text s i ''.10'' \<noteq> ip_text t j ''.1''" "ip_text s i ''.1'' \<noteq> ip_text t j ''.10''"
  "ip_text s i ''.10'' \<noteq> ip_text t j ''.2''" "ip_text s i ''.2'' \<noteq> ip_text t j ''.10''"
  by (auto simp: ip_text_def dest: arg_cong [where f = last])



end
