(* ===== verification/Experiment.thy ===== *)
theory Experiment
  imports MultiClient
begin

text \<open>
  \<open>core/experiment.py\<close>: the parameters common to the experiments, the base class
  \<open>Experiment\<close> (sysctls, path managers, priorities, captures, pings) and
  \<open>RandomFileExperiment\<close>.  The attributes of the object extend the state of the topology.
\<close>

section \<open>Parameters\<close>

definition SYSCTL_KEY :: "string dict" where
  "SYSCTL_KEY =
     [(''rmem'', ''net.ipv4.tcp_rmem''),
      (''wmem'', ''net.ipv4.tcp_wmem''),
      (''mptcpEnabled'', ''net.mptcp.mptcp_enabled''),
      (''kpm'', ''net.mptcp.mptcp_path_manager''),
      (''sched'', ''net.mptcp.mptcp_scheduler''),
      (''congctrl'', ''net.ipv4.tcp_congestion_control''),
      (''autocork'', ''net.ipv4.tcp_autocorking''),
      (''earlyRetrans'', ''net.ipv4.tcp_early_retrans''),
      (''bufferAutotuning'', ''net.ipv4.tcp_moderate_rcvbuf'')]"

definition SYSCTL_KEY_CLIENT :: "string dict" where
  "SYSCTL_KEY_CLIENT = [(''kpmc'', ''net.mptcp.mptcp_path_manager'')]"

definition SYSCTL_KEY_SERVER :: "string dict" where
  "SYSCTL_KEY_SERVER = [(''kpms'', ''net.mptcp.mptcp_path_manager'')]"

definition EXPERIMENT_DEFAULT_PARAMETERS :: "pval dict" where
  "EXPERIMENT_DEFAULT_PARAMETERS =
     [(''rmem'', PStr ''10240 87380 16777216''), (''wmem'', PStr ''4096 16384 4194304''),
      (''mptcpEnabled'', PStr ''1''), (''kpm'', PStr ''fullmesh''), (''kpmc'', PStr ''fullmesh''),
      (''kpms'', PStr ''fullmesh''), (''upmc'', PStr ''fullmesh''), (''upms'', PStr ''fullmesh''),
      (''upmc_args'', PStr []), (''upms_args'', PStr []), (''congctrl'', PStr ''olia''),
      (''sched'', PStr ''default''), (''autocork'', PStr ''1''), (''earlyRetrans'', PStr ''3''),
      (''bufferAutotuning'', PStr ''1''), (''clientPcap'', PStr ''no''), (''serverPcap'', PStr ''no''),
      (''snaplen_pcap'', PStr ''65535''), (''xpType'', PStr ''none''), (''pingCount'', PStr ''5''),
      (''priority_path_0'', PStr ''0''), (''priority_path_1'', PStr ''0''),
      (''backup_path_0'', PStr ''0''), (''backup_path_1'', PStr ''0'')]"

definition new_experiment_parameter :: "(string \<Rightarrow> string option) \<Rightarrow> string option \<Rightarrow> params res" where
  "new_experiment_parameter fs f =
     rbind (new_parameter fs f) (\<lambda>p. Inr (add_defaults EXPERIMENT_DEFAULT_PARAMETERS p))"

definition RANDOM_FILE_DEFAULTS :: "pval dict" where
  "RANDOM_FILE_DEFAULTS = [(''file'', PStr ''random''), (''file_size'', PStr ''1024'')]"

definition new_random_file_parameter :: "(string \<Rightarrow> string option) \<Rightarrow> string option \<Rightarrow> params res" where
  "new_random_file_parameter fs f =
     rbind (new_experiment_parameter fs f) (\<lambda>p. Inr (add_defaults RANDOM_FILE_DEFAULTS p))"

section \<open>State\<close>

text \<open>
  The object of an experiment: its parameters, the three dictionaries of saved sysctls (absent
  until \<open>save_sysctl\<close> runs) and the attributes its \<open>load_parameters\<close> sets, by name.  The class of \<open>topo_config\<close>, which decides the overridden method it has.\<close>

datatype topo_class = MultiIfClass | MultiIfMultiClientClass

record xp = multi_if +
  xp_topo_class :: topo_class
  experiment_parameter :: params
  sysctl_to_restore :: "string dict option"
  client_sysctl_to_restore :: "string dict option"
  server_sysctl_to_restore :: "string dict option"
  xp_attrs :: "pval dict"

definition xp_get :: "string \<Rightarrow> ('a xp_scheme, pval) py" where
  "xp_get k = py_bind (py_get experiment_parameter) (\<lambda>p. py_lift (get_param p k))"

text \<open>\<open>self.topo.command_to(self.topo_config.<who>, <cmd>)\<close>: the attribute is read first.\<close>

definition xp_tell :: "mininet \<Rightarrow> ('a xp_scheme \<Rightarrow> handle option) \<Rightarrow> ('a xp_scheme, string) py \<Rightarrow>
    ('a xp_scheme, unit) py" where
  "xp_tell m who cmd = py_bind (py_attr who) (\<lambda>h. py_bind cmd (\<lambda>c. run_on m h c))"

section \<open>Sysctls\<close>

text \<open>The three places where values are saved: the host, the client and the server.\<close>

datatype slot = HostSlot | ClientSlot | ServerSlot

fun slot_keys :: "slot \<Rightarrow> string dict" where
  "slot_keys HostSlot = SYSCTL_KEY"
| "slot_keys ClientSlot = SYSCTL_KEY_CLIENT"
| "slot_keys ServerSlot = SYSCTL_KEY_SERVER"

fun saved :: "slot \<Rightarrow> 'a xp_scheme \<Rightarrow> string dict option" where
  "saved HostSlot s = sysctl_to_restore s"
| "saved ClientSlot s = client_sysctl_to_restore s"
| "saved ServerSlot s = server_sysctl_to_restore s"

fun set_saved :: "slot \<Rightarrow> string dict \<Rightarrow> 'a xp_scheme \<Rightarrow> 'a xp_scheme" where
  "set_saved HostSlot d s = s\<lparr>sysctl_to_restore := Some d\<rparr>"
| "set_saved ClientSlot d s = s\<lparr>client_sysctl_to_restore := Some d\<rparr>"
| "set_saved ServerSlot d s = s\<lparr>server_sysctl_to_restore := Some d\<rparr>"

text \<open>\<open>self.topo.command_global(cmd)\<close> or \<open>self.topo.command_to(who, cmd)\<close>; \<open>who\<close> is read by the caller.\<close>

definition slot_node :: "slot \<Rightarrow> ('a xp_scheme, handle option) py" where
  "slot_node sl = (case sl of
     HostSlot \<Rightarrow> py_return None
   | ClientSlot \<Rightarrow> py_bind (py_attr cfg_client) (\<lambda>h. py_return (Some h))
   | ServerSlot \<Rightarrow> py_bind (py_attr cfg_server) (\<lambda>h. py_return (Some h)))"

definition slot_command :: "mininet \<Rightarrow> handle option \<Rightarrow> string \<Rightarrow> ('a xp_scheme, shell_out) py" where
  "slot_command m who cmd = (case who of
     None \<Rightarrow> topo_command_global m cmd
   | Some h \<Rightarrow> py_bind (topo_command_to m h cmd) (\<lambda>t. py_return (Text t)))"

definition read_sysctl_cmd :: "string \<Rightarrow> string" where
  "read_sysctl_cmd key = ''sysctl '' @ key"

definition cmd_write_sysctl :: "string \<Rightarrow> string \<Rightarrow> string" where
  "cmd_write_sysctl key val = read_sysctl_cmd key @ ''=\"'' @ val @ ''\"''"

text \<open>\<open>s.split(c, n)\<close>, and \<open>bytes.decode\<close> on ASCII output\<close>

fun split_max :: "char \<Rightarrow> nat \<Rightarrow> string \<Rightarrow> string list" where
  "split_max c 0 s = [s]"
| "split_max c (Suc n) s =
     (if c \<in> set s then takeWhile (\<lambda>x. x \<noteq> c) s # split_max c n (tl (dropWhile (\<lambda>x. x \<noteq> c) s)) else [s])"

definition is_ascii :: "string \<Rightarrow> bool" where
  "is_ascii s \<longleftrightarrow> (\<forall>c \<in> set s. (of_char c :: nat) < 128)"

definition output_text :: "shell_out \<Rightarrow> string res" where
  "output_text out = (case out of Text t \<Rightarrow> Inr t | Bytes b \<Rightarrow> if is_ascii b then Inr b else Inl ValueError)"

definition sysctl_value_of :: "shell_out \<Rightarrow> string res" where
  "sysctl_value_of out = rbind (output_text out) (\<lambda>t.
     case split_max (CHR '' '') 2 t of [_, _, v] \<Rightarrow> Inr (butlast v) | _ \<Rightarrow> Inl IndexError)"

text \<open>One round of the loop of \<open>_save_sysctl\<close>; the dictionary saved into is an attribute.\<close>

definition save_one :: "mininet \<Rightarrow> slot \<Rightarrow> handle option \<Rightarrow> string \<times> string \<Rightarrow> ('a xp_scheme, unit) py" where
  "save_one m sl who kv =
     py_bind (slot_command m who (read_sysctl_cmd (snd kv))) (\<lambda>out.
     if out = Text ''Error'' then py_return ()
     else py_bind (py_lift (sysctl_value_of out)) (\<lambda>v.
       py_bind (py_attr (saved sl)) (\<lambda>d. py_modify (set_saved sl (dict_set (fst kv) v d)))))"

definition save_slot :: "mininet \<Rightarrow> slot \<Rightarrow> ('a xp_scheme, unit) py" where
  "save_slot m sl =
     py_bind (py_modify (set_saved sl [])) (\<lambda>_.
     py_bind (slot_node sl) (\<lambda>who. for_each (slot_keys sl) (save_one m sl who)))"

definition save_sysctl :: "mininet \<Rightarrow> ('a xp_scheme, unit) py" where
  "save_sysctl m = block [save_slot m HostSlot, save_slot m ClientSlot, save_slot m ServerSlot]"

text \<open>The loops of \<open>_write_sysctl\<close> and \<open>_restore_sysctl\<close> run over the saved keys.\<close>

definition write_one :: "mininet \<Rightarrow> slot \<Rightarrow> handle option \<Rightarrow> string \<times> string \<Rightarrow> ('a xp_scheme, unit) py" where
  "write_one m sl who kv =
     py_bind (py_lift (some_or KeyError (dict_get (slot_keys sl) (fst kv)))) (\<lambda>key.
     py_bind (xp_get (fst kv)) (\<lambda>v. stmt (slot_command m who (cmd_write_sysctl key (str_pval v)))))"

definition restore_one :: "mininet \<Rightarrow> slot \<Rightarrow> handle option \<Rightarrow> string \<times> string \<Rightarrow> ('a xp_scheme, unit) py" where
  "restore_one m sl who kv =
     py_bind (py_lift (some_or KeyError (dict_get (slot_keys sl) (fst kv)))) (\<lambda>key.
     stmt (slot_command m who (cmd_write_sysctl key (snd kv))))"

definition over_saved :: "slot \<Rightarrow> (handle option \<Rightarrow> string \<times> string \<Rightarrow> ('a xp_scheme, unit) py) \<Rightarrow>
    ('a xp_scheme, unit) py" where
  "over_saved sl f = py_bind (py_attr (saved sl)) (\<lambda>d. py_bind (slot_node sl) (\<lambda>who. for_each d (f who)))"

definition write_sysctl :: "mininet \<Rightarrow> ('a xp_scheme, unit) py" where
  "write_sysctl m = block
     [over_saved HostSlot (write_one m HostSlot), over_saved ClientSlot (write_one m ClientSlot),
      over_saved ServerSlot (write_one m ServerSlot)]"

definition restore_sysctl :: "mininet \<Rightarrow> ('a xp_scheme, unit) py" where
  "restore_sysctl m = block
     [over_saved HostSlot (restore_one m HostSlot), over_saved ClientSlot (restore_one m ClientSlot),
      over_saved ServerSlot (restore_one m ServerSlot)]"

definition setup_sysctl :: "mininet \<Rightarrow> ('a xp_scheme, unit) py" where
  "setup_sysctl m = block [save_sysctl m, write_sysctl m]"

section \<open>Paths\<close>

text \<open>
  \<open>get_client_interface\<close> called with a list of positional arguments: it takes the client and
  the interface, one argument is a \<open>TypeError\<close>.
\<close>

definition call_get_client_interface :: "nat list \<Rightarrow> string res" where
  "call_get_client_interface args = (case args of [c, i] \<Rightarrow> Inr (get_client_interface c i) | _ \<Rightarrow> Inl TypeError)"

definition priority_cmd :: "string \<Rightarrow> pval \<Rightarrow> string" where
  "priority_cmd ifname prio = ''ip link set dev '' @ ifname @ '' priority '' @ str_pval prio"

definition set_priority :: "mininet \<Rightarrow> nat \<Rightarrow> pval \<Rightarrow> ('a xp_scheme, unit) py" where
  "set_priority m i prio = block
     [xp_tell m cfg_client (py_lift (rbind (call_get_client_interface [i]) (\<lambda>n. Inr (priority_cmd n prio)))),
      xp_tell m cfg_router (py_return (priority_cmd (get_router_interface_to_client_switch i) prio))]"

text \<open>\<open>int(v)\<close> of a parameter\<close>

definition pval_int :: "pval \<Rightarrow> int res" where
  "pval_int v = (case v of PStr s \<Rightarrow> parse_int s | PInt i \<Rightarrow> Inr i | PList _ \<Rightarrow> Inl TypeError)"

definition set_backup :: "mininet \<Rightarrow> nat \<Rightarrow> string \<Rightarrow> ('a xp_scheme, unit) py" where
  "set_backup m i key =
     py_bind (xp_get key) (\<lambda>v. py_bind (py_lift (pval_int v)) (\<lambda>b. py_when (0 < b) (block
       [xp_tell m cfg_client (py_lift (rbind (call_get_client_interface [i]) (\<lambda>n. Inr (interface_backup_command n)))),
        xp_tell m cfg_router (py_return (interface_backup_command (get_router_interface_to_client_switch i)))])))"

definition put_priority_on_paths :: "mininet \<Rightarrow> ('a xp_scheme, unit) py" where
  "put_priority_on_paths m =
     py_bind (xp_get ''priority_path_0'') (\<lambda>p0. py_bind (xp_get ''priority_path_1'') (\<lambda>p1. block
       [py_when (p0 \<noteq> p1) (block [set_priority m 0 p0, set_priority m 1 p1]),
        set_backup m 0 ''backup_path_0'', set_backup m 1 ''backup_path_1'']))"

definition run_path_manager :: "mininet \<Rightarrow> string \<Rightarrow> string \<Rightarrow> string \<Rightarrow> ('a xp_scheme \<Rightarrow> handle option) \<Rightarrow> string \<Rightarrow>
    ('a xp_scheme, unit) py" where
  "run_path_manager m kpm upm args who logname =
     py_bind (xp_get kpm) (\<lambda>k. py_when (k = PStr ''netlink'')
       (py_bind (xp_get upm) (\<lambda>u. py_bind (xp_get args) (\<lambda>a.
         xp_tell m who (py_return (str_pval u @ '' '' @ str_pval a @ '' &>'' @ logname @ '' &''))))))"

definition run_userspace_path_manager :: "mininet \<Rightarrow> ('a xp_scheme, unit) py" where
  "run_userspace_path_manager m = block
     [run_path_manager m ''kpmc'' ''upmc'' ''upmc_args'' cfg_client ''upmc.log'',
      run_path_manager m ''kpms'' ''upms'' ''upms_args'' cfg_server ''upms.log'']"

definition kill_path_manager :: "mininet \<Rightarrow> string \<Rightarrow> string \<Rightarrow> ('a xp_scheme \<Rightarrow> handle option) \<Rightarrow>
    ('a xp_scheme, unit) py" where
  "kill_path_manager m kpm upm who =
     py_bind (xp_get kpm) (\<lambda>k. py_when (k = PStr ''netlink'')
       (py_bind (xp_get upm) (\<lambda>u. xp_tell m who (py_return (''killall '' @ str_pval u)))))"

definition clean_userspace_path_manager :: "mininet \<Rightarrow> ('a xp_scheme, unit) py" where
  "clean_userspace_path_manager m = block
     [kill_path_manager m ''kpmc'' ''upmc'' cfg_client,
      kill_path_manager m ''kpms'' ''upms'' cfg_client]"

section \<open>Captures and pings\<close>

definition tcpdump_cmd :: "pval \<Rightarrow> string \<Rightarrow> string" where
  "tcpdump_cmd snaplen name = ''tcpdump -i any -s '' @ str_pval snaplen @ '' -w '' @ name @ ''.pcap &''"

definition run_tcpdump :: "mininet \<Rightarrow> ('a xp_scheme, unit) py" where
  "run_tcpdump m =
     py_bind (xp_get ''clientPcap'') (\<lambda>c. py_bind (xp_get ''serverPcap'') (\<lambda>sv.
     py_bind (xp_get ''snaplen_pcap'') (\<lambda>n. block
       [py_when (c = PStr ''yes'') (xp_tell m cfg_client (py_return (tcpdump_cmd n ''client''))),
        py_when (sv = PStr ''yes'') (xp_tell m cfg_server (py_return (tcpdump_cmd n ''server''))),
        py_when (sv = PStr ''yes'' \<or> c = PStr ''yes'') (xp_tell m cfg_client (py_return ''sleep 5''))])))"

definition PING_OUTPUT :: string where "PING_OUTPUT = ''ping.log''"

definition ping_command :: "string \<Rightarrow> string \<Rightarrow> pval \<Rightarrow> string" where
  "ping_command from_ip to_ip n =
     ''ping -c '' @ str_pval n @ '' -I '' @ from_ip @ '' '' @ to_ip @ '' >> '' @ PING_OUTPUT"

definition xp_server_interface_count :: "'a xp_scheme \<Rightarrow> nat res" where
  "xp_server_interface_count s = (case xp_topo_class s of
     MultiIfClass \<Rightarrow> Inr (server_interface_count s)
   | MultiIfMultiClientClass \<Rightarrow> multi_client_server_interface_count s)"

definition ping_pair :: "mininet \<Rightarrow> pval \<Rightarrow> nat \<Rightarrow> nat \<Rightarrow> ('a xp_scheme, unit) py" where
  "ping_pair m count j i =
     py_bind (py_get param) (\<lambda>p. py_bind (py_lift (get_client_ip p i)) (\<lambda>c.
     py_bind (py_lift (get_server_ip p j)) (\<lambda>sv.
     xp_tell m cfg_client (py_return (ping_command c sv count)))))"

definition ping :: "mininet \<Rightarrow> ('a xp_scheme, unit) py" where
  "ping m = block
     [xp_tell m cfg_client (py_return (''rm '' @ PING_OUTPUT)),
      py_bind (xp_get ''pingCount'') (\<lambda>count.
      py_bind (py_get xp_server_interface_count) (\<lambda>r. py_bind (py_lift r) (\<lambda>ns.
      for_each [0..<ns] (\<lambda>j. py_bind (py_get client_interface_count) (\<lambda>nc.
        for_each [0..<nc] (ping_pair m count j))))))]"

section \<open>The phases\<close>

text \<open>\<open>Experiment.run_netem_at\<close>\<close>

abbreviation xp_run_netem_at :: "mininet \<Rightarrow> ('a xp_scheme, unit) py" where
  "xp_run_netem_at m \<equiv> run_netem_at m"

definition xp_prepare :: "mininet \<Rightarrow> ('a xp_scheme, unit) py" where
  "xp_prepare m = block
     [setup_sysctl m, run_userspace_path_manager m, put_priority_on_paths m, run_tcpdump m, xp_run_netem_at m]"

definition xp_run :: "('a xp_scheme, unit) py" where
  "xp_run = py_raise NotImplementedError"

definition xp_clean :: "mininet \<Rightarrow> ('a xp_scheme, unit) py" where
  "xp_clean m = block
     [xp_tell m cfg_client (py_return ''killall tcpdump''), xp_tell m cfg_server (py_return ''killall tcpdump''),
      restore_sysctl m, clean_userspace_path_manager m]"

text \<open>\<open>classic_run\<close>, with the methods of the class of the experiment\<close>

definition classic_run ::
  "('a xp_scheme, unit) py \<Rightarrow> ('a xp_scheme, unit) py \<Rightarrow> ('a xp_scheme, unit) py \<Rightarrow>
   ('a xp_scheme, unit) py" where
  "classic_run prepare run clean = block [prepare, run, clean]"

section \<open>\<open>RandomFileExperiment\<close>\<close>

text \<open>\<open>Experiment.__init__\<close> on a new object: it has no other attribute.\<close>

definition experiment_init :: "params \<Rightarrow> ('a xp_scheme, unit) py" where
  "experiment_init p = py_modify (\<lambda>s. s\<lparr>experiment_parameter := p, sysctl_to_restore := None,
     client_sysctl_to_restore := None, server_sysctl_to_restore := None, xp_attrs := []\<rparr>)"

text \<open>\<open>self.<attribute> = self.experiment_parameter.get(<key>)\<close>, one after the other\<close>

definition load_attr :: "string \<times> string \<Rightarrow> ('a xp_scheme, unit) py" where
  "load_attr ak = py_bind (xp_get (snd ak)) (\<lambda>v. py_modify (\<lambda>s. s\<lparr>xp_attrs := dict_set (fst ak) v (xp_attrs s)\<rparr>))"

definition xp_attr :: "string \<Rightarrow> ('a xp_scheme, pval) py" where
  "xp_attr a = py_attr (\<lambda>s. dict_get (xp_attrs s) a)"

definition random_file_load_parameters :: "('a xp_scheme, unit) py" where
  "random_file_load_parameters = for_each [(''file'', ''file''), (''random_size'', ''file_size'')] load_attr"

text \<open>The methods \<open>load_parameters\<close> and \<open>ping\<close> are those of the class of the object.\<close>

definition random_file_init :: "params \<Rightarrow> ('a xp_scheme, unit) py \<Rightarrow> ('a xp_scheme, unit) py \<Rightarrow> ('a xp_scheme, unit) py" where
  "random_file_init p load pings = block [experiment_init p, load, pings]"

definition random_file_prepare :: "mininet \<Rightarrow> ('a xp_scheme, unit) py" where
  "random_file_prepare m = block
     [xp_prepare m,
      py_bind (xp_attr ''file'') (\<lambda>f. py_when (f = PStr ''random'')
        (xp_tell m cfg_client (py_bind (xp_attr ''random_size'') (\<lambda>n.
          py_return (''dd if=/dev/urandom of=random bs=1K count='' @ str_pval n)))))]"

definition random_file_clean :: "mininet \<Rightarrow> ('a xp_scheme, unit) py" where
  "random_file_clean m = block
     [xp_clean m,
      py_bind (xp_attr ''file'') (\<lambda>f. py_when (f = PStr ''random'') (xp_tell m cfg_client (py_return ''rm random*'')))]"

end
