(* ===== verification/Sysctl.thy ===== *)
theory Sysctl
  imports Experiment
begin

text \<open>
  The sysctls of an experiment.  The tool \<open>sysctl\<close> is outside the repository: what the code
  relies on is that it prints the current value of a key and that \<open>sysctl k="v"\<close> sets it, in
  the namespace where it runs.  The current values are a function of the events.
\<close>

section \<open>The tool\<close>

text \<open>A namespace is the host or a node; a command that assigns a key, as the tool reads it.\<close>

type_synonym sysctl_key = "string option \<times> string"

definition unquoted :: "string \<Rightarrow> string" where
  "unquoted v = (if starts_with ''\"'' v then butlast (tl v) else v)"

definition sysctl_assign :: "string \<Rightarrow> (string \<times> string) option" where
  "sysctl_assign c =
     (if starts_with ''sysctl '' c then
        (let r = drop 7 c; a = (if starts_with ''-w '' r then drop 3 r else r) in
         if CHR ''='' \<in> set a
         then Some (takeWhile (\<lambda>x. x \<noteq> CHR ''='') a, unquoted (tl (dropWhile (\<lambda>x. x \<noteq> CHR ''='') a)))
         else None)
      else None)"

definition event_assign :: "event \<Rightarrow> (sysctl_key \<times> string) option" where
  "event_assign e = (case e of
     GlobalCmd c \<Rightarrow> map_option (\<lambda>(k, v). ((None, k), v)) (sysctl_assign c)
   | NodeCmd n c \<Rightarrow> map_option (\<lambda>(k, v). ((Some n, k), v)) (sysctl_assign c)
   | NodeSend n c \<Rightarrow> map_option (\<lambda>(k, v). ((Some n, k), v)) (sysctl_assign c)
   | _ \<Rightarrow> None)"

primrec sysctl_now :: "event list \<Rightarrow> (sysctl_key \<Rightarrow> string) \<Rightarrow> sysctl_key \<Rightarrow> string" where
  "sysctl_now [] st = st"
| "sysctl_now (e # es) st = sysctl_now es (case event_assign e of Some (k, v) \<Rightarrow> st(k := v) | None \<Rightarrow> st)"

definition plain_key :: "string \<Rightarrow> bool" where
  "plain_key k \<longleftrightarrow> CHR '' '' \<notin> set k \<and> CHR ''='' \<notin> set k"

definition sysctl_line :: "string \<Rightarrow> string \<Rightarrow> string" where
  "sysctl_line k v = k @ '' = '' @ v @ nl"

text \<open>
  \<open>avail\<close> are the keys of the host; reading another one gives an error.  The nodes have the
  keys the experiment asks for.
\<close>

definition sysctl_ok :: "mininet \<Rightarrow> (string \<Rightarrow> bool) \<Rightarrow> (sysctl_key \<Rightarrow> string) \<Rightarrow> bool" where
  "sysctl_ok m avail init \<longleftrightarrow>
     (\<forall>es k. plain_key k \<longrightarrow> NetStop \<notin> set es \<longrightarrow>
        (if avail k then shell m es (read_sysctl_cmd k) = (sysctl_line k (sysctl_now es init (None, k)), [])
         else snd (shell m es (read_sysctl_cmd k)) \<noteq> []) \<and>
        (\<forall>n. node_cmd m es n (read_sysctl_cmd k) = Inr (sysctl_line k (sysctl_now es init (Some n, k)))))"

lemma sysctl_now_append: "sysctl_now (es @ fs) st = sysctl_now fs (sysctl_now es st)"
  by (induction es arbitrary: st) simp_all

lemma sysctl_now_quiet: "\<forall>e \<in> set es. event_assign e = None \<Longrightarrow> sysctl_now es st = st"
  by (induction es) simp_all

lemma takeWhile_key: "c \<notin> set k \<Longrightarrow> takeWhile (\<lambda>x. x \<noteq> c) (k @ c # s) = k"
  by (induction k) auto

lemma dropWhile_key: "c \<notin> set k \<Longrightarrow> dropWhile (\<lambda>x. x \<noteq> c) (k @ c # s) = c # s"
  by (induction k) auto

lemma plain_no_option:
  assumes "plain_key k"
  shows "\<not> starts_with ''-w '' (k @ CHR ''='' # s)" "\<not> starts_with ''-w '' k"
proof -
  have k: "CHR '' '' \<notin> set k" "CHR ''='' \<notin> set k" using assms by (simp_all add: plain_key_def)
  have w: "\<exists>t. r = ''-w '' @ t" if "starts_with ''-w '' r" for r
    using that append_take_drop_id [of 3 r] by (auto simp: starts_with_def numeral_3_eq_3 intro: exI [of _ "drop 3 r"])
  show "\<not> starts_with ''-w '' (k @ CHR ''='' # s)"
  proof
    assume "starts_with ''-w '' (k @ CHR ''='' # s)"
    then obtain t where "k @ CHR ''='' # s = ''-w '' @ t" using w by blast
    with k show False by (auto simp: append_eq_Cons_conv)
  qed
  show "\<not> starts_with ''-w '' k" using w k(1) by fastforce
qed

lemma sysctl_assign_write:
  assumes "plain_key k"
  shows "sysctl_assign (cmd_write_sysctl k v) = Some (k, v)"
proof -
  have c: "cmd_write_sysctl k v = ''sysctl '' @ k @ CHR ''='' # (''\"'' @ v @ ''\"'')"
    by (simp add: cmd_write_sysctl_def read_sysctl_cmd_def)
  have k: "CHR ''='' \<notin> set k" using assms by (simp add: plain_key_def)
  have v: "unquoted (''\"'' @ v @ ''\"'') = v" by (simp add: unquoted_def starts_with_def)
  show ?thesis
    unfolding c using plain_no_option(1) [OF assms] v
    by (simp add: sysctl_assign_def takeWhile_key [OF k] dropWhile_key [OF k] starts_with_def Let_def)
qed

lemma sysctl_assign_read: "plain_key k \<Longrightarrow> sysctl_assign (read_sysctl_cmd k) = None"
  using plain_no_option(2) [of k] by (simp add: sysctl_assign_def read_sysctl_cmd_def plain_key_def Let_def)

lemma plain_keys: "\<forall>kv \<in> set (slot_keys sl). plain_key (snd kv)"
  by (cases sl) (simp_all add: SYSCTL_KEY_def SYSCTL_KEY_CLIENT_def SYSCTL_KEY_SERVER_def plain_key_def)

lemma distinct_slot_keys: "distinct (map fst (slot_keys sl))" "distinct (map snd (slot_keys sl))"
  by (cases sl; simp add: SYSCTL_KEY_def SYSCTL_KEY_CLIENT_def SYSCTL_KEY_SERVER_def)+

lemma wf_slot_keys: "wf_dict (slot_keys sl)"
  using distinct_slot_keys(1) by (simp add: wf_dict_def)

section \<open>Reading and writing in a slot\<close>

fun slot_ns :: "slot \<Rightarrow> string option" where
  "slot_ns HostSlot = None"
| "slot_ns ClientSlot = Some Client"
| "slot_ns ServerSlot = Some Server"

definition ns_event :: "string option \<Rightarrow> string \<Rightarrow> event" where
  "ns_event ns c = (case ns of None \<Rightarrow> GlobalCmd c | Some n \<Rightarrow> NodeCmd n c)"

lemma ns_event_not_stop [simp]: "ns_event ns c \<noteq> NetStop" "NetStop \<noteq> ns_event ns c"
  by (simp_all add: ns_event_def split: option.split)

lemma event_assign_write: "plain_key k \<Longrightarrow> event_assign (ns_event ns (cmd_write_sysctl k v)) = Some ((ns, k), v)"
  by (cases ns) (simp_all add: ns_event_def event_assign_def sysctl_assign_write)

lemma event_assign_read: "plain_key k \<Longrightarrow> event_assign (ns_event ns (read_sysctl_cmd k)) = None"
  by (cases ns) (simp_all add: ns_event_def event_assign_def sysctl_assign_read)

definition nodes_set :: "'a xp_scheme \<Rightarrow> bool" where
  "nodes_set s \<longleftrightarrow> cfg_client s = Some (Node Client) \<and> cfg_server s = Some (Node Server)"

lemma ran_xp [simp]:
  "experiment_parameter (ran m es s) = experiment_parameter s"
  "saved sl (ran m es s) = saved sl s"
  "nodes_set (ran m es s) = nodes_set s"
  "xp_attrs (ran m es s) = xp_attrs s"
  "xp_topo_class (ran m es s) = xp_topo_class s"
  by (cases sl; simp add: ran_def nodes_set_def)+

lemma set_saved_fields [simp]:
  "saved sl' (set_saved sl d s) = (if sl' = sl then Some d else saved sl' s)"
  "events (set_saved sl d s) = events s" "live (set_saved sl d s) = live s"
  "nodes_set (set_saved sl d s) = nodes_set s" "log_open (set_saved sl d s) = log_open s"
  "experiment_parameter (set_saved sl d s) = experiment_parameter s"
  by (cases sl; cases sl'; simp add: live_def nodes_set_def)+

lemma set_saved_ran: "set_saved sl d (ran m es s) = ran m es (set_saved sl d s)"
  by (cases sl) (simp_all add: ran_def)

lemma set_saved_twice [simp]: "set_saved sl d' (set_saved sl d s) = set_saved sl d' s"
  by (cases sl) simp_all

lemma slot_node_ok: "nodes_set s \<Longrightarrow> slot_node sl s = (Inr (map_option Node (slot_ns sl)), s)"
  by (cases sl) (simp_all add: slot_node_def nodes_set_def py_attr_def py_bind_apply)

lemma global_command_ok:
  "live s \<Longrightarrow> topo_command_global m c s =
     (Inr (if snd (shell m (events s) c) \<noteq> [] then Text ''Error'' else Bytes (fst (shell m (events s) c))),
      ran m [GlobalCmd c] s)"
  by (simp add: topo_command_global_def log_write_def builder_command_global_def emit_def live_def
      py_bind_apply ran_def split_def)

lemma node_command_ok:
  "live s \<Longrightarrow> node_cmd m (events s) n c = Inr out \<Longrightarrow> topo_command_to m (Node n) c s = (Inr out, ran m [NodeCmd n c] s)"
  by (simp add: topo_command_to_def log_write_def builder_command_to_def emit_def live_def py_bind_apply ran_def)

lemma does_slot_command:
  fixes P :: "'a xp_scheme \<Rightarrow> bool"
  assumes "mininet_ok m"
  shows "does m P [ns_event ns c] (stmt (slot_command m (map_option Node ns) c))"
proof (cases ns)
  case None
  then show ?thesis by (simp add: does_def ns_event_def slot_command_def stmt_apply global_command_ok)
next
  case (Some n)
  have "stmt (slot_command m (Some (Node n)) c) = (run_on m (Node n) c :: ('a xp_scheme, unit) py)"
    by (simp add: fun_eq_iff slot_command_def stmt_apply py_bind_apply split: prod.split sum.split)
  then show ?thesis using does_command [OF assms] Some by (simp add: ns_event_def)
qed

lemma split_sysctl_line:
  assumes "plain_key k"
  shows "split_max (CHR '' '') 2 (sysctl_line k v) = [k, ''='', v @ nl]"
proof -
  have k: "CHR '' '' \<notin> set k" using assms by (simp add: plain_key_def)
  have "sysctl_line k v = k @ CHR '' '' # (''= '' @ v @ nl)" by (simp add: sysctl_line_def)
  then show ?thesis
    using takeWhile_key [OF k, of "''= '' @ v @ nl"] dropWhile_key [OF k, of "''= '' @ v @ nl"]
    by (simp add: numeral_2_eq_2)
qed

text \<open>What a read gives: the value, or nothing when the key is not there.\<close>

definition readable :: "(string \<Rightarrow> bool) \<Rightarrow> string option \<Rightarrow> string \<Rightarrow> bool" where
  "readable avail ns k \<longleftrightarrow> ns \<noteq> None \<or> avail k"

lemma read_ok:
  assumes ok: "sysctl_ok m avail init" and k: "plain_key k" and live: "live s"
    and ascii: "is_ascii k" "is_ascii (sysctl_now (events s) init (ns, k))"
  shows "\<exists>out. slot_command m (map_option Node ns) (read_sysctl_cmd k) s =
       (Inr out, ran m [ns_event ns (read_sysctl_cmd k)] s) \<and>
     (if readable avail ns k then out \<noteq> Text ''Error'' \<and> sysctl_value_of out = Inr (sysctl_now (events s) init (ns, k))
      else out = Text ''Error'')"
proof -
  let ?v = "sysctl_now (events s) init (ns, k)"
  let ?line = "sysctl_line k ?v"
  have stop: "NetStop \<notin> set (events s)" using live by (simp add: live_def)
  have not_error: "?line \<noteq> ''Error''"
  proof
    assume "?line = ''Error''"
    moreover have "CHR '' '' \<in> set ?line" by (simp add: sysctl_line_def)
    ultimately show False by simp
  qed
  have "is_ascii ?line" using ascii by (auto simp: is_ascii_def sysctl_line_def)
  then have val: "sysctl_value_of (Bytes ?line) = Inr ?v" "sysctl_value_of (Text ?line) = Inr ?v"
    by (simp_all add: sysctl_value_of_def output_text_def split_sysctl_line [OF k])
  show ?thesis
  proof (cases ns)
    case None
    then have "if avail k then shell m (events s) (read_sysctl_cmd k) = (?line, [])
        else snd (shell m (events s) (read_sysctl_cmd k)) \<noteq> []"
      using ok k stop unfolding sysctl_ok_def by blast
    then show ?thesis using None val
      by (simp add: slot_command_def global_command_ok [OF live] ns_event_def readable_def split: if_splits)
  next
    case (Some n)
    then have "node_cmd m (events s) n (read_sysctl_cmd k) = Inr ?line"
      using ok k stop unfolding sysctl_ok_def by blast
    from node_command_ok [OF live this] show ?thesis using Some val not_error
      by (simp add: slot_command_def py_bind_apply ns_event_def readable_def)
  qed
qed

section \<open>Saving\<close>

definition read_events :: "slot \<Rightarrow> event list" where
  "read_events sl = map (\<lambda>kv. ns_event (slot_ns sl) (read_sysctl_cmd (snd kv))) (slot_keys sl)"

text \<open>The parameters of a slot whose key can be read, and the values saved for them.\<close>

definition usable :: "(string \<Rightarrow> bool) \<Rightarrow> slot \<Rightarrow> string dict" where
  "usable avail sl = filter (\<lambda>kv. readable avail (slot_ns sl) (snd kv)) (slot_keys sl)"

definition saved_dict :: "(string \<Rightarrow> bool) \<Rightarrow> (sysctl_key \<Rightarrow> string) \<Rightarrow> slot \<Rightarrow> string dict" where
  "saved_dict avail st sl = map (\<lambda>kv. (fst kv, st (slot_ns sl, snd kv))) (usable avail sl)"

lemma reads_quiet: "\<forall>e \<in> set (read_events sl). event_assign e = None"
  using plain_keys [of sl] by (auto simp: read_events_def event_assign_read)

lemma save_one_ok:
  assumes ok: "sysctl_ok m avail init" and k: "plain_key (snd kv)" "is_ascii (snd kv)"
    and live: "live s" and d: "saved sl s = Some d"
    and ascii: "is_ascii (sysctl_now (events s) init (slot_ns sl, snd kv))"
  shows "save_one m sl (map_option Node (slot_ns sl)) kv s = (Inr (),
     set_saved sl (if readable avail (slot_ns sl) (snd kv)
        then dict_set (fst kv) (sysctl_now (events s) init (slot_ns sl, snd kv)) d else d)
       (ran m [ns_event (slot_ns sl) (read_sysctl_cmd (snd kv))] s))"
proof -
  obtain out where out: "slot_command m (map_option Node (slot_ns sl)) (read_sysctl_cmd (snd kv)) s =
       (Inr out, ran m [ns_event (slot_ns sl) (read_sysctl_cmd (snd kv))] s)"
     "if readable avail (slot_ns sl) (snd kv)
      then out \<noteq> Text ''Error'' \<and> sysctl_value_of out = Inr (sysctl_now (events s) init (slot_ns sl, snd kv))
      else out = Text ''Error''"
    using read_ok [OF ok k(1) live k(2) ascii] by blast
  have same: "set_saved sl d t = t" if "saved sl t = Some d" for t :: "'a xp_scheme"
    using that by (cases sl) (auto intro: xp.equality)
  show ?thesis
    using out(2) d by (simp add: save_one_def py_bind_apply out(1) py_attr_def same split: if_splits)
qed

lemma save_loop_ok:
  assumes ok: "sysctl_ok m avail init"
  shows "\<forall>kv \<in> set kvs. plain_key (snd kv) \<and> is_ascii (snd kv) \<and>
      is_ascii (sysctl_now (events s) init (slot_ns sl, snd kv)) \<Longrightarrow>
    live s \<Longrightarrow> saved sl s = Some d \<Longrightarrow> distinct (map fst kvs) \<Longrightarrow> \<forall>kv \<in> set kvs. dict_get d (fst kv) = None \<Longrightarrow>
    for_each kvs (save_one m sl (map_option Node (slot_ns sl))) s = (Inr (),
      set_saved sl (d @ map (\<lambda>kv. (fst kv, sysctl_now (events s) init (slot_ns sl, snd kv)))
          (filter (\<lambda>kv. readable avail (slot_ns sl) (snd kv)) kvs))
        (ran m (map (\<lambda>kv. ns_event (slot_ns sl) (read_sysctl_cmd (snd kv))) kvs) s))"
proof (induction kvs arbitrary: s d)
  case Nil
  then have "set_saved sl d s = s" by (cases sl) (auto intro: xp.equality)
  then show ?case by simp
next
  case (Cons kv kvs)
  let ?ns = "slot_ns sl" and ?v = "sysctl_now (events s) init (slot_ns sl, snd kv)"
  let ?e = "ns_event ?ns (read_sysctl_cmd (snd kv))"
  let ?d = "if readable avail ?ns (snd kv) then dict_set (fst kv) ?v d else d"
  let ?t = "set_saved sl ?d (ran m [?e] s)"
  have k: "plain_key (snd kv)" "is_ascii (snd kv)" "is_ascii ?v" using Cons.prems(1) by simp_all
  note step = save_one_ok [OF ok k(1,2) Cons.prems(2,3) k(3)]
  have now: "sysctl_now (events ?t) init = sysctl_now (events s) init"
    using event_assign_read [OF k(1)] by (simp add: sysctl_now_append)
  have live: "live ?t" using live_ran [OF Cons.prems(2), of "[?e]"] by simp
  have d: "?d = d @ (if readable avail ?ns (snd kv) then [(fst kv, ?v)] else [])"
    using Cons.prems(5) by (simp add: dict_set_new)
  have IH: "for_each kvs (save_one m sl (map_option Node ?ns)) ?t = (Inr (),
      set_saved sl (?d @ map (\<lambda>kv. (fst kv, sysctl_now (events ?t) init (?ns, snd kv)))
          (filter (\<lambda>kv. readable avail ?ns (snd kv)) kvs))
        (ran m (map (\<lambda>kv. ns_event ?ns (read_sysctl_cmd (snd kv))) kvs) ?t))"
  proof (rule Cons.IH [OF _ live])
    show "\<forall>kv \<in> set kvs. plain_key (snd kv) \<and> is_ascii (snd kv) \<and> is_ascii (sysctl_now (events ?t) init (?ns, snd kv))"
      unfolding now using Cons.prems(1) by simp
    show "\<forall>kv' \<in> set kvs. dict_get ?d (fst kv') = None"
    proof
      fix kv' assume kv': "kv' \<in> set kvs"
      then have "fst kv' \<noteq> fst kv" using Cons.prems(4) by (metis distinct.simps(2) imageI list.set_map list.simps(9))
      then show "dict_get ?d (fst kv') = None" using Cons.prems(5) kv' by simp
    qed
  qed (use Cons.prems(4) in simp_all)
  have "for_each (kv # kvs) (save_one m sl (map_option Node ?ns)) s =
      for_each kvs (save_one m sl (map_option Node ?ns)) ?t"
    by (simp only: for_each.simps py_bind_apply step prod.case sum.case)
  also note IH
  finally show ?case
    unfolding d by (auto simp: set_saved_ran sysctl_now_append event_assign_read [OF k(1)])
qed

definition keys_ascii :: "(sysctl_key \<Rightarrow> string) \<Rightarrow> bool" where
  "keys_ascii st \<longleftrightarrow> (\<forall>x. is_ascii (st x))"

lemma slot_keys_ascii: "\<forall>kv \<in> set (slot_keys sl). is_ascii (snd kv)"
  by (cases sl) (simp_all add: SYSCTL_KEY_def SYSCTL_KEY_CLIENT_def SYSCTL_KEY_SERVER_def is_ascii_def)

lemma save_slot_ok:
  assumes ok: "sysctl_ok m avail init" and live: "live s" and nodes: "nodes_set s"
    and ascii: "keys_ascii (sysctl_now (events s) init)"
  shows "save_slot m sl s = (Inr (), ran m (read_events sl)
     (set_saved sl (saved_dict avail (sysctl_now (events s) init) sl) s))"
proof -
  let ?t = "set_saved sl [] s"
  have "for_each (slot_keys sl) (save_one m sl (map_option Node (slot_ns sl))) ?t = (Inr (),
      set_saved sl ([] @ map (\<lambda>kv. (fst kv, sysctl_now (events ?t) init (slot_ns sl, snd kv)))
          (filter (\<lambda>kv. readable avail (slot_ns sl) (snd kv)) (slot_keys sl)))
        (ran m (map (\<lambda>kv. ns_event (slot_ns sl) (read_sysctl_cmd (snd kv))) (slot_keys sl)) ?t))"
    by (rule save_loop_ok [OF ok])
       (use plain_keys slot_keys_ascii ascii live distinct_slot_keys in \<open>simp_all add: keys_ascii_def\<close>)
  then show ?thesis
    using nodes by (simp add: save_slot_def slot_node_ok py_bind_apply read_events_def saved_dict_def usable_def
        set_saved_ran)
qed

lemma read_events_live: "NetStop \<notin> set (read_events sl)"
  by (auto simp: read_events_def)

text \<open>The slots are an enumeration, in the order the code goes through them.\<close>

instantiation slot :: enum
begin

definition enum_slot :: "slot list" where
  "enum_slot = [HostSlot, ClientSlot, ServerSlot]"

definition enum_all_slot :: "(slot \<Rightarrow> bool) \<Rightarrow> bool" where
  "enum_all_slot P \<longleftrightarrow> P HostSlot \<and> P ClientSlot \<and> P ServerSlot"

definition enum_ex_slot :: "(slot \<Rightarrow> bool) \<Rightarrow> bool" where
  "enum_ex_slot P \<longleftrightarrow> P HostSlot \<or> P ClientSlot \<or> P ServerSlot"

instance
proof
  have "sl \<in> {HostSlot, ClientSlot, ServerSlot}" for sl by (cases sl) simp_all
  then have all: "(UNIV :: slot set) = {HostSlot, ClientSlot, ServerSlot}" by blast
  show "(UNIV :: slot set) = set enum_class.enum" "distinct (enum_class.enum :: slot list)"
    "enum_class.enum_all P \<longleftrightarrow> Ball UNIV P" "enum_class.enum_ex P \<longleftrightarrow> Bex UNIV P" for P :: "slot \<Rightarrow> bool"
    by (simp_all add: all enum_slot_def enum_all_slot_def enum_ex_slot_def)
qed

end

definition all_slots :: "slot list" where
  "all_slots = enum_class.enum"

lemma all_slots_list: "all_slots = [HostSlot, ClientSlot, ServerSlot]"
  by (simp add: all_slots_def enum_slot_def)

lemma all_slots_UNIV: "sl \<in> set all_slots"
  by (simp add: all_slots_def enum_UNIV)

lemma every_slot: "(\<forall>sl. P sl) \<longleftrightarrow> P HostSlot \<and> P ClientSlot \<and> P ServerSlot"
  unfolding enum_all [symmetric] by (rule enum_all_slot_def)

lemma save_sysctl_ok:
  assumes ok: "sysctl_ok m avail init" and live: "live s" and nodes: "nodes_set s"
    and ascii: "keys_ascii (sysctl_now (events s) init)"
  defines "D \<equiv> saved_dict avail (sysctl_now (events s) init)"
  shows "save_sysctl m s = (Inr (), ran m (concat (map read_events all_slots))
     (set_saved ServerSlot (D ServerSlot) (set_saved ClientSlot (D ClientSlot) (set_saved HostSlot (D HostSlot) s))))"
proof -
  define s1 where "s1 = ran m (read_events HostSlot) (set_saved HostSlot (D HostSlot) s)"
  define s2 where "s2 = ran m (read_events ClientSlot) (set_saved ClientSlot (D ClientSlot) s1)"
  have now1: "sysctl_now (events s1) init = sysctl_now (events s) init"
    by (simp add: s1_def sysctl_now_append sysctl_now_quiet reads_quiet)
  have now2: "sysctl_now (events s2) init = sysctl_now (events s) init"
    by (simp add: s2_def now1 sysctl_now_append sysctl_now_quiet reads_quiet)
  have live1: "live s1" unfolding s1_def
    by (rule live_ran) (simp_all only: set_saved_fields live read_events_live not_False_eq_True)
  have live2: "live s2" unfolding s2_def
    by (rule live_ran) (simp_all only: set_saved_fields live1 read_events_live not_False_eq_True)
  have n: "nodes_set s1" "nodes_set s2" using nodes by (simp_all add: s1_def s2_def del: set_saved.simps)
  have 1: "save_slot m HostSlot s = (Inr (), s1)"
    unfolding s1_def D_def by (rule save_slot_ok [OF ok live nodes ascii])
  have 2: "save_slot m ClientSlot s1 = (Inr (), s2)"
    using save_slot_ok [OF ok live1 n(1), of ClientSlot] ascii unfolding now1 s2_def D_def .
  have 3: "save_slot m ServerSlot s2 = (Inr (), ran m (read_events ServerSlot) (set_saved ServerSlot (D ServerSlot) s2))"
    using save_slot_ok [OF ok live2 n(2), of ServerSlot] ascii unfolding now2 D_def .
  show ?thesis
    by (simp add: save_sysctl_def py_bind_apply 1 2 3 del: set_saved.simps)
      (simp add: s2_def s1_def set_saved_ran all_slots_list del: set_saved.simps)
qed

section \<open>Writing and restoring\<close>

definition write_events :: "slot \<Rightarrow> string dict \<Rightarrow> (string \<times> string \<Rightarrow> string) \<Rightarrow> event list" where
  "write_events sl kvs f = map (\<lambda>kv. ns_event (slot_ns sl) (cmd_write_sysctl (snd kv) (f kv))) kvs"

lemma usable_keys: "kv \<in> set (usable avail sl) \<Longrightarrow> dict_get (slot_keys sl) (fst kv) = Some (snd kv)"
  using wf_slot_keys [of sl] by (auto simp: usable_def wf_dict_def)

definition param_text :: "params \<Rightarrow> string \<Rightarrow> string" where
  "param_text p k = (case get_param p k of Inr v \<Rightarrow> str_pval v | Inl _ \<Rightarrow> [])"

lemma does_over_saved:
  assumes "\<And>s. P s \<Longrightarrow> nodes_set s \<and> saved sl s = Some d" "stable m P"
    and "\<And>kv. kv \<in> set d \<Longrightarrow> does m P (g kv) (f (map_option Node (slot_ns sl)) kv)"
  shows "does m P (concat (map g d)) (over_saved sl f)"
  unfolding over_saved_def
proof (rule does_bind_value [where x = d])
  show "py_attr (saved sl) s = (Inr d, s)" if "P s" for s
    using assms(1) [OF that] by (simp add: py_attr_def py_bind_apply)
  show "does m P (concat (map g d)) (py_bind (slot_node sl) (\<lambda>who. for_each d (f who)))"
  proof (rule does_bind_value [where x = "map_option Node (slot_ns sl)"])
    show "slot_node sl s = (Inr (map_option Node (slot_ns sl)), s)" if "P s" for s
      using assms(1) [OF that] by (simp add: slot_node_ok)
  qed (rule does_for_each [OF assms(2,3)])
qed

lemma does_write_slot:
  fixes P :: "'a xp_scheme \<Rightarrow> bool"
  assumes m: "mininet_ok m" and P: "\<And>s. P s \<Longrightarrow> nodes_set s \<and> saved sl s = Some (saved_dict avail st sl)"
    "\<And>s. P s \<Longrightarrow> experiment_parameter s = p" "stable m P"
    and params: "\<forall>kv \<in> set (slot_keys sl). \<exists>v. get_param p (fst kv) = Inr v"
  shows "does m P (write_events sl (usable avail sl) (\<lambda>kv. param_text p (fst kv))) (over_saved sl (write_one m sl))"
proof -
  have "does m P (concat (map (\<lambda>kv. [ns_event (slot_ns sl) (cmd_write_sysctl (the (dict_get (slot_keys sl) (fst kv)))
        (param_text p (fst kv)))]) (saved_dict avail st sl))) (over_saved sl (write_one m sl))"
  proof (rule does_over_saved [OF P(1,3)])
    fix kv assume "kv \<in> set (saved_dict avail st sl)"
    then obtain key where kv: "(fst kv, key) \<in> set (usable avail sl)" by (auto simp: saved_dict_def)
    then have key: "dict_get (slot_keys sl) (fst kv) = Some key" using usable_keys by fastforce
    have "(fst kv, key) \<in> set (slot_keys sl)" using kv by (simp add: usable_def)
    then obtain v where v: "get_param p (fst kv) = Inr v" using params by fastforce
    have "xp_get (fst kv) s = (Inr v, s)" if "P s" for s :: "'a xp_scheme"
      using P(2) [OF that] v by (simp add: xp_get_def)
    then show "does m P [ns_event (slot_ns sl) (cmd_write_sysctl (the (dict_get (slot_keys sl) (fst kv))) (param_text p (fst kv)))]
        (write_one m sl (map_option Node (slot_ns sl)) kv)"
      unfolding write_one_def
      by (intro does_bind_lift [where x = key] does_bind_value [where x = v])
         (simp_all add: key v param_text_def does_slot_command [OF m])
  qed assumption
  moreover have "concat (map (\<lambda>kv. [ns_event (slot_ns sl) (cmd_write_sysctl (the (dict_get (slot_keys sl) (fst kv)))
        (param_text p (fst kv)))]) (saved_dict avail st sl)) =
      write_events sl (usable avail sl) (\<lambda>kv. param_text p (fst kv))"
    using usable_keys [of _ avail sl]
    by (simp add: concat_map_singleton write_events_def saved_dict_def comp_def)
  ultimately show ?thesis by simp
qed

lemma does_restore_slot:
  fixes P :: "'a xp_scheme \<Rightarrow> bool"
  assumes m: "mininet_ok m" and P: "\<And>s. P s \<Longrightarrow> nodes_set s \<and> saved sl s = Some (saved_dict avail st sl)"
    "stable m P"
  shows "does m P (write_events sl (usable avail sl) (\<lambda>kv. st (slot_ns sl, snd kv))) (over_saved sl (restore_one m sl))"
proof -
  have "does m P (concat (map (\<lambda>kv. [ns_event (slot_ns sl) (cmd_write_sysctl (the (dict_get (slot_keys sl) (fst kv))) (snd kv))])
        (saved_dict avail st sl))) (over_saved sl (restore_one m sl))"
  proof (rule does_over_saved [OF P])
    fix kv assume "kv \<in> set (saved_dict avail st sl)"
    then obtain key where "(fst kv, key) \<in> set (usable avail sl)" by (auto simp: saved_dict_def)
    then have key: "dict_get (slot_keys sl) (fst kv) = Some key" using usable_keys by fastforce
    show "does m P [ns_event (slot_ns sl) (cmd_write_sysctl (the (dict_get (slot_keys sl) (fst kv))) (snd kv))]
        (restore_one m sl (map_option Node (slot_ns sl)) kv)"
      unfolding restore_one_def
      by (intro does_bind_lift [where x = key]) (simp_all add: key does_slot_command [OF m])
  qed assumption
  moreover have "concat (map (\<lambda>kv. [ns_event (slot_ns sl) (cmd_write_sysctl (the (dict_get (slot_keys sl) (fst kv))) (snd kv))])
        (saved_dict avail st sl)) = write_events sl (usable avail sl) (\<lambda>kv. st (slot_ns sl, snd kv))"
    using usable_keys [of _ avail sl]
    by (simp add: concat_map_singleton write_events_def saved_dict_def comp_def)
  ultimately show ?thesis by simp
qed

text \<open>What a list of writes in one namespace does to the values.\<close>

lemma now_writes_other:
  assumes "\<forall>kv \<in> set kvs. plain_key (snd kv)" "\<And>kv. kv \<in> set kvs \<Longrightarrow> x \<noteq> (slot_ns sl, snd kv)"
  shows "sysctl_now (write_events sl kvs f) st x = st x"
  using assms by (induction kvs arbitrary: st) (auto simp: write_events_def event_assign_write)

lemma now_writes:
  assumes "\<forall>kv \<in> set kvs. plain_key (snd kv)" "distinct (map snd kvs)" "kv \<in> set kvs"
  shows "sysctl_now (write_events sl kvs f) st (slot_ns sl, snd kv) = f kv"
  using assms
proof (induction kvs arbitrary: st)
  case (Cons a kvs)
  show ?case
  proof (cases "kv = a")
    case True
    have "sysctl_now (write_events sl kvs f) st' (slot_ns sl, snd kv) = st' (slot_ns sl, snd kv)" for st'
      by (rule now_writes_other) (use Cons.prems True in auto)
    then show ?thesis
      using Cons.prems(1) True by (simp add: write_events_def event_assign_write)
  next
    case False
    then have "sysctl_now (write_events sl kvs f) st' (slot_ns sl, snd kv) = f kv" for st'
      using Cons.prems by (intro Cons.IH) simp_all
    then show ?thesis using Cons.prems(1) by (simp add: write_events_def event_assign_write)
  qed
qed simp

lemma usable_ok: "\<forall>kv \<in> set (usable avail sl). plain_key (snd kv)" "distinct (map snd (usable avail sl))"
  using plain_keys [of sl] distinct_slot_keys(2) [of sl] by (auto simp: usable_def intro: distinct_map_filter)

text \<open>Writes in all three slots: the namespaces differ.\<close>

definition slots_events :: "(string \<Rightarrow> bool) \<Rightarrow> (slot \<Rightarrow> string \<times> string \<Rightarrow> string) \<Rightarrow> event list" where
  "slots_events avail f = concat (map (\<lambda>sl. write_events sl (usable avail sl) (f sl)) all_slots)"

lemma slot_ns_inject [simp]: "slot_ns sl = slot_ns sl' \<longleftrightarrow> sl = sl'"
  by (cases sl; cases sl') simp_all

lemma now_slots:
  assumes "kv \<in> set (usable avail sl)"
  shows "sysctl_now (slots_events avail f) st (slot_ns sl, snd kv) = f sl kv"
proof -
  have other: "sysctl_now (write_events sl' (usable avail sl') (f sl')) st' (slot_ns sl, snd kv) = st' (slot_ns sl, snd kv)"
    if "sl' \<noteq> sl" for sl' st'
    by (rule now_writes_other [OF usable_ok(1)]) (use that in auto)
  have own: "sysctl_now (write_events sl (usable avail sl) (f sl)) st' (slot_ns sl, snd kv) = f sl kv" for st'
    by (rule now_writes [OF usable_ok assms])
  show ?thesis
    by (cases sl) (use own other in \<open>simp_all add: slots_events_def all_slots_list sysctl_now_append del: slot_ns.simps\<close>)
qed

lemma now_slots_other:
  assumes "\<And>sl kv. kv \<in> set (usable avail sl) \<Longrightarrow> x \<noteq> (slot_ns sl, snd kv)"
  shows "sysctl_now (slots_events avail f) st x = st x"
proof -
  have "sysctl_now (write_events sl (usable avail sl) (f sl)) st' x = st' x" for sl st'
    by (rule now_writes_other [OF usable_ok(1)]) (use assms in auto)
  then show ?thesis by (simp add: slots_events_def all_slots_list sysctl_now_append)
qed

end
