(* ===== verification/ExperimentProps.thy ===== *)
theory ExperimentProps
  imports Sysctl MultiClientProps
begin

text \<open>
  What an experiment does around its run: the sysctls it sets and gives back, the priorities it
  puts on the paths, the path managers it starts and kills, the pings.
\<close>

section \<open>Sysctls\<close>

definition has_parameters :: "params \<Rightarrow> slot \<Rightarrow> bool" where
  "has_parameters p sl \<longleftrightarrow> (\<forall>kv \<in> set (slot_keys sl). \<exists>v. get_param p (fst kv) = Inr v)"

definition sysctl_saved :: "(string \<Rightarrow> bool) \<Rightarrow> (sysctl_key \<Rightarrow> string) \<Rightarrow> 'a xp_scheme \<Rightarrow> bool" where
  "sysctl_saved avail st s \<longleftrightarrow> nodes_set s \<and> (\<forall>sl. saved sl s = Some (saved_dict avail st sl))"

lemma stable_saved: "stable m (\<lambda>s. sysctl_saved avail st s \<and> experiment_parameter s = p)"
  "stable m (sysctl_saved avail st)"
  by (simp_all add: stable_def sysctl_saved_def)

lemma does_write_sysctl:
  assumes "mininet_ok m" "\<forall>sl. has_parameters p sl"
  shows "does m (\<lambda>s. sysctl_saved avail st s \<and> experiment_parameter s = p)
     (slots_events avail (\<lambda>sl kv. param_text p (fst kv))) (write_sysctl m)"
proof -
  have slot: "does m (\<lambda>s. sysctl_saved avail st s \<and> experiment_parameter s = p)
     (write_events sl (usable avail sl) (\<lambda>kv. param_text p (fst kv))) (over_saved sl (write_one m sl))" for sl
    by (rule does_write_slot [OF assms(1) _ _ stable_saved(1), where st = st and p = p])
       (use assms(2) in \<open>simp_all add: sysctl_saved_def has_parameters_def\<close>)
  show ?thesis
    unfolding write_sysctl_def
    by (rule does_cong, (rule does_block_Cons stable_saved slot does_block_Nil)+)
       (simp add: slots_events_def all_slots_list)
qed

lemma does_restore_sysctl:
  assumes "mininet_ok m"
  shows "does m (sysctl_saved avail st) (slots_events avail (\<lambda>sl kv. st (slot_ns sl, snd kv))) (restore_sysctl m)"
proof -
  have slot: "does m (sysctl_saved avail st)
     (write_events sl (usable avail sl) (\<lambda>kv. st (slot_ns sl, snd kv))) (over_saved sl (restore_one m sl))" for sl
    by (rule does_restore_slot [OF assms _ stable_saved(2)]) (simp add: sysctl_saved_def)
  show ?thesis
    unfolding restore_sysctl_def
    by (rule does_cong, (rule does_block_Cons stable_saved slot does_block_Nil)+)
       (simp add: slots_events_def all_slots_list)
qed

text \<open>\<open>setup_sysctl\<close> as one step.\<close>

definition setup_events :: "(string \<Rightarrow> bool) \<Rightarrow> params \<Rightarrow> event list" where
  "setup_events avail p = concat (map read_events all_slots) @ slots_events avail (\<lambda>sl kv. param_text p (fst kv))"

definition with_saved :: "(string \<Rightarrow> bool) \<Rightarrow> (sysctl_key \<Rightarrow> string) \<Rightarrow> 'a xp_scheme \<Rightarrow> 'a xp_scheme" where
  "with_saved avail st s = s\<lparr>sysctl_to_restore := Some (saved_dict avail st HostSlot),
     client_sysctl_to_restore := Some (saved_dict avail st ClientSlot),
     server_sysctl_to_restore := Some (saved_dict avail st ServerSlot)\<rparr>"

lemma with_saved_fields [simp]:
  "saved sl (with_saved avail st s) = Some (saved_dict avail st sl)"
  "nodes_set (with_saved avail st s) = nodes_set s" "live (with_saved avail st s) = live s"
  "experiment_parameter (with_saved avail st s) = experiment_parameter s"
  "events (with_saved avail st s) = events s"
  by (cases sl; simp add: with_saved_def nodes_set_def live_def)+

lemma setup_sysctl_ok:
  fixes s :: "'a xp_scheme"
  assumes m: "mininet_ok m" "sysctl_ok m avail init" and s: "live s" "nodes_set s"
    and ascii: "keys_ascii (sysctl_now (events s) init)"
    and params: "\<forall>sl. has_parameters (experiment_parameter s) sl"
  defines "t \<equiv> ran m (setup_events avail (experiment_parameter s)) (with_saved avail (sysctl_now (events s) init) s)"
  shows "setup_sysctl m s = (Inr (), t)" and "live t" and "sysctl_saved avail (sysctl_now (events s) init) t"
proof -
  let ?now = "sysctl_now (events s) init" and ?es = "slots_events avail (\<lambda>sl kv. param_text (experiment_parameter s) (fst kv))"
  define u where "u = ran m (concat (map read_events all_slots)) (with_saved avail ?now s)"
  have u: "save_sysctl m s = (Inr (), u)"
    using save_sysctl_ok [OF m(2) s ascii] by (simp add: u_def with_saved_def)
  have live: "live u" unfolding u_def
    by (rule live_ran) (use s(1) read_events_live in auto)
  have P: "sysctl_saved avail ?now u \<and> experiment_parameter u = experiment_parameter s"
    unfolding sysctl_saved_def using s(2) by (simp add: u_def)
  note writes = does_write_sysctl [OF m(1) params, of avail ?now]
  have t: "t = ran m ?es u" by (simp add: t_def u_def setup_events_def)
  show "setup_sysctl m s = (Inr (), t)"
    using doesD [OF writes live P] by (simp add: setup_sysctl_def py_bind_apply u t)
  show "live t" unfolding t by (rule live_ran [OF live does_live [OF writes]])
  show "sysctl_saved avail ?now t" using P by (simp add: t sysctl_saved_def)
qed

lemma now_reads: "sysctl_now (concat (map read_events sls)) st = st"
  by (rule sysctl_now_quiet) (use reads_quiet in auto)

lemma usable_iff: "kv \<in> set (usable avail sl) \<longleftrightarrow> kv \<in> set (slot_keys sl) \<and> readable avail (slot_ns sl) (snd kv)"
  by (simp add: usable_def)

text \<open>The sysctls an experiment takes over.\<close>

definition managed :: "(string \<Rightarrow> bool) \<Rightarrow> sysctl_key \<Rightarrow> bool" where
  "managed avail x \<longleftrightarrow> (\<exists>sl name. fst x = slot_ns sl \<and> (name, snd x) \<in> set (slot_keys sl) \<and>
     readable avail (slot_ns sl) (snd x))"

text \<open>
  C27. \<open>setup_sysctl\<close> ends without an error and from then on every sysctl of the experiment that
  can be read has the value of its parameter, on the host, the client and the server; no other
  sysctl changes.
\<close>

theorem setup_sysctl_applies:
  fixes s :: "'a xp_scheme"
  assumes "mininet_ok m" "sysctl_ok m avail init" "live s" "nodes_set s"
    "keys_ascii (sysctl_now (events s) init)" "\<forall>sl. has_parameters (experiment_parameter s) sl"
  shows "\<exists>t. setup_sysctl m s = (Inr (), t) \<and> live t \<and>
     (\<forall>sl name key. (name, key) \<in> set (slot_keys sl) \<and> readable avail (slot_ns sl) key \<longrightarrow>
        sysctl_now (events t) init (slot_ns sl, key) = param_text (experiment_parameter s) name) \<and>
     (\<forall>x. \<not> managed avail x \<longrightarrow>
        sysctl_now (events t) init x = sysctl_now (events s) init x)"
proof -
  define t where "t = ran m (setup_events avail (experiment_parameter s)) (with_saved avail (sysctl_now (events s) init) s)"
  have t: "setup_sysctl m s = (Inr (), t)" "live t"
    "events t = events s @ concat (map read_events all_slots) @
       slots_events avail (\<lambda>sl kv. param_text (experiment_parameter s) (fst kv))"
    using setup_sysctl_ok [OF assms] by (simp_all add: t_def setup_events_def)
  have 1: "sysctl_now (events t) init (slot_ns sl, key) = param_text (experiment_parameter s) name"
    if "(name, key) \<in> set (slot_keys sl)" "readable avail (slot_ns sl) key" for sl name key
    using now_slots [of "(name, key)" avail sl] that by (simp add: t(3) sysctl_now_append now_reads usable_iff)
  have 2: "sysctl_now (events t) init x = sysctl_now (events s) init x"
    if "\<not> managed avail x" for x
    unfolding t(3) sysctl_now_append now_reads
    by (rule now_slots_other) (use that in \<open>auto simp: usable_iff managed_def\<close>)
  show ?thesis using t(1,2) 1 2 by blast
qed

text \<open>
  \<open>_restore_sysctl\<close> gives every sysctl of the experiment the value it had before
  \<open>setup_sysctl\<close>, whatever ran in between, and leaves the other ones as they are.
\<close>

lemma restore_sysctl_restores:
  fixes s t u :: "'a xp_scheme"
  assumes "mininet_ok m" "sysctl_ok m avail init" "live s" "nodes_set s"
    "keys_ascii (sysctl_now (events s) init)" "\<forall>sl. has_parameters (experiment_parameter s) sl"
    and before: "setup_sysctl m s = (Inr (), t)"
    and u: "live u" "nodes_set u" "\<forall>sl. saved sl u = saved sl t"
  shows "\<exists>w. restore_sysctl m u = (Inr (), w) \<and> live w \<and>
     (\<forall>sl name key. (name, key) \<in> set (slot_keys sl) \<and> readable avail (slot_ns sl) key \<longrightarrow>
        sysctl_now (events w) init (slot_ns sl, key) = sysctl_now (events s) init (slot_ns sl, key)) \<and>
     (\<forall>x. \<not> managed avail x \<longrightarrow>
        sysctl_now (events w) init x = sysctl_now (events u) init x)"
proof -
  let ?now = "sysctl_now (events s) init" and ?es = "slots_events avail (\<lambda>sl kv. sysctl_now (events s) init (slot_ns sl, snd kv))"
  have "sysctl_saved avail ?now t"
    using setup_sysctl_ok [OF assms(1-6)] before by simp
  then have P: "sysctl_saved avail ?now u" using u by (simp add: sysctl_saved_def)
  note restore = does_restore_sysctl [OF assms(1), of avail ?now]
  have w: "restore_sysctl m u = (Inr (), ran m ?es u)" "live (ran m ?es u)"
    using doesD [OF restore u(1) P] live_ran [OF u(1) does_live [OF restore]] by simp_all
  have 1: "sysctl_now (events (ran m ?es u)) init (slot_ns sl, key) = ?now (slot_ns sl, key)"
    if "(name, key) \<in> set (slot_keys sl)" "readable avail (slot_ns sl) key" for sl name key
    using now_slots [of "(name, key)" avail sl] that by (simp add: sysctl_now_append usable_iff)
  have 2: "sysctl_now (events (ran m ?es u)) init x = sysctl_now (events u) init x"
    if "\<not> managed avail x" for x
    unfolding ran_fields sysctl_now_append
    by (rule now_slots_other) (use that in \<open>auto simp: usable_iff managed_def\<close>)
  show ?thesis using w 1 2 by blast
qed


section \<open>The commands of the phases\<close>

text \<open>An experiment on a configured network.\<close>

record xp_plan =
  xp_left :: string
  xp_right :: string
  xp_params :: params
  xp_nc :: nat
  xp_ns :: nat

definition xp_ready :: "xp_plan \<Rightarrow> 'a xp_scheme \<Rightarrow> bool" where
  "xp_ready x s \<longleftrightarrow> nodes_set s \<and> cfg_router s = Some (Node Router) \<and>
     has_subnets (xp_left x) (xp_right x) (param s) \<and> experiment_parameter s = xp_params x \<and>
     client_interface_count s = xp_nc x \<and> xp_server_interface_count s = Inr (xp_ns x)"

lemma ran_counts [simp]:
  "client_interface_count (ran m es s) = client_interface_count s"
  "xp_server_interface_count (ran m es s) = xp_server_interface_count s"
  "cfg_router (ran m es s) = cfg_router s" "cfg_client (ran m es s) = cfg_client s" "cfg_server (ran m es s) = cfg_server s"
  by (simp_all add: ran_def client_interface_count_def xp_server_interface_count_def server_interface_count_def
      multi_client_server_interface_count_def cong: topo_class.case_cong)

lemma stable_ready: "stable m (xp_ready x)"
  by (simp add: stable_def xp_ready_def)

lemma does_xp_tell:
  assumes "mininet_ok m" "\<And>s. P s \<Longrightarrow> who s = Some (Node n)"
  shows "does m P [NodeCmd n c] (xp_tell m who (py_return c))"
  unfolding xp_tell_def
  by (rule does_bind_value [where x = "Node n"]) (simp_all add: py_attr_def assms does_command)

lemma does_xp_get:
  assumes "\<And>s. P s \<Longrightarrow> experiment_parameter s = p" "get_param p k = Inr v" "does m P es (f v)"
  shows "does m P es (py_bind (xp_get k) f)"
  by (rule does_bind_value [where x = v]) (use assms in \<open>simp_all add: xp_get_def py_bind_apply\<close>)

lemma does_when: "(b \<Longrightarrow> does m P es f) \<Longrightarrow> does m P (if b then es else []) (py_when b f)"
  by (cases b) (simp_all add: py_when_def does_return)

lemma readyD:
  assumes "xp_ready x s"
  shows "cfg_client s = Some (Node Client)" "cfg_server s = Some (Node Server)" "cfg_router s = Some (Node Router)"
    "experiment_parameter s = xp_params x"
  using assms by (simp_all add: xp_ready_def nodes_set_def)

lemma tell_client: "mininet_ok m \<Longrightarrow> does m (xp_ready x) [NodeCmd Client c] (xp_tell m cfg_client (py_return c))"
  and tell_server: "mininet_ok m \<Longrightarrow> does m (xp_ready x) [NodeCmd Server c] (xp_tell m cfg_server (py_return c))"
  and tell_router: "mininet_ok m \<Longrightarrow> does m (xp_ready x) [NodeCmd Router c] (xp_tell m cfg_router (py_return c))"
  by (rule does_xp_tell; simp add: readyD)+

lemma ready_get:
  "get_param (xp_params x) k = Inr v \<Longrightarrow> does m (xp_ready x) es (f v) \<Longrightarrow> does m (xp_ready x) es (py_bind (xp_get k) f)"
  by (rule does_xp_get, erule readyD(4))

definition ping_events :: "xp_plan \<Rightarrow> pval \<Rightarrow> event list" where
  "ping_events x count = NodeCmd Client (''rm '' @ PING_OUTPUT) #
     concat (map (\<lambda>j. map (\<lambda>i. NodeCmd Client
       (ping_command (ip_text (xp_left x) i ''.1'') (ip_text (xp_right x) j ''.1'') count)) [0..<xp_nc x]) [0..<xp_ns x])"

lemma does_ping_pair:
  fixes x :: xp_plan
  assumes m: "mininet_ok m"
  shows "does m (xp_ready x :: 'a xp_scheme \<Rightarrow> bool)
     [NodeCmd Client (ping_command (ip_text (xp_left x) i ''.1'') (ip_text (xp_right x) j ''.1'') count)] (ping_pair m count j i)"
  unfolding does_def
proof (intro conjI allI impI)
  fix s :: "'a xp_scheme" assume s: "live s" "xp_ready x s"
  then have "has_subnets (xp_left x) (xp_right x) (param s)" by (simp add: xp_ready_def)
  note ips = address_texts [OF this]
  have "ping_pair m count j i s = xp_tell m cfg_client (py_return
      (ping_command (ip_text (xp_left x) i ''.1'') (ip_text (xp_right x) j ''.1'') count)) s"
    by (simp add: ping_pair_def py_bind_apply ips)
  then show "ping_pair m count j i s = (Inr (), ran m
     [NodeCmd Client (ping_command (ip_text (xp_left x) i ''.1'') (ip_text (xp_right x) j ''.1'') count)] s)"
    using doesD [OF tell_client [OF m] s] by simp
qed simp

lemma does_ping:
  assumes m: "mininet_ok m" and count: "get_param (xp_params x) ''pingCount'' = Inr count"
  shows "does m (xp_ready x :: 'a xp_scheme \<Rightarrow> bool) (ping_events x count) (ping m)"
proof -
  let ?e = "\<lambda>j i. NodeCmd Client (ping_command (ip_text (xp_left x) i ''.1'') (ip_text (xp_right x) j ''.1'') count)"
  note pair = does_ping_pair [OF m]
  have row: "does m (xp_ready x :: 'a xp_scheme \<Rightarrow> bool) (map (?e j) [0..<xp_nc x])
      (py_bind (py_get client_interface_count) (\<lambda>nc. for_each [0..<nc] (ping_pair m count j)))" for j
    by (intro does_bind_get [where x = "xp_nc x"] does_cong [OF does_for_each [OF stable_ready pair]])
       (simp_all add: xp_ready_def concat_map_singleton)
  have rows: "does m (xp_ready x :: 'a xp_scheme \<Rightarrow> bool) (concat (map (\<lambda>j. map (?e j) [0..<xp_nc x]) [0..<xp_ns x]))
      (py_bind (py_get xp_server_interface_count) (\<lambda>r. py_bind (py_lift r) (\<lambda>ns.
         for_each [0..<ns] (\<lambda>j. py_bind (py_get client_interface_count) (\<lambda>nc. for_each [0..<nc] (ping_pair m count j))))))"
    by (rule does_bind_get [where x = "Inr (xp_ns x)"], simp add: xp_ready_def)
       (rule does_bind_lift [OF refl], rule does_for_each [OF stable_ready row])
  have "does m (xp_ready x :: 'a xp_scheme \<Rightarrow> bool) ([NodeCmd Client (''rm '' @ PING_OUTPUT)] @
      concat (map (\<lambda>j. map (?e j) [0..<xp_nc x]) [0..<xp_ns x]) @ []) (ping m)"
    unfolding ping_def
    by (rule does_block_Cons [OF stable_ready tell_client [OF m]],
        rule does_block_Cons [OF stable_ready _ does_block_Nil],
        rule ready_get, rule count, rule rows)
  then show ?thesis by (simp add: ping_events_def)
qed


text \<open>Every parameter of the base class has a value, from the file or by default.\<close>

definition complete :: "params \<Rightarrow> bool" where
  "complete p \<longleftrightarrow> (\<forall>k \<in> set (map fst EXPERIMENT_DEFAULT_PARAMETERS). \<exists>v. get_param p k = Inr v)"

definition param_val :: "params \<Rightarrow> string \<Rightarrow> pval" where
  "param_val p k = (case get_param p k of Inr v \<Rightarrow> v | Inl _ \<Rightarrow> PStr [])"

lemma param_val_ok: "complete p \<Longrightarrow> k \<in> set (map fst EXPERIMENT_DEFAULT_PARAMETERS) \<Longrightarrow> get_param p k = Inr (param_val p k)"
  by (auto simp: complete_def param_val_def)

lemma wf_defaults: "wf_dict EXPERIMENT_DEFAULT_PARAMETERS"
  by (simp add: wf_dict_def EXPERIMENT_DEFAULT_PARAMETERS_def)

lemma new_experiment_parameter_complete:
  assumes "new_experiment_parameter fs f = Inr p"
  shows "complete p"
proof -
  obtain q where p: "p = add_defaults EXPERIMENT_DEFAULT_PARAMETERS q"
    using assms by (auto simp: new_experiment_parameter_def rbind_def split: sum.splits)
  have "dict_get (default_parameters p) k \<noteq> None" if "k \<in> set (map fst EXPERIMENT_DEFAULT_PARAMETERS)" for k
  proof -
    have "dict_get EXPERIMENT_DEFAULT_PARAMETERS k \<noteq> None" using that by (simp add: EXPERIMENT_DEFAULT_PARAMETERS_def) auto
    then show ?thesis by (auto simp: p add_defaults_def dict_get_update [OF wf_defaults])
  qed
  then show ?thesis by (fastforce simp: complete_def get_param_def split: option.splits)
qed

lemma complete_slots: "complete p \<Longrightarrow> has_parameters p sl"
  by (cases sl) (simp_all add: has_parameters_def complete_def EXPERIMENT_DEFAULT_PARAMETERS_def SYSCTL_KEY_def
      SYSCTL_KEY_CLIENT_def SYSCTL_KEY_SERVER_def)

lemma default_keys:
  "set (map fst EXPERIMENT_DEFAULT_PARAMETERS) \<supseteq>
     {''kpmc'', ''kpms'', ''upmc'', ''upms'', ''upmc_args'', ''upms_args'', ''clientPcap'', ''serverPcap'',
      ''snaplen_pcap'', ''pingCount'', ''priority_path_0'', ''priority_path_1'', ''backup_path_0'', ''backup_path_1''}"
  by (simp add: EXPERIMENT_DEFAULT_PARAMETERS_def)

lemma ready_param:
  "complete (xp_params x) \<Longrightarrow> k \<in> set (map fst EXPERIMENT_DEFAULT_PARAMETERS) \<Longrightarrow>
     does m (xp_ready x) es (f (param_val (xp_params x) k)) \<Longrightarrow> does m (xp_ready x) es (py_bind (xp_get k) f)"
  by (rule ready_get [OF param_val_ok])

subsection \<open>Path managers\<close>

definition netlink :: "params \<Rightarrow> string \<Rightarrow> bool" where
  "netlink p k \<longleftrightarrow> param_val p k = PStr ''netlink''"

definition manager_cmd :: "params \<Rightarrow> string \<Rightarrow> string \<Rightarrow> string \<Rightarrow> string" where
  "manager_cmd p upm args logname = str_pval (param_val p upm) @ '' '' @ str_pval (param_val p args) @ '' &>'' @ logname @ '' &''"

definition manager_events :: "params \<Rightarrow> event list" where
  "manager_events p =
     (if netlink p ''kpmc'' then [NodeCmd Client (manager_cmd p ''upmc'' ''upmc_args'' ''upmc.log'')] else []) @
     (if netlink p ''kpms'' then [NodeCmd Server (manager_cmd p ''upms'' ''upms_args'' ''upms.log'')] else [])"

definition kill_cmd :: "params \<Rightarrow> string \<Rightarrow> string" where
  "kill_cmd p upm = ''killall '' @ str_pval (param_val p upm)"

definition kill_events :: "params \<Rightarrow> event list" where
  "kill_events p =
     (if netlink p ''kpmc'' then [NodeCmd Client (kill_cmd p ''upmc'')] else []) @
     (if netlink p ''kpms'' then [NodeCmd Client (kill_cmd p ''upms'')] else [])"

lemma does_run_manager:
  assumes "complete (xp_params x)"
    and "{kpm, upm, args} \<subseteq> set (map fst EXPERIMENT_DEFAULT_PARAMETERS)"
    and "\<And>c. does m (xp_ready x) [NodeCmd n c] (xp_tell m who (py_return c))"
  shows "does m (xp_ready x) (if netlink (xp_params x) kpm then [NodeCmd n (manager_cmd (xp_params x) upm args logname)] else [])
     (run_path_manager m kpm upm args who logname)"
proof -
  have keys: "kpm \<in> set (map fst EXPERIMENT_DEFAULT_PARAMETERS)" "upm \<in> set (map fst EXPERIMENT_DEFAULT_PARAMETERS)"
     "args \<in> set (map fst EXPERIMENT_DEFAULT_PARAMETERS)"
    using assms(2) by blast+
  show ?thesis
    unfolding run_path_manager_def netlink_def manager_cmd_def
    by (rule ready_param [OF assms(1) keys(1)], rule does_when, rule ready_param [OF assms(1) keys(2)],
        rule ready_param [OF assms(1) keys(3)], rule assms(3))
qed

lemma does_kill_manager:
  assumes "complete (xp_params x)" and "{kpm, upm} \<subseteq> set (map fst EXPERIMENT_DEFAULT_PARAMETERS)"
    and "\<And>c. does m (xp_ready x) [NodeCmd n c] (xp_tell m who (py_return c))"
  shows "does m (xp_ready x) (if netlink (xp_params x) kpm then [NodeCmd n (kill_cmd (xp_params x) upm)] else [])
     (kill_path_manager m kpm upm who)"
proof -
  have keys: "kpm \<in> set (map fst EXPERIMENT_DEFAULT_PARAMETERS)" "upm \<in> set (map fst EXPERIMENT_DEFAULT_PARAMETERS)"
    using assms(2) by blast+
  show ?thesis
    unfolding kill_path_manager_def netlink_def kill_cmd_def
    by (rule ready_param [OF assms(1) keys(1)], rule does_when, rule ready_param [OF assms(1) keys(2)], rule assms(3))
qed

lemma does_managers:
  assumes m: "mininet_ok m" and p: "complete (xp_params x)"
  shows "does m (xp_ready x) (manager_events (xp_params x)) (run_userspace_path_manager m)"
    and "does m (xp_ready x) (kill_events (xp_params x)) (clean_userspace_path_manager m)"
proof -
  have keys: "{''kpmc'', ''upmc'', ''upmc_args''} \<subseteq> set (map fst EXPERIMENT_DEFAULT_PARAMETERS)"
     "{''kpms'', ''upms'', ''upms_args''} \<subseteq> set (map fst EXPERIMENT_DEFAULT_PARAMETERS)"
     "{''kpmc'', ''upmc''} \<subseteq> set (map fst EXPERIMENT_DEFAULT_PARAMETERS)"
     "{''kpms'', ''upms''} \<subseteq> set (map fst EXPERIMENT_DEFAULT_PARAMETERS)"
    using default_keys by simp_all
  note block = does_block_Cons [OF stable_ready] does_block_Nil
  show "does m (xp_ready x) (manager_events (xp_params x)) (run_userspace_path_manager m)"
    unfolding run_userspace_path_manager_def
    by (rule does_cong, (rule block does_run_manager [OF p keys(1) tell_client [OF m]]
          does_run_manager [OF p keys(2) tell_server [OF m]])+) (simp add: manager_events_def)
  show "does m (xp_ready x) (kill_events (xp_params x)) (clean_userspace_path_manager m)"
    unfolding clean_userspace_path_manager_def
    by (rule does_cong, (rule block does_kill_manager [OF p keys(3) tell_client [OF m]]
          does_kill_manager [OF p keys(4) tell_client [OF m]])+) (simp add: kill_events_def)
qed

end
