(* ===== verification/ExperimentRun.thy ===== *)
theory ExperimentRun
  imports ExperimentProps
begin

text \<open>
  The phases of an experiment as a whole: the commands of \<open>prepare\<close>, and what \<open>classic_run\<close>
  leaves behind when the run succeeds and when it fails.
\<close>

section \<open>Captures\<close>

definition tcpdump_events :: "params \<Rightarrow> event list" where
  "tcpdump_events p =
     (let c = param_val p ''clientPcap'' = PStr ''yes''; sv = param_val p ''serverPcap'' = PStr ''yes'';
          n = param_val p ''snaplen_pcap'' in
      (if c then [NodeCmd Client (tcpdump_cmd n ''client'')] else []) @
      (if sv then [NodeCmd Server (tcpdump_cmd n ''server'')] else []) @
      (if sv \<or> c then [NodeCmd Client ''sleep 5''] else []))"

lemma does_run_tcpdump:
  assumes m: "mininet_ok m" and p: "complete (xp_params x)"
  shows "does m (xp_ready x) (tcpdump_events (xp_params x)) (run_tcpdump m)"
proof -
  note block = does_block_Cons [OF stable_ready] does_block_Nil
  have keys: "''clientPcap'' \<in> set (map fst EXPERIMENT_DEFAULT_PARAMETERS)" "''serverPcap'' \<in> set (map fst EXPERIMENT_DEFAULT_PARAMETERS)"
    "''snaplen_pcap'' \<in> set (map fst EXPERIMENT_DEFAULT_PARAMETERS)" using default_keys by simp_all
  show ?thesis
    unfolding run_tcpdump_def
    by (rule ready_param [OF p keys(1)], rule ready_param [OF p keys(2)], rule ready_param [OF p keys(3)], rule does_cong,
        (rule block does_when tell_client [OF m] tell_server [OF m])+) (simp add: tcpdump_events_def Let_def)
qed

section \<open>Priorities\<close>

text \<open>\<open>backup_path_i\<close> is read with \<open>int\<close>.\<close>

definition backup_of :: "params \<Rightarrow> string \<Rightarrow> int res" where
  "backup_of p k = pval_int (param_val p k)"

lemma put_priority_cases:
  fixes s :: "'a xp_scheme"
  assumes "cfg_client s = Some h" and "complete (experiment_parameter s)"
    and "backup_of (experiment_parameter s) ''backup_path_0'' = Inr b0"
    and "backup_of (experiment_parameter s) ''backup_path_1'' = Inr b1"
  shows "put_priority_on_paths m s =
    (if param_val (experiment_parameter s) ''priority_path_0'' \<noteq> param_val (experiment_parameter s) ''priority_path_1'' \<or>
        0 < b0 \<or> 0 < b1
     then Inl TypeError else Inr (), s)"
proof -
  have keys: "''priority_path_0'' \<in> set (map fst EXPERIMENT_DEFAULT_PARAMETERS)" "''priority_path_1'' \<in> set (map fst EXPERIMENT_DEFAULT_PARAMETERS)"
    "''backup_path_0'' \<in> set (map fst EXPERIMENT_DEFAULT_PARAMETERS)" "''backup_path_1'' \<in> set (map fst EXPERIMENT_DEFAULT_PARAMETERS)"
    using default_keys by simp_all
  have get: "xp_get k s = (Inr (param_val (experiment_parameter s) k), s)"
    if "k \<in> set (map fst EXPERIMENT_DEFAULT_PARAMETERS)" for k
    using param_val_ok [OF assms(2) that] by (simp add: xp_get_def py_bind_apply)
  show ?thesis
    using assms(1,3,4)
    by (simp add: put_priority_on_paths_def set_backup_def set_priority_def py_bind_apply get [OF keys(1)] get [OF keys(2)]
        get [OF keys(3)] get [OF keys(4)] py_when_def xp_tell_def py_attr_def call_get_client_interface_def backup_of_def)
qed

text \<open>
  C30. The per-path options cannot be used: as soon as the two priorities differ, or a backup
  flag is positive, \<open>put_priority_on_paths\<close> raises \<open>TypeError\<close> before it runs any command,
  because \<open>get_client_interface\<close> is called without the client; otherwise it does nothing.
\<close>

theorem path_options_unusable:
  fixes s :: "'a xp_scheme"
  assumes "cfg_client s = Some h" and "complete (experiment_parameter s)"
    and "backup_of (experiment_parameter s) ''backup_path_0'' = Inr b0"
    and "backup_of (experiment_parameter s) ''backup_path_1'' = Inr b1"
  shows "put_priority_on_paths m s =
    (if param_val (experiment_parameter s) ''priority_path_0'' \<noteq> param_val (experiment_parameter s) ''priority_path_1'' \<or>
        0 < b0 \<or> 0 < b1
     then Inl TypeError else Inr (), s)"
  using assms by (rule put_priority_cases)

section \<open>Preparing and cleaning\<close>

definition plain_paths :: "params \<Rightarrow> bool" where
  "plain_paths p \<longleftrightarrow> param_val p ''priority_path_0'' = param_val p ''priority_path_1'' \<and>
     (\<exists>b. backup_of p ''backup_path_0'' = Inr b \<and> b \<le> 0) \<and> (\<exists>b. backup_of p ''backup_path_1'' = Inr b \<and> b \<le> 0)"

text \<open>The network an experiment runs on: its graph, its bottleneck links, and whether they change.\<close>

definition on_network :: "xp_plan \<Rightarrow> graph_op list \<Rightarrow> link list \<Rightarrow> bool \<Rightarrow> 'a xp_scheme \<Rightarrow> bool" where
  "on_network x g ls c s \<longleftrightarrow> xp_ready x s \<and> net s = Some g \<and> bottleneck_links s = map node_bottleneck ls \<and> change_netem s = c"

lemma stable_on_network: "stable m (on_network x g ls c)"
  by (simp add: stable_def on_network_def xp_ready_def)

definition network_links_ok :: "mininet \<Rightarrow> graph_op list \<Rightarrow> link list \<Rightarrow> bool" where
  "network_links_ok m g ls \<longleftrightarrow> (\<forall>l \<in> set ls. (\<exists>b. buffer_size l = Inr b) \<and>
      interfaces m g (get_bs_name l 1) \<noteq> [] \<and> interfaces m g (get_bs_name l 2) \<noteq> [])"

lemma does_netem:
  assumes "mininet_ok m" "network_links_ok m g ls"
  shows "does m (on_network x g ls c) (if c then concat (map (changing_events m g) ls) else []) (run_netem_at m)"
proof (cases c)
  case True
  then show ?thesis
    using does_weaken [OF does_run_netem_at [OF assms(1)], of ls g "on_network x g ls c"] assms(2)
    by (auto simp: on_network_def network_links_ok_def)
next
  case False
  then show ?thesis by (simp add: does_def run_netem_at_def py_bind_apply on_network_def py_when_def)
qed

definition prepare_events :: "mininet \<Rightarrow> (string \<Rightarrow> bool) \<Rightarrow> params \<Rightarrow> graph_op list \<Rightarrow> link list \<Rightarrow> bool \<Rightarrow> event list" where
  "prepare_events m avail p g ls c = setup_events avail p @ manager_events p @ tcpdump_events p @
     (if c then concat (map (changing_events m g) ls) else [])"

lemma on_network_ready: "on_network x g ls c s \<Longrightarrow> xp_ready x s"
  by (simp add: on_network_def)

lemma does_after_setup:
  assumes m: "mininet_ok m" and p: "complete (xp_params x)" "plain_paths (xp_params x)" and ls: "network_links_ok m g ls"
  shows "does m (on_network x g ls c :: 'a xp_scheme \<Rightarrow> bool)
     (manager_events (xp_params x) @ tcpdump_events (xp_params x) @ (if c then concat (map (changing_events m g) ls) else []))
     (block [run_userspace_path_manager m, put_priority_on_paths m, run_tcpdump m, run_netem_at m])"
proof -
  have paths: "does m (on_network x g ls c :: 'a xp_scheme \<Rightarrow> bool) [] (put_priority_on_paths m)"
  proof (rule does_noop)
    fix s :: "'a xp_scheme" assume s: "on_network x g ls c s"
    note s = readyD [OF on_network_ready [OF s]]
    obtain b0 b1 where b: "backup_of (xp_params x) ''backup_path_0'' = Inr b0" "b0 \<le> 0"
      "backup_of (xp_params x) ''backup_path_1'' = Inr b1" "b1 \<le> 0" using p(2) by (auto simp: plain_paths_def)
    show "put_priority_on_paths m s = (Inr (), s)"
      using put_priority_cases [OF s(1), of b0 b1 m] b p by (simp add: s plain_paths_def)
  qed
  note weak = does_weaken [OF _ on_network_ready]
  show ?thesis
    by (rule does_cong, rule does_block_Cons [OF stable_on_network weak [OF does_managers(1) [OF m p(1)]]], assumption,
        rule does_block_Cons [OF stable_on_network paths],
        rule does_block_Cons [OF stable_on_network weak [OF does_run_tcpdump [OF m p(1)]]], assumption,
        rule does_block_Cons [OF stable_on_network does_netem [OF m ls] does_block_Nil]) simp
qed


lemma prepare_ok:
  fixes s :: "'a xp_scheme"
  assumes m: "mininet_ok m" "sysctl_ok m avail init" and s: "live s" "on_network x g ls c s"
    and ascii: "keys_ascii (sysctl_now (events s) init)"
    and p: "complete (xp_params x)" "plain_paths (xp_params x)" and ls: "network_links_ok m g ls"
  defines "t \<equiv> ran m (prepare_events m avail (xp_params x) g ls c) (with_saved avail (sysctl_now (events s) init) s)"
  shows "xp_prepare m s = (Inr (), t)" and "live t" and "on_network x g ls c t"
    and "sysctl_saved avail (sysctl_now (events s) init) t"
proof -
  define u where "u = ran m (setup_events avail (xp_params x)) (with_saved avail (sysctl_now (events s) init) s)"
  have e: "experiment_parameter s = xp_params x" and n: "nodes_set s"
    using on_network_ready [OF s(2)] by (simp_all add: xp_ready_def)
  have params: "\<forall>sl. has_parameters (experiment_parameter s) sl" using complete_slots [OF p(1)] e by simp
  have u: "setup_sysctl m s = (Inr (), u)" "live u" "sysctl_saved avail (sysctl_now (events s) init) u"
    using setup_sysctl_ok [OF m s(1) n ascii params] by (simp_all add: u_def e)
  have net: "on_network x g ls c u"
    using s(2) by (simp add: u_def on_network_def xp_ready_def with_saved_def client_interface_count_def
        xp_server_interface_count_def server_interface_count_def multi_client_server_interface_count_def nodes_set_def
        cong: topo_class.case_cong)
  note rest = does_after_setup [OF m(1) p ls, of c]
  let ?es = "manager_events (xp_params x) @ tcpdump_events (xp_params x) @ (if c then concat (map (changing_events m g) ls) else [])"
  have t: "t = ran m ?es u" by (simp add: t_def u_def prepare_events_def)
  show "xp_prepare m s = (Inr (), t)"
    using doesD [OF rest u(2) net] unfolding t by (simp add: xp_prepare_def py_bind_apply u(1))
  show "live t" unfolding t by (rule live_ran [OF u(2) does_live [OF rest]])
  show "on_network x g ls c t" using net stable_on_network unfolding t stable_def by blast
  show "sysctl_saved avail (sysctl_now (events s) init) t" using u(3) by (simp add: t sysctl_saved_def)
qed

definition clean_events :: "(string \<Rightarrow> bool) \<Rightarrow> (sysctl_key \<Rightarrow> string) \<Rightarrow> params \<Rightarrow> event list" where
  "clean_events avail st p = [NodeCmd Client ''killall tcpdump'', NodeCmd Server ''killall tcpdump''] @
     slots_events avail (\<lambda>sl kv. st (slot_ns sl, snd kv)) @ kill_events p"

lemma does_clean:
  assumes m: "mininet_ok m" and p: "complete (xp_params x)"
  shows "does m (\<lambda>s :: 'a xp_scheme. xp_ready x s \<and> sysctl_saved avail st s) (clean_events avail st (xp_params x)) (xp_clean m)"
proof -
  let ?P = "\<lambda>s :: 'a xp_scheme. xp_ready x s \<and> sysctl_saved avail st s"
  have P: "stable m ?P" 
    by (simp add: stable_def stable_ready [unfolded stable_def, rule_format] stable_saved(2) [unfolded stable_def, rule_format])
  note ready = does_weaken [where Q = ?P and P = "xp_ready x"]
  have restore: "does m ?P (slots_events avail (\<lambda>sl kv. st (slot_ns sl, snd kv))) (restore_sysctl m)"
    by (rule does_weaken [OF does_restore_sysctl [OF m]]) simp
  have tells: "does m ?P [NodeCmd Client c] (xp_tell m cfg_client (py_return c))"
    "does m ?P [NodeCmd Server c] (xp_tell m cfg_server (py_return c))" for c
    by (rule ready [OF tell_client [OF m]] ready [OF tell_server [OF m]]; simp)+
  have kills: "does m ?P (kill_events (xp_params x)) (clean_userspace_path_manager m)"
    by (rule ready [OF does_managers(2) [OF m p]]) simp
  show ?thesis
    unfolding xp_clean_def
    by (rule does_cong, (rule does_block_Cons [OF P] does_block_Nil tells restore kills)+) (simp add: clean_events_def)
qed

lemma quiet_killall: "event_assign (NodeCmd n (''killall '' @ c)) = None"
  by (simp add: event_assign_def sysctl_assign_def starts_with_def)

lemma quiet_kills: "\<forall>e \<in> set (kill_events p). event_assign e = None"
  using quiet_killall by (auto simp: kill_events_def kill_cmd_def)

lemma now_clean: "sysctl_now (clean_events avail st p) st' = sysctl_now (slots_events avail (\<lambda>sl kv. st (slot_ns sl, snd kv))) st'"
  using quiet_killall [of _ "''tcpdump''"]
  by (simp add: clean_events_def sysctl_now_append sysctl_now_quiet [OF quiet_kills])


lemma now_restored:
  assumes "managed avail k"
  shows "sysctl_now (slots_events avail (\<lambda>sl kv. st (slot_ns sl, snd kv))) st' k = st k"
proof -
  obtain sl name where "fst k = slot_ns sl" "(name, snd k) \<in> set (usable avail sl)"
    using assms by (auto simp: managed_def usable_iff)
  with now_slots [of "(name, snd k)" avail sl "\<lambda>sl kv. st (slot_ns sl, snd kv)" st'] show ?thesis
    by (simp add: prod_eq_iff [symmetric]) (metis prod.collapse)
qed

section \<open>\<open>classic_run\<close>\<close>

text \<open>
  C28. With equal priorities and no backup paths, \<open>prepare\<close> runs exactly the reference list of
  commands: the sysctls are read and set, the user-space path managers and the captures
  started, and the changes of the links scheduled, in this order.  When the run then raises an
  exception, \<open>classic_run\<close> ends with it at once: nothing is cleaned.
\<close>

theorem prepare_commands:
  fixes s :: "'a xp_scheme"
  assumes "mininet_ok m" "sysctl_ok m avail init" "live s" "on_network x g ls c s"
    "keys_ascii (sysctl_now (events s) init)" "complete (xp_params x)" "plain_paths (xp_params x)" "network_links_ok m g ls"
  shows "\<exists>t. xp_prepare m s = (Inr (), t) \<and> live t \<and>
     events t = events s @ prepare_events m avail (xp_params x) g ls c \<and>
     log_lines t = log_lines s @ log_of m (prepare_events m avail (xp_params x) g ls c) \<and>
     (\<forall>run e u clean. run t = (Inl e, u) \<longrightarrow> classic_run (xp_prepare m) run clean s = (Inl e, u))"
proof -
  define t where "t = ran m (prepare_events m avail (xp_params x) g ls c) (with_saved avail (sysctl_now (events s) init) s)"
  have t: "xp_prepare m s = (Inr (), t)" "live t" using prepare_ok [OF assms] by (simp_all add: t_def)
  moreover have "log_lines t = log_lines s @ log_of m (prepare_events m avail (xp_params x) g ls c)"
    "events t = events s @ prepare_events m avail (xp_params x) g ls c"
    by (simp_all add: t_def) (simp add: with_saved_def)
  moreover have "classic_run (xp_prepare m) run clean s = (Inl e, u)" if "run t = (Inl e, u)" for run e u clean
    using that by (simp add: classic_run_def py_bind_apply t(1))
  ultimately show ?thesis by blast
qed


end
