(* ===== verification/XpDemo.thy ===== *)
theory XpDemo
  imports ExperimentRun
begin

text \<open>A host and nodes that keep sysctls, and an experiment ready to run on a started network.\<close>

definition sysctl_net :: "(string \<Rightarrow> bool) \<Rightarrow> (sysctl_key \<Rightarrow> string) \<Rightarrow> mininet" where
  "sysctl_net avail init = demo_net\<lparr>
     node_cmd := (\<lambda>es n c. if NetStop \<in> set es then Inl (GenericException ''stopped'')
        else Inr (if starts_with ''sysctl '' c then sysctl_line (drop 7 c) (sysctl_now es init (Some n, drop 7 c)) else [])),
     shell := (\<lambda>es c. if avail (drop 7 c) then (sysctl_line (drop 7 c) (sysctl_now es init (None, drop 7 c)), [])
        else ([], ''error''))\<rparr>"

lemma sysctl_net_ok: "mininet_ok (sysctl_net avail init)"
  using demo_net_ok by (simp add: mininet_ok_def sysctl_net_def demo_net_def)

lemma sysctl_net_sysctl: "sysctl_ok (sysctl_net avail init) avail init"
  by (simp add: sysctl_ok_def sysctl_net_def read_sysctl_cmd_def starts_with_def)

definition demo_params :: params where
  "demo_params = add_defaults EXPERIMENT_DEFAULT_PARAMETERS \<lparr>parameters = [], default_parameters = []\<rparr>"

lemma get_demo: "get_param demo_params k = (case dict_get EXPERIMENT_DEFAULT_PARAMETERS k of Some v \<Rightarrow> Inr v
    | None \<Rightarrow> Inl (GenericException (''Parameter not found '' @ k)))"
  unfolding demo_params_def by (simp add: get_param_loaded [OF wf_defaults])

lemma demo_complete: "complete demo_params"
  by (auto simp: complete_def get_demo EXPERIMENT_DEFAULT_PARAMETERS_def)

lemma demo_plain: "plain_paths demo_params"
proof -
  have "parse_int ''0'' = Inr 0" by code_simp
  then show ?thesis
    by (simp add: plain_paths_def backup_of_def param_val_def get_demo EXPERIMENT_DEFAULT_PARAMETERS_def pval_int_def)
qed

definition demo_xp :: "unit xp_scheme" where
  "demo_xp = \<lparr>graph = multi_if_graph [demo_link ''c2r'' 0] [], net = Some (multi_if_graph [demo_link ''c2r'' 0] []), events = [NetStart],
     topo_parameter = demo_tp, change_netem = False, log_lines = [], log_open = True, clients = [Node Client],
     routers = [Node Router], servers = [Node Server], bottleneck_links = [node_bottleneck (demo_link ''c2r'' 0)],
     param = demo_tp, mi_client = Name Client, mi_server = Name Server, mi_router = Name Router, c2r_links = [0],
     r2s_links = [], cfg_client = Some (Node Client), cfg_server = Some (Node Server), cfg_router = Some (Node Router),
     cfg_clients = None, cfg_servers = None, xp_topo_class = MultiIfClass, experiment_parameter = demo_params,
     sysctl_to_restore = None, client_sysctl_to_restore = None, server_sysctl_to_restore = None, xp_attrs = []\<rparr>"

definition demo_plan :: xp_plan where
  "demo_plan = \<lparr>xp_left = ''10.1.'', xp_right = ''10.2.'', xp_params = demo_params, xp_nc = 1, xp_ns = 1\<rparr>"

lemma demo_ready: "xp_ready demo_plan demo_xp"
  using demo_params(2) by (simp add: xp_ready_def demo_plan_def demo_xp_def nodes_set_def
      client_interface_count_def xp_server_interface_count_def server_interface_count_def)

lemma demo_on_network:
  "on_network demo_plan (multi_if_graph [demo_link ''c2r'' 0] []) [demo_link ''c2r'' 0] False demo_xp"
  using demo_ready by (simp add: on_network_def demo_xp_def)

lemma demo_live: "live demo_xp"
  by (simp add: live_def demo_xp_def)

lemma demo_network_links: "network_links_ok (sysctl_net avail init) (multi_if_graph [demo_link ''c2r'' 0] []) [demo_link ''c2r'' 0]"
  using switch_interfaces [OF sysctl_net_ok demo_links_ok] demo_buffer by (simp add: network_links_ok_def)


section \<open>Witnesses\<close>

lemma demo_ascii: "keys_ascii (sysctl_now (events demo_xp) (\<lambda>_. ''1''))"
  by (simp add: keys_ascii_def demo_xp_def event_assign_def is_ascii_def)

lemma demo_xp_params: "experiment_parameter demo_xp = demo_params" "xp_params demo_plan = demo_params"
  by (simp_all add: demo_xp_def demo_plan_def)

lemma demo_nodes: "nodes_set demo_xp"
  by (simp add: nodes_set_def demo_xp_def)

abbreviation demo_machine :: mininet where
  "demo_machine \<equiv> sysctl_net (\<lambda>_. True) (\<lambda>_. ''1'')"

theorem setup_sysctl_applies_witness:
  "\<exists>t. setup_sysctl demo_machine demo_xp = (Inr (), t) \<and>
     sysctl_now (events t) (\<lambda>_. ''1'') (Some Client, ''net.mptcp.mptcp_path_manager'') = ''fullmesh''"
proof -
  obtain t where t: "setup_sysctl demo_machine demo_xp = (Inr (), t)"
    "\<forall>sl name key. (name, key) \<in> set (slot_keys sl) \<and> readable (\<lambda>_. True) (slot_ns sl) key \<longrightarrow>
        sysctl_now (events t) (\<lambda>_. ''1'') (slot_ns sl, key) = param_text (experiment_parameter demo_xp) name"
    using setup_sysctl_applies [OF sysctl_net_ok sysctl_net_sysctl demo_live demo_nodes demo_ascii, of "\<lambda>_. True"]
      demo_complete complete_slots by (auto simp: demo_xp_params)
  have "(''kpmc'', ''net.mptcp.mptcp_path_manager'') \<in> set (slot_keys ClientSlot)" by (simp add: SYSCTL_KEY_CLIENT_def)
  moreover have "readable (\<lambda>_. True) (slot_ns ClientSlot) ''net.mptcp.mptcp_path_manager''" by (simp add: readable_def)
  ultimately have "sysctl_now (events t) (\<lambda>_. ''1'') (slot_ns ClientSlot, ''net.mptcp.mptcp_path_manager'') =
      param_text (experiment_parameter demo_xp) ''kpmc''" using t(2) by blast
  then show ?thesis
    using t(1) by (auto simp: demo_xp_params param_text_def get_demo EXPERIMENT_DEFAULT_PARAMETERS_def)
qed

lemma restore_sysctl_restores_witness:
  "\<exists>t w. setup_sysctl demo_machine demo_xp = (Inr (), t) \<and> restore_sysctl demo_machine t = (Inr (), w) \<and> live w"
proof -
  have params: "\<forall>sl. has_parameters (experiment_parameter demo_xp) sl"
    using demo_complete complete_slots by (simp add: demo_xp_params)
  note t = setup_sysctl_ok [OF sysctl_net_ok sysctl_net_sysctl demo_live demo_nodes demo_ascii params, of "\<lambda>_. True"]
  show ?thesis
    using restore_sysctl_restores [OF sysctl_net_ok sysctl_net_sysctl demo_live demo_nodes demo_ascii params t(1) t(2)] t
    by (auto simp: sysctl_saved_def)
qed

theorem path_options_unusable_witness:
  "put_priority_on_paths demo_net (demo_xp\<lparr>experiment_parameter := demo_params\<lparr>parameters := [(''priority_path_1'', PStr ''1'')]\<rparr>\<rparr>) =
     (Inl TypeError, demo_xp\<lparr>experiment_parameter := demo_params\<lparr>parameters := [(''priority_path_1'', PStr ''1'')]\<rparr>\<rparr>)"
proof -
  let ?p = "demo_params\<lparr>parameters := [(''priority_path_1'', PStr ''1'')]\<rparr>"
  have get: "get_param ?p k = (if k = ''priority_path_1'' then Inr (PStr ''1'') else get_param demo_params k)" for k
    by (simp add: get_param_def demo_params_def add_defaults_def)
  have val: "param_val ?p k = (if k = ''priority_path_1'' then PStr ''1'' else param_val demo_params k)" for k
    by (simp add: param_val_def get)
  have "complete ?p" using demo_complete by (auto simp: complete_def get)
  moreover have "parse_int ''0'' = Inr 0" by code_simp
  then have "backup_of ?p ''backup_path_0'' = Inr 0" "backup_of ?p ''backup_path_1'' = Inr 0"
    by (simp_all add: backup_of_def get param_val_def get_demo EXPERIMENT_DEFAULT_PARAMETERS_def pval_int_def)
  moreover have "param_val ?p ''priority_path_0'' \<noteq> param_val ?p ''priority_path_1''"
    by (simp add: get param_val_def get_demo EXPERIMENT_DEFAULT_PARAMETERS_def)
  ultimately show ?thesis
    using path_options_unusable [of "demo_xp\<lparr>experiment_parameter := ?p\<rparr>" "Node Client" 0 0 demo_net]
    by (simp add: demo_xp_def)
qed

theorem prepare_commands_witness:
  "\<exists>t. xp_prepare demo_machine demo_xp = (Inr (), t) \<and>
     classic_run (xp_prepare demo_machine) xp_run (xp_clean demo_machine) demo_xp = (Inl NotImplementedError, t)"
  using prepare_commands [OF sysctl_net_ok sysctl_net_sysctl demo_live demo_on_network demo_ascii, of "\<lambda>_. True"]
    demo_complete demo_plain demo_network_links by (fastforce simp: demo_xp_params xp_run_def)


end
