(* ===== verification/ExpBasic.thy ===== *)
theory ExpBasic
  imports Experiment
begin

text \<open>
  \<open>experiments/\<close>: the experiment classes that only use the base classes: \<open>none\<close>, \<open>ping\<close>,
  \<open>iperf\<close>, \<open>iperfScenario\<close>, \<open>ab\<close>, \<open>http\<close>, \<open>https\<close>, \<open>sendfile\<close>, \<open>netperf\<close>, \<open>ditg\<close>, \<open>vlc\<close>
  and \<open>epload\<close>.  A class is a record of the methods that \<open>classic_run\<close> and the constructor
  call; the parameter class is a constructor of parameters.
\<close>

section \<open>Classes\<close>

record 's xp_class =
  cls_parameters :: "(string \<Rightarrow> string option) \<Rightarrow> string option \<Rightarrow> params res"
  cls_init :: "mininet \<Rightarrow> params \<Rightarrow> ('s, unit) py"
  cls_prepare :: "mininet \<Rightarrow> ('s, unit) py"
  cls_run :: "mininet \<Rightarrow> ('s, unit) py"
  cls_clean :: "mininet \<Rightarrow> ('s, unit) py"

text \<open>
  Where the repository is installed (the directory of \<open>experiments/\<close>), and what \<open>~\<close> stands for
  in a path (\<open>os.path.expanduser\<close>).
\<close>

record host =
  here :: string
  expand_user :: "string \<Rightarrow> string"

text \<open>The constructor of a parameter class that adds defaults to those of the base class.\<close>

definition parameters_with :: "pval dict \<Rightarrow> (string \<Rightarrow> string option) \<Rightarrow> string option \<Rightarrow> params res" where
  "parameters_with defs fs f = rbind (new_experiment_parameter fs f) (\<lambda>p. Inr (add_defaults defs p))"

section \<open>Commands\<close>

text \<open>A single quote\<close>

definition sq :: string where "sq = [CHR 0x27]"

definition to_client :: "mininet \<Rightarrow> string \<Rightarrow> ('a xp_scheme, unit) py" where
  "to_client m c = xp_tell m cfg_client (py_return c)"

definition to_server :: "mininet \<Rightarrow> string \<Rightarrow> ('a xp_scheme, unit) py" where
  "to_server m c = xp_tell m cfg_server (py_return c)"

definition to_router :: "mininet \<Rightarrow> string \<Rightarrow> ('a xp_scheme, unit) py" where
  "to_router m c = xp_tell m cfg_router (py_return c)"

text \<open>\<open>self.<attribute>\<close> in a format, and in a concatenation (which needs a string).\<close>

definition fmt_attr :: "string \<Rightarrow> (string \<Rightarrow> ('a xp_scheme, 'b) py) \<Rightarrow> ('a xp_scheme, 'b) py" where
  "fmt_attr a k = py_bind (xp_attr a) (\<lambda>v. k (str_pval v))"

definition pval_text :: "pval \<Rightarrow> string res" where
  "pval_text v = (case v of PStr s \<Rightarrow> Inr s | _ \<Rightarrow> Inl TypeError)"

definition cat_attr :: "string \<Rightarrow> (string \<Rightarrow> ('a xp_scheme, 'b) py) \<Rightarrow> ('a xp_scheme, 'b) py" where
  "cat_attr a k = py_bind (xp_attr a) (\<lambda>v. py_bind (py_lift (pval_text v)) k)"

text \<open>\<open>self.topo_config.get_server_ip(i)\<close>, by default of interface 0\<close>

definition server_ip :: "nat \<Rightarrow> (string \<Rightarrow> ('a xp_scheme, 'b) py) \<Rightarrow> ('a xp_scheme, 'b) py" where
  "server_ip i k = py_bind (py_get param) (\<lambda>p. py_bind (py_lift (get_server_ip p i)) k)"

text \<open>
  The \<open>ping\<close> that many classes define: every client address pings the first server address.
\<close>

definition ping_first_server :: "mininet \<Rightarrow> ('a xp_scheme, unit) py" where
  "ping_first_server m = block
     [to_client m (''rm '' @ PING_OUTPUT),
      py_bind (xp_get ''pingCount'') (\<lambda>count. py_bind (py_get client_interface_count) (\<lambda>nc.
        for_each [0..<nc] (ping_pair m count 0)))]"

section \<open>\<open>none.py\<close>, \<open>ping.py\<close>\<close>

definition none_class :: "'a xp_scheme xp_class" where
  "none_class = \<lparr>cls_parameters = new_experiment_parameter, cls_init = \<lambda>m. experiment_init,
     cls_prepare = xp_prepare, cls_run = \<lambda>m. topo_get_cli, cls_clean = xp_clean\<rparr>"

definition ping_run :: "mininet \<Rightarrow> ('a xp_scheme, unit) py" where
  "ping_run m = ping_first_server m"

definition ping_class :: "'a xp_scheme xp_class" where
  "ping_class = \<lparr>cls_parameters = new_experiment_parameter, cls_init = \<lambda>m. experiment_init,
     cls_prepare = xp_prepare, cls_run = ping_run, cls_clean = xp_clean\<rparr>"

section \<open>\<open>iperf.py\<close>\<close>

definition IPERF_DEFAULTS :: "pval dict" where
  "IPERF_DEFAULTS = [(''iperfTime'', PStr ''10''), (''iperfParallel'', PStr ''1'')]"

definition iperf_load :: "('a xp_scheme, unit) py" where
  "iperf_load = for_each [(''time'', ''iperfTime''), (''parallel'', ''iperfParallel'')] load_attr"

definition iperf_init :: "mininet \<Rightarrow> params \<Rightarrow> ('a xp_scheme, unit) py" where
  "iperf_init m p = block [experiment_init p, iperf_load, ping m]"

definition iperf_prepare :: "mininet \<Rightarrow> ('a xp_scheme, unit) py" where
  "iperf_prepare m = block [xp_prepare m, to_client m ''rm iperf.log'', to_server m ''rm server.log'']"

definition iperf_client_cmd :: "('a xp_scheme, string) py" where
  "iperf_client_cmd = server_ip 0 (\<lambda>ip. fmt_attr ''time'' (\<lambda>t. fmt_attr ''parallel'' (\<lambda>n.
     py_return (''iperf -c '' @ ip @ '' -t '' @ t @ '' -P '' @ n @ '' -i 1 &>iperf.log''))))"

definition iperf_server_cmd :: string where
  "iperf_server_cmd = ''iperf -s &> server.log &''"

definition iperf_run :: "mininet \<Rightarrow> ('a xp_scheme, unit) py" where
  "iperf_run m = block
     [to_server m iperf_server_cmd, to_client m ''sleep 2'',
      py_bind iperf_client_cmd (to_client m), to_client m ''sleep 2'']"

definition iperf_class :: "'a xp_scheme xp_class" where
  "iperf_class = \<lparr>cls_parameters = parameters_with IPERF_DEFAULTS, cls_init = iperf_init,
     cls_prepare = iperf_prepare, cls_run = iperf_run, cls_clean = xp_clean\<rparr>"

section \<open>\<open>iperf_scenario.py\<close>\<close>

definition SCENARIO_DEFAULTS :: "pval dict" where
  "SCENARIO_DEFAULTS = [(''iperfScenarioFMSublows'', PStr ''1'')]"

definition scenario_load :: "('a xp_scheme, unit) py" where
  "scenario_load = load_attr (''fm_subflows'', ''iperfScenarioFMSublows'')"

definition scenario_init :: "mininet \<Rightarrow> params \<Rightarrow> ('a xp_scheme, unit) py" where
  "scenario_init m p = block [experiment_init p, scenario_load, ping m]"

definition scenario_prepare :: "mininet \<Rightarrow> ('a xp_scheme, unit) py" where
  "scenario_prepare m = block
     [xp_prepare m, to_client m ''rm iperf.log'', to_server m ''rm server.log'',
      py_bind (py_get xp_topo_class) (\<lambda>t. py_when (t \<noteq> MultiIfMultiClientClass)
        (py_raise (GenericException ''IPerfScenario only runs with MultiInterfaceMultiClientTopo'')))]"

definition scenario_client_cmd :: "string \<Rightarrow> nat \<Rightarrow> nat \<Rightarrow> string" where
  "scenario_client_cmd ip time client_id =
     ''iperf -c '' @ ip @ '' -t '' @ show_nat time @ '' -P 1 -i 5 &>iperf.log'' @ show_nat client_id"

definition scenario_server_cmd :: "nat \<Rightarrow> string" where
  "scenario_server_cmd server_id = ''iperf -s &> server.log'' @ show_nat server_id @ '' &''"

definition scenario_run :: "mininet \<Rightarrow> ('a xp_scheme, unit) py" where
  "scenario_run m = block
     [to_router m ''tcpdump -i any -w router.pcap &'',
      py_bind (py_attr cfg_servers) (\<lambda>svs. for_each (enumerate 0 svs) (\<lambda>(l, sv). run_on m sv (scenario_server_cmd l))),
      xp_tell m cfg_client (fmt_attr ''fm_subflows'' (\<lambda>n.
        py_return (''echo '' @ n @ '' > /sys/module/mptcp_fullmesh/parameters/num_subflows''))),
      to_client m ''sleep 2'',
      server_ip 1 (\<lambda>ip. py_bind (cfg_client_at 1) (\<lambda>c. run_on m c (''sleep 10 && '' @ scenario_client_cmd ip 20 1 @ '' &''))),
      server_ip 2 (\<lambda>ip. py_bind (cfg_client_at 2) (\<lambda>c. run_on m c (''sleep 20 && '' @ scenario_client_cmd ip 20 2 @ '' &''))),
      server_ip 0 (\<lambda>ip. to_client m (scenario_client_cmd ip 50 0 @ '' &'')),
      to_client m ''sleep 2'',
      stmt (topo_command_global m ''sysctl -w net.mptcp.mptcp_enabled=0''),
      stmt (topo_command_global m ''sysctl -w net.ipv4.tcp_congestion_control=reno''),
      to_client m ''sleep 50'',
      to_client m ''echo 1 > /sys/module/mptcp_fullmesh/parameters/num_subflows'']"

definition scenario_class :: "'a xp_scheme xp_class" where
  "scenario_class = \<lparr>cls_parameters = parameters_with SCENARIO_DEFAULTS, cls_init = scenario_init,
     cls_prepare = scenario_prepare, cls_run = scenario_run, cls_clean = xp_clean\<rparr>"

section \<open>\<open>ab.py\<close>\<close>

definition parameters_with_file :: "pval dict \<Rightarrow> (string \<Rightarrow> string option) \<Rightarrow> string option \<Rightarrow> params res" where
  "parameters_with_file defs fs f = rbind (new_random_file_parameter fs f) (\<lambda>p. Inr (add_defaults defs p))"

definition AB_DEFAULTS :: "pval dict" where
  "AB_DEFAULTS = [(''abConccurentRequests'', PStr ''50''), (''abTimelimit'', PStr ''20'')]"

definition ab_load :: "('a xp_scheme, unit) py" where
  "ab_load = block
     [random_file_load_parameters,
      for_each [(''concurrent_requests'', ''abConccurentRequests''), (''time_limit'', ''abTimelimit'')] load_attr]"

definition ab_init :: "mininet \<Rightarrow> params \<Rightarrow> ('a xp_scheme, unit) py" where
  "ab_init m p = random_file_init p ab_load (ping m)"

definition ab_prepare :: "mininet \<Rightarrow> ('a xp_scheme, unit) py" where
  "ab_prepare m = block [random_file_prepare m, to_client m ''rm ab_client.log'', to_server m ''rm ab_server.log'']"

definition ab_server_cmd :: "host \<Rightarrow> string" where
  "ab_server_cmd h = ''python '' @ here h @ ''/../utils/http_server.py &> ab_server.log 2>&1 &''"

definition ab_client_cmd :: "('a xp_scheme, string) py" where
  "ab_client_cmd = fmt_attr ''concurrent_requests'' (\<lambda>c. fmt_attr ''time_limit'' (\<lambda>t. server_ip 0 (\<lambda>ip.
     fmt_attr ''file'' (\<lambda>f.
       py_return (''ab -c '' @ c @ '' -t '' @ t @ '' http://'' @ ip @ ''/'' @ f @ '' &> ab_client.log'')))))"

definition ab_run :: "host \<Rightarrow> mininet \<Rightarrow> ('a xp_scheme, unit) py" where
  "ab_run h m = block
     [to_server m (ab_server_cmd h), to_client m ''sleep 15'',
      py_bind ab_client_cmd (to_client m), to_client m ''sleep 2'']"

definition ab_class :: "host \<Rightarrow> 'a xp_scheme xp_class" where
  "ab_class h = \<lparr>cls_parameters = parameters_with_file AB_DEFAULTS, cls_init = ab_init,
     cls_prepare = ab_prepare, cls_run = ab_run h, cls_clean = random_file_clean\<rparr>"

section \<open>\<open>http.py\<close>, \<open>https.py\<close>\<close>

definition http_init :: "mininet \<Rightarrow> params \<Rightarrow> ('a xp_scheme, unit) py" where
  "http_init m p = random_file_init p random_file_load_parameters (ping m)"

definition http_prepare :: "mininet \<Rightarrow> ('a xp_scheme, unit) py" where
  "http_prepare m = block [random_file_prepare m, to_client m ''rm http_client.log'', to_server m ''rm http_server.log'']"

definition http_server_cmd :: string where
  "http_server_cmd = ''python3 -m http.server 80 &> http_server.log&''"

definition http_client_cmd :: "('a xp_scheme, string) py" where
  "http_client_cmd = server_ip 0 (\<lambda>ip. fmt_attr ''file'' (\<lambda>f.
     py_return (''(time wget http://'' @ ip @ ''/'' @ f @ '' --no-check-certificate) &> http_client.log'')))"

definition http_run :: "mininet \<Rightarrow> ('a xp_scheme, unit) py" where
  "http_run m = block
     [to_server m ''netstat -sn > netstat_server_before'', to_server m http_server_cmd,
      to_client m ''sleep 2'',
      py_bind http_client_cmd (\<lambda>cmd. block
        [to_client m ''netstat -sn > netstat_client_before'', to_client m cmd]),
      to_server m ''netstat -sn > netstat_server_after'', to_client m ''netstat -sn > netstat_client_after'',
      to_client m ''sleep 2'']"

definition http_class :: "'a xp_scheme xp_class" where
  "http_class = \<lparr>cls_parameters = new_random_file_parameter, cls_init = http_init,
     cls_prepare = http_prepare, cls_run = http_run, cls_clean = random_file_clean\<rparr>"

definition https_init :: "mininet \<Rightarrow> params \<Rightarrow> ('a xp_scheme, unit) py" where
  "https_init m p = random_file_init p random_file_load_parameters (ping m)"

definition https_prepare :: "mininet \<Rightarrow> ('a xp_scheme, unit) py" where
  "https_prepare m = block [random_file_prepare m, to_client m ''rm https_client.log'', to_server m ''rm https_server.log'']"

definition https_server_cmd :: "host \<Rightarrow> string" where
  "https_server_cmd h = ''python '' @ here h @ ''/../utils/https_server.py '' @ here h @
     ''/../utils/server.pem &> https_server.log&''"

definition https_client_cmd :: "('a xp_scheme, string) py" where
  "https_client_cmd = server_ip 0 (\<lambda>ip. cat_attr ''file'' (\<lambda>f.
     py_return (''(time wget https://'' @ ip @ ''/'' @ f @ '' --no-check-certificate) &>https_client.log'')))"

definition https_run :: "host \<Rightarrow> mininet \<Rightarrow> ('a xp_scheme, unit) py" where
  "https_run h m = block
     [to_server m ''netstat -sn > netstat_server_before'', to_server m (https_server_cmd h),
      to_client m ''sleep 2'',
      py_bind https_client_cmd (\<lambda>cmd. block
        [to_client m ''netstat -sn > netstat_client_before'', to_client m cmd]),
      to_server m ''netstat -sn > netstat_server_after'', to_client m ''netstat -sn > netstat_client_after'',
      to_server m ''pkill -f https_server.py'', to_client m ''sleep 2'']"

definition https_class :: "host \<Rightarrow> 'a xp_scheme xp_class" where
  "https_class h = \<lparr>cls_parameters = new_random_file_parameter, cls_init = https_init,
     cls_prepare = https_prepare, cls_run = https_run h, cls_clean = random_file_clean\<rparr>"

section \<open>\<open>send_file.py\<close>\<close>

definition sendfile_ping :: "mininet \<Rightarrow> ('a xp_scheme, unit) py" where
  "sendfile_ping m = ping_first_server m"

definition sendfile_init :: "mininet \<Rightarrow> params \<Rightarrow> ('a xp_scheme, unit) py" where
  "sendfile_init m p = random_file_init p random_file_load_parameters (sendfile_ping m)"

definition sendfile_prepare :: "mininet \<Rightarrow> ('a xp_scheme, unit) py" where
  "sendfile_prepare m = block
     [random_file_prepare m, to_client m ''rm sendfile_client.log'', to_server m ''rm sendfile_server.log'']"

definition sendfile_server_cmd :: string where
  "sendfile_server_cmd = ''./server &>sendfile_server.log&''"

definition sendfile_client_cmd :: "('a xp_scheme, string) py" where
  "sendfile_client_cmd = server_ip 0 (\<lambda>ip. py_return (''./client '' @ ip @ '' &>sendfile_client.log''))"

definition sendfile_run :: "mininet \<Rightarrow> ('a xp_scheme, unit) py" where
  "sendfile_run m = block
     [to_server m sendfile_server_cmd, to_client m ''sleep 0.1'',
      py_bind sendfile_client_cmd (to_client m), to_client m ''sleep 2'']"

definition sendfile_class :: "'a xp_scheme xp_class" where
  "sendfile_class = \<lparr>cls_parameters = new_random_file_parameter, cls_init = sendfile_init,
     cls_prepare = sendfile_prepare, cls_run = sendfile_run, cls_clean = random_file_clean\<rparr>"

section \<open>\<open>netperf.py\<close>\<close>

definition NETPERF_DEFAULTS :: "pval dict" where
  "NETPERF_DEFAULTS = [(''netperfTestlen'', PStr ''10''), (''netperfTestname'', PStr ''TCP_RR''),
     (''netperfReqresSize'', PStr ''2K,256'')]"

definition netperf_ping :: "mininet \<Rightarrow> ('a xp_scheme, unit) py" where
  "netperf_ping m = ping_first_server m"

definition netperf_load :: "('a xp_scheme, unit) py" where
  "netperf_load = for_each
     [(''testlen'', ''netperfTestlen''), (''testname'', ''netperfTestname''), (''reqres_size'', ''netperfReqresSize'')] load_attr"

definition netperf_init :: "mininet \<Rightarrow> params \<Rightarrow> ('a xp_scheme, unit) py" where
  "netperf_init m p = block [experiment_init p, netperf_load, netperf_ping m]"

definition netperf_prepare :: "mininet \<Rightarrow> ('a xp_scheme, unit) py" where
  "netperf_prepare m = block [xp_prepare m, to_client m ''rm netperf.log'', to_server m ''rm netserver.log'']"

definition netperf_client_cmd :: "('a xp_scheme, string) py" where
  "netperf_client_cmd = server_ip 0 (\<lambda>ip. fmt_attr ''testlen'' (\<lambda>l. fmt_attr ''testname'' (\<lambda>t.
     fmt_attr ''reqres_size'' (\<lambda>r.
       py_return (''netperf -H '' @ ip @ '' -l '' @ l @ '' -t '' @ t @ '' -- -r '' @ r @ '' &> netperf.log'')))))"

definition netperf_server_cmd :: string where
  "netperf_server_cmd = ''sudo netserver &> netserver.log &''"

definition netperf_run :: "mininet \<Rightarrow> ('a xp_scheme, unit) py" where
  "netperf_run m = block
     [to_server m netperf_server_cmd, to_client m ''sleep 2'',
      py_bind netperf_client_cmd (to_client m), to_client m ''sleep 2'']"

definition netperf_class :: "'a xp_scheme xp_class" where
  "netperf_class = \<lparr>cls_parameters = parameters_with NETPERF_DEFAULTS, cls_init = netperf_init,
     cls_prepare = netperf_prepare, cls_run = netperf_run, cls_clean = xp_clean\<rparr>"

section \<open>\<open>ditg.py\<close>\<close>

definition DITG_DEFAULTS :: "pval dict" where
  "DITG_DEFAULTS = [(''ditgKBytes'', PStr ''10000''), (''ditgConstantPacketSize'', PStr ''1428''),
     (''ditgMeanPoissonPacketsSec'', PStr ''0''), (''ditgConstantPacketsSec'', PStr ''0''),
     (''ditgBurstsOnPacketsSec'', PStr ''0''), (''ditgBurstsOffPacketsSec'', PStr ''0'')]"

definition ditg_load :: "('a xp_scheme, unit) py" where
  "ditg_load = for_each
     [(''kbytes'', ''ditgKBytes''), (''constant_packet_size'', ''ditgConstantPacketSize''),
      (''mean_poisson_packets_sec'', ''ditgMeanPoissonPacketsSec''), (''constant_packets_sec'', ''ditgConstantPacketsSec''),
      (''bursts_on_packets_sec'', ''ditgBurstsOnPacketsSec''), (''bursts_off_packets_sec'', ''ditgBurstsOffPacketsSec'')] load_attr"

definition ditg_init :: "mininet \<Rightarrow> params \<Rightarrow> ('a xp_scheme, unit) py" where
  "ditg_init m p = block [experiment_init p, ditg_load, ping m]"

definition ditg_prepare :: "mininet \<Rightarrow> ('a xp_scheme, unit) py" where
  "ditg_prepare m = block
     [xp_prepare m, to_client m ''rm ditg.log'', to_server m ''rm ditg_server.log'', to_client m ''rm snd_log_file'']"

text \<open>The option for the traffic profile: the first one that is not \<open>"0"\<close>.\<close>

definition unless_zero :: "string \<Rightarrow> ('a xp_scheme, 'b) py \<Rightarrow> ('a xp_scheme, 'b) py \<Rightarrow> ('a xp_scheme, 'b) py" where
  "unless_zero a yes no = py_bind (xp_attr a) (\<lambda>v. if v \<noteq> PStr ''0'' then yes else no)"

definition ditg_profile :: "('a xp_scheme, string) py" where
  "ditg_profile =
     unless_zero ''constant_packet_size'' (cat_attr ''constant_packet_size'' (\<lambda>v. py_return ('' -c '' @ v)))
     (unless_zero ''mean_poisson_packets_sec'' (cat_attr ''mean_poisson_packets_sec'' (\<lambda>v. py_return ('' -O '' @ v)))
     (unless_zero ''constant_packets_sec'' (cat_attr ''constant_packets_sec'' (\<lambda>v. py_return ('' -C '' @ v)))
     (unless_zero ''bursts_on_packets_sec'' (unless_zero ''bursts_off_packets_sec''
        (cat_attr ''bursts_on_packets_sec'' (\<lambda>v. cat_attr ''bursts_off_packets_sec'' (\<lambda>w.
           py_return ('' -B C '' @ v @ '' C '' @ w)))) (py_return []))
     (py_return []))))"

definition ITG_BIN :: string where
  "ITG_BIN = ''/home/mininet/D-ITG-2.8.1-r1023/bin/''"

definition ditg_client_cmd :: "('a xp_scheme, string) py" where
  "ditg_client_cmd = server_ip 0 (\<lambda>ip. cat_attr ''kbytes'' (\<lambda>k. py_bind ditg_profile (\<lambda>prof.
     py_return (ITG_BIN @ ''ITGSend -a '' @ ip @ '' -T TCP -k '' @ k @ '' -l snd_log_file'' @ prof @
       '' && '' @ ITG_BIN @ ''ITGDec snd_log_file &> ditg.log''))))"

definition ditg_server_cmd :: string where
  "ditg_server_cmd = ITG_BIN @ ''ITGRecv -l recv_log_file &''"

definition ditg_run :: "mininet \<Rightarrow> ('a xp_scheme, unit) py" where
  "ditg_run m = block
     [to_server m ditg_server_cmd, to_client m ''sleep 2'',
      py_bind ditg_client_cmd (to_client m),
      to_server m ''pkill -9 -f ITGRecv'', to_server m (ITG_BIN @ ''ITGDec recv_log_file &> ditg_server.log''),
      to_client m ''sleep 2'']"

definition ditg_class :: "'a xp_scheme xp_class" where
  "ditg_class = \<lparr>cls_parameters = parameters_with DITG_DEFAULTS, cls_init = ditg_init,
     cls_prepare = ditg_prepare, cls_run = ditg_run, cls_clean = xp_clean\<rparr>"

section \<open>\<open>vlc.py\<close>\<close>

text \<open>
  \<open>VLCParameter\<close> is not the class's \<open>PARAMETER_CLASS\<close>: the defaults are not used.
  \<open>super().clean(self)\<close> passes one argument too many.
\<close>

definition vlc_ping :: "mininet \<Rightarrow> ('a xp_scheme, unit) py" where
  "vlc_ping m = ping_first_server m"

definition vlc_load :: "('a xp_scheme, unit) py" where
  "vlc_load = for_each [(''file'', ''vlcFile''), (''time'', ''vlcTime'')] load_attr"

definition vlc_init :: "mininet \<Rightarrow> params \<Rightarrow> ('a xp_scheme, unit) py" where
  "vlc_init m p = block [experiment_init p, vlc_load, vlc_ping m]"

definition vlc_prepare :: "mininet \<Rightarrow> ('a xp_scheme, unit) py" where
  "vlc_prepare m = block
     [xp_prepare m, to_client m ''rm vlc_client.log'', to_client m ''Xvfb :66 &'', to_server m ''rm vlc_server.log'']"

definition vlc_server_cmd :: string where
  "vlc_server_cmd = ''/etc/init.d/apache2 restart &> vlc_server.log''"

definition spaces :: "nat \<Rightarrow> string" where
  "spaces n = replicate n (CHR '' '')"

definition vlc_client_cmd :: "('a xp_scheme, string) py" where
  "vlc_client_cmd = server_ip 0 (\<lambda>ip. fmt_attr ''file'' (\<lambda>f. py_bind (xp_attr ''time'') (\<lambda>t.
     py_return (''export LD_LIBRARY_PATH=$LD_LIBRARY_PATH:/home/mininet/usr/lib/ && sudo ldconfig && '' @ spaces 12 @
       ''/home/mininet/vlc/vlc -I dummy --x11-display :66 --adaptive-logic 3 --no-loop --play-and-exit '' @ spaces 16 @
       ''http://'' @ ip @ ''/'' @ f @ '' 2>&1 | grep -E '' @ sq @ ''(Neb|halp|bandwidth|late|Buffering|buffering)'' @ sq @ '' > vlc_client.log '' @
       (if t \<noteq> PStr ''0'' then ''&'' else [])))))"

definition vlc_clean :: "mininet \<Rightarrow> ('a xp_scheme, unit) py" where
  "vlc_clean m = py_raise TypeError"

definition vlc_run :: "mininet \<Rightarrow> ('a xp_scheme, unit) py" where
  "vlc_run m = block
     [to_server m vlc_server_cmd, to_client m ''sleep 1'',
      py_bind vlc_client_cmd (to_client m),
      py_bind (xp_attr ''time'') (\<lambda>t. py_when (t \<noteq> PStr ''0'') (block
        [xp_tell m cfg_client (cat_attr ''time'' (\<lambda>v. py_return (''sleep '' @ v))), to_client m ''pkill -9 -f vlc''])),
      to_client m ''sleep 2'']"

definition vlc_class :: "'a xp_scheme xp_class" where
  "vlc_class = \<lparr>cls_parameters = new_experiment_parameter, cls_init = vlc_init,
     cls_prepare = vlc_prepare, cls_run = vlc_run, cls_clean = vlc_clean\<rparr>"

section \<open>\<open>epload.py\<close>\<close>

text \<open>
  \<open>EploadParameter.__init__\<close> names a global \<open>TEST_DIR\<close> that does not exist, after the base
  class has read the file.
\<close>

definition epload_parameters :: "(string \<Rightarrow> string option) \<Rightarrow> string option \<Rightarrow> params res" where
  "epload_parameters fs f = rbind (new_experiment_parameter fs f) (\<lambda>_. Inl NameError)"

definition epload_load :: "('a xp_scheme, unit) py" where
  "epload_load = load_attr (''test_dir'', ''test_dir'')"

definition epload_init :: "mininet \<Rightarrow> params \<Rightarrow> ('a xp_scheme, unit) py" where
  "epload_init m p = block [experiment_init p, epload_load, ping m]"

definition epload_prepare :: "mininet \<Rightarrow> ('a xp_scheme, unit) py" where
  "epload_prepare m = block [xp_prepare m, to_client m ''rm epload.log'', to_server m ''rm http_server.log'']"

definition epload_server_cmd :: string where
  "epload_server_cmd = ''/etc/init.d/apache2 restart &>http_server.log &''"

definition epload_kill_cmd :: string where
  "epload_kill_cmd = ''ps aux | grep SimpleHTTP | head -1 | tr -s '' @ sq @ '' '' @ sq @ '' | cut -d '' @ sq @ '' '' @ sq @ '' -f 2 | xargs kill''"

definition epload_client_cmd :: "('a xp_scheme, string) py" where
  "epload_client_cmd = cat_attr ''test_dir'' (\<lambda>d.
     py_return (''/usr/local/nodejs/bin/node /home/mininet/epload/epload/emulator/run.js http '' @ d @ '' &>epload.log''))"

definition epload_sub_cmd :: "('a xp_scheme, string) py" where
  "epload_sub_cmd = cat_attr ''test_dir'' (\<lambda>d. server_ip 0 (\<lambda>ip.
     py_return (''for f in `ls '' @ d @ ''/*`; do  sed -i '' @ sq @ ''s/@host@/'' @ ip @ ''/'' @ sq @ '' $f; done'')))"

definition epload_sub_back_cmd :: "('a xp_scheme, string) py" where
  "epload_sub_back_cmd = cat_attr ''test_dir'' (\<lambda>d. server_ip 0 (\<lambda>ip.
     py_return (''for f in `ls '' @ d @ ''/*`; do  sed -i '' @ sq @ ''s/'' @ ip @ ''/@host@/'' @ sq @ '' $f; done'')))"

definition epload_run :: "mininet \<Rightarrow> ('a xp_scheme, unit) py" where
  "epload_run m = block
     [to_server m epload_server_cmd, to_client m ''sleep 2'',
      py_bind epload_sub_cmd (to_client m), py_bind epload_client_cmd (to_client m),
      py_bind epload_sub_back_cmd (to_client m), to_client m ''sleep 2'', to_server m epload_kill_cmd]"

definition epload_class :: "'a xp_scheme xp_class" where
  "epload_class = \<lparr>cls_parameters = epload_parameters, cls_init = epload_init,
     cls_prepare = epload_prepare, cls_run = epload_run, cls_clean = xp_clean\<rparr>"

end
