(* ===== verification/ExpMore.thy ===== *)
theory ExpMore
  imports ExpBasic
begin

text \<open>
  \<open>experiments/\<close>, second part: \<open>msg\<close>, \<open>siri\<close> and the two classes that inherit from it and
  from another experiment, the QUIC experiments, \<open>nc\<close> and \<open>ncpv\<close>.
\<close>

section \<open>\<open>msg.py\<close>\<close>

definition MSG_DEFAULTS :: "pval dict" where
  "MSG_DEFAULTS = [(''msgClientSleep'', PStr ''5.0''), (''msgServerSleep'', PStr ''5.0''),
     (''msgNbRequests'', PStr ''5''), (''msgBytes'', PStr ''1200'')]"

definition msg_load :: "('a xp_scheme, unit) py" where
  "msg_load = for_each
     [(''client_sleep'', ''msgClientSleep''), (''server_sleep'', ''msgServerSleep''),
      (''nb_requests'', ''msgNbRequests''), (''bytes'', ''msgBytes'')] load_attr"

text \<open>The constructor and \<open>prepare\<close> call the next class in the method resolution order first.\<close>

definition msg_init :: "('a xp_scheme, unit) py \<Rightarrow> ('a xp_scheme, unit) py \<Rightarrow> ('a xp_scheme, unit) py \<Rightarrow> ('a xp_scheme, unit) py" where
  "msg_init super load pings = block [super, load, pings]"

definition msg_prepare :: "('a xp_scheme, unit) py \<Rightarrow> mininet \<Rightarrow> ('a xp_scheme, unit) py" where
  "msg_prepare super m = block [super, to_client m ''rm msg_client.log'', to_server m ''rm msg_server.log'']"

definition msg_server_cmd :: "host \<Rightarrow> ('a xp_scheme, string) py" where
  "msg_server_cmd h = fmt_attr ''server_sleep'' (\<lambda>s. fmt_attr ''bytes'' (\<lambda>b.
     py_return (''python '' @ here h @ ''/../utils/msg_server.py --sleep '' @ s @ '' --bytes '' @ b @ '' &> msg_server.log&'')))"

definition msg_client_cmd :: "host \<Rightarrow> bool \<Rightarrow> ('a xp_scheme, string) py" where
  "msg_client_cmd h daemon = fmt_attr ''client_sleep'' (\<lambda>s. fmt_attr ''nb_requests'' (\<lambda>n. fmt_attr ''bytes'' (\<lambda>b.
     py_return (''python '' @ here h @ ''/../utils/msg_client.py --sleep '' @ s @ '' --nb '' @ n @ '' --bytes '' @ b @
       '' > msg_client.log 2> msg_client.err '' @ (if daemon then ''&'' else [])))))"

definition msg_run :: "host \<Rightarrow> mininet \<Rightarrow> ('a xp_scheme, unit) py" where
  "msg_run h m = py_bind (msg_server_cmd h) (\<lambda>server. block
     [to_server m ''netstat -sn > netstat_server_before'', to_server m server,
      to_client m ''sleep 2'',
      py_bind (msg_client_cmd h False) (\<lambda>cmd. block
        [to_client m ''netstat -sn > netstat_client_before'', to_client m cmd]),
      to_server m ''netstat -sn > netstat_server_after'', to_client m ''netstat -sn > netstat_client_after'',
      to_server m ''pkill -f msg_server.py'', to_client m ''sleep 2''])"

definition msg_class :: "host \<Rightarrow> 'a xp_scheme xp_class" where
  "msg_class h = \<lparr>cls_parameters = parameters_with MSG_DEFAULTS,
     cls_init = \<lambda>m p. msg_init (experiment_init p) msg_load (ping m),
     cls_prepare = \<lambda>m. msg_prepare (xp_prepare m) m, cls_run = msg_run h, cls_clean = xp_clean\<rparr>"

section \<open>\<open>siri.py\<close>\<close>

definition SIRI_DEFAULTS :: "pval dict" where
  "SIRI_DEFAULTS = [(''siriQuerySize'', PStr ''2500''), (''siriResponseSize'', PStr ''750''),
     (''siriDelayQueryResponse'', PStr ''0''), (''siriMinPayloadSize'', PStr ''85''), (''siriMaxPayloadSize'', PStr ''500''),
     (''siriIntervalTimeMs'', PStr ''333''), (''siriBufferSize'', PStr ''9''), (''siriBurstSize'', PStr ''0''),
     (''siriIntervalBurstTimeMs'', PStr ''0'')]"

definition siri_ping :: "mininet \<Rightarrow> ('a xp_scheme, unit) py" where
  "siri_ping m = ping_first_server m"

definition siri_load :: "('a xp_scheme, unit) py" where
  "siri_load = for_each
     [(''run_time'', ''siriRunTime''), (''query_size'', ''siriQuerySize''), (''response_size'', ''siriResponseSize''),
      (''delay_query_response'', ''siriDelayQueryResponse''), (''min_payload_size'', ''siriMinPayloadSize''),
      (''max_payload_size'', ''siriMaxPayloadSize''), (''interval_time_ms'', ''siriIntervalTimeMs''),
      (''buffer_size'', ''siriBufferSize''), (''burst_size'', ''siriBurstSize''),
      (''interval_burst_time_ms'', ''siriIntervalBurstTimeMs'')] load_attr"

definition siri_init :: "('a xp_scheme, unit) py \<Rightarrow> ('a xp_scheme, unit) py \<Rightarrow> ('a xp_scheme, unit) py \<Rightarrow> ('a xp_scheme, unit) py" where
  "siri_init super load pings = block [super, load, pings]"

definition siri_prepare :: "('a xp_scheme, unit) py \<Rightarrow> mininet \<Rightarrow> ('a xp_scheme, unit) py" where
  "siri_prepare super m = block [super, to_client m ''rm siri_client.log'', to_server m ''rm siri_server.log'']"

definition siri_server_cmd :: "host \<Rightarrow> string" where
  "siri_server_cmd h = ''python3 '' @ here h @ ''/../utils/siri_server.py &> siri_server.log&''"

definition siri_client_cmd :: "host \<Rightarrow> ('a xp_scheme, string) py" where
  "siri_client_cmd h = server_ip 0 (\<lambda>ip. fmt_attr ''run_time'' (\<lambda>a. fmt_attr ''query_size'' (\<lambda>b.
     fmt_attr ''response_size'' (\<lambda>c. fmt_attr ''delay_query_response'' (\<lambda>d. fmt_attr ''min_payload_size'' (\<lambda>e.
     fmt_attr ''max_payload_size'' (\<lambda>f. fmt_attr ''interval_time_ms'' (\<lambda>g. fmt_attr ''buffer_size'' (\<lambda>i.
     fmt_attr ''burst_size'' (\<lambda>j. fmt_attr ''interval_burst_time_ms'' (\<lambda>k.
       py_return (''java -jar '' @ here h @ ''/../utils/siriClient.jar '' @ ip @ '' 8080 '' @
         join '' '' [a, b, c, d, e, f, g, i, j, k] @ '' > siri_client.log 2> siri_client.err''))))))))))))"

definition siri_run :: "host \<Rightarrow> mininet \<Rightarrow> ('a xp_scheme, unit) py" where
  "siri_run h m = block
     [to_server m ''netstat -sn > netstat_server_before'', to_server m (siri_server_cmd h),
      to_client m ''sleep 2'',
      py_bind (siri_client_cmd h) (\<lambda>cmd. block
        [to_client m ''netstat -sn > netstat_client_before'', to_client m cmd]),
      to_server m ''netstat -sn > netstat_server_after'', to_client m ''netstat -sn > netstat_client_after'',
      to_server m ''pkill -f siri_server.py'', to_client m ''sleep 2'']"

definition siri_class :: "host \<Rightarrow> 'a xp_scheme xp_class" where
  "siri_class h = \<lparr>cls_parameters = parameters_with SIRI_DEFAULTS,
     cls_init = \<lambda>m p. siri_init (experiment_init p) siri_load (siri_ping m),
     cls_prepare = \<lambda>m. siri_prepare (xp_prepare m) m, cls_run = siri_run h, cls_clean = xp_clean\<rparr>"

section \<open>\<open>siri_http.py\<close>\<close>

text \<open>
  \<open>SiriHTTP(Siri, RandomFileExperiment)\<close>: after \<open>Siri\<close> comes \<open>RandomFileExperiment\<close>, whose
  constructor loads and pings too.  \<open>load_parameters\<close> ends in \<open>Siri\<close>, which does not go on to
  the next class.
\<close>

definition sirihttp_ping :: "mininet \<Rightarrow> ('a xp_scheme, unit) py" where
  "sirihttp_ping m = ping_first_server m"

definition sirihttp_load :: "('a xp_scheme, unit) py" where
  "sirihttp_load = siri_load"

definition sirihttp_init :: "mininet \<Rightarrow> params \<Rightarrow> ('a xp_scheme, unit) py" where
  "sirihttp_init m p = siri_init (random_file_init p sirihttp_load (sirihttp_ping m)) sirihttp_load (sirihttp_ping m)"

definition sirihttp_prepare :: "mininet \<Rightarrow> ('a xp_scheme, unit) py" where
  "sirihttp_prepare m = block
     [siri_prepare (random_file_prepare m) m, to_client m ''rm siri_client.log'', to_server m ''rm siri_server.log'',
      to_client m ''rm http_client.log'', to_server m ''rm http_server.log'']"

definition sirihttp_server_cmd :: string where
  "sirihttp_server_cmd = ''/etc/init.d/apache2 restart &>siri_server.log&''"

definition sirihttp_client_cmd :: "('a xp_scheme, string) py" where
  "sirihttp_client_cmd = server_ip 0 (\<lambda>ip. cat_attr ''file'' (\<lambda>f.
     py_return (''wget http://'' @ ip @ ''/'' @ f @ '' --no-check-certificate'')))"

definition sirihttp_run :: "host \<Rightarrow> mininet \<Rightarrow> ('a xp_scheme, unit) py" where
  "sirihttp_run h m = block
     [to_server m ''netstat -sn > netstat_server_before'', to_server m (siri_server_cmd h),
      to_server m sirihttp_server_cmd, to_client m ''sleep 2'', to_client m ''netstat -sn > netstat_client_before'',
      py_bind sirihttp_client_cmd (\<lambda>cmd. to_client m (''for i in {1..200}; do '' @ cmd @ ''; done &'')),
      py_bind (siri_client_cmd h) (to_client m),
      to_server m ''netstat -sn > netstat_server_after'', to_client m ''netstat -sn > netstat_client_after'',
      to_server m ''pkill -f siri_server.py'', to_client m ''sleep 2'']"

definition sirihttp_class :: "host \<Rightarrow> 'a xp_scheme xp_class" where
  "sirihttp_class h = \<lparr>cls_parameters = parameters_with SIRI_DEFAULTS, cls_init = sirihttp_init,
     cls_prepare = sirihttp_prepare, cls_run = sirihttp_run h, cls_clean = random_file_clean\<rparr>"

section \<open>\<open>siri_msg.py\<close>\<close>

text \<open>
  \<open>SiriMsg(Siri, Msg)\<close>: after \<open>Siri\<close> comes \<open>Msg\<close>.  \<open>prepare\<close> and \<open>clean\<close> call both, and
  \<open>Siri\<close>'s already go on to \<open>Msg\<close>'s.
\<close>

definition sirimsg_parameters :: "(string \<Rightarrow> string option) \<Rightarrow> string option \<Rightarrow> params res" where
  "sirimsg_parameters fs f = rbind (parameters_with MSG_DEFAULTS fs f) (\<lambda>p. Inr (add_defaults SIRI_DEFAULTS p))"

definition sirimsg_load :: "('a xp_scheme, unit) py" where
  "sirimsg_load = block [siri_load, msg_load]"

definition sirimsg_init :: "mininet \<Rightarrow> params \<Rightarrow> ('a xp_scheme, unit) py" where
  "sirimsg_init m p = siri_init (msg_init (experiment_init p) sirimsg_load (siri_ping m)) sirimsg_load (siri_ping m)"

definition sirimsg_prepare :: "mininet \<Rightarrow> ('a xp_scheme, unit) py" where
  "sirimsg_prepare m = block [siri_prepare (msg_prepare (xp_prepare m) m) m, msg_prepare (xp_prepare m) m]"

definition sirimsg_clean :: "mininet \<Rightarrow> ('a xp_scheme, unit) py" where
  "sirimsg_clean m = block [xp_clean m, xp_clean m]"

definition sirimsg_run :: "host \<Rightarrow> mininet \<Rightarrow> ('a xp_scheme, unit) py" where
  "sirimsg_run h m = block
     [to_server m ''netstat -sn > netstat_server_before'', to_server m (siri_server_cmd h),
      py_bind (msg_server_cmd h) (to_server m),
      to_client m ''sleep 2'', to_client m ''netstat -sn > netstat_client_before'',
      py_bind (msg_client_cmd h True) (to_client m), py_bind (siri_client_cmd h) (to_client m),
      to_server m ''netstat -sn > netstat_server_after'', to_client m ''netstat -sn > netstat_client_after'',
      to_server m ''pkill -f siri_server.py'', to_server m ''pkill -f msg_server.py'', to_server m ''pkill -f msg_client.py'',
      to_client m ''sleep 2'']"

definition sirimsg_class :: "host \<Rightarrow> 'a xp_scheme xp_class" where
  "sirimsg_class h = \<lparr>cls_parameters = sirimsg_parameters, cls_init = sirimsg_init,
     cls_prepare = sirimsg_prepare, cls_run = sirimsg_run h, cls_clean = sirimsg_clean\<rparr>"

section \<open>\<open>quic_siri.py\<close>\<close>

definition QUICSIRI_DEFAULTS :: "pval dict" where
  "QUICSIRI_DEFAULTS = [(''quicMultipath'', PStr ''0'')]"

definition quicsiri_ping :: "mininet \<Rightarrow> ('a xp_scheme, unit) py" where
  "quicsiri_ping m = ping_first_server m"

definition quicsiri_load :: "('a xp_scheme, unit) py" where
  "quicsiri_load = for_each [(''run_time'', ''quicSiriRunTime''), (''multipath'', ''quicMultipath'')] load_attr"

definition quicsiri_init :: "mininet \<Rightarrow> params \<Rightarrow> ('a xp_scheme, unit) py" where
  "quicsiri_init m p = block [experiment_init p, quicsiri_load, quicsiri_ping m]"

definition quicsiri_prepare :: "mininet \<Rightarrow> ('a xp_scheme, unit) py" where
  "quicsiri_prepare m = block [xp_prepare m, to_client m ''rm quic_client.log'', to_server m ''rm quic_server.log'']"

definition quicsiri_dir :: string where
  "quicsiri_dir = ''~/go/src/github.com/lucas-clemente/quic-go/example/siri/''"

definition quicsiri_server_cmd :: string where
  "quicsiri_server_cmd = ''/usr/local/go/bin/go run '' @ quicsiri_dir @ ''siri.go -addr 0.0.0.0:8080 &> quic_server.log &''"

text \<open>\<open>int(self.multipath) > 0\<close>\<close>

definition multipath_attr :: "(bool \<Rightarrow> ('a xp_scheme, 'b) py) \<Rightarrow> ('a xp_scheme, 'b) py" where
  "multipath_attr k = py_bind (xp_attr ''multipath'') (\<lambda>v. py_bind (py_lift (pval_int v)) (\<lambda>n. k (0 < n)))"

definition quicsiri_client_cmd :: "('a xp_scheme, string) py" where
  "quicsiri_client_cmd = server_ip 0 (\<lambda>ip. fmt_attr ''run_time'' (\<lambda>t. multipath_attr (\<lambda>b.
     py_return (''/usr/local/go/bin/go run '' @ quicsiri_dir @ ''client/siri.go -addr '' @ ip @ '':8080 -runTime '' @ t @ ''s '' @
       (if b then ''-m'' else []) @ '' &> quic_client.log''))))"

definition quicsiri_run :: "mininet \<Rightarrow> ('a xp_scheme, unit) py" where
  "quicsiri_run m = block
     [to_server m ''netstat -sn > netstat_server_before'', to_server m quicsiri_server_cmd,
      to_client m ''sleep 2'',
      py_bind quicsiri_client_cmd (\<lambda>cmd. block
        [to_client m ''netstat -sn > netstat_client_before'', to_client m cmd]),
      to_server m ''netstat -sn > netstat_server_after'', to_client m ''netstat -sn > netstat_client_after'',
      to_server m (''pkill -f '' @ quicsiri_dir @ ''siri.go''), to_client m ''sleep 2'', to_client m ''rm -r /tmp/go-build*'']"

definition quicsiri_class :: "'a xp_scheme xp_class" where
  "quicsiri_class = \<lparr>cls_parameters = parameters_with QUICSIRI_DEFAULTS, cls_init = quicsiri_init,
     cls_prepare = quicsiri_prepare, cls_run = quicsiri_run, cls_clean = xp_clean\<rparr>"

section \<open>\<open>pquic.py\<close>\<close>

definition PQUIC_DEFAULTS :: "pval dict" where
  "PQUIC_DEFAULTS = [(''pquicPlugins'', PStr []), (''pquicClientPlugins'', PStr []), (''pquicServerPlugins'', PStr []),
     (''pquicSize'', PInt 10240000)]"

definition pquic_load :: "('a xp_scheme, unit) py" where
  "pquic_load = block
     [for_each [(''plugins'', ''pquicPlugins''), (''client_plugins'', ''pquicClientPlugins''),
        (''server_plugins'', ''pquicServerPlugins'')] load_attr,
      py_bind (xp_get ''pquicSize'') (\<lambda>v. py_bind (py_lift (pval_int v)) (\<lambda>n.
        py_modify (\<lambda>s. s\<lparr>xp_attrs := dict_set ''size'' (PInt n) (xp_attrs s)\<rparr>)))]"

definition pquic_init :: "mininet \<Rightarrow> params \<Rightarrow> ('a xp_scheme, unit) py" where
  "pquic_init m p = block [experiment_init p, pquic_load, ping m]"

definition pquic_prepare :: "mininet \<Rightarrow> ('a xp_scheme, unit) py" where
  "pquic_prepare m = block [xp_prepare m, to_client m ''rm pquic_client.log'', to_server m ''rm pquic_server.log'']"

text \<open>\<open>len(v)\<close>; \<open>split\<close> is a method of strings only.\<close>

definition pval_len :: "pval \<Rightarrow> nat res" where
  "pval_len v = (case v of PStr s \<Rightarrow> Inr (length s) | PList vs \<Rightarrow> Inr (length vs) | PInt _ \<Rightarrow> Inl TypeError)"

definition plugin_args :: "pval \<Rightarrow> string res" where
  "plugin_args v = rbind (pval_len v) (\<lambda>n. if n = 0 then Inr [] else
     (case v of PStr s \<Rightarrow> Inr (join '' '' (map (\<lambda>p. '' -P '' @ p @ '' '') (split_on (CHR '','') s))) | _ \<Rightarrow> Inl AttributeError))"

definition pquic_plugin_cmd :: "bool \<Rightarrow> ('a xp_scheme, string) py" where
  "pquic_plugin_cmd client = py_bind (xp_attr (if client then ''client_plugins'' else ''server_plugins'')) (\<lambda>d.
     py_bind (py_lift (pval_len d)) (\<lambda>n.
     py_bind (if n = 0 then xp_attr ''plugins'' else py_return d) (\<lambda>v. py_lift (plugin_args v))))"

definition pquic_server_cmd :: "('a xp_scheme, string) py" where
  "pquic_server_cmd = py_bind (pquic_plugin_cmd False) (\<lambda>ps. py_return (''/home/achraf/pquic/picoquicdemo '' @ ps @
     '' -c /home/achraf/pquic/certs/cert.pem -k /home/achraf/pquic/certs/key.pem &> pquic_server.log &''))"

definition pquic_client_cmd :: "('a xp_scheme, string) py" where
  "pquic_client_cmd = py_bind (pquic_plugin_cmd True) (\<lambda>ps. fmt_attr ''size'' (\<lambda>n. server_ip 0 (\<lambda>ip.
     py_return (''/home/achraf/pquic/picoquicdemo '' @ ps @ '' -4 -G '' @ n @ '' '' @ ip @ '' 4443 &> pquic_client.log''))))"

definition pquic_run :: "mininet \<Rightarrow> ('a xp_scheme, unit) py" where
  "pquic_run m = block
     [py_bind pquic_server_cmd (to_server m), to_client m ''sleep 2'',
      py_bind pquic_client_cmd (to_client m), to_client m ''sleep 2'']"

definition pquic_class :: "'a xp_scheme xp_class" where
  "pquic_class = \<lparr>cls_parameters = parameters_with PQUIC_DEFAULTS, cls_init = pquic_init,
     cls_prepare = pquic_prepare, cls_run = pquic_run, cls_clean = xp_clean\<rparr>"

section \<open>\<open>quic.py\<close>\<close>

definition path_join :: "string \<Rightarrow> string \<Rightarrow> string" where
  "path_join a b = (if a = [] \<or> last a = CHR ''/'' then a @ b else a @ ''/'' @ b)"

definition QUIC_DEFAULTS :: "pval dict" where
  "QUIC_DEFAULTS = [(''quicMultipath'', PStr ''0''), (''quicImpl'', PStr ''quic-go''), (''quicPort'', PStr ''6121''),
     (''quicCertPath'', PStr ''/home/achraf/quiche/certs''), (''quicNoVerify'', PStr ''1'')]"

definition quic_ping :: "mininet \<Rightarrow> ('a xp_scheme, unit) py" where
  "quic_ping m = ping_first_server m"

definition quic_load :: "('a xp_scheme, unit) py" where
  "quic_load = block
     [random_file_load_parameters,
      for_each [(''multipath'', ''quicMultipath''), (''impl'', ''quicImpl''), (''port'', ''quicPort''),
        (''cert_path'', ''quicCertPath''), (''no_verify'', ''quicNoVerify'')] load_attr]"

definition quic_init :: "mininet \<Rightarrow> params \<Rightarrow> ('a xp_scheme, unit) py" where
  "quic_init m p = random_file_init p quic_load (quic_ping m)"

definition quic_prepare :: "mininet \<Rightarrow> ('a xp_scheme, unit) py" where
  "quic_prepare m = block
     [random_file_prepare m, to_client m ''rm /tmp/quic_client.log'', to_server m ''rm /tmp/quic_server.log'',
      to_server m ''echo hello quiche > /tmp/test.txt'']"

definition quic_go_dir :: string where
  "quic_go_dir = ''/home/achraf/go/src/github.com/lucas-clemente/quic-go/example/''"

definition quic_server_cmd :: "host \<Rightarrow> ('a xp_scheme, string) py" where
  "quic_server_cmd h = py_bind (xp_attr ''impl'') (\<lambda>impl. if impl = PStr ''quiche''
     then cat_attr ''cert_path'' (\<lambda>c. cat_attr ''port'' (\<lambda>p.
       py_return (expand_user h ''/home/achraf/quiche/target/release/quiche-server'' @ '' --listen 0.0.0.0:'' @ p @
         '' --root /tmp --cert '' @ path_join (expand_user h c) ''cert.pem'' @ '' --key '' @
         path_join (expand_user h c) ''key.pem'' @ '' &> /tmp/quic_server.log &'')))
     else cat_attr ''cert_path'' (\<lambda>c. cat_attr ''port'' (\<lambda>p.
       py_return (''/usr/local/go/bin/go run '' @ quic_go_dir @ ''main.go -www . -certpath '' @ c @
         '' -bind 0.0.0.0:'' @ p @ '' &> /tmp/quic_server.log &''))))"

definition quic_client_cmd :: "host \<Rightarrow> ('a xp_scheme, string) py" where
  "quic_client_cmd h = server_ip 0 (\<lambda>ip. py_bind (xp_attr ''impl'') (\<lambda>impl. if impl = PStr ''quiche''
     then cat_attr ''port'' (\<lambda>p. py_bind (xp_attr ''no_verify'') (\<lambda>nv.
       py_return (expand_user h ''/home/achraf/quiche/target/release/quiche-client'' @ '' https://'' @ ip @ '':'' @ p @
         ''/test.txt'' @ (if nv = PStr ''1'' then '' --no-verify'' else []) @ '' &> /tmp/quic_client.log'')))
     else multipath_attr (\<lambda>b. cat_attr ''port'' (\<lambda>p.
       py_return (''/usr/local/go/bin/go run '' @ quic_go_dir @ ''client_benchmarker_cached/main.go'' @
         (if b then '' -m'' else []) @ '' https://'' @ ip @ '':'' @ p @ ''/random &>/tmp/quic_client.log'')))))"

text \<open>
  With the multi-client configuration \<open>run\<close> reads \<open>cong_servers\<close> and \<open>cong_clients\<close>,
  attributes that no configuration has.
\<close>

definition no_congestion_nodes :: "('a xp_scheme, unit) py" where
  "no_congestion_nodes = py_bind (py_get xp_topo_class) (\<lambda>t.
     py_when (t = MultiIfMultiClientClass) (py_raise AttributeError))"

text \<open>The commands for the nodes of these attributes; \<open>getCongServerIP\<close> is a method no configuration has.\<close>

definition quic_cong_server_cmd :: "host \<Rightarrow> nat \<Rightarrow> string" where
  "quic_cong_server_cmd h i = ''python '' @ here h @ ''/../utils/https_server.py &> https_server'' @ show_nat i @ ''.log &''"

definition quic_cong_client_cmd :: "nat \<Rightarrow> ('a xp_scheme, string) py" where
  "quic_cong_client_cmd i = py_raise AttributeError"

definition quic_run :: "host \<Rightarrow> mininet \<Rightarrow> ('a xp_scheme, unit) py" where
  "quic_run h m = py_bind (quic_server_cmd h) (\<lambda>server. block
     [to_server m ''netstat -sn > netstat_server_before'', to_server m server,
      to_server m ''ps -ef | grep -i quiche-server | grep -v grep | cat'',
      xp_tell m cfg_server (cat_attr ''port'' (\<lambda>p. py_return (''ss -lunp | grep :'' @ p @ '' | cat''))),
      to_server m (''sleep 1; echo '' @ sq @ ''exit:'' @ sq @ '' $?; head -n 60 quic_server.log | cat''),
      no_congestion_nodes,
      to_client m ''sleep 2'', to_client m ''netstat -sn > netstat_client_before'',
      no_congestion_nodes,
      py_bind (quic_client_cmd h) (to_client m),
      to_server m ''netstat -sn > netstat_server_after'', to_client m ''netstat -sn > netstat_client_after'',
      no_congestion_nodes,
      to_server m (''pkill -f '' @ quic_go_dir @ ''main.go''), to_server m ''pkill -f quiche-server || true'',
      no_congestion_nodes,
      to_client m ''sleep 2'', to_client m ''rm -r /tmp/go-build*'', to_client m ''rm cache_*''])"

definition quic_class :: "host \<Rightarrow> 'a xp_scheme xp_class" where
  "quic_class h = \<lparr>cls_parameters = parameters_with_file QUIC_DEFAULTS, cls_init = quic_init,
     cls_prepare = quic_prepare, cls_run = quic_run h, cls_clean = random_file_clean\<rparr>"

section \<open>\<open>quic1.py\<close>\<close>

definition QUICHE_DEFAULTS :: "pval dict" where
  "QUICHE_DEFAULTS = [(''quicPort'', PStr ''6121''), (''quicCertPath'', PStr ''/home/achraf/quiche/certs''),
     (''quicNoVerify'', PStr ''1'')]"

definition quiche_load :: "('a xp_scheme, unit) py" where
  "quiche_load = block
     [random_file_load_parameters,
      for_each [(''port'', ''quicPort''), (''cert_path'', ''quicCertPath''), (''no_verify'', ''quicNoVerify'')] load_attr]"

definition quiche_init :: "mininet \<Rightarrow> params \<Rightarrow> ('a xp_scheme, unit) py" where
  "quiche_init m p = random_file_init p quiche_load (ping m)"

definition quiche_prepare :: "mininet \<Rightarrow> ('a xp_scheme, unit) py" where
  "quiche_prepare m = block
     [random_file_prepare m, to_server m ''rm -f /tmp/quic_server.log'', to_client m ''rm -f /tmp/quic_client.log'',
      to_server m ''echo hello quiche > /tmp/test.txt'',
      xp_tell m cfg_server (cat_attr ''cert_path'' (\<lambda>c.
        py_return (''mkdir -p /tmp/certs && cp -f '' @ path_join c ''*'' @ '' /tmp/certs/ || true'')))]"

definition quiche_server :: "string \<Rightarrow> string" where
  "quiche_server port = ''/home/achraf/quiche/target/release/quiche-server --listen 0.0.0.0:'' @ port @
     '' --root /tmp --cert /tmp/certs/cert.pem --key /tmp/certs/key.pem''"

definition quiche_server_cmd :: "('a xp_scheme, string) py" where
  "quiche_server_cmd = cat_attr ''port'' (\<lambda>p. py_return (quiche_server p @ '' &> /tmp/quic_server.log &''))"

definition quiche_client_cmd :: "string \<Rightarrow> ('a xp_scheme, string) py" where
  "quiche_client_cmd ip = cat_attr ''port'' (\<lambda>p. fmt_attr ''no_verify'' (\<lambda>nv.
     py_return (''/home/achraf/quiche/target/release/quiche-client https://'' @ ip @ '':'' @ p @ ''/test.txt'' @
       (if nv = ''1'' then '' --no-verify'' else []) @ '' &> /tmp/quic_client.log'')))"

definition keep_log_cmd :: "string \<Rightarrow> string" where
  "keep_log_cmd who = ''test -f /tmp/quic_'' @ who @ ''.log && cat /tmp/quic_'' @ who @ ''.log | tee -a logs/quic_'' @ who @
     ''.ns.log >/dev/null || true''"

definition quiche_run :: "mininet \<Rightarrow> ('a xp_scheme, unit) py" where
  "quiche_run m = block
     [xp_tell m cfg_server quiche_server_cmd,
      cat_attr ''port'' (\<lambda>p. to_server m (''timeout 3s '' @ quiche_server p @ '' 2>&1 | head -n 80 | cat || true'')),
      to_server m ''ps -ef | grep -i quiche-server | grep -v grep | cat'',
      xp_tell m cfg_server (cat_attr ''port'' (\<lambda>p. py_return (''ss -lunp | grep :'' @ p @ '' | cat''))),
      to_server m ''head -n 80 /tmp/quic_server.log | cat'',
      to_client m ''sleep 1'',
      server_ip 0 (\<lambda>ip. xp_tell m cfg_client (quiche_client_cmd ip)),
      to_client m ''head -n 80 /tmp/quic_client.log | cat'',
      to_server m (keep_log_cmd ''server''), to_client m (keep_log_cmd ''client''),
      to_server m ''pkill -f quiche-server || true'']"

definition quiche_class :: "'a xp_scheme xp_class" where
  "quiche_class = \<lparr>cls_parameters = parameters_with_file QUICHE_DEFAULTS, cls_init = quiche_init,
     cls_prepare = quiche_prepare, cls_run = quiche_run, cls_clean = random_file_clean\<rparr>"

section \<open>\<open>nc.py\<close>\<close>

text \<open>\<open>DD_IBS\<close> and \<open>DD_OBS\<close> are the same key.\<close>

definition NC_DEFAULTS :: "pval dict" where
  "NC_DEFAULTS = [(''ddIBS'', PStr ''1k''), (''ddCount'', PStr ''5000''), (''ncServerPort'', PStr ''33666''),
     (''ncClientPort'', PStr ''33555'')]"

text \<open>The attribute \<open>paramDic\<close> of the parameters, which no class gives them.\<close>

definition param_dic :: "params \<Rightarrow> pval dict res" where
  "param_dic p = Inl AttributeError"

text \<open>The ports of the clients: the values of the keys that start with \<open>ncClientPort\<close>, by key, or the default.\<close>

definition nc_client_ports :: "pval dict \<Rightarrow> pval res \<Rightarrow> pval list res" where
  "nc_client_ports d default_port =
     rbind (rmap (\<lambda>k. some_or KeyError (dict_get d k)) (filter (starts_with ''ncClientPort'') (sort (dict_keys d)))) (\<lambda>ps.
       if length ps = 0 then rbind default_port (\<lambda>v. Inr [v]) else Inr ps)"

definition nc_set_ports :: "pval list \<Rightarrow> ('a xp_scheme, unit) py" where
  "nc_set_ports ps = py_modify (\<lambda>s. s\<lparr>xp_attrs := dict_set ''ncClientPort'' (PList ps) (xp_attrs s)\<rparr>)"

definition nc_load :: "('a xp_scheme, unit) py" where
  "nc_load = block
     [for_each [(''ddibs'', ''ddIBS''), (''ddobs'', ''ddIBS''), (''ddcount'', ''ddCount''), (''ncServerPort'', ''ncServerPort'')] load_attr,
      nc_set_ports [],
      py_bind (py_get experiment_parameter) (\<lambda>p. py_bind (py_lift (param_dic p)) (\<lambda>d.
        py_bind (py_lift (nc_client_ports d (get_param p ''ncClientPort''))) nc_set_ports))]"

definition nc_init :: "('a xp_scheme, unit) py \<Rightarrow> params \<Rightarrow> ('a xp_scheme, unit) py" where
  "nc_init load p = block [experiment_init p, load]"

definition nc_prepare :: "mininet \<Rightarrow> ('a xp_scheme, unit) py" where
  "nc_prepare m = block [xp_prepare m, to_client m ''rm netcat_client'', to_server m ''rm netcat_server'']"

definition nc_clean :: "mininet \<Rightarrow> ('a xp_scheme, unit) py" where
  "nc_clean m = block [xp_clean m, to_server m ''killall netcat'']"

definition nc_server_cmd :: "nat \<Rightarrow> ('a xp_scheme, string) py" where
  "nc_server_cmd i = cat_attr ''ddibs'' (\<lambda>ibs. cat_attr ''ddobs'' (\<lambda>obs. cat_attr ''ddcount'' (\<lambda>count. cat_attr ''ncServerPort'' (\<lambda>port.
     py_return (''dd if=/dev/urandom ibs='' @ ibs @ '' obs='' @ obs @ '' count='' @ count @ '' | netcat -l '' @ port @
       '' &>netcat_server_'' @ show_nat i @ ''.log'')))))"

text \<open>\<open>self.ncClientPort[id]\<close>\<close>

definition nc_port :: "nat \<Rightarrow> (string \<Rightarrow> ('a xp_scheme, 'b) py) \<Rightarrow> ('a xp_scheme, 'b) py" where
  "nc_port i k = py_bind (xp_attr ''ncClientPort'') (\<lambda>v. py_bind (py_lift (case v of
       PList ps \<Rightarrow> if i < length ps then pval_text (ps ! i) else Inl IndexError
     | PStr t \<Rightarrow> if i < length t then Inr [t ! i] else Inl IndexError
     | PInt _ \<Rightarrow> Inl TypeError)) k)"

definition nc_client_cmd :: "nat \<Rightarrow> ('a xp_scheme, string) py" where
  "nc_client_cmd i = nc_port i (\<lambda>p. server_ip 0 (\<lambda>ip. cat_attr ''ncServerPort'' (\<lambda>port.
     py_return (''netcat  -p '' @ p @ '' '' @ ip @ '' '' @ port @ '' &>netcat_client_'' @ show_nat i @ ''.log''))))"

text \<open>A command is started on a node directly, without the log, and waited for.\<close>

definition nc_send :: "mininet \<Rightarrow> ('a xp_scheme \<Rightarrow> handle option) \<Rightarrow> string \<Rightarrow> ('a xp_scheme, unit) py" where
  "nc_send m who c = py_bind (py_attr who) (\<lambda>h. node_send_cmd m h c)"

definition nc_wait :: "mininet \<Rightarrow> ('a xp_scheme \<Rightarrow> handle option) \<Rightarrow> ('a xp_scheme, unit) py" where
  "nc_wait m who = py_bind (py_attr who) (\<lambda>h. stmt (node_wait_output m h))"

definition nc_each_port :: "(nat \<Rightarrow> ('a xp_scheme, unit) py) \<Rightarrow> ('a xp_scheme, unit) py" where
  "nc_each_port body = py_bind (xp_attr ''ncClientPort'') (\<lambda>v. py_bind (py_lift (pval_len v)) (\<lambda>n. for_each [0..<n] body))"

definition nc_run :: "mininet \<Rightarrow> ('a xp_scheme, unit) py" where
  "nc_run m = nc_each_port (\<lambda>i. block
     [py_bind (nc_server_cmd i) (nc_send m cfg_server), py_bind (nc_client_cmd i) (to_client m),
      nc_wait m cfg_server, to_client m ''sleep 1''])"

definition nc_class :: "'a xp_scheme xp_class" where
  "nc_class = \<lparr>cls_parameters = parameters_with NC_DEFAULTS, cls_init = \<lambda>m. nc_init nc_load,
     cls_prepare = nc_prepare, cls_run = nc_run, cls_clean = nc_clean\<rparr>"

section \<open>\<open>ncpv.py\<close>\<close>

definition NCPV_DEFAULTS :: "pval dict" where
  "NCPV_DEFAULTS = [(''pvRateLimit'', PStr ''400k''), (''pvG'', PStr ''10000''), (''pvZ'', PStr ''10000''), (''changePv'', PStr ''no'')]"

definition ncpv_parameters :: "(string \<Rightarrow> string option) \<Rightarrow> string option \<Rightarrow> params res" where
  "ncpv_parameters fs f = rbind (parameters_with NC_DEFAULTS fs f) (\<lambda>p. Inr (add_defaults NCPV_DEFAULTS p))"

text \<open>
  \<open>load_parameters\<close> calls the one of \<open>NC\<close> first; after it come attributes that
  \<open>ExperimentParameter\<close> does not have.
\<close>

definition ncpv_load :: "('a xp_scheme, unit) py" where
  "ncpv_load = block [nc_load, py_raise AttributeError]"

definition ncpv_ping :: "mininet \<Rightarrow> ('a xp_scheme, unit) py" where
  "ncpv_ping m = ping_first_server m"

definition ncpv_init :: "mininet \<Rightarrow> params \<Rightarrow> ('a xp_scheme, unit) py" where
  "ncpv_init m p = block [nc_init ncpv_load p, ncpv_load, ncpv_ping m]"

definition ncpv_server_cmd :: "nat \<Rightarrow> ('a xp_scheme, string) py" where
  "ncpv_server_cmd i = cat_attr ''ncServerPort'' (\<lambda>port.
     py_return (''netcat -d   -l '' @ port @ '' 1>/dev/null 2>netcat_server_'' @ show_nat i @ ''.log &''))"

text \<open>The command of the client is put together up to \<open>NC.PV_BIN\<close>, which does not exist.\<close>

definition ncpv_client_cmd :: "nat \<Rightarrow> ('a xp_scheme, string) py" where
  "ncpv_client_cmd i = cat_attr ''ddibs'' (\<lambda>ibs. cat_attr ''ddobs'' (\<lambda>obs. cat_attr ''ddcount'' (\<lambda>count. py_raise AttributeError)))"

text \<open>What comes after the command of the client in the body of the loop is never reached.\<close>

definition ncpv_run :: "mininet \<Rightarrow> ('a xp_scheme, unit) py" where
  "ncpv_run m = nc_each_port (\<lambda>i. block
     [py_bind (ncpv_server_cmd i) (to_server m), py_bind (ncpv_client_cmd i) (nc_send m cfg_client)])"

definition ncpv_class :: "'a xp_scheme xp_class" where
  "ncpv_class = \<lparr>cls_parameters = ncpv_parameters, cls_init = ncpv_init,
     cls_prepare = nc_prepare, cls_run = ncpv_run, cls_clean = nc_clean\<rparr>"

text \<open>A change of the rate, and \<open>addPvAt\<close>: the same schedule as the netem changes of a link.\<close>

record mp_pv_at =
  pv_at :: pyfloat
  pv_cmd :: string
  pv_delta :: pynum

definition add_pv_at :: "mp_pv_at \<Rightarrow> mp_pv_at list \<Rightarrow> mp_pv_at list" where
  "add_pv_at p ps =
     (if length ps = 0 then ps @ [p\<lparr>pv_delta := FloatNum (pv_at p)\<rparr>]
      else if fless (pv_at (last ps)) (pv_at p)
      then ps @ [p\<lparr>pv_delta := FloatNum (fsub (pv_at p) (pv_at (last ps)))\<rparr>]
      else ps)"

definition load_pv_one :: "string \<Rightarrow> mp_pv_at list \<Rightarrow> mp_pv_at list res" where
  "load_pv_one v ps = (case split_on (CHR '','') v of
     [t, c] \<Rightarrow> rbind (float_of_str t) (\<lambda>x. Inr (add_pv_at \<lparr>pv_at = x, pv_cmd = c, pv_delta = IntNum 0\<rparr> ps))
   | _ \<Rightarrow> Inr ps)"

definition load_pv_at :: "pval \<Rightarrow> pval res \<Rightarrow> mp_pv_at list res" where
  "load_pv_at change_pv change_pv_at =
     (if change_pv \<noteq> PStr ''yes'' then Inr []
      else rbind change_pv_at (\<lambda>v. rfold
        (\<lambda>p ps. case p of PStr t \<Rightarrow> load_pv_one t ps | _ \<Rightarrow> Inl AttributeError)
        (case v of PList vs \<Rightarrow> vs | _ \<Rightarrow> [v]) []))"

definition pv_change_cmd :: "string \<Rightarrow> mp_pv_at list \<Rightarrow> string" where
  "pv_change_cmd pid ps = concat (map (\<lambda>p. ''sleep '' @ str_num (pv_delta p) @ '' && /usr/local/bin/pv -R '' @ pid @
     '' '' @ pv_cmd p @ '' && '') ps) @ '' true &''"

interpretation pv_schedule: schedule pv_at pv_delta "\<lambda>w p. p\<lparr>pv_delta := w\<rparr>" add_pv_at
  by unfold_locales (simp_all add: add_pv_at_def)

section \<open>\<open>quic_mpath.py\<close>\<close>

text \<open>\<open>run\<close> catches every exception; what was run before it stays run.\<close>

definition py_swallow :: "('s, unit) py \<Rightarrow> ('s, unit) py" where
  "py_swallow f = (\<lambda>s. (Inr (), snd (f s)))"

definition fmt_get :: "string \<Rightarrow> (string \<Rightarrow> ('a xp_scheme, 'b) py) \<Rightarrow> ('a xp_scheme, 'b) py" where
  "fmt_get key k = py_bind (xp_get key) (\<lambda>v. k (str_pval v))"

definition int_get :: "string \<Rightarrow> (string \<Rightarrow> ('a xp_scheme, 'b) py) \<Rightarrow> ('a xp_scheme, 'b) py" where
  "int_get key k = py_bind (xp_get key) (\<lambda>v. py_bind (py_lift (pval_int v)) (\<lambda>n. k (show_int n)))"

definition cap_count :: "pval \<Rightarrow> string res" where
  "cap_count v = (if v = PStr [] \<or> v = PStr ''None'' then Inr ''200'' else rbind (pval_int v) (\<lambda>n. Inr (show_int n)))"

definition present_cmd :: "string \<Rightarrow> string \<Rightarrow> string \<Rightarrow> string \<Rightarrow> string" where
  "present_cmd test good bad suffix = test @ '' && echo '' @ sq @ good @ sq @ '' || echo '' @ sq @ bad @ suffix @ sq"

text \<open>The local variables of \<open>run\<close>\<close>

record mpath_vars =
  mp_ip :: string
  mp_ca :: string
  mp_cb :: string
  mp_port :: string
  mp_sbin :: string
  mp_cbin :: string
  mp_cert :: string
  mp_key :: string
  mp_www :: string
  mp_if1 :: string
  mp_if2 :: string
  mp_cnt :: string

definition quic_mpath_script :: "mininet \<Rightarrow> mpath_vars \<Rightarrow> ('a xp_scheme, unit) py" where
  "quic_mpath_script m v = block
     [to_server m (present_cmd (''test -x '' @ mp_sbin v) ''[h2] serverBin OK'' ''[h2] serverBin MISSING: '' (mp_sbin v)),
      to_client m (present_cmd (''test -x '' @ mp_cbin v) ''[h1] clientBin OK'' ''[h1] clientBin MISSING: '' (mp_cbin v)),
      to_server m (present_cmd (''test -r '' @ mp_cert v @ '' && test -r '' @ mp_key v) ''[h2] cert/key OK'' ''[h2] cert/key MISSING'' []),
      to_router m (''echo '' @ sq @ ''[r1] ifaces:'' @ sq @ ''; ip -o link | awk -F'' @ sq @ '': '' @ sq @ '' '' @ sq @ ''{print $2}'' @ sq @
        '' | xargs -n1 echo '' @ sq @ '' -'' @ sq @ '' > /tmp/r1_ifaces.txt; cat /tmp/r1_ifaces.txt''),
      to_router m (''echo '' @ sq @ ''[r1] tcpdump -D:'' @ sq @
        ''; tcpdump -D > /tmp/r1_tcpdumpD.txt 2>&1; tail -n +1 /tmp/r1_tcpdumpD.txt''),
      to_server m (''nohup '' @ mp_sbin v @ '' --cert '' @ mp_cert v @ '' --key '' @ mp_key v @ '' --listen 0.0.0.0:'' @ mp_port v @ '' --root '' @ mp_www v @
        '' > /tmp/qserver.log 2>&1 &''),
      to_router m (''tcpdump -ni '' @ mp_if1 v @ '' udp port '' @ mp_port v @ '' -c '' @ mp_cnt v @ '' -U -vvv -w /tmp/pathA.pcap 2> /tmp/tcpdumpA.err &''),
      to_router m (''tcpdump -ni '' @ mp_if2 v @ '' udp port '' @ mp_port v @ '' -c '' @ mp_cnt v @ '' -U -vvv -w /tmp/pathB.pcap 2> /tmp/tcpdumpB.err &''),
      to_client m (''LOCAL_BIND='' @ mp_ca v @ '' '' @ mp_cbin v @ '' https://'' @ mp_ip v @ '':'' @ mp_port v @ ''/ --no-verify > /tmp/clientA.log 2>&1 &''),
      to_client m (''LOCAL_BIND='' @ mp_cb v @ '' '' @ mp_cbin v @ '' https://'' @ mp_ip v @ '':'' @ mp_port v @ ''/ --no-verify > /tmp/clientB.log 2>&1 &''),
      to_router m (''sleep 12; pkill -f '' @ sq @ ''tcpdump -ni'' @ sq @ '' || true''),
      to_router m (''echo '' @ sq @ ''[r1] pcaps:'' @ sq @ ''; ls -lh /tmp/pathA.pcap /tmp/pathB.pcap || true; echo '' @ sq @
        ''[r1] tcpdump errs:'' @ sq @ ''; tail -n +1 /tmp/tcpdumpA.err /tmp/tcpdumpB.err || true''),
      to_client m (''echo '' @ sq @ ''[h1] client logs:'' @ sq @ ''; tail -n +1 /tmp/clientA.log /tmp/clientB.log || true''),
      to_server m (''echo '' @ sq @ ''[h2] qserver.log:'' @ sq @ ''; tail -n 30 /tmp/qserver.log || true'')]"

definition quic_mpath_run :: "mininet \<Rightarrow> ('a xp_scheme, unit) py" where
  "quic_mpath_run m = py_swallow
     (fmt_get ''serverIP'' (\<lambda>ip. fmt_get ''clientIPA'' (\<lambda>ca. fmt_get ''clientIPB'' (\<lambda>cb. int_get ''port'' (\<lambda>port.
      fmt_get ''serverBin'' (\<lambda>sbin. fmt_get ''clientBin'' (\<lambda>cbin. fmt_get ''cert'' (\<lambda>cert. fmt_get ''key'' (\<lambda>key.
      fmt_get ''root'' (\<lambda>www. fmt_get ''capIf1'' (\<lambda>if1. fmt_get ''capIf2'' (\<lambda>if2.
      py_bind (xp_get ''capCount'') (\<lambda>c. py_bind (py_lift (cap_count c)) (\<lambda>cnt.
        quic_mpath_script m \<lparr>mp_ip = ip, mp_ca = ca, mp_cb = cb, mp_port = port, mp_sbin = sbin, mp_cbin = cbin,
          mp_cert = cert, mp_key = key, mp_www = www, mp_if1 = if1, mp_if2 = if2, mp_cnt = cnt\<rparr>))))))))))))))"

definition quic_mpath_class :: "'a xp_scheme xp_class" where
  "quic_mpath_class = \<lparr>cls_parameters = new_experiment_parameter, cls_init = \<lambda>m. experiment_init,
     cls_prepare = xp_prepare, cls_run = quic_mpath_run, cls_clean = xp_clean\<rparr>"

section \<open>The registry\<close>

text \<open>
  \<open>EXPERIMENTS\<close> of \<open>experiments/__init__.py\<close>: every class with a \<open>NAME\<close> under its name; then
  the entry of \<open>quic\<close> is replaced.  The names are distinct, so the order does not matter.
\<close>

definition EXPERIMENTS :: "host \<Rightarrow> 'a xp_scheme xp_class dict" where
  "EXPERIMENTS h = dict_set ''quic'' quiche_class
     [(''ab'', ab_class h), (''ditg'', ditg_class), (''epload'', epload_class), (''http'', http_class),
      (''https'', https_class h), (''iperf'', iperf_class), (''iperfScenario'', scenario_class), (''msg'', msg_class h),
      (''nc'', nc_class), (''ncpv'', ncpv_class), (''netperf'', netperf_class), (''none'', none_class),
      (''ping'', ping_class), (''pquic'', pquic_class), (''quic'', quic_class h), (''quic1'', quiche_class),
      (''quic_mpath'', quic_mpath_class), (''quicsiri'', quicsiri_class), (''sendfile'', sendfile_class),
      (''siri'', siri_class h), (''sirihttp'', sirihttp_class h), (''sirimsg'', sirimsg_class h), (''vlc'', vlc_class)]"

section \<open>Building an experiment and running it\<close>

text \<open>\<open>EXPERIMENTS[xp](file, topo, topo_config).classic_run()\<close>: the constructor reads the parameters first.\<close>

definition perform :: "'a xp_scheme xp_class \<Rightarrow> (string \<Rightarrow> string option) \<Rightarrow> string option \<Rightarrow> mininet \<Rightarrow> ('a xp_scheme, unit) py" where
  "perform c fs f m = py_bind (py_lift (cls_parameters c fs f)) (\<lambda>p. block
     [cls_init c m p, classic_run (cls_prepare c m) (cls_run c m) (cls_clean c m)])"

end
