(* ===== verification/Sessions.thy ===== *)
theory Sessions
  imports ExperimentRun ExpMore
begin

text \<open>
  Experiments as a whole: what \<open>classic_run\<close> needs from the class of an experiment is the
  locale \<open>session\<close>; the classes of the registry that work satisfy it.
\<close>

section \<open>Statements that finish\<close>

text \<open>From a live state with \<open>P\<close> the statement ends without an exception and only runs commands.\<close>

definition runs :: "mininet \<Rightarrow> ('a topo_scheme \<Rightarrow> bool) \<Rightarrow> ('a topo_scheme, unit) py \<Rightarrow> bool" where
  "runs m P f \<longleftrightarrow> (\<forall>s. live s \<longrightarrow> P s \<longrightarrow> (\<exists>es. NetStop \<notin> set es \<and> f s = (Inr (), ran m es s)))"

lemma runsE:
  assumes "runs m P f" "live s" "P s"
  obtains es where "NetStop \<notin> set es" "f s = (Inr (), ran m es s)" "live (ran m es s)"
  using assms live_ran unfolding runs_def by blast

lemma runs_does: "does m P es f \<Longrightarrow> runs m P f"
  by (auto simp: runs_def does_def)

lemma runs_seq:
  assumes "stable m P" "runs m P f" "runs m P g"
  shows "runs m P (py_bind f (\<lambda>_. g))"
  unfolding runs_def
proof (intro allI impI)
  fix s assume s: "live s" "P s"
  obtain es where es: "NetStop \<notin> set es" "f s = (Inr (), ran m es s)" "live (ran m es s)"
    using runsE [OF assms(2) s] by blast
  have "P (ran m es s)" using assms(1) s(2) by (simp add: stable_def)
  from runsE [OF assms(3) es(3) this] obtain fs where "NetStop \<notin> set fs" "g (ran m es s) = (Inr (), ran m fs (ran m es s))"
    by blast
  with es show "\<exists>es. NetStop \<notin> set es \<and> py_bind f (\<lambda>_. g) s = (Inr (), ran m es s)"
    by (intro exI [of _ "es @ fs"]) (simp add: py_bind_apply)
qed

lemma runs_weaken: "runs m P f \<Longrightarrow> (\<And>s. Q s \<Longrightarrow> P s) \<Longrightarrow> runs m Q f"
  unfolding runs_def by blast

lemma runs_global: "runs m P (stmt (topo_command_global m c))"
  unfolding runs_def by (auto simp: stmt_apply global_command_ok intro!: exI [of _ "[GlobalCmd c]"])

lemma runs_block_Nil: "runs m P (block [])"
  by (rule runs_does [OF does_block_Nil])

lemma runs_block_Cons: "stable m P \<Longrightarrow> runs m P c \<Longrightarrow> runs m P (block cs) \<Longrightarrow> runs m P (block (c # cs))"
  using runs_seq [of m P c "block cs"] by simp

lemma runs_bind:
  assumes "\<And>s. P s \<Longrightarrow> \<exists>v. f s = (Inr v, s) \<and> Q v" and "\<And>v. Q v \<Longrightarrow> runs m P (k v)"
  shows "runs m P (py_bind f k)"
  unfolding runs_def
proof (intro allI impI)
  fix s assume s: "live s" "P s"
  obtain v where v: "f s = (Inr v, s)" "Q v" using assms(1) [OF s(2)] by blast
  show "\<exists>es. NetStop \<notin> set es \<and> py_bind f k s = (Inr (), ran m es s)"
    using assms(2) [OF v(2)] s v(1) by (simp add: runs_def py_bind_apply)
qed

lemma runs_when: "(b \<Longrightarrow> runs m P f) \<Longrightarrow> runs m P (py_when b f)"
  by (cases b) (simp_all add: py_when_def runs_does [OF does_return])

section \<open>The state of an experiment object\<close>

text \<open>The attributes with the names \<open>as\<close> are strings.\<close>

definition has_attrs :: "string list \<Rightarrow> pval dict \<Rightarrow> bool" where
  "has_attrs as d \<longleftrightarrow> (\<forall>a \<in> set as. \<exists>t. dict_get d a = Some (PStr t))"

definition loaded :: "xp_plan \<Rightarrow> string list \<Rightarrow> 'a xp_scheme \<Rightarrow> bool" where
  "loaded x as s \<longleftrightarrow> xp_ready x s \<and> has_attrs as (xp_attrs s)"

lemma stable_loaded: "stable m (loaded x as)"
  by (simp add: stable_def loaded_def xp_ready_def)

lemma loaded_ran: "loaded x as s \<Longrightarrow> loaded x as (ran m es s)"
  by (simp add: loaded_def xp_ready_def)

lemma loaded_ready: "loaded x as s \<Longrightarrow> xp_ready x s"
  by (simp add: loaded_def)

lemma runs_to:
  assumes "mininet_ok m"
  shows "runs m (loaded x as) (to_client m c)" "runs m (loaded x as) (to_server m c)" "runs m (loaded x as) (to_router m c)"
  unfolding to_client_def to_server_def to_router_def
  by (rule runs_does, rule does_weaken [OF tell_client [OF assms] loaded_ready],
      assumption,
      rule runs_does, rule does_weaken [OF tell_server [OF assms] loaded_ready], assumption,
      rule runs_does, rule does_weaken [OF tell_router [OF assms] loaded_ready], assumption)

lemma attr_string:
  assumes "a \<in> set as" "loaded x as s"
  shows "\<exists>t. xp_attr a s = (Inr (PStr t), s)"
  using assms by (auto simp: loaded_def has_attrs_def xp_attr_def py_attr_def py_bind_apply)

text \<open>Attributes and addresses, in any state that is loaded.\<close>

lemma runs_attr_when:
  assumes "\<And>s. P s \<Longrightarrow> loaded x as s" "a \<in> set as" "\<And>t. runs m P (k (PStr t))"
  shows "runs m P (py_bind (xp_attr a) k)"
  by (rule runs_bind [where Q = "\<lambda>v. \<exists>t. v = PStr t"]) (use assms attr_string in blast)+

lemma runs_fmt_attr_when:
  "(\<And>s. P s \<Longrightarrow> loaded x as s) \<Longrightarrow> a \<in> set as \<Longrightarrow> (\<And>t. runs m P (k t)) \<Longrightarrow> runs m P (fmt_attr a k)"
  unfolding fmt_attr_def by (rule runs_attr_when) simp_all

lemma runs_server_ip_when:
  "(\<And>s. P s \<Longrightarrow> xp_ready x s) \<Longrightarrow> (\<And>t. runs m P (k t)) \<Longrightarrow> runs m P (server_ip i k)"
  unfolding server_ip_def
  by (rule runs_bind [where Q = "has_subnets (xp_left x) (xp_right x)"], simp add: xp_ready_def)
     (rule runs_bind [where Q = "\<lambda>_. True"], simp_all add: address_texts)

lemma runs_attr: "a \<in> set as \<Longrightarrow> (\<And>t. runs m (loaded x as) (k (PStr t))) \<Longrightarrow> runs m (loaded x as) (py_bind (xp_attr a) k)"
  by (rule runs_attr_when)

lemma runs_fmt_attr: "a \<in> set as \<Longrightarrow> (\<And>t. runs m (loaded x as) (k t)) \<Longrightarrow> runs m (loaded x as) (fmt_attr a k)"
  by (rule runs_fmt_attr_when)

lemma runs_cat_attr: "a \<in> set as \<Longrightarrow> (\<And>t. runs m (loaded x as) (k t)) \<Longrightarrow> runs m (loaded x as) (cat_attr a k)"
  unfolding cat_attr_def by (rule runs_attr) (simp_all add: pval_text_def)

lemma runs_server_ip: "(\<And>t. runs m (loaded x as) (k t)) \<Longrightarrow> runs m (loaded x as) (server_ip i k)"
  by (rule runs_server_ip_when [OF loaded_ready])

text \<open>A value computed from attributes and addresses, then used; sequencing is associative.\<close>

lemma bind_assoc: "py_bind (py_bind f g) k = py_bind f (\<lambda>x. py_bind (g x) k)"
  by (rule ext) (simp add: py_bind_apply split: prod.split sum.split)

lemma bind_return [simp]: "py_bind (py_return x) k = k x"
  by (rule ext) (simp add: py_bind_apply)

lemma bind_attr:
  "py_bind (fmt_attr a f) k = fmt_attr a (\<lambda>t. py_bind (f t) k)"
  "py_bind (cat_attr a f) k = cat_attr a (\<lambda>t. py_bind (f t) k)"
  "py_bind (server_ip i f) k = server_ip i (\<lambda>t. py_bind (f t) k)"
  by (simp_all add: fmt_attr_def cat_attr_def server_ip_def bind_assoc)


section \<open>The contract\<close>

text \<open>A new object on the state: its parameters and attributes, nothing saved yet.\<close>

definition fresh :: "params \<Rightarrow> pval dict \<Rightarrow> 'a xp_scheme \<Rightarrow> 'a xp_scheme" where
  "fresh p A s = s\<lparr>experiment_parameter := p, sysctl_to_restore := None, client_sysctl_to_restore := None,
     server_sysctl_to_restore := None, xp_attrs := A\<rparr>"

definition good :: "mininet \<Rightarrow> xp_plan \<Rightarrow> string list \<Rightarrow> bool" where
  "good m x keys \<longleftrightarrow> mininet_ok m \<and> complete (xp_params x) \<and>
     (\<forall>k \<in> set keys. \<exists>t. get_param (xp_params x) k = Inr (PStr t))"

definition quiet :: "event list \<Rightarrow> bool" where
  "quiet es \<longleftrightarrow> NetStop \<notin> set es \<and> (\<forall>e \<in> set es. event_assign e = None)"

lemma quiet_cmd: "\<not> starts_with ''sysctl '' c \<Longrightarrow> event_assign (NodeCmd n c) = None"
  by (simp add: event_assign_def sysctl_assign_def)

lemma fresh_fields [simp]:
  "events (fresh p A s) = events s" "live (fresh p A s) = live s" "xp_attrs (fresh p A s) = A"
  "experiment_parameter (fresh p A s) = p" "fresh p A (fresh q B s) = fresh p A s"
  by (simp_all add: fresh_def live_def)

lemma fresh_ran: "fresh p A (ran m es s) = ran m es (fresh p A s)"
  by (simp add: fresh_def ran_def)

lemma ready_fresh: "xp_ready x (fresh p A s) = xp_ready x (fresh p B s)"
  "on_network x g ls b (fresh p A s) = on_network x g ls b (fresh p B s)"
  by (simp_all add: fresh_def xp_ready_def nodes_set_def on_network_def client_interface_count_def
      xp_server_interface_count_def server_interface_count_def multi_client_server_interface_count_def
      cong: topo_class.case_cong)

lemma loaded_on_network: "on_network x g ls b s \<Longrightarrow> has_attrs as (xp_attrs s) \<Longrightarrow> loaded x as s"
  by (simp add: loaded_def on_network_def)

text \<open>What an experiment finds of the topology beyond the three nodes and their interfaces.\<close>

definition place :: "'a xp_scheme \<Rightarrow> topo_class \<times> handle list option \<times> handle list option" where
  "place s = (xp_topo_class s, cfg_clients s, cfg_servers s)"

lemma place_simps [simp]:
  "place (ran m es s) = place s" "place (fresh p A s) = place s" "place (with_saved avail st s) = place s"
  by (simp_all add: place_def ran_def fresh_def with_saved_def)

text \<open>A configured network, with a condition on the attributes of the experiment and on the place.\<close>

definition ready_with :: "(pval dict \<Rightarrow> bool) \<Rightarrow> (topo_class \<times> handle list option \<times> handle list option \<Rightarrow> bool) \<Rightarrow>
    xp_plan \<Rightarrow> 'a xp_scheme \<Rightarrow> bool" where
  "ready_with holds there x s \<longleftrightarrow> xp_ready x s \<and> holds (xp_attrs s) \<and> there (place s)"

lemma stable_ready_with: "stable m (ready_with holds there x)"
  by (simp add: stable_def ready_with_def xp_ready_def)

lemma ready_with_ran: "ready_with holds there x s \<Longrightarrow> ready_with holds there x (ran m es s)"
  by (rule stable_ready_with [unfolded stable_def, rule_format])

lemma loaded_ready_with: "loaded x names = ready_with (has_attrs names) (\<lambda>_. True) x"
  by (simp add: fun_eq_iff loaded_def ready_with_def)

text \<open>
  What a class promises: the constructor only loads attributes and runs commands that set no
  sysctl; \<open>prepare\<close> and \<open>clean\<close> go on after those of the base class; \<open>run\<close> ends.
\<close>

locale contract =
  fixes c :: "'a xp_scheme xp_class" and fits :: "mininet \<Rightarrow> xp_plan \<Rightarrow> bool" and holds :: "pval dict \<Rightarrow> bool"
    and there :: "topo_class \<times> handle list option \<times> handle list option \<Rightarrow> bool"
  assumes sane: "fits m x \<Longrightarrow> mininet_ok m \<and> complete (xp_params x)"
    and builds: "fits m x \<Longrightarrow> live s \<Longrightarrow> xp_ready x (fresh (xp_params x) [] s) \<Longrightarrow>
      \<exists>es A. quiet es \<and> holds A \<and> cls_init c m (xp_params x) s = (Inr (), ran m es (fresh (xp_params x) A s))"
    and prepares: "fits m x \<Longrightarrow> xp_prepare m s = (Inr (), t) \<Longrightarrow> live t \<Longrightarrow> ready_with holds there x t \<Longrightarrow>
      \<exists>es. NetStop \<notin> set es \<and> cls_prepare c m s = (Inr (), ran m es t)"
    and ends: "fits m x \<Longrightarrow> runs m (ready_with holds there x) (cls_run c m)"
    and cleans: "fits m x \<Longrightarrow> xp_clean m s = (Inr (), t) \<Longrightarrow> live t \<Longrightarrow> ready_with holds there x t \<Longrightarrow>
      \<exists>es. quiet es \<and> cls_clean c m s = (Inr (), ran m es t)"
begin

lemma whole:
  assumes good: "fits m x" and tool: "sysctl_ok m avail init" and s: "live s" "on_network x g ls b (fresh (xp_params x) [] s)"
    and ascii: "keys_ascii (sysctl_now (events s) init)" and p: "plain_paths (xp_params x)" and ls: "network_links_ok m g ls"
    and site: "there (place s)"
  shows "\<exists>w. py_bind (cls_init c m (xp_params x))
       (\<lambda>_. classic_run (cls_prepare c m) (cls_run c m) (cls_clean c m)) s = (Inr (), w) \<and> live w \<and>
     on_network x g ls b (fresh (xp_params x) [] w) \<and>
     (\<forall>k. managed avail k \<longrightarrow> sysctl_now (events w) init k = sysctl_now (events s) init k)"
proof -
  have m: "mininet_ok m" and complete: "complete (xp_params x)" using sane [OF good] by simp_all
  obtain e0 A where init: "quiet e0" "holds A" "cls_init c m (xp_params x) s = (Inr (), ran m e0 (fresh (xp_params x) A s))"
    using builds [OF good s(1) on_network_ready [OF s(2)]] by blast
  define s0 where "s0 = ran m e0 (fresh (xp_params x) A s)"
  have now0: "sysctl_now (events s0) init = sysctl_now (events s) init"
    using init(1) by (simp add: s0_def sysctl_now_append sysctl_now_quiet quiet_def)
  have live0: "live s0" unfolding s0_def using init(1) s(1) by (intro live_ran) (simp_all add: quiet_def)
  have net0: "on_network x g ls b s0"
    using s(2) [unfolded ready_fresh(2) [of _ _ _ _ _ "[]" _ A]] stable_on_network [of m x g ls b]
    unfolding s0_def stable_def by blast
  note ascii0 = ascii [folded now0]
  define t where "t = ran m (prepare_events m avail (xp_params x) g ls b) (with_saved avail (sysctl_now (events s0) init) s0)"
  note prep = prepare_ok [OF m tool live0 net0 ascii0 complete p ls, folded t_def]
  have ready: "ready_with holds there x t"
    using init(2) site on_network_ready [OF prep(3)] by (simp add: ready_with_def t_def s0_def) (simp add: with_saved_def)
  obtain e1 where e1: "NetStop \<notin> set e1" "cls_prepare c m s0 = (Inr (), ran m e1 t)"
    using prepares [OF good prep(1,2) ready] by blast
  have live1: "live (ran m e1 t)" by (rule live_ran [OF prep(2) e1(1)])
  have ready1: "ready_with holds there x (ran m e1 t)" by (rule ready_with_ran [OF ready])
  obtain e2 where e2: "cls_run c m (ran m e1 t) = (Inr (), ran m e2 (ran m e1 t))" "live (ran m e2 (ran m e1 t))"
    using runsE [OF ends [OF good] live1 ready1] by blast
  define u where "u = ran m e2 (ran m e1 t)"
  have ready2: "ready_with holds there x u" unfolding u_def by (rule ready_with_ran [OF ready1])
  have P: "xp_ready x u \<and> sysctl_saved avail (sysctl_now (events s0) init) u"
    using ready2 prep(4) by (simp add: u_def ready_with_def sysctl_saved_def xp_ready_def)
  let ?e3 = "clean_events avail (sysctl_now (events s0) init) (xp_params x)"
  note clean = does_clean [OF m complete, of avail "sysctl_now (events s0) init"]
  have live2: "live u" using e2(2) by (simp add: u_def)
  have live3: "live (ran m ?e3 u)" by (rule live_ran [OF live2 does_live [OF clean]])
  have ready3: "ready_with holds there x (ran m ?e3 u)" by (rule ready_with_ran [OF ready2])
  obtain e4 where e4: "quiet e4" "cls_clean c m u = (Inr (), ran m e4 (ran m ?e3 u))"
    using cleans [OF good doesD [OF clean live2 P] live3 ready3] by blast
  define w where "w = ran m e4 (ran m ?e3 u)"
  have "py_bind (cls_init c m (xp_params x)) (\<lambda>_. classic_run (cls_prepare c m) (cls_run c m) (cls_clean c m)) s = (Inr (), w)"
    using e1(2) e2(1) e4(2) by (simp add: py_bind_apply init(3) classic_run_def w_def u_def flip: s0_def)
  moreover have "live w" unfolding w_def using e4(1) by (intro live_ran [OF live3]) (simp add: quiet_def)
  moreover have "on_network x g ls b (fresh (xp_params x) [] w)"
    using net0 by (simp add: w_def u_def t_def with_saved_def fresh_def on_network_def xp_ready_def nodes_set_def
        client_interface_count_def xp_server_interface_count_def server_interface_count_def
        multi_client_server_interface_count_def cong: topo_class.case_cong)
  moreover have "sysctl_now (events w) init k = sysctl_now (events s) init k" if "managed avail k" for k
    using now_restored [OF that] e4(1)
    by (simp add: w_def sysctl_now_append now_clean sysctl_now_quiet quiet_def now0)
  ultimately show ?thesis by blast
qed

end

text \<open>The usual case: some parameters, which are strings, become attributes, and any topology will do.\<close>

locale session =
  fixes c :: "'a xp_scheme xp_class" and keys names :: "string list"
  assumes builds: "good m x keys \<Longrightarrow> live s \<Longrightarrow> xp_ready x (fresh (xp_params x) [] s) \<Longrightarrow>
      \<exists>es A. quiet es \<and> has_attrs names A \<and> cls_init c m (xp_params x) s = (Inr (), ran m es (fresh (xp_params x) A s))"
    and prepares: "good m x keys \<Longrightarrow> xp_prepare m s = (Inr (), t) \<Longrightarrow> live t \<Longrightarrow> loaded x names t \<Longrightarrow>
      \<exists>es. NetStop \<notin> set es \<and> cls_prepare c m s = (Inr (), ran m es t)"
    and ends: "good m x keys \<Longrightarrow> runs m (loaded x names) (cls_run c m)"
    and cleans: "good m x keys \<Longrightarrow> xp_clean m s = (Inr (), t) \<Longrightarrow> live t \<Longrightarrow> loaded x names t \<Longrightarrow>
      \<exists>es. quiet es \<and> cls_clean c m s = (Inr (), ran m es t)"
begin

lemma is_contract: "contract c (\<lambda>m x. good m x keys) (has_attrs names) (\<lambda>_. True)"
proof (rule contract.intro, unfold loaded_ready_with [symmetric])
  show "mininet_ok m \<and> complete (xp_params x)" if "good m x keys" for m x using that by (simp add: good_def)
qed (rule builds prepares ends cleans; assumption)+

end

sublocale session \<subseteq> general: contract c "\<lambda>m x. good m x keys" "has_attrs names" "\<lambda>_. True"
  by (rule is_contract)

end
