(* ===== verification/Working.thy ===== *)
theory Working
  imports Sessions
begin

text \<open>The classes of the registry that satisfy the contract of \<open>session\<close>.\<close>

section \<open>Building the object\<close>

lemma experiment_init_fresh: "experiment_init p s = (Inr (), fresh p [] s)"
  by (simp add: experiment_init_def fresh_def)

lemma load_ok:
  assumes "\<forall>k \<in> set (map snd kvs). \<exists>t. get_param p k = Inr (PStr t)" "has_attrs as A"
  shows "\<exists>B. for_each kvs load_attr (fresh p A s) = (Inr (), fresh p B s) \<and> has_attrs (as @ map fst kvs) B"
  using assms
proof (induction kvs arbitrary: A as)
  case (Cons kv kvs)
  obtain t where t: "get_param p (snd kv) = Inr (PStr t)" using Cons.prems(1) by auto
  have step: "load_attr kv (fresh p A s) = (Inr (), fresh p (dict_set (fst kv) (PStr t) A) s)"
    by (simp add: load_attr_def xp_get_def py_bind_apply t) (simp add: fresh_def)
  have "has_attrs (as @ [fst kv]) (dict_set (fst kv) (PStr t) A)"
    using Cons.prems(2) by (auto simp: has_attrs_def)
  from Cons.IH [OF _ this] Cons.prems(1) show ?case
    by (auto simp: py_bind_apply step)
qed auto

text \<open>Loading in two steps, as the classes with a file do.\<close>

lemma load_two_ok:
  assumes "\<forall>k \<in> set (map snd (kvs @ lvs)). \<exists>t. get_param p k = Inr (PStr t)"
  shows "\<exists>B. block [for_each kvs load_attr, for_each lvs load_attr] (fresh p [] s) = (Inr (), fresh p B s) \<and>
     has_attrs (map fst kvs @ map fst lvs) B"
proof -
  obtain B where B: "for_each kvs load_attr (fresh p [] s) = (Inr (), fresh p B s)" "has_attrs (map fst kvs) B"
    using load_ok [of kvs p "[]" "[]" s] assms by (auto simp: has_attrs_def)
  from load_ok [OF _ B(2), of lvs p s] assms show ?thesis by (auto simp: py_bind_apply B(1))
qed

definition pings :: "mininet \<Rightarrow> xp_plan \<Rightarrow> ('a xp_scheme, unit) py \<Rightarrow> bool" where
  "pings m x f \<longleftrightarrow> (\<exists>es. quiet es \<and> does m (xp_ready x) es f)"

lemma quiet_ping: "event_assign (NodeCmd n (ping_command a b v)) = None" "event_assign (NodeCmd n (CHR ''r'' # c)) = None"
  by (simp_all add: event_assign_def sysctl_assign_def starts_with_def ping_command_def)

lemma good_ping:
  assumes "good m x keys"
  shows "mininet_ok m" "get_param (xp_params x) ''pingCount'' = Inr (param_val (xp_params x) ''pingCount'')"
  using assms param_val_ok default_keys by (auto simp: good_def)

lemma pings_ping: "good m x keys \<Longrightarrow> pings m x (ping m)"
  unfolding pings_def
  by (intro exI [of _ "ping_events x (param_val (xp_params x) ''pingCount'')"] conjI does_ping good_ping)
     (auto simp: quiet_def ping_events_def quiet_ping)

lemma pings_first:
  fixes x :: xp_plan
  assumes "good m x keys"
  shows "pings m x (ping_first_server m :: ('a xp_scheme, unit) py)"
proof -
  let ?c = "param_val (xp_params x) ''pingCount''"
  let ?e = "\<lambda>i. NodeCmd Client (ping_command (ip_text (xp_left x) i ''.1'') (ip_text (xp_right x) 0 ''.1'') ?c)"
  have row: "does m (xp_ready x :: 'a xp_scheme \<Rightarrow> bool) (concat (map (\<lambda>i. [?e i]) [0..<xp_nc x]))
      (for_each [0..<xp_nc x] (ping_pair m ?c 0))"
    by (rule does_for_each [OF stable_ready does_ping_pair [OF good_ping(1) [OF assms]]])
  have "does m (xp_ready x :: 'a xp_scheme \<Rightarrow> bool) ([NodeCmd Client (''rm '' @ PING_OUTPUT)] @ concat (map (\<lambda>i. [?e i]) [0..<xp_nc x]) @ [])
      (ping_first_server m)"
    unfolding ping_first_server_def to_client_def
    by (rule does_block_Cons [OF stable_ready tell_client [OF good_ping(1) [OF assms]]],
        rule does_block_Cons [OF stable_ready _ does_block_Nil], rule ready_get [OF good_ping(2) [OF assms]],
        rule does_bind_get [where x = "xp_nc x"], simp add: xp_ready_def, rule row)
  moreover have "quiet ([NodeCmd Client (''rm '' @ PING_OUTPUT)] @ concat (map (\<lambda>i. [?e i]) [0..<xp_nc x]) @ [])"
    by (auto simp: quiet_def quiet_ping)
  ultimately show ?thesis unfolding pings_def by blast
qed

lemma builds_ok:
  fixes s :: "'a xp_scheme"
  assumes load: "\<exists>B. load (fresh (xp_params x) [] s) = (Inr (), fresh (xp_params x) B s) \<and> holds B"
    and pings: "pings m x f" and s: "live s" "xp_ready x (fresh (xp_params x) [] s)"
  shows "\<exists>es A. quiet es \<and> holds A \<and>
     block [experiment_init (xp_params x), load, f] s = (Inr (), ran m es (fresh (xp_params x) A s))"
proof -
  obtain B where B: "load (fresh (xp_params x) [] s) = (Inr (), fresh (xp_params x) B s)" "holds B"
    using load by blast
  obtain es where es: "quiet es" "does m (xp_ready x) es f" using pings by (auto simp: pings_def)
  have "f (fresh (xp_params x) B s) = (Inr (), ran m es (fresh (xp_params x) B s))"
    by (rule doesD [OF es(2)]) (use s ready_fresh(1) [of x _ B s "[]"] in simp_all)
  with B es(1) show ?thesis by (auto simp: py_bind_apply experiment_init_fresh)
qed

section \<open>Preparing, running, cleaning\<close>

lemma block_block: "block (block fs # gs) = block (fs @ gs)"
proof (induction fs)
  case Nil
  show ?case by (rule ext) (simp add: py_bind_apply)
qed (simp add: bind_assoc)

lemma prepares_ok:
  assumes "xp_prepare m s = (Inr (), t)" "live t" "loaded x names t" "runs m (loaded x names) (block cs)"
  shows "\<exists>es. NetStop \<notin> set es \<and> block (xp_prepare m # cs) s = (Inr (), ran m es t)"
  using assms by (simp add: runs_def py_bind_apply)

definition gives :: "xp_plan \<Rightarrow> string list \<Rightarrow> ('a xp_scheme, string) py \<Rightarrow> bool" where
  "gives x as cmd \<longleftrightarrow> (\<forall>s. loaded x as s \<longrightarrow> (\<exists>c. cmd s = (Inr c, s)))"

lemma runs_tell_cmd:
  fixes cmd :: "('a xp_scheme, string) py"
  assumes m: "mininet_ok m" and "who \<in> {cfg_client, cfg_server, cfg_router}"
    and cmd: "gives x as cmd"
  shows "runs m (loaded x as) (xp_tell m who cmd)"
proof -
  have who: "\<exists>n. who s = Some (Node n)" if "loaded x as s" for s
    using assms(2) readyD [OF loaded_ready [OF that]] by auto
  show ?thesis
    unfolding xp_tell_def
  proof (rule runs_bind [where Q = "\<lambda>h. \<exists>n. h = Node n"])
    fix h assume "\<exists>n. h = Node n"
    then obtain n where h: "h = Node n" by blast
    show "runs m (loaded x as) (py_bind cmd (run_on m h))"
      by (rule runs_bind [where Q = "\<lambda>_. True"]) (use cmd in \<open>auto simp: h gives_def intro: runs_does does_command [OF m]\<close>)
  qed (use who in \<open>fastforce simp: py_attr_def py_bind_apply\<close>)
qed

lemma gives_rules:
  "gives x as (py_return c)"
  "a \<in> set as \<Longrightarrow> (\<And>t. gives x as (k t)) \<Longrightarrow> gives x as (cat_attr a k)"
  "a \<in> set as \<Longrightarrow> (\<And>t. gives x as (k t)) \<Longrightarrow> gives x as (fmt_attr a k)"
  "a \<in> set as \<Longrightarrow> (\<And>t. gives x as (f t)) \<Longrightarrow> gives x as (py_bind (xp_attr a) f)"
  using attr_string unfolding gives_def
  by (fastforce simp: cat_attr_def fmt_attr_def pval_text_def py_bind_apply)+

abbreviation make_random :: "mininet \<Rightarrow> ('a xp_scheme, unit) py" where
  "make_random m \<equiv> py_bind (xp_attr ''file'') (\<lambda>f. py_when (f = PStr ''random'')
     (xp_tell m cfg_client (py_bind (xp_attr ''random_size'') (\<lambda>n.
       py_return (''dd if=/dev/urandom of=random bs=1K count='' @ str_pval n)))))"

lemma random_prepare_block: "block (random_file_prepare m # fs) = block (xp_prepare m # make_random m # fs)"
  unfolding random_file_prepare_def block_block by simp

lemma runs_random_prepare:
  assumes "mininet_ok m" "''file'' \<in> set as" "''random_size'' \<in> set as"
  shows "runs m (loaded x as) (make_random m)"
  by (rule runs_attr [OF assms(2)], rule runs_when, rule runs_tell_cmd [OF assms(1)], simp, rule gives_rules(4) [OF assms(3)],
      rule gives_rules(1))

lemma random_cleans_ok:
  assumes m: "mininet_ok m" and "xp_clean m s = (Inr (), t)" "live t" "loaded x as t" "''file'' \<in> set as"
  shows "\<exists>es. quiet es \<and> random_file_clean m s = (Inr (), ran m es t)"
proof -
  obtain v where v: "xp_attr ''file'' t = (Inr (PStr v), t)" using attr_string [OF assms(5,4)] by blast
  show ?thesis
  proof (cases "v = ''random''")
    case True
    have "xp_tell m cfg_client (py_return ''rm random*'') t = (Inr (), ran m [NodeCmd Client ''rm random*''] t)"
      by (rule doesD [OF tell_client [OF m] assms(3) loaded_ready [OF assms(4)]])
    then show ?thesis using quiet_ping(2) [of Client "''m random*''"] True
      by (intro exI [of _ "[NodeCmd Client ''rm random*'']"]) (simp add: random_file_clean_def py_bind_apply assms(2) v quiet_def)
  next
    case False
    then show ?thesis
      by (intro exI [of _ "[]"]) (simp add: random_file_clean_def py_bind_apply assms(2) v quiet_def py_when_def)
  qed
qed

lemma clean_ok: "xp_clean m s = (Inr (), t) \<Longrightarrow> \<exists>es. quiet es \<and> xp_clean m s = (Inr (), ran m es t)"
  by (intro exI [of _ "[]"]) (simp add: quiet_def)

lemmas runs_script = runs_block_Cons [OF stable_loaded] runs_block_Nil runs_to runs_server_ip runs_fmt_attr runs_cat_attr


section \<open>The classes\<close>

lemma good_keys: "good m x (map snd kvs) \<Longrightarrow> \<forall>k \<in> set (map snd kvs). \<exists>t. get_param (xp_params x) k = Inr (PStr t)"
  by (simp add: good_def)

lemma load_from_good:
  assumes "good m x (map snd kvs)"
  shows "\<exists>B. for_each kvs load_attr (fresh (xp_params x) [] s) = (Inr (), fresh (xp_params x) B s) \<and> has_attrs (map fst kvs) B"
  using load_ok [OF good_keys [OF assms], of "[]" "[]" s] by (simp add: has_attrs_def)

text \<open>A class on \<open>Experiment\<close>: its own steps follow \<open>prepare\<close>, \<open>clean\<close> is the one of the base class.\<close>

lemma plain_session:
  fixes c :: "'a xp_scheme xp_class"
  assumes init: "\<And>m p. cls_init c m p = block [experiment_init p, for_each kvs load_attr, f m]"
    and f: "\<And>m x. good m x (map snd kvs) \<Longrightarrow> pings m x (f m)"
    and prep: "\<And>m. cls_prepare c m = block (xp_prepare m # cs m)"
    and cs: "\<And>m x. good m x (map snd kvs) \<Longrightarrow> runs m (loaded x (map fst kvs)) (block (cs m))"
    and run: "\<And>m x. good m x (map snd kvs) \<Longrightarrow> runs m (loaded x (map fst kvs)) (cls_run c m)"
    and clean: "\<And>m. cls_clean c m = xp_clean m"
  shows "session c (map snd kvs) (map fst kvs)"
proof
  fix m x and s t :: "'a xp_scheme"
  assume good: "good m x (map snd kvs)"
  note m = good_ping(1) [OF good]
  show "\<exists>es A. quiet es \<and> has_attrs (map fst kvs) A \<and> cls_init c m (xp_params x) s = (Inr (), ran m es (fresh (xp_params x) A s))"
    if "live s" "xp_ready x (fresh (xp_params x) [] s)"
    unfolding init by (rule builds_ok, rule load_from_good [OF good], rule f [OF good], rule that(1), rule that(2))
  show "\<exists>es. NetStop \<notin> set es \<and> cls_prepare c m s = (Inr (), ran m es t)"
    if "xp_prepare m s = (Inr (), t)" "live t" "loaded x (map fst kvs) t"
    unfolding prep by (rule prepares_ok [OF that cs [OF good]])
  show "runs m (loaded x (map fst kvs)) (cls_run c m)" by (rule run [OF good])
  show "\<exists>es. quiet es \<and> cls_clean c m s = (Inr (), ran m es t)" if "xp_clean m s = (Inr (), t)"
    unfolding clean by (rule clean_ok [OF that])
qed

text \<open>A class on \<open>RandomFileExperiment\<close>.\<close>

abbreviation file_kvs :: "(string \<times> string) list" where
  "file_kvs \<equiv> [(''file'', ''file''), (''random_size'', ''file_size'')]"

lemma file_session:
  fixes c :: "'a xp_scheme xp_class"
  assumes init: "\<And>m p. cls_init c m p = block [experiment_init p, block [for_each file_kvs load_attr, for_each kvs load_attr], f m]"
    and f: "\<And>m x. good m x (map snd (file_kvs @ kvs)) \<Longrightarrow> pings m x (f m)"
    and prep: "\<And>m. cls_prepare c m = block (random_file_prepare m # cs m)"
    and cs: "\<And>m x. good m x (map snd (file_kvs @ kvs)) \<Longrightarrow> runs m (loaded x (map fst (file_kvs @ kvs))) (block (cs m))"
    and run: "\<And>m x. good m x (map snd (file_kvs @ kvs)) \<Longrightarrow> runs m (loaded x (map fst (file_kvs @ kvs))) (cls_run c m)"
    and clean: "\<And>m. cls_clean c m = random_file_clean m"
  shows "session c (map snd (file_kvs @ kvs)) (map fst (file_kvs @ kvs))"
proof
  fix m x and s t :: "'a xp_scheme"
  let ?names = "map fst (file_kvs @ kvs)"
  assume good: "good m x (map snd (file_kvs @ kvs))"
  note m = good_ping(1) [OF good]
  have load: "\<exists>B. block [for_each file_kvs load_attr, for_each kvs load_attr] (fresh (xp_params x) [] s) =
      (Inr (), fresh (xp_params x) B s) \<and> has_attrs ?names B"
    using load_two_ok [OF good_keys [OF good], of s] by (simp only: map_append)
  show "\<exists>es A. quiet es \<and> has_attrs ?names A \<and> cls_init c m (xp_params x) s = (Inr (), ran m es (fresh (xp_params x) A s))"
    if "live s" "xp_ready x (fresh (xp_params x) [] s)"
    unfolding init by (rule builds_ok, rule load, rule f [OF good], rule that(1), rule that(2))
  show "\<exists>es. NetStop \<notin> set es \<and> cls_prepare c m s = (Inr (), ran m es t)"
    if t: "xp_prepare m s = (Inr (), t)" "live t" "loaded x ?names t"
    unfolding prep random_prepare_block
    by (rule prepares_ok [OF t], rule runs_block_Cons [OF stable_loaded], rule runs_random_prepare [OF m], simp, simp,
        rule cs [OF good])
  show "runs m (loaded x ?names) (cls_run c m)" by (rule run [OF good])
  show "\<exists>es. quiet es \<and> cls_clean c m s = (Inr (), ran m es t)"
    if t: "xp_clean m s = (Inr (), t)" "live t" "loaded x ?names t"
    unfolding clean by (rule random_cleans_ok [OF m t]) simp
qed

text \<open>The scripts.\<close>

lemma bind_unless: "py_bind (unless_zero a f g) k = unless_zero a (py_bind f k) (py_bind g k)"
  by (simp add: unless_zero_def bind_assoc if_distrib [of "\<lambda>f. py_bind f k"] cong: if_cong)

lemma runs_unless:
  "a \<in> set as \<Longrightarrow> runs m (loaded x as) f \<Longrightarrow> runs m (loaded x as) g \<Longrightarrow> runs m (loaded x as) (unless_zero a f g)"
  unfolding unless_zero_def by (rule runs_attr) simp_all

lemmas script_simps = bind_attr bind_return bind_unless bind_assoc

lemma bind_unit: "py_bind f py_return = f"
proof (rule ext)
  show "py_bind f py_return s = f s" for s
    by (cases "f s"; cases "fst (f s)") (auto simp: py_bind_apply)
qed

lemma runs_pings:
  assumes "pings m x f"
  shows "runs m (loaded x as) f"
proof -
  obtain es where "does m (xp_ready x) es f" using assms by (auto simp: pings_def)
  then show ?thesis by (rule runs_does [OF does_weaken [OF _ loaded_ready]])
qed

lemma block_single: "block [f] = f"
  by (simp add: bind_unit)

interpretation ping: session ping_class "[]" "[]"
proof (rule plain_session [where kvs = "[]" and f = "\<lambda>m. py_return ()" and cs = "\<lambda>m. []", simplified list.map])
  show "pings m x (py_return ())" if "good m x []" for m x
    unfolding pings_def by (intro exI [of _ "[]"]) (simp add: quiet_def does_return)
  show "runs m (loaded x []) (cls_run ping_class m)" if "good m x []" for m x
    unfolding ping_class_def xp_class.simps ping_run_def by (rule runs_pings [OF pings_first [OF that]])
qed (simp_all add: ping_class_def block_single bind_unit runs_block_Nil [simplified])

lemma block_Nil2: "block [f, py_return ()] = f"
  by (simp add: bind_unit)

interpretation iperf: session "iperf_class" "map snd [(''time'', ''iperfTime''), (''parallel'', ''iperfParallel'')]"
  "map fst [(''time'', ''iperfTime''), (''parallel'', ''iperfParallel'')]"
proof (rule plain_session)
  show "cls_init (iperf_class) m p = block [experiment_init p, for_each [(''time'', ''iperfTime''), (''parallel'', ''iperfParallel'')] load_attr, ping m]" for m p
    by (simp only: iperf_class_def xp_class.simps iperf_init_def iperf_load_def)
  show "cls_prepare (iperf_class) m = block (xp_prepare m # [to_client m ''rm iperf.log'', to_server m ''rm server.log''])" for m
    by (simp only: iperf_class_def xp_class.simps iperf_prepare_def)
qed (simp_all only: iperf_class_def xp_class.simps iperf_run_def iperf_client_cmd_def script_simps pings_ping,
     (rule runs_script runs_unless | erule good_ping(1) | simp)+)

interpretation netperf: session "netperf_class" "map snd [(''testlen'', ''netperfTestlen''), (''testname'', ''netperfTestname''), (''reqres_size'', ''netperfReqresSize'')]"
  "map fst [(''testlen'', ''netperfTestlen''), (''testname'', ''netperfTestname''), (''reqres_size'', ''netperfReqresSize'')]"
proof (rule plain_session)
  show "cls_init (netperf_class) m p = block [experiment_init p, for_each [(''testlen'', ''netperfTestlen''), (''testname'', ''netperfTestname''), (''reqres_size'', ''netperfReqresSize'')] load_attr, ping_first_server m]" for m p
    by (simp only: netperf_class_def xp_class.simps netperf_init_def netperf_load_def netperf_ping_def)
  show "cls_prepare (netperf_class) m = block (xp_prepare m # [to_client m ''rm netperf.log'', to_server m ''rm netserver.log''])" for m
    by (simp only: netperf_class_def xp_class.simps netperf_prepare_def)
qed (simp_all only: netperf_class_def xp_class.simps netperf_run_def netperf_client_cmd_def script_simps pings_first,
     (rule runs_script runs_unless | erule good_ping(1) | simp)+)

interpretation ditg: session "ditg_class" "map snd [(''kbytes'', ''ditgKBytes''), (''constant_packet_size'', ''ditgConstantPacketSize''), (''mean_poisson_packets_sec'', ''ditgMeanPoissonPacketsSec''), (''constant_packets_sec'', ''ditgConstantPacketsSec''), (''bursts_on_packets_sec'', ''ditgBurstsOnPacketsSec''), (''bursts_off_packets_sec'', ''ditgBurstsOffPacketsSec'')]"
  "map fst [(''kbytes'', ''ditgKBytes''), (''constant_packet_size'', ''ditgConstantPacketSize''), (''mean_poisson_packets_sec'', ''ditgMeanPoissonPacketsSec''), (''constant_packets_sec'', ''ditgConstantPacketsSec''), (''bursts_on_packets_sec'', ''ditgBurstsOnPacketsSec''), (''bursts_off_packets_sec'', ''ditgBurstsOffPacketsSec'')]"
proof (rule plain_session)
  show "cls_init (ditg_class) m p = block [experiment_init p, for_each [(''kbytes'', ''ditgKBytes''), (''constant_packet_size'', ''ditgConstantPacketSize''), (''mean_poisson_packets_sec'', ''ditgMeanPoissonPacketsSec''), (''constant_packets_sec'', ''ditgConstantPacketsSec''), (''bursts_on_packets_sec'', ''ditgBurstsOnPacketsSec''), (''bursts_off_packets_sec'', ''ditgBurstsOffPacketsSec'')] load_attr, ping m]" for m p
    by (simp only: ditg_class_def xp_class.simps ditg_init_def ditg_load_def)
  show "cls_prepare (ditg_class) m = block (xp_prepare m # [to_client m ''rm ditg.log'', to_server m ''rm ditg_server.log'', to_client m ''rm snd_log_file''])" for m
    by (simp only: ditg_class_def xp_class.simps ditg_prepare_def)
qed (simp_all only: ditg_class_def xp_class.simps ditg_run_def ditg_client_cmd_def ditg_profile_def script_simps pings_ping,
     (rule runs_script runs_unless | erule good_ping(1) | simp)+)

interpretation msg: session "msg_class h" "map snd [(''client_sleep'', ''msgClientSleep''), (''server_sleep'', ''msgServerSleep''), (''nb_requests'', ''msgNbRequests''), (''bytes'', ''msgBytes'')]"
  "map fst [(''client_sleep'', ''msgClientSleep''), (''server_sleep'', ''msgServerSleep''), (''nb_requests'', ''msgNbRequests''), (''bytes'', ''msgBytes'')]"
proof (rule plain_session)
  show "cls_init (msg_class h) m p = block [experiment_init p, for_each [(''client_sleep'', ''msgClientSleep''), (''server_sleep'', ''msgServerSleep''), (''nb_requests'', ''msgNbRequests''), (''bytes'', ''msgBytes'')] load_attr, ping m]" for m p
    by (simp only: msg_class_def xp_class.simps msg_init_def msg_load_def)
  show "cls_prepare (msg_class h) m = block (xp_prepare m # [to_client m ''rm msg_client.log'', to_server m ''rm msg_server.log''])" for m
    by (simp only: msg_class_def xp_class.simps msg_prepare_def)
qed (simp_all only: msg_class_def xp_class.simps msg_run_def msg_client_cmd_def msg_server_cmd_def script_simps pings_ping,
     (rule runs_script runs_unless | erule good_ping(1) | simp)+)

interpretation siri: session "siri_class h" "map snd [(''run_time'', ''siriRunTime''), (''query_size'', ''siriQuerySize''), (''response_size'', ''siriResponseSize''), (''delay_query_response'', ''siriDelayQueryResponse''), (''min_payload_size'', ''siriMinPayloadSize''), (''max_payload_size'', ''siriMaxPayloadSize''), (''interval_time_ms'', ''siriIntervalTimeMs''), (''buffer_size'', ''siriBufferSize''), (''burst_size'', ''siriBurstSize''), (''interval_burst_time_ms'', ''siriIntervalBurstTimeMs'')]"
  "map fst [(''run_time'', ''siriRunTime''), (''query_size'', ''siriQuerySize''), (''response_size'', ''siriResponseSize''), (''delay_query_response'', ''siriDelayQueryResponse''), (''min_payload_size'', ''siriMinPayloadSize''), (''max_payload_size'', ''siriMaxPayloadSize''), (''interval_time_ms'', ''siriIntervalTimeMs''), (''buffer_size'', ''siriBufferSize''), (''burst_size'', ''siriBurstSize''), (''interval_burst_time_ms'', ''siriIntervalBurstTimeMs'')]"
proof (rule plain_session)
  show "cls_init (siri_class h) m p = block [experiment_init p, for_each [(''run_time'', ''siriRunTime''), (''query_size'', ''siriQuerySize''), (''response_size'', ''siriResponseSize''), (''delay_query_response'', ''siriDelayQueryResponse''), (''min_payload_size'', ''siriMinPayloadSize''), (''max_payload_size'', ''siriMaxPayloadSize''), (''interval_time_ms'', ''siriIntervalTimeMs''), (''buffer_size'', ''siriBufferSize''), (''burst_size'', ''siriBurstSize''), (''interval_burst_time_ms'', ''siriIntervalBurstTimeMs'')] load_attr, ping_first_server m]" for m p
    by (simp only: siri_class_def xp_class.simps siri_init_def siri_load_def siri_ping_def)
  show "cls_prepare (siri_class h) m = block (xp_prepare m # [to_client m ''rm siri_client.log'', to_server m ''rm siri_server.log''])" for m
    by (simp only: siri_class_def xp_class.simps siri_prepare_def)
qed (simp_all only: siri_class_def xp_class.simps siri_run_def siri_client_cmd_def script_simps pings_first,
     (rule runs_script runs_unless | erule good_ping(1) | simp)+)

interpretation ab: session "ab_class h" "map snd (file_kvs @ [(''concurrent_requests'', ''abConccurentRequests''), (''time_limit'', ''abTimelimit'')])"
  "map fst (file_kvs @ [(''concurrent_requests'', ''abConccurentRequests''), (''time_limit'', ''abTimelimit'')])"
proof (rule file_session)
  show "cls_init (ab_class h) m p = block [experiment_init p, block [for_each file_kvs load_attr, for_each [(''concurrent_requests'', ''abConccurentRequests''), (''time_limit'', ''abTimelimit'')] load_attr], ping m]" for m p
    by (simp only: ab_class_def xp_class.simps random_file_init_def random_file_load_parameters_def ab_init_def ab_load_def)
  show "cls_prepare (ab_class h) m = block (random_file_prepare m # [to_client m ''rm ab_client.log'', to_server m ''rm ab_server.log''])" for m
    by (simp only: ab_class_def xp_class.simps ab_prepare_def)
qed (simp_all only: ab_class_def xp_class.simps ab_run_def ab_client_cmd_def script_simps pings_ping,
     (rule runs_script runs_unless | erule good_ping(1) | simp)+)

interpretation http: session "http_class" "map snd (file_kvs @ [])"
  "map fst (file_kvs @ [])"
proof (rule file_session)
  show "cls_init (http_class) m p = block [experiment_init p, block [for_each file_kvs load_attr, for_each [] load_attr], ping m]" for m p
    by (simp only: http_class_def xp_class.simps random_file_init_def random_file_load_parameters_def http_init_def for_each.simps block_Nil2)
  show "cls_prepare (http_class) m = block (random_file_prepare m # [to_client m ''rm http_client.log'', to_server m ''rm http_server.log''])" for m
    by (simp only: http_class_def xp_class.simps http_prepare_def)
qed (simp_all only: http_class_def xp_class.simps http_run_def http_client_cmd_def script_simps pings_ping,
     (rule runs_script runs_unless | erule good_ping(1) | simp)+)

interpretation https: session "https_class h" "map snd (file_kvs @ [])"
  "map fst (file_kvs @ [])"
proof (rule file_session)
  show "cls_init (https_class h) m p = block [experiment_init p, block [for_each file_kvs load_attr, for_each [] load_attr], ping m]" for m p
    by (simp only: https_class_def xp_class.simps random_file_init_def random_file_load_parameters_def https_init_def for_each.simps block_Nil2)
  show "cls_prepare (https_class h) m = block (random_file_prepare m # [to_client m ''rm https_client.log'', to_server m ''rm https_server.log''])" for m
    by (simp only: https_class_def xp_class.simps https_prepare_def)
qed (simp_all only: https_class_def xp_class.simps https_run_def https_client_cmd_def script_simps pings_ping,
     (rule runs_script runs_unless | erule good_ping(1) | simp)+)

interpretation sendfile: session "sendfile_class" "map snd (file_kvs @ [])"
  "map fst (file_kvs @ [])"
proof (rule file_session)
  show "cls_init (sendfile_class) m p = block [experiment_init p, block [for_each file_kvs load_attr, for_each [] load_attr], ping_first_server m]" for m p
    by (simp only: sendfile_class_def xp_class.simps random_file_init_def random_file_load_parameters_def sendfile_init_def sendfile_ping_def for_each.simps block_Nil2)
  show "cls_prepare (sendfile_class) m = block (random_file_prepare m # [to_client m ''rm sendfile_client.log'', to_server m ''rm sendfile_server.log''])" for m
    by (simp only: sendfile_class_def xp_class.simps sendfile_prepare_def)
qed (simp_all only: sendfile_class_def xp_class.simps sendfile_run_def sendfile_client_cmd_def script_simps pings_first,
     (rule runs_script runs_unless | erule good_ping(1) | simp)+)


interpretation quiche: session quiche_class
  "map snd (file_kvs @ [(''port'', ''quicPort''), (''cert_path'', ''quicCertPath''), (''no_verify'', ''quicNoVerify'')])"
  "map fst (file_kvs @ [(''port'', ''quicPort''), (''cert_path'', ''quicCertPath''), (''no_verify'', ''quicNoVerify'')])"
proof (rule file_session)
  show "cls_init quiche_class m p = block [experiment_init p, block [for_each file_kvs load_attr,
      for_each [(''port'', ''quicPort''), (''cert_path'', ''quicCertPath''), (''no_verify'', ''quicNoVerify'')] load_attr], ping m]" for m p
    by (simp only: quiche_class_def xp_class.simps random_file_init_def random_file_load_parameters_def quiche_init_def quiche_load_def)
  show "cls_prepare quiche_class m = block (random_file_prepare m #
      [to_server m ''rm -f /tmp/quic_server.log'', to_client m ''rm -f /tmp/quic_client.log'',
       to_server m ''echo hello quiche > /tmp/test.txt'',
       xp_tell m cfg_server (cat_attr ''cert_path'' (\<lambda>c.
         py_return (''mkdir -p /tmp/certs && cp -f '' @ path_join c ''*'' @ '' /tmp/certs/ || true'')))])" for m
    by (simp only: quiche_class_def xp_class.simps quiche_prepare_def)
qed (simp_all only: quiche_class_def xp_class.simps quiche_run_def quiche_server_cmd_def quiche_client_cmd_def pings_ping,
     (rule runs_script runs_tell_cmd gives_rules | erule good_ping(1) | simp)+)

text \<open>A statement that may raise, but only runs commands before it does; catching the exception makes it one that ends.\<close>

definition tries :: "mininet \<Rightarrow> ('a topo_scheme \<Rightarrow> bool) \<Rightarrow> ('a topo_scheme, unit) py \<Rightarrow> bool" where
  "tries m P f \<longleftrightarrow> (\<forall>s. live s \<longrightarrow> P s \<longrightarrow> (\<exists>r es. NetStop \<notin> set es \<and> f s = (r, ran m es s)))"

lemma runs_swallow: "tries m P f \<Longrightarrow> runs m P (py_swallow f)"
  unfolding tries_def runs_def py_swallow_def by (metis snd_conv)

lemma tries_runs: "runs m P f \<Longrightarrow> tries m P f"
  unfolding tries_def runs_def by metis

lemma tries_bind:
  assumes "\<And>s. snd (f s) = s" "\<And>v. tries m P (k v)"
  shows "tries m P (py_bind f k)"
  unfolding tries_def
proof (intro allI impI)
  fix s assume s: "live s" "P s"
  obtain r where r: "f s = (r, s)" using assms(1) [of s] by (metis prod.collapse)
  show "\<exists>r es. NetStop \<notin> set es \<and> py_bind f k s = (r, ran m es s)"
  proof (cases r)
    case (Inl e)
    then show ?thesis by (intro exI [of _ "Inl e"] exI [of _ "[]"]) (simp add: py_bind_apply r)
  next
    case (Inr v)
    then show ?thesis using assms(2) [of v] s by (simp add: tries_def py_bind_apply r)
  qed
qed

lemma tries_get:
  "(\<And>t. tries m P (k t)) \<Longrightarrow> tries m P (fmt_get key k)"
  "(\<And>t. tries m P (k t)) \<Longrightarrow> tries m P (int_get key k)" for k :: "string \<Rightarrow> ('a xp_scheme, unit) py"
proof -
  have get: "snd (xp_get key s) = s" for s :: "'a xp_scheme" by (simp add: xp_get_def py_bind_apply split: sum.split)
  have lift: "snd (py_lift r s) = s" for r and s :: "'a xp_scheme" by (simp split: sum.split)
  show "tries m P (fmt_get key k)" if "\<And>t. tries m P (k t)"
    unfolding fmt_get_def by (rule tries_bind, rule get, rule that)
  show "tries m P (int_get key k)" if "\<And>t. tries m P (k t)"
    unfolding int_get_def by (rule tries_bind, rule get, rule tries_bind, rule lift, rule that)
qed

lemma runs_get_cli: "runs m P builder_get_cli"
  unfolding runs_def
proof (intro allI impI)
  fix s
  show "\<exists>es. NetStop \<notin> set es \<and> builder_get_cli s = (Inr (), ran m es s)"
    by (rule exI [of _ "if net s = None then [] else [OpenCli]"])
       (simp add: builder_get_cli_def py_bind_apply py_when_def emit_def ran_def)
qed

interpretation none: session none_class "[]" "[]"
proof (rule plain_session [where kvs = "[]" and f = "\<lambda>m. py_return ()" and cs = "\<lambda>m. []", simplified list.map])
  show "pings m x (py_return ())" if "good m x []" for m x
    unfolding pings_def by (intro exI [of _ "[]"]) (simp add: quiet_def does_return)
  show "runs m (loaded x []) (cls_run none_class m)" if "good m x []" for m x
    unfolding none_class_def xp_class.simps by (rule runs_get_cli)
qed (simp_all add: none_class_def block_single bind_unit runs_block_Nil [simplified])

text \<open>\<open>quic_mpath\<close> needs no parameter of its own: what is missing raises, and \<open>run\<close> catches it.\<close>

interpretation mpath: session quic_mpath_class "[]" "[]"
proof (rule plain_session [where kvs = "[]" and f = "\<lambda>m. py_return ()" and cs = "\<lambda>m. []", simplified list.map])
  show "pings m x (py_return ())" if "good m x []" for m x
    unfolding pings_def by (intro exI [of _ "[]"]) (simp add: quiet_def does_return)
  show "runs m (loaded x []) (cls_run quic_mpath_class m)" if "good m x []" for m x
  proof -
    have "runs m (loaded x []) (quic_mpath_script m v)" for v
      unfolding quic_mpath_script_def by (rule runs_script good_ping(1) [OF that])+
    then show ?thesis
      unfolding quic_mpath_class_def xp_class.simps quic_mpath_run_def
      by (intro runs_swallow tries_get tries_bind tries_runs) (simp_all add: xp_get_def py_bind_apply split: sum.split)
  qed
qed (simp_all add: quic_mpath_class_def block_single bind_unit runs_block_Nil [simplified])

end
