(* ===== verification/WorkingMore.thy ===== *)
theory WorkingMore
  imports Working
begin

text \<open>
  The classes that ask for more than strings: \<open>quicsiri\<close> and \<open>pquic\<close> read a parameter as a number, and
  \<open>iperfScenario\<close> needs the topology with several clients.
\<close>

definition numeric :: "params \<Rightarrow> string \<Rightarrow> bool" where
  "numeric p k \<longleftrightarrow> (\<exists>v n. get_param p k = Inr v \<and> pval_int v = Inr n)"

lemma ready_with_ready: "ready_with holds there x s \<Longrightarrow> xp_ready x s"
  by (simp add: ready_with_def)

lemma runs_ready_to:
  assumes "mininet_ok m"
  shows "runs m (ready_with holds there x) (to_client m c)" "runs m (ready_with holds there x) (to_server m c)"
    "runs m (ready_with holds there x) (to_router m c)"
  by (rule runs_weaken [OF runs_to(1) [OF assms, of x "[]"]], simp add: ready_with_def loaded_def has_attrs_def,
      rule runs_weaken [OF runs_to(2) [OF assms, of x "[]"]], simp add: ready_with_def loaded_def has_attrs_def,
      rule runs_weaken [OF runs_to(3) [OF assms, of x "[]"]], simp add: ready_with_def loaded_def has_attrs_def)

lemmas ready_script = runs_block_Cons [OF stable_ready_with] runs_block_Nil runs_ready_to runs_server_ip_when [OF ready_with_ready]

text \<open>A step of \<open>prepare\<close> after those of the base class.\<close>

lemma prepares_then:
  assumes "xp_prepare m s = (Inr (), t)" "live t" "ready_with holds there x t" "runs m (ready_with holds there x) (block cs)"
  shows "\<exists>es. NetStop \<notin> set es \<and> block (xp_prepare m # cs) s = (Inr (), ran m es t)"
  using assms by (simp add: runs_def py_bind_apply)

section \<open>\<open>quicsiri\<close>\<close>

definition quicsiri_attrs :: "pval dict \<Rightarrow> bool" where
  "quicsiri_attrs d \<longleftrightarrow> has_attrs [''run_time''] d \<and> (\<exists>v n. dict_get d ''multipath'' = Some v \<and> pval_int v = Inr n)"

abbreviation quicsiri_fits :: "mininet \<Rightarrow> xp_plan \<Rightarrow> bool" where
  "quicsiri_fits m x \<equiv> good m x [''quicSiriRunTime''] \<and> numeric (xp_params x) ''quicMultipath''"

lemma quicsiri_loads:
  assumes "quicsiri_fits m x"
  shows "\<exists>B. quicsiri_load (fresh (xp_params x) [] s) = (Inr (), fresh (xp_params x) B s) \<and> quicsiri_attrs B"
proof -
  obtain t v n where "get_param (xp_params x) ''quicSiriRunTime'' = Inr (PStr t)"
    "get_param (xp_params x) ''quicMultipath'' = Inr v" "pval_int v = Inr n"
    using assms by (auto simp: good_def numeric_def)
  then show ?thesis
    by (intro exI [of _ "dict_set ''multipath'' v (dict_set ''run_time'' (PStr t) [])"])
       (simp add: quicsiri_load_def load_attr_def xp_get_def py_bind_apply quicsiri_attrs_def has_attrs_def,
        simp add: fresh_def)
qed

lemma runs_multipath:
  assumes "\<And>b. runs m (ready_with quicsiri_attrs there x) (k b)"
  shows "runs m (ready_with quicsiri_attrs there x) (multipath_attr k)"
  unfolding multipath_attr_def
proof (rule runs_bind [where Q = "\<lambda>v. \<exists>n. pval_int v = Inr n"])
  show "\<exists>v. xp_attr ''multipath'' s = (Inr v, s) \<and> (\<exists>n. pval_int v = Inr n)"
    if "ready_with quicsiri_attrs there x s" for s
    using that by (auto simp: ready_with_def quicsiri_attrs_def xp_attr_def py_attr_def py_bind_apply)
  show "runs m (ready_with quicsiri_attrs there x) (py_bind (py_lift (pval_int v)) (\<lambda>n. k (0 < n)))"
    if "\<exists>n. pval_int v = Inr n" for v
    by (rule runs_bind [where Q = "\<lambda>_. True"]) (use that assms in auto)
qed

lemma bind_multipath: "py_bind (multipath_attr f) k = multipath_attr (\<lambda>b. py_bind (f b) k)"
  by (simp add: multipath_attr_def bind_assoc)

lemma quicsiri_loaded: "ready_with quicsiri_attrs there x s \<Longrightarrow> loaded x [''run_time''] s"
  by (simp add: ready_with_def quicsiri_attrs_def loaded_def)

interpretation quicsiri: contract quicsiri_class quicsiri_fits quicsiri_attrs "\<lambda>_. True"
proof
  fix m x and s t :: "'a xp_scheme"
  assume fits: "quicsiri_fits m x"
  then have good: "good m x [''quicSiriRunTime'']" by simp
  note m = good_ping(1) [OF good]
  show "mininet_ok m \<and> complete (xp_params x)" using good by (simp add: good_def)
  show "\<exists>es A. quiet es \<and> quicsiri_attrs A \<and> cls_init quicsiri_class m (xp_params x) s = (Inr (), ran m es (fresh (xp_params x) A s))"
    if "live s" "xp_ready x (fresh (xp_params x) [] s)"
    unfolding quicsiri_class_def xp_class.simps quicsiri_init_def quicsiri_ping_def
    by (rule builds_ok, rule quicsiri_loads [OF fits], rule pings_first [OF good], rule that(1), rule that(2))
  show "\<exists>es. NetStop \<notin> set es \<and> cls_prepare quicsiri_class m s = (Inr (), ran m es t)"
    if "xp_prepare m s = (Inr (), t)" "live t" "ready_with quicsiri_attrs (\<lambda>_. True) x t"
    unfolding quicsiri_class_def xp_class.simps quicsiri_prepare_def by (rule prepares_then [OF that]) (intro ready_script m)
  show "runs m (ready_with quicsiri_attrs (\<lambda>_. True) x) (cls_run quicsiri_class m)"
    unfolding quicsiri_class_def xp_class.simps quicsiri_run_def quicsiri_client_cmd_def script_simps bind_multipath
    by (rule ready_script runs_multipath m runs_fmt_attr_when [OF quicsiri_loaded] | simp)+
  show "\<exists>es. quiet es \<and> cls_clean quicsiri_class m s = (Inr (), ran m es t)" if "xp_clean m s = (Inr (), t)"
    unfolding quicsiri_class_def xp_class.simps by (rule clean_ok [OF that])
qed

section \<open>\<open>pquic\<close>\<close>

abbreviation plugin_names :: "string list" where
  "plugin_names \<equiv> [''plugins'', ''client_plugins'', ''server_plugins'']"

definition pquic_attrs :: "pval dict \<Rightarrow> bool" where
  "pquic_attrs d \<longleftrightarrow> has_attrs plugin_names d \<and> dict_get d ''size'' \<noteq> None"

abbreviation pquic_fits :: "mininet \<Rightarrow> xp_plan \<Rightarrow> bool" where
  "pquic_fits m x \<equiv> good m x [''pquicPlugins'', ''pquicClientPlugins'', ''pquicServerPlugins''] \<and> numeric (xp_params x) ''pquicSize''"

lemma pquic_loads:
  assumes "pquic_fits m x"
  shows "\<exists>B. pquic_load (fresh (xp_params x) [] s) = (Inr (), fresh (xp_params x) B s) \<and> pquic_attrs B"
proof -
  obtain p c d v n where p: "get_param (xp_params x) ''pquicPlugins'' = Inr (PStr p)"
    "get_param (xp_params x) ''pquicClientPlugins'' = Inr (PStr c)" "get_param (xp_params x) ''pquicServerPlugins'' = Inr (PStr d)"
    "get_param (xp_params x) ''pquicSize'' = Inr v" "pval_int v = Inr n"
    using assms by (auto simp: good_def numeric_def)
  let ?B = "dict_set ''size'' (PInt n) (dict_set ''server_plugins'' (PStr d) (dict_set ''client_plugins'' (PStr c)
      (dict_set ''plugins'' (PStr p) [])))"
  have "pquic_load (fresh (xp_params x) [] s) = (Inr (), fresh (xp_params x) ?B s)"
    by (simp add: pquic_load_def load_attr_def xp_get_def py_bind_apply p) (simp add: fresh_def)
  then show ?thesis by (intro exI [of _ ?B]) (simp add: pquic_attrs_def has_attrs_def)
qed

lemma pquic_plugins:
  assumes "ready_with pquic_attrs there x s"
  shows "\<exists>v. pquic_plugin_cmd b s = (Inr v, s) \<and> True"
proof -
  have "\<exists>t. dict_get (xp_attrs s) a = Some (PStr t)" if "a \<in> set plugin_names" for a
    using assms that unfolding ready_with_def pquic_attrs_def has_attrs_def by blast
  from this [of "''plugins''"] this [of "''client_plugins''"] this [of "''server_plugins''"] obtain p c d where
    "dict_get (xp_attrs s) ''plugins'' = Some (PStr p)" "dict_get (xp_attrs s) ''client_plugins'' = Some (PStr c)"
    "dict_get (xp_attrs s) ''server_plugins'' = Some (PStr d)" by auto
  then show ?thesis
    by (cases b) (simp_all add: pquic_plugin_cmd_def xp_attr_def py_attr_def py_bind_apply pval_len_def plugin_args_def)
qed

lemma runs_plugins:
  assumes "\<And>v. runs m (ready_with pquic_attrs there x) (k v)"
  shows "runs m (ready_with pquic_attrs there x) (py_bind (pquic_plugin_cmd b) k)"
  by (rule runs_bind [where Q = "\<lambda>_. True"], rule pquic_plugins, assumption, rule assms)

lemma runs_size:
  assumes "\<And>t. runs m (ready_with pquic_attrs there x) (k t)"
  shows "runs m (ready_with pquic_attrs there x) (fmt_attr ''size'' k)"
  unfolding fmt_attr_def
  by (rule runs_bind [where Q = "\<lambda>_. True"])
     (auto simp: ready_with_def pquic_attrs_def xp_attr_def py_attr_def py_bind_apply assms)

interpretation pquic: contract pquic_class pquic_fits pquic_attrs "\<lambda>_. True"
proof
  fix m x and s t :: "'a xp_scheme"
  assume fits: "pquic_fits m x"
  then have good: "good m x [''pquicPlugins'', ''pquicClientPlugins'', ''pquicServerPlugins'']" by simp
  note m = good_ping(1) [OF good]
  show "mininet_ok m \<and> complete (xp_params x)" using good by (simp add: good_def)
  show "\<exists>es A. quiet es \<and> pquic_attrs A \<and> cls_init pquic_class m (xp_params x) s = (Inr (), ran m es (fresh (xp_params x) A s))"
    if "live s" "xp_ready x (fresh (xp_params x) [] s)"
    unfolding pquic_class_def xp_class.simps pquic_init_def
    by (rule builds_ok, rule pquic_loads [OF fits], rule pings_ping [OF good], rule that(1), rule that(2))
  show "\<exists>es. NetStop \<notin> set es \<and> cls_prepare pquic_class m s = (Inr (), ran m es t)"
    if "xp_prepare m s = (Inr (), t)" "live t" "ready_with pquic_attrs (\<lambda>_. True) x t"
    unfolding pquic_class_def xp_class.simps pquic_prepare_def by (rule prepares_then [OF that]) (intro ready_script m)
  show "runs m (ready_with pquic_attrs (\<lambda>_. True) x) (cls_run pquic_class m)"
    unfolding pquic_class_def xp_class.simps pquic_run_def pquic_server_cmd_def pquic_client_cmd_def script_simps
    by (intro ready_script runs_plugins runs_size m)
  show "\<exists>es. quiet es \<and> cls_clean pquic_class m s = (Inr (), ran m es t)" if "xp_clean m s = (Inr (), t)"
    unfolding pquic_class_def xp_class.simps by (rule clean_ok [OF that])
qed

section \<open>\<open>iperfScenario\<close>\<close>

text \<open>The first client and two of the additional ones take part, and all servers.\<close>

definition several_clients :: "topo_class \<times> handle list option \<times> handle list option \<Rightarrow> bool" where
  "several_clients = (\<lambda>(k, cls, svs). k = MultiIfMultiClientClass \<and>
     (\<exists>hs. cls = Some hs \<and> 3 \<le> length hs \<and> set hs \<subseteq> range Node) \<and> (\<exists>hs. svs = Some hs \<and> set hs \<subseteq> range Node))"

abbreviation on_scenario :: "xp_plan \<Rightarrow> 'a xp_scheme \<Rightarrow> bool" where
  "on_scenario \<equiv> ready_with (has_attrs [''fm_subflows'']) several_clients"

lemma runs_node:
  assumes "mininet_ok m" "h \<in> range Node"
  shows "runs m P (run_on m h c)"
  using assms(2) by (auto intro: runs_does does_command [OF assms(1)])

lemma runs_extra_client:
  assumes "mininet_ok m" "i < 3"
  shows "runs m (on_scenario x) (py_bind (cfg_client_at i) (\<lambda>h. run_on m h c))"
proof (rule runs_bind [where Q = "\<lambda>h. h \<in> range Node"])
  show "\<exists>h. cfg_client_at i s = (Inr h, s) \<and> h \<in> range Node" if "on_scenario x s" for s
  proof -
    obtain hs where hs: "cfg_clients s = Some hs" "3 \<le> length hs" "set hs \<subseteq> range Node"
      using \<open>on_scenario x s\<close> by (auto simp: ready_with_def several_clients_def place_def)
    then have "hs ! i \<in> range Node" using assms(2) by (meson in_mono nth_mem order_less_le_trans)
    with hs(1,2) assms(2) show ?thesis by (auto simp: cfg_client_at_def py_attr_def py_bind_apply py_nth_def)
  qed
qed (rule runs_node [OF assms(1)])

lemma runs_each:
  assumes "stable m P" "\<And>v. v \<in> set vs \<Longrightarrow> runs m P (f v)"
  shows "runs m P (for_each vs f)"
  using assms(2)
proof (induction vs)
  case Nil
  show ?case unfolding for_each.simps by (rule runs_does [OF does_return])
next
  case (Cons v vs)
  then show ?case by (simp add: runs_seq [OF assms(1)])
qed

lemma runs_servers:
  assumes "mininet_ok m"
  shows "runs m (on_scenario x) (py_bind (py_attr cfg_servers) (\<lambda>svs. for_each (enumerate 0 svs) (\<lambda>(l, sv). run_on m sv (f l))))"
proof (rule runs_bind [where Q = "\<lambda>hs. set hs \<subseteq> range Node"])
  show "\<exists>hs. py_attr cfg_servers s = (Inr hs, s) \<and> set hs \<subseteq> range Node" if "on_scenario x s" for s
  proof -
    obtain hs where hs: "cfg_servers s = Some hs" "set hs \<subseteq> range Node"
      using \<open>on_scenario x s\<close> by (auto simp: ready_with_def several_clients_def place_def)
    then show ?thesis by (intro exI [of _ hs]) (simp add: py_attr_def py_bind_apply)
  qed
  show "runs m (on_scenario x) (for_each (enumerate 0 hs) (\<lambda>(l, sv). run_on m sv (f l)))" if "set hs \<subseteq> range Node" for hs
  proof (rule runs_each [OF stable_ready_with])
    fix v assume "v \<in> set (enumerate 0 hs)"
    then have "snd v \<in> set (map snd (enumerate 0 hs))" unfolding set_map by (rule imageI)
    then have "snd v \<in> range Node" using that by auto
    then show "runs m (on_scenario x) (case v of (l, sv) \<Rightarrow> run_on m sv (f l))"
      unfolding split_def by (rule runs_node [OF assms])
  qed
qed

interpretation scenario: contract scenario_class "\<lambda>m x. good m x [''iperfScenarioFMSublows'']" "has_attrs [''fm_subflows'']" several_clients
proof
  fix m x and s t :: "'a xp_scheme"
  assume good: "good m x [''iperfScenarioFMSublows'']"
  note m = good_ping(1) [OF good]
  show "mininet_ok m \<and> complete (xp_params x)" using good by (simp add: good_def)
  have load: "\<exists>B. scenario_load (fresh (xp_params x) [] s) = (Inr (), fresh (xp_params x) B s) \<and> has_attrs [''fm_subflows''] B"
    using load_from_good [of m x "[(''fm_subflows'', ''iperfScenarioFMSublows'')]" s] good
    by (simp add: scenario_load_def bind_unit)
  show "\<exists>es A. quiet es \<and> has_attrs [''fm_subflows''] A \<and>
      cls_init scenario_class m (xp_params x) s = (Inr (), ran m es (fresh (xp_params x) A s))"
    if "live s" "xp_ready x (fresh (xp_params x) [] s)"
    unfolding scenario_class_def xp_class.simps scenario_init_def
    by (rule builds_ok, rule load, rule pings_ping [OF good], rule that(1), rule that(2))
  have right: "runs m (on_scenario x) (py_bind (py_get xp_topo_class) (\<lambda>t. py_when (t \<noteq> MultiIfMultiClientClass) f))" for f
  proof (rule runs_bind [where Q = "\<lambda>t. t = MultiIfMultiClientClass"])
    show "\<exists>t. py_get xp_topo_class s = (Inr t, s) \<and> t = MultiIfMultiClientClass" if "on_scenario x s" for s
      using that by (auto simp: ready_with_def several_clients_def place_def)
  qed (rule runs_when, simp)
  show "\<exists>es. NetStop \<notin> set es \<and> cls_prepare scenario_class m s = (Inr (), ran m es t)"
    if "xp_prepare m s = (Inr (), t)" "live t" "on_scenario x t"
    unfolding scenario_class_def xp_class.simps scenario_prepare_def by (rule prepares_then [OF that]) (intro ready_script m right)
  have echo: "runs m (on_scenario x) (xp_tell m cfg_client (fmt_attr ''fm_subflows'' (\<lambda>n. py_return (f n))))" for f
    by (rule runs_weaken [OF runs_tell_cmd [OF m, of _ x "[''fm_subflows'']"]])
       (auto intro: gives_rules simp: ready_with_def loaded_def)
  show "runs m (on_scenario x) (cls_run scenario_class m)"
    unfolding scenario_class_def xp_class.simps scenario_run_def
    by (rule ready_script m runs_servers echo runs_extra_client runs_global | simp)+
  show "\<exists>es. quiet es \<and> cls_clean scenario_class m s = (Inr (), ran m es t)" if "xp_clean m s = (Inr (), t)"
    unfolding scenario_class_def xp_class.simps by (rule clean_ok [OF that])
qed

end
