(* ===== verification/ExpProps.thy ===== *)
theory ExpProps
  imports WorkingMore XpDemo
begin

text \<open>What holds of the registered experiments: the ones that work, and the ones that cannot.\<close>

section \<open>Parameters of the classes\<close>

definition present :: "params \<Rightarrow> string list \<Rightarrow> bool" where
  "present p keys \<longleftrightarrow> (\<forall>k \<in> set keys. \<exists>v. get_param p k = Inr v)"

lemma present_add_defaults:
  assumes "wf_dict defs" "present p ks"
  shows "present (add_defaults defs p) (ks @ map fst defs)"
proof -
  have "dict_get defs k \<noteq> None" if "k \<in> set (map fst defs)" for k
    using that by (simp add: map_of_eq_None_iff)
  then show ?thesis
    using assms(2) by (fastforce simp: present_def get_param_def add_defaults_def dict_get_update [OF assms(1)] split: option.splits)
qed


lemma present_complete: "complete p \<longleftrightarrow> present p (map fst EXPERIMENT_DEFAULT_PARAMETERS)"
  by (simp add: complete_def present_def)

lemma present_append: "present p (ks @ ls) \<longleftrightarrow> present p ks \<and> present p ls"
  by (auto simp: present_def)

text \<open>Whatever the file, the parameters have the keys \<open>ks\<close>.\<close>

definition defaulted :: "((string \<Rightarrow> string option) \<Rightarrow> string option \<Rightarrow> params res) \<Rightarrow> string list \<Rightarrow> bool" where
  "defaulted mk ks \<longleftrightarrow> (\<forall>fs f p. mk fs f = Inr p \<longrightarrow> complete p \<and> present p ks)"

lemma defaulted_base: "defaulted new_experiment_parameter []"
  using new_experiment_parameter_complete by (auto simp: defaulted_def present_def)

lemma defaulted_more:
  assumes "defaulted mk ks" "wf_dict defs" "\<And>fs f. mk' fs f = rbind (mk fs f) (\<lambda>p. Inr (add_defaults defs p))"
  shows "defaulted mk' (ks @ map fst defs)"
proof -
  have "complete p \<and> present p (ks @ map fst defs)" if made: "mk' fs f = Inr p" for fs f p
  proof -
    obtain q where q: "mk fs f = Inr q" "p = add_defaults defs q"
      using made by (auto simp: assms(3) rbind_eq_Inr)
    have "present q (map fst EXPERIMENT_DEFAULT_PARAMETERS @ ks)"
      using assms(1) q(1) unfolding defaulted_def present_complete present_append by blast
    from present_add_defaults [OF assms(2) this] show ?thesis
      by (simp only: q(2) present_complete present_append)
  qed
  then show ?thesis by (simp add: defaulted_def)
qed

lemma defaulted_with: "wf_dict defs \<Longrightarrow> defaulted (parameters_with defs) (map fst defs)"
  using defaulted_more [OF defaulted_base] by (simp add: parameters_with_def)

lemma defaulted_file: "defaulted new_random_file_parameter [''file'', ''file_size'']"
  using defaulted_more [OF defaulted_base, of RANDOM_FILE_DEFAULTS new_random_file_parameter]
  by (simp add: new_random_file_parameter_def RANDOM_FILE_DEFAULTS_def wf_dict_def)

lemma defaulted_with_file:
  "wf_dict defs \<Longrightarrow> defaulted (parameters_with_file defs) ([''file'', ''file_size''] @ map fst defs)"
  by (rule defaulted_more [OF defaulted_file]) (simp_all add: parameters_with_file_def)

text \<open>No key is given more than once, so every value but one default is a string.\<close>

definition text_values :: "params \<Rightarrow> bool" where
  "text_values p \<longleftrightarrow> (\<forall>k v. get_param p k = Inr v \<longrightarrow> k \<noteq> ''pquicSize'' \<longrightarrow> (\<exists>t. v = PStr t))"

lemma good_when:
  assumes "mininet_ok m" "complete (xp_params x)" "present (xp_params x) ks" "text_values (xp_params x)" "set keys \<subseteq> set ks"
    "''pquicSize'' \<notin> set keys"
  shows "good m x keys"
proof -
  have "\<exists>t. get_param (xp_params x) k = Inr (PStr t)" if "k \<in> set keys" for k
  proof -
    have "k \<in> set ks" "k \<noteq> ''pquicSize''" using that assms(5,6) by auto
    with assms(3,4) show ?thesis unfolding present_def text_values_def by blast
  qed
  with assms(1,2) show ?thesis by (simp add: good_def)
qed

section \<open>Every working experiment, from its constructor to the end of \<open>classic_run\<close>\<close>

definition working_names :: "string list" where
  "working_names = [''ab'', ''ditg'', ''http'', ''https'', ''iperf'', ''iperfScenario'', ''msg'', ''netperf'', ''none'', ''ping'',
     ''pquic'', ''quic'', ''quic1'', ''quic_mpath'', ''quicsiri'', ''sendfile'', ''siri'']"

text \<open>What some of them need besides: parameters without a default, numbers, and the right topology.\<close>

definition own_values :: "string \<Rightarrow> params \<Rightarrow> bool" where
  "own_values name p \<longleftrightarrow> (name = ''siri'' \<longrightarrow> present p [''siriRunTime'']) \<and>
     (name = ''quicsiri'' \<longrightarrow> present p [''quicSiriRunTime''] \<and> numeric p ''quicMultipath'') \<and>
     (name = ''pquic'' \<longrightarrow> numeric p ''pquicSize'')"

definition own_place :: "string \<Rightarrow> topo_class \<times> handle list option \<times> handle list option \<Rightarrow> bool" where
  "own_place name pl \<longleftrightarrow> (name = ''iperfScenario'' \<longrightarrow> several_clients pl)"

lemmas class_simps = ab_class_def ditg_class_def http_class_def https_class_def iperf_class_def msg_class_def netperf_class_def
  ping_class_def quiche_class_def sendfile_class_def siri_class_def none_class_def quic_mpath_class_def
  pquic_class_def quicsiri_class_def scenario_class_def

lemmas default_simps = AB_DEFAULTS_def DITG_DEFAULTS_def IPERF_DEFAULTS_def MSG_DEFAULTS_def NETPERF_DEFAULTS_def
  QUICHE_DEFAULTS_def SIRI_DEFAULTS_def PQUIC_DEFAULTS_def QUICSIRI_DEFAULTS_def SCENARIO_DEFAULTS_def

lemma class_defaulted:
  "defaulted (cls_parameters (ab_class h)) [''file'', ''file_size'', ''abConccurentRequests'', ''abTimelimit'']"
  "defaulted (cls_parameters ditg_class) (map fst DITG_DEFAULTS)"
  "defaulted (cls_parameters http_class) [''file'', ''file_size'']"
  "defaulted (cls_parameters (https_class h)) [''file'', ''file_size'']"
  "defaulted (cls_parameters iperf_class) (map fst IPERF_DEFAULTS)"
  "defaulted (cls_parameters (msg_class h)) (map fst MSG_DEFAULTS)"
  "defaulted (cls_parameters netperf_class) (map fst NETPERF_DEFAULTS)"
  "defaulted (cls_parameters ping_class) []"
  "defaulted (cls_parameters quiche_class) [''file'', ''file_size'', ''quicPort'', ''quicCertPath'', ''quicNoVerify'']"
  "defaulted (cls_parameters sendfile_class) [''file'', ''file_size'']"
  "defaulted (cls_parameters (siri_class h)) (map fst SIRI_DEFAULTS)"
  "defaulted (cls_parameters none_class) []"
  "defaulted (cls_parameters quic_mpath_class) []"
  "defaulted (cls_parameters pquic_class) (map fst PQUIC_DEFAULTS)"
  "defaulted (cls_parameters quicsiri_class) (map fst QUICSIRI_DEFAULTS)"
  "defaulted (cls_parameters scenario_class) (map fst SCENARIO_DEFAULTS)"
proof -
  have wf: "wf_dict PQUIC_DEFAULTS" "wf_dict QUICSIRI_DEFAULTS" "wf_dict SCENARIO_DEFAULTS" "wf_dict DITG_DEFAULTS" "wf_dict IPERF_DEFAULTS" "wf_dict MSG_DEFAULTS" "wf_dict NETPERF_DEFAULTS" "wf_dict SIRI_DEFAULTS"
    by (simp_all add: wf_dict_def default_simps)
  show "defaulted (cls_parameters ditg_class) (map fst DITG_DEFAULTS)" "defaulted (cls_parameters iperf_class) (map fst IPERF_DEFAULTS)"
    "defaulted (cls_parameters (msg_class h)) (map fst MSG_DEFAULTS)" "defaulted (cls_parameters netperf_class) (map fst NETPERF_DEFAULTS)"
    "defaulted (cls_parameters (siri_class h)) (map fst SIRI_DEFAULTS)"
    "defaulted (cls_parameters pquic_class) (map fst PQUIC_DEFAULTS)"
    "defaulted (cls_parameters quicsiri_class) (map fst QUICSIRI_DEFAULTS)"
    "defaulted (cls_parameters scenario_class) (map fst SCENARIO_DEFAULTS)"
    using wf by (simp_all only: class_simps xp_class.simps defaulted_with)
  show "defaulted (cls_parameters (ab_class h)) [''file'', ''file_size'', ''abConccurentRequests'', ''abTimelimit'']"
    using defaulted_with_file [of AB_DEFAULTS] by (simp add: ab_class_def wf_dict_def AB_DEFAULTS_def)
  show "defaulted (cls_parameters quiche_class) [''file'', ''file_size'', ''quicPort'', ''quicCertPath'', ''quicNoVerify'']"
    using defaulted_with_file [of QUICHE_DEFAULTS] by (simp add: quiche_class_def wf_dict_def QUICHE_DEFAULTS_def)
qed (simp_all add: class_simps defaulted_base defaulted_file)

text \<open>For each working name: the class satisfies the contract, and its conditions are met.\<close>

definition conforms :: "string \<Rightarrow> 'a xp_scheme xp_class \<Rightarrow> bool" where
  "conforms name c \<longleftrightarrow> (\<exists>fits holds there. contract c fits holds there \<and>
     (\<forall>fs f m x. cls_parameters c fs f = Inr (xp_params x) \<and> text_values (xp_params x) \<and> own_values name (xp_params x) \<and>
        mininet_ok m \<longrightarrow> fits m x) \<and>
     (\<forall>pl. own_place name pl \<longrightarrow> there pl))"

lemma conforms_contract:
  assumes "contract c fits holds there"
    "\<And>fs f m x. cls_parameters c fs f = Inr (xp_params x) \<Longrightarrow> text_values (xp_params x) \<Longrightarrow> own_values name (xp_params x) \<Longrightarrow>
       mininet_ok m \<Longrightarrow> fits m x"
    "\<And>pl. own_place name pl \<Longrightarrow> there pl"
  shows "conforms name c"
  using assms unfolding conforms_def by blast

lemma defaulted_good:
  assumes "defaulted (cls_parameters c) ks" "cls_parameters c fs f = Inr (xp_params x)" "text_values (xp_params x)"
    "present (xp_params x) extra" "mininet_ok m" "set keys \<subseteq> set ks \<union> set extra" "''pquicSize'' \<notin> set keys"
  shows "good m x keys"
proof -
  have "complete (xp_params x)" "present (xp_params x) (ks @ extra)"
    using assms(1,2,4) by (simp_all add: defaulted_def present_append)
  then show ?thesis by (rule good_when [OF assms(5) _ _ assms(3)]) (use assms(6,7) in simp_all)
qed

lemma conformsI:
  assumes "session c keys names" "defaulted (cls_parameters c) ks" "''pquicSize'' \<notin> set keys"
    "set keys \<subseteq> set ks \<union> (if name = ''siri'' then {''siriRunTime''} else {})"
  shows "conforms name c"
proof (rule conforms_contract [OF session.is_contract [OF assms(1)]])
  fix fs f m and x :: xp_plan
  assume p: "cls_parameters c fs f = Inr (xp_params x)" "text_values (xp_params x)" "own_values name (xp_params x)" "mininet_ok m"
  have "present (xp_params x) (if name = ''siri'' then [''siriRunTime''] else [])"
    using p(3) by (auto simp: own_values_def present_def)
  then show "good m x keys" by (rule defaulted_good [OF assms(2) p(1,2) _ p(4) _ assms(3)]) (use assms(4) in \<open>auto split: if_splits\<close>)
qed simp

lemma conforming_more:
  "conforms ''quicsiri'' quicsiri_class" "conforms ''pquic'' pquic_class" "conforms ''iperfScenario'' scenario_class"
proof -
  show "conforms ''quicsiri'' quicsiri_class"
  proof (rule conforms_contract [OF quicsiri.contract_axioms])
    fix fs f m and x :: xp_plan
    assume p: "cls_parameters quicsiri_class fs f = Inr (xp_params x)" "text_values (xp_params x)"
      "own_values ''quicsiri'' (xp_params x)" "mininet_ok m"
    then show "quicsiri_fits m x"
      using defaulted_good [OF class_defaulted(15) p(1,2) _ p(4), of "[''quicSiriRunTime'']" "[''quicSiriRunTime'']"]
      by (simp add: own_values_def)
  qed simp
  show "conforms ''pquic'' pquic_class"
  proof (rule conforms_contract [OF pquic.contract_axioms])
    fix fs f m and x :: xp_plan
    assume p: "cls_parameters pquic_class fs f = Inr (xp_params x)" "text_values (xp_params x)"
      "own_values ''pquic'' (xp_params x)" "mininet_ok m"
    then show "pquic_fits m x"
      using defaulted_good [OF class_defaulted(14) p(1,2) _ p(4), of "[]" "[''pquicPlugins'', ''pquicClientPlugins'', ''pquicServerPlugins'']"]
      by (simp add: own_values_def present_def PQUIC_DEFAULTS_def)
  qed simp
  show "conforms ''iperfScenario'' scenario_class"
  proof (rule conforms_contract [OF scenario.contract_axioms])
    fix fs f m and x :: xp_plan
    assume p: "cls_parameters scenario_class fs f = Inr (xp_params x)" "text_values (xp_params x)" "mininet_ok m"
    then show "good m x [''iperfScenarioFMSublows'']"
      using defaulted_good [OF class_defaulted(16) p(1,2) _ p(3), of "[]" "[''iperfScenarioFMSublows'']"]
      by (simp add: present_def SCENARIO_DEFAULTS_def)
  qed (simp add: own_place_def)
qed

lemma conforming:
  "conforms ''ab'' (ab_class h)"
  "conforms ''ditg'' (ditg_class)"
  "conforms ''http'' (http_class)"
  "conforms ''https'' (https_class h)"
  "conforms ''iperf'' (iperf_class)"
  "conforms ''msg'' (msg_class h)"
  "conforms ''netperf'' (netperf_class)"
  "conforms ''ping'' (ping_class)"
  "conforms ''quic'' (quiche_class)"
  "conforms ''quic1'' (quiche_class)"
  "conforms ''sendfile'' (sendfile_class)"
  "conforms ''siri'' (siri_class h)"
  "conforms ''none'' none_class"
  "conforms ''quic_mpath'' quic_mpath_class"
  by (rule conformsI [OF ab.session_axioms class_defaulted(1)] conformsI [OF ditg.session_axioms class_defaulted(2)]
        conformsI [OF http.session_axioms class_defaulted(3)] conformsI [OF https.session_axioms class_defaulted(4)]
        conformsI [OF iperf.session_axioms class_defaulted(5)] conformsI [OF msg.session_axioms class_defaulted(6)]
        conformsI [OF netperf.session_axioms class_defaulted(7)] conformsI [OF ping.session_axioms class_defaulted(8)]
        conformsI [OF quiche.session_axioms class_defaulted(9)] conformsI [OF sendfile.session_axioms class_defaulted(10)]
        conformsI [OF siri.session_axioms class_defaulted(11)] conformsI [OF none.session_axioms class_defaulted(12)]
        conformsI [OF mpath.session_axioms class_defaulted(13)],
      simp add: default_simps, simp add: default_simps)+

lemma working_conforms:
  assumes "(name, c) \<in> set (EXPERIMENTS h)" "name \<in> set working_names"
  shows "conforms name c"
proof -
  have "(name, c) \<in> {(''ab'', ab_class h), (''ditg'', ditg_class), (''http'', http_class), (''https'', https_class h),
     (''iperf'', iperf_class), (''msg'', msg_class h), (''netperf'', netperf_class), (''ping'', ping_class),
     (''quic'', quiche_class), (''quic1'', quiche_class), (''sendfile'', sendfile_class), (''siri'', siri_class h),
     (''none'', none_class), (''quic_mpath'', quic_mpath_class), (''quicsiri'', quicsiri_class), (''pquic'', pquic_class),
     (''iperfScenario'', scenario_class)}"
    using assms by (auto simp: EXPERIMENTS_def working_names_def)
  then show ?thesis
    by (auto simp: conforming conforming_more)
qed

lemma conforming_perform:
  fixes s :: "'a xp_scheme"
  assumes registered: "(name, c) \<in> set (EXPERIMENTS h)" "name \<in> set working_names"
    and params: "cls_parameters c fs f = Inr (xp_params x)" "text_values (xp_params x)" "plain_paths (xp_params x)"
      "own_values name (xp_params x)"
    and net: "mininet_ok m" "sysctl_ok m avail init" "live s" "on_network x g ls b (fresh (xp_params x) [] s)"
      "keys_ascii (sysctl_now (events s) init)" "network_links_ok m g ls" "own_place name (place s)"
  shows "\<exists>w. perform c fs f m s = (Inr (), w) \<and> live w \<and> on_network x g ls b (fresh (xp_params x) [] w) \<and>
     (\<forall>k. managed avail k \<longrightarrow> sysctl_now (events w) init k = sysctl_now (events s) init k)"
proof -
  obtain fits holds there where c: "contract c fits holds there" "fits m x" "there (place s)"
    using working_conforms [OF registered] params(1,2,4) net(1,7) unfolding conforms_def by blast
  from contract.whole [OF c(1,2) net(2,3,4,5) params(3) net(6) c(3)] show ?thesis
    by (simp add: perform_def params(1) bind_unit)
qed



end
