(* ===== verification/SiriMsgSession.thy ===== *)
theory SiriMsgSession
  imports ExpProps
begin

text \<open>
  \<open>experiments/siri_msg.py\<close> as a whole: it prepares twice, so what it saves the second time, and
  restores in the end, are its own values.
\<close>

section \<open>What \<open>prepare\<close> does to the sysctls\<close>

definition set_to :: "(string \<Rightarrow> bool) \<Rightarrow> params \<Rightarrow> (sysctl_key \<Rightarrow> string) \<Rightarrow> (sysctl_key \<Rightarrow> string) \<Rightarrow> bool" where
  "set_to avail p st st' \<longleftrightarrow>
     (\<forall>sl. \<forall>kv \<in> set (usable avail sl). st' (slot_ns sl, snd kv) = param_text p (fst kv)) \<and>
     (\<forall>k. \<not> managed avail k \<longrightarrow> st' k = st k)"

lemma quiet_captures: "quiet (tcpdump_events p)"
  by (auto simp: quiet_def tcpdump_events_def tcpdump_cmd_def Let_def quiet_cmd starts_with_def)

lemma quiet_changing: "quiet (changing_events m g l)"
proof -
  have no: "\<not> starts_with ''sysctl '' (join ''&& '' (map (\<lambda>n. ''sleep '' @ f n) ns @ [''true &'']))" for f and ns :: "netem list"
    by (cases ns) (simp_all add: join_Cons starts_with_def)
  have "\<not> starts_with ''sysctl '' (changing_shape l b i)" "\<not> starts_with ''sysctl '' (build_changing_netem_cmd l i)" for b i
    unfolding changing_shape_def build_changing_netem_cmd_def by (rule no)+
  then show ?thesis by (simp add: quiet_def changing_events_def changing_cmds_def quiet_cmd)
qed

lemma prepare_sets:
  assumes "quiet (manager_events p)"
  shows "set_to avail p st (sysctl_now (prepare_events m avail p g ls c) st)"
proof -
  let ?tail = "manager_events p @ tcpdump_events p @ (if c then concat (map (changing_events m g) ls) else [])"
  have tail: "\<forall>e \<in> set ?tail. event_assign e = None"
    using assms quiet_captures quiet_changing by (auto simp: quiet_def split: if_splits)
  have "prepare_events m avail p g ls c = concat (map read_events all_slots) @
      slots_events avail (\<lambda>sl kv. param_text p (fst kv)) @ ?tail"
    by (simp add: prepare_events_def setup_events_def)
  then have eq: "sysctl_now (prepare_events m avail p g ls c) st = sysctl_now (slots_events avail (\<lambda>sl kv. param_text p (fst kv))) st"
    using sysctl_now_quiet [OF tail] by (simp only: sysctl_now_append [of "concat (map read_events all_slots)"] now_reads
        sysctl_now_append [of "slots_events avail (\<lambda>sl kv. param_text p (fst kv))"])
  have "sysctl_now (slots_events avail f) st k = st k" if "\<not> managed avail k" for k f
    by (rule now_slots_other) (use that in \<open>auto simp: usable_iff managed_def\<close>)
  then show ?thesis by (simp add: set_to_def eq now_slots)
qed

lemma set_to_ascii:
  assumes "set_to avail p st st'" "keys_ascii st" "\<forall>sl. \<forall>kv \<in> set (slot_keys sl). is_ascii (param_text p (fst kv))"
  shows "keys_ascii st'"
  unfolding keys_ascii_def
proof
  fix k
  show "is_ascii (st' k)"
  proof (cases "managed avail k")
    case True
    then obtain sl kv where kv: "k = (slot_ns sl, snd kv)" "kv \<in> set (usable avail sl)"
      unfolding managed_def usable_iff by (metis fst_conv prod.collapse snd_conv)
    then have "st' k = param_text p (fst kv)" "kv \<in> set (slot_keys sl)"
      using assms(1) by (simp_all add: set_to_def usable_iff)
    then show ?thesis using assms(3) by simp
  next
    case False
    then show ?thesis using assms(1,2) unfolding set_to_def keys_ascii_def by metis
  qed
qed

section \<open>Building\<close>

abbreviation sirimsg_kvs :: "(string \<times> string) list" where
  "sirimsg_kvs \<equiv>
     [(''run_time'', ''siriRunTime''), (''query_size'', ''siriQuerySize''), (''response_size'', ''siriResponseSize''),
      (''delay_query_response'', ''siriDelayQueryResponse''), (''min_payload_size'', ''siriMinPayloadSize''),
      (''max_payload_size'', ''siriMaxPayloadSize''), (''interval_time_ms'', ''siriIntervalTimeMs''),
      (''buffer_size'', ''siriBufferSize''), (''burst_size'', ''siriBurstSize''),
      (''interval_burst_time_ms'', ''siriIntervalBurstTimeMs''),
      (''client_sleep'', ''msgClientSleep''), (''server_sleep'', ''msgServerSleep''),
      (''nb_requests'', ''msgNbRequests''), (''bytes'', ''msgBytes'')]"

lemma sirimsg_load_each: "sirimsg_load = for_each sirimsg_kvs load_attr"
proof -
  have split: "sirimsg_kvs = take 10 sirimsg_kvs @ drop 10 sirimsg_kvs" by simp
  show ?thesis
    unfolding sirimsg_load_def siri_load_def msg_load_def by (subst split, subst for_each_append) (simp add: bind_unit)
qed

lemma sirimsg_builds:
  fixes s :: "'a xp_scheme"
  assumes good: "good m x (map snd sirimsg_kvs)" and s: "live s" "xp_ready x (fresh (xp_params x) [] s)"
  shows "\<exists>es A. quiet es \<and> has_attrs (map fst sirimsg_kvs) A \<and>
     sirimsg_init m (xp_params x) s = (Inr (), ran m es (fresh (xp_params x) A s))"
proof -
  have "pings m x (ping_first_server m :: ('a xp_scheme, unit) py)" by (rule pings_first [OF good])
  then obtain es where es: "quiet es" "does m (xp_ready x :: 'a xp_scheme \<Rightarrow> bool) es (ping_first_server m)"
    by (auto simp: pings_def)
  have ping: "ping_first_server m (fresh (xp_params x) A t) = (Inr (), ran m es (fresh (xp_params x) A t))"
    if "live t" "xp_ready x (fresh (xp_params x) [] t)" for A and t :: "'a xp_scheme"
    by (rule doesD [OF es(2)]) (use that ready_fresh(1) [of x _ A t "[]"] in simp_all)
  obtain A where A: "sirimsg_load (fresh (xp_params x) [] s) = (Inr (), fresh (xp_params x) A s)"
    "has_attrs (map fst sirimsg_kvs) A"
    using load_from_good [OF good, of s] unfolding sirimsg_load_each by blast
  let ?s = "ran m es s"
  have s': "live ?s" "xp_ready x (fresh (xp_params x) [] ?s)"
    using s es(1) stable_ready [of m x] live_ran by (auto simp: quiet_def stable_def fresh_ran)
  obtain B where B: "sirimsg_load (fresh (xp_params x) A ?s) = (Inr (), fresh (xp_params x) B ?s)"
    "has_attrs (map fst sirimsg_kvs @ map fst sirimsg_kvs) B"
    using load_ok [OF good_keys [OF good] A(2), of ?s] unfolding sirimsg_load_each by blast
  have "sirimsg_init m (xp_params x) s = (Inr (), ran m es (fresh (xp_params x) B ?s))"
    using ping [OF s, of A] ping [OF s', of B]
    by (simp add: sirimsg_init_def siri_init_def msg_init_def siri_ping_def py_bind_apply experiment_init_fresh A(1)
        fresh_ran [symmetric] B(1))
  moreover have "has_attrs (map fst sirimsg_kvs) B" using B(2) by (simp add: has_attrs_def)
  ultimately show ?thesis
    using es(1) by (intro exI [of _ "es @ es"] exI [of _ B]) (simp add: fresh_ran quiet_def)
qed

section \<open>Preparing and cleaning twice\<close>

abbreviation remove_logs :: "mininet \<Rightarrow> string list \<Rightarrow> ('a xp_scheme, unit) py" where
  "remove_logs m names \<equiv> block (concat (map (\<lambda>n. [to_client m (''rm '' @ n @ ''_client.log''), to_server m (''rm '' @ n @ ''_server.log'')]) names))"

lemma does_remove_logs:
  assumes "mininet_ok m"
  shows "\<exists>es. quiet es \<and> does m (xp_ready x :: 'a xp_scheme \<Rightarrow> bool) es (remove_logs m names)"
proof (induction names)
  case Nil
  show ?case
    by (intro exI [of _ "[]"] conjI) (simp add: quiet_def, simp only: list.map concat.simps, rule does_block_Nil)
next
  case (Cons n names)
  then obtain es where es: "quiet es" "does m (xp_ready x :: 'a xp_scheme \<Rightarrow> bool) es (remove_logs m names)" by blast
  have "does m (xp_ready x :: 'a xp_scheme \<Rightarrow> bool) ([NodeCmd Client (''rm '' @ n @ ''_client.log'')] @
      [NodeCmd Server (''rm '' @ n @ ''_server.log'')] @ es)
      (block (to_client m (''rm '' @ n @ ''_client.log'') # to_server m (''rm '' @ n @ ''_server.log'') #
        concat (map (\<lambda>n. [to_client m (''rm '' @ n @ ''_client.log''), to_server m (''rm '' @ n @ ''_server.log'')]) names)))"
    unfolding to_client_def to_server_def
    by (intro does_block_Cons [OF stable_ready] tell_client [OF assms] tell_server [OF assms]
        es(2) [unfolded to_client_def to_server_def])
  then show ?case
    using es(1) by (intro exI [of _ "[NodeCmd Client (''rm '' @ n @ ''_client.log''), NodeCmd Server (''rm '' @ n @ ''_server.log'')] @ es"])
      (simp add: quiet_def quiet_ping)
qed

lemma sirimsg_prepare_steps:
  "sirimsg_prepare m = block [xp_prepare m, remove_logs m [''msg'', ''siri''], xp_prepare m, remove_logs m [''msg'']]"
  by (simp add: sirimsg_prepare_def siri_prepare_def msg_prepare_def bind_assoc)

definition steady :: "mininet \<Rightarrow> (string \<Rightarrow> bool) \<Rightarrow> (sysctl_key \<Rightarrow> string) \<Rightarrow> xp_plan \<Rightarrow> graph_op list \<Rightarrow> link list \<Rightarrow> bool" where
  "steady m avail init x g ls \<longleftrightarrow> mininet_ok m \<and> sysctl_ok m avail init \<and> complete (xp_params x) \<and> plain_paths (xp_params x) \<and>
     network_links_ok m g ls \<and> quiet (manager_events (xp_params x)) \<and>
     (\<forall>sl. \<forall>kv \<in> set (slot_keys sl). is_ascii (param_text (xp_params x) (fst kv)))"

text \<open>One \<open>prepare\<close> of the base class, with the removal of log files behind it.\<close>

lemma prepares_once:
  fixes s :: "'a xp_scheme"
  assumes ok: "steady m avail init x g ls" and s: "live s" "on_network x g ls c s" and ascii: "keys_ascii (sysctl_now (events s) init)"
  shows "\<exists>t. (\<forall>k. block (xp_prepare m # remove_logs m names # k) s = block k t) \<and> live t \<and> on_network x g ls c t \<and>
     sysctl_saved avail (sysctl_now (events s) init) t \<and> xp_attrs t = xp_attrs s \<and>
     set_to avail (xp_params x) (sysctl_now (events s) init) (sysctl_now (events t) init) \<and> keys_ascii (sysctl_now (events t) init)"
proof -
  note okD = ok [unfolded steady_def]
  have m: "mininet_ok m" using okD by blast
  define t where "t = ran m (prepare_events m avail (xp_params x) g ls c) (with_saved avail (sysctl_now (events s) init) s)"
  have prep: "xp_prepare m s = (Inr (), t)" "live t" "on_network x g ls c t" "sysctl_saved avail (sysctl_now (events s) init) t"
    using prepare_ok [OF _ _ s ascii, of m avail] okD by (simp_all add: t_def)
  obtain es where es: "quiet es" "does m (xp_ready x :: 'a xp_scheme \<Rightarrow> bool) es (remove_logs m names)"
    using does_remove_logs [OF m] by blast
  let ?u = "ran m es t"
  have "remove_logs m names t = (Inr (), ?u)" by (rule doesD [OF es(2) prep(2) on_network_ready [OF prep(3)]])
  then have "block (xp_prepare m # remove_logs m names # k) s = block k ?u" for k by (simp add: py_bind_apply prep(1))
  moreover have "live ?u" using es(1) by (intro live_ran [OF prep(2)]) (simp add: quiet_def)
  moreover have "on_network x g ls c ?u" using prep(3) stable_on_network unfolding stable_def by blast
  moreover have "sysctl_saved avail (sysctl_now (events s) init) ?u" using prep(4) by (simp add: sysctl_saved_def)
  moreover have "xp_attrs ?u = xp_attrs s" by (simp add: t_def with_saved_def)
  moreover have "sysctl_now (events ?u) init = sysctl_now (prepare_events m avail (xp_params x) g ls c) (sysctl_now (events s) init)"
    using es(1) by (simp add: t_def sysctl_now_append sysctl_now_quiet quiet_def)
  moreover have "set_to avail (xp_params x) (sysctl_now (events s) init)
      (sysctl_now (prepare_events m avail (xp_params x) g ls c) (sysctl_now (events s) init))"
    by (rule prepare_sets) (use okD in blast)
  moreover from set_to_ascii [OF this ascii] okD
  have "keys_ascii (sysctl_now (prepare_events m avail (xp_params x) g ls c) (sysctl_now (events s) init))" by blast
  ultimately show ?thesis by (intro exI [of _ ?u]) simp
qed

lemma cleans_twice:
  fixes u :: "'a xp_scheme"
  assumes m: "mininet_ok m" and p: "complete (xp_params x)" and u: "live u" "xp_ready x u" "sysctl_saved avail st u"
  shows "\<exists>w. sirimsg_clean m u = (Inr (), w) \<and> live w \<and> (\<forall>k. managed avail k \<longrightarrow> sysctl_now (events w) init k = st k)"
proof -
  let ?P = "\<lambda>s :: 'a xp_scheme. xp_ready x s \<and> sysctl_saved avail st s" and ?e = "clean_events avail st (xp_params x)"
  note clean = does_clean [OF m p, of avail st]
  have P: "stable m ?P"
    by (simp add: stable_def stable_ready [unfolded stable_def, rule_format] stable_saved(2) [unfolded stable_def, rule_format])
  have both: "does m ?P (?e @ ?e @ []) (sirimsg_clean m)"
    unfolding sirimsg_clean_def by (rule does_block_Cons [OF P clean does_block_Cons [OF P clean does_block_Nil]])
  have "sirimsg_clean m u = (Inr (), ran m (?e @ ?e @ []) u)" by (rule doesD [OF both u(1)]) (use u in simp)
  moreover have "live (ran m (?e @ ?e @ []) u)" by (rule live_ran [OF u(1) does_live [OF both]])
  moreover have "sysctl_now (events (ran m (?e @ ?e @ []) u)) init k = st k" if "managed avail k" for k
    using now_restored [OF that] by (simp add: sysctl_now_append now_clean)
  ultimately show ?thesis by blast
qed

section \<open>The session\<close>

lemma sirimsg_runs:
  assumes "mininet_ok m"
  shows "runs m (loaded x (map fst sirimsg_kvs)) (sirimsg_run h m)"
  unfolding sirimsg_run_def msg_server_cmd_def msg_client_cmd_def siri_client_cmd_def script_simps
  by (rule runs_script assms | simp)+

lemma sirimsg_defaulted: "defaulted (cls_parameters (sirimsg_class h)) (map fst MSG_DEFAULTS @ map fst SIRI_DEFAULTS)"
proof -
  have wf: "wf_dict MSG_DEFAULTS" "wf_dict SIRI_DEFAULTS" by (simp_all add: wf_dict_def default_simps)
  show ?thesis
    by (rule defaulted_more [OF defaulted_with [OF wf(1)] wf(2)]) (simp add: sirimsg_class_def sirimsg_parameters_def)
qed

lemma sirimsg_good:
  assumes "cls_parameters (sirimsg_class h) fs f = Inr (xp_params x)" "text_values (xp_params x)"
    "present (xp_params x) [''siriRunTime'']" "mininet_ok m"
  shows "good m x (map snd sirimsg_kvs)"
proof -
  have d: "complete (xp_params x)" "present (xp_params x) (map fst MSG_DEFAULTS @ map fst SIRI_DEFAULTS)"
    using sirimsg_defaulted [of h] assms(1) unfolding defaulted_def by blast+
  then have "present (xp_params x) ((map fst MSG_DEFAULTS @ map fst SIRI_DEFAULTS) @ [''siriRunTime''])"
    using assms(3) by (simp add: present_append)
  then show ?thesis by (rule good_when [OF assms(4) d(1) _ assms(2)]) (simp_all add: default_simps)
qed

text \<open>The object after its constructor and both preparations: it has saved its own values.\<close>

lemma sirimsg_prepared:
  fixes s :: "'a xp_scheme"
  assumes good: "good m x (map snd sirimsg_kvs)" and ok: "steady m avail init x g ls"
    and net: "live s" "on_network x g ls b (fresh (xp_params x) [] s)" "keys_ascii (sysctl_now (events s) init)"
  shows "\<exists>s0 u st. sirimsg_init m (xp_params x) s = (Inr (), s0) \<and> sirimsg_prepare m s0 = (Inr (), u) \<and> live u \<and>
     loaded x (map fst sirimsg_kvs) u \<and> sysctl_saved avail st u \<and> set_to avail (xp_params x) (sysctl_now (events s0) init) st"
proof -
  obtain e0 A where init: "quiet e0" "has_attrs (map fst sirimsg_kvs) A"
    "sirimsg_init m (xp_params x) s = (Inr (), ran m e0 (fresh (xp_params x) A s))"
    using sirimsg_builds [OF good net(1) on_network_ready [OF net(2)]] by blast
  define s0 where "s0 = ran m e0 (fresh (xp_params x) A s)"
  have live0: "live s0" unfolding s0_def using init(1) net(1) by (intro live_ran) (simp_all add: quiet_def)
  have net0: "on_network x g ls b s0"
    using net(2) [unfolded ready_fresh(2) [of _ _ _ _ _ "[]" _ A]] stable_on_network unfolding s0_def stable_def by blast
  have ascii0: "keys_ascii (sysctl_now (events s0) init)"
    using net(3) init(1) by (simp add: s0_def sysctl_now_append sysctl_now_quiet quiet_def)
  obtain t where t: "\<And>k. block (xp_prepare m # remove_logs m [''msg'', ''siri''] # k) s0 = block k t" "live t" "on_network x g ls b t"
    "xp_attrs t = xp_attrs s0" "set_to avail (xp_params x) (sysctl_now (events s0) init) (sysctl_now (events t) init)"
    "keys_ascii (sysctl_now (events t) init)"
    using prepares_once [OF ok live0 net0 ascii0, of "[''msg'', ''siri'']"] by blast
  obtain u where u: "\<And>k. block (xp_prepare m # remove_logs m [''msg''] # k) t = block k u" "live u" "on_network x g ls b u"
    "sysctl_saved avail (sysctl_now (events t) init) u" "xp_attrs u = xp_attrs t"
    using prepares_once [OF ok t(2,3,6), of "[''msg'']"] by blast
  have "sirimsg_prepare m s0 = (Inr (), u)" unfolding sirimsg_prepare_steps t(1) u(1) [of "[]"] by simp
  moreover have "loaded x (map fst sirimsg_kvs) u"
    by (rule loaded_on_network [OF u(3)]) (use init(2) in \<open>simp add: t(4) u(5) s0_def\<close>)
  ultimately show ?thesis
    using init(3) u(2,4) t(5) by (intro exI [of _ s0] exI [of _ u] exI [of _ "sysctl_now (events t) init"]) (simp add: s0_def)
qed


end
