(* ===== verification/Runner.thy ===== *)
theory Runner
  imports ExpMore MultiClientProps
begin

text \<open>
  \<open>runner.py\<close>: YAML topologies are converted to the format of \<open>core/parameter.py\<close>, the classes
  of the topology, the configuration and the experiment are looked up by name, and the network
  is started, used and stopped.  The files and the list of temporary files extend the state of
  the experiment.
\<close>

section \<open>YAML\<close>

text \<open>What \<open>yaml.safe_load\<close> gives, without dates, sets and binary data; a dictionary is a list of pairs.\<close>

datatype yaml =
    YNone | YBool bool | YInt int | YFloat pyfloat | YStr string
  | YSeq "yaml list" | YMap "(yaml \<times> yaml) list"

fun repr_yaml :: "yaml \<Rightarrow> string" where
  "repr_yaml YNone = ''None''"
| "repr_yaml (YBool b) = (if b then ''True'' else ''False'')"
| "repr_yaml (YInt i) = show_int i"
| "repr_yaml (YFloat x) = repr_float x"
| "repr_yaml (YStr s) = repr_str s"
| "repr_yaml (YSeq vs) = ''['' @ join '', '' (map repr_yaml vs) @ '']''"
| "repr_yaml (YMap kvs) = ''{'' @ join '', '' (map (\<lambda>kv. repr_yaml (fst kv) @ '': '' @ repr_yaml (snd kv)) kvs) @ ''}''"

text \<open>\<open>str(v)\<close>, also in an f-string\<close>

definition str_yaml :: "yaml \<Rightarrow> string" where
  "str_yaml v = (case v of YStr s \<Rightarrow> s | _ \<Rightarrow> repr_yaml v)"

text \<open>\<open>v[k]\<close> for a string \<open>k\<close>, and \<open>v.get(k)\<close> and \<open>k in v\<close> on a dictionary\<close>

definition ysub :: "yaml \<Rightarrow> string \<Rightarrow> yaml res" where
  "ysub v k = (case v of YMap kvs \<Rightarrow> some_or KeyError (map_of kvs (YStr k)) | _ \<Rightarrow> Inl TypeError)"

definition yget :: "yaml \<Rightarrow> string \<Rightarrow> yaml option" where
  "yget v k = (case v of YMap kvs \<Rightarrow> map_of kvs (YStr k) | _ \<Rightarrow> None)"

text \<open>The values a \<open>for\<close> loop over \<open>v\<close> sees\<close>

definition yiter :: "yaml \<Rightarrow> yaml list res" where
  "yiter v = (case v of YSeq vs \<Rightarrow> Inr vs | YMap kvs \<Rightarrow> Inr (map fst kvs)
     | YStr s \<Rightarrow> Inr (map (\<lambda>c. YStr [c]) s) | _ \<Rightarrow> Inl TypeError)"

section \<open>The conversion\<close>

text \<open>\<open>Path(path).suffix\<close>: the last component of the path, from its last dot on.\<close>

definition path_name :: "string \<Rightarrow> string" where
  "path_name path = (case filter (\<lambda>p. p \<noteq> [] \<and> p \<noteq> ''.'') (split_on (CHR ''/'') path) of [] \<Rightarrow> [] | ps \<Rightarrow> last ps)"

definition path_suffix :: "string \<Rightarrow> string" where
  "path_suffix path = (let n = path_name path; e = takeWhile (\<lambda>c. c \<noteq> CHR ''.'') (rev n) in
     if 0 < length e \<and> length e + 1 < length n then CHR ''.'' # rev e else [])"

definition is_yaml :: "string \<Rightarrow> bool" where
  "is_yaml path \<longleftrightarrow> lower (path_suffix path) \<in> {''.yaml'', ''.yml''}"

text \<open>The line of one element of \<open>paths\<close>, and the lines of the file.\<close>

definition path_line :: "nat \<Rightarrow> yaml \<Rightarrow> string res" where
  "path_line idx p =
     rbind (ysub p ''delay_ms'') (\<lambda>delay. 
     let queue = (case yget p ''queue_pkts'' of Some v \<Rightarrow> v | None \<Rightarrow> YInt 100) in
     rbind (ysub p ''bw_mbit'') (\<lambda>bw.
     let key = (case (yget p ''link_type'', yget p ''id'') of
         (Some t, Some i) \<Rightarrow> ''path_'' @ str_yaml t @ ''_'' @ str_yaml i
       | _ \<Rightarrow> ''path_'' @ (case yget p ''name'' of Some n \<Rightarrow> str_yaml n | None \<Rightarrow> ''c2r_'' @ show_nat idx)) in
     Inr (key @ '':'' @ str_yaml delay @ '','' @ str_yaml queue @ '','' @ str_yaml bw)))"

definition yaml_lines :: "yaml \<Rightarrow> string list res" where
  "yaml_lines y =
     rbind (ysub y ''topology'') (\<lambda>t.
     rbind (rbind (ysub t ''subnets'') (\<lambda>s. ysub s ''left'')) (\<lambda>left.
     rbind (rbind (ysub t ''subnets'') (\<lambda>s. ysub s ''right'')) (\<lambda>right.
     rbind (ysub t ''type'') (\<lambda>ty.
     rbind (yiter (case yget t ''paths'' of Some v \<Rightarrow> v | None \<Rightarrow> YSeq [])) (\<lambda>ps.
     rbind (rmap (\<lambda>(idx, p). path_line idx p) (enumerate 0 ps)) (\<lambda>ls.
       Inr ([''leftSubnet:'' @ str_yaml left, ''rightSubnet:'' @ str_yaml right] @ ls @ [''topoType:'' @ str_yaml ty])))))))"

definition yaml_text :: "yaml \<Rightarrow> string res" where
  "yaml_text y = rbind (yaml_lines y) (\<lambda>ls. Inr (join nl ls @ nl))"

section \<open>The runner\<close>

text \<open>
  What the runner gets from outside: the network, the decoded output of \<open>git rev-parse\<close> in a
  directory, the directory of the program, the YAML reader, the name of the temporary file, and
  where the repository is.
\<close>

record world =
  w_net :: mininet
  w_git :: "string \<Rightarrow> string res"
  w_root :: string
  w_yaml :: "string \<Rightarrow> yaml res"
  w_tmp :: string
  w_host :: host

record runner = xp +
  cwd :: string
  run_files :: "string \<Rightarrow> string option"
  run_tmp :: "string list"

definition get_git_revision_short_hash :: "world \<Rightarrow> ('a runner_scheme, string) py" where
  "get_git_revision_short_hash w =
     py_bind (py_get cwd) (\<lambda>curr_dir. py_bind (py_modify (\<lambda>s. s\<lparr>cwd := w_root w\<rparr>)) (\<lambda>_.
     py_bind (py_get cwd) (\<lambda>d. py_bind (py_lift (w_git w d)) (\<lambda>out. py_bind (py_modify (\<lambda>s. s\<lparr>cwd := curr_dir\<rparr>)) (\<lambda>_.
     py_return (strip out))))))"

definition yaml_topo_to_legacy_tmpfile :: "world \<Rightarrow> string \<Rightarrow> ('a runner_scheme, string) py" where
  "yaml_topo_to_legacy_tmpfile w path =
     py_bind (py_get run_files) (\<lambda>fs. py_bind (py_lift (some_or FileNotFoundError (fs path))) (\<lambda>t.
     py_bind (py_lift (rbind (w_yaml w t) yaml_text)) (\<lambda>text.
     py_bind (py_modify (\<lambda>s. s\<lparr>run_files := (run_files s)(w_tmp w \<mapsto> text)\<rparr>)) (\<lambda>_. py_return (w_tmp w)))))"

definition cleanup_tmp_files :: "('a runner_scheme, unit) py" where
  "cleanup_tmp_files = py_modify (\<lambda>s. s\<lparr>run_files := (\<lambda>f. if f \<in> set (run_tmp s) then None else run_files s f), run_tmp := []\<rparr>)"

definition set_builder :: "string \<Rightarrow> ('a runner_scheme, unit) py" where
  "set_builder builder_type =
     (if builder_type = ''mininet'' then py_modify (\<lambda>s. s\<lparr>graph := [], net := None\<rparr>)
      else py_raise (GenericException (''I can not find the builder '' @ builder_type)))"

text \<open>
  \<open>TOPOS\<close> and \<open>TOPO_CONFIGS\<close> of \<open>topos/__init__.py\<close> have the same two names.  A list, which a
  key given twice has as its value, cannot be looked up in a dictionary.
\<close>

definition TOPOS :: "topo_class dict" where
  "TOPOS = [(''MultiIf'', MultiIfClass), (''MultiIfMultiClient'', MultiIfMultiClientClass)]"

definition find_class :: "pval \<Rightarrow> 'c dict \<Rightarrow> 'c option res" where
  "find_class v d = (case v of PStr k \<Rightarrow> Inr (dict_get d k) | PInt _ \<Rightarrow> Inr None | PList _ \<Rightarrow> Inl TypeError)"

definition TOPO_ATTR :: string where "TOPO_ATTR = ''topoType''"

definition with_topo_class :: "topo_param \<Rightarrow> string \<Rightarrow> (topo_class \<Rightarrow> ('a runner_scheme, unit) py) \<Rightarrow> ('a runner_scheme, unit) py" where
  "with_topo_class tp unknown f =
     py_bind (py_lift (get_param tp TOPO_ATTR)) (\<lambda>t. py_bind (py_lift (find_class t TOPOS)) (\<lambda>c.
     case c of None \<Rightarrow> py_raise (GenericException (unknown @ str_pval t)) | Some c \<Rightarrow> f c))"

definition apply_topo :: "mininet \<Rightarrow> topo_param \<Rightarrow> ('a runner_scheme, unit) py" where
  "apply_topo m tp = with_topo_class tp ''Unknown topo: '' (\<lambda>c. case c of
     MultiIfClass \<Rightarrow> multi_if_topo_init m tp
   | MultiIfMultiClientClass \<Rightarrow> multi_client_topo_init m tp)"

text \<open>A new configuration object: no attribute but the topology and the parameters.\<close>

definition apply_topo_config :: "topo_param \<Rightarrow> ('a runner_scheme, unit) py" where
  "apply_topo_config tp = with_topo_class tp ''Unknown topo config: '' (\<lambda>c. block
     [topo_config_init tp,
      py_modify (\<lambda>s. s\<lparr>cfg_client := None, cfg_server := None, cfg_router := None, cfg_clients := None, cfg_servers := None,
        xp_topo_class := c\<rparr>)])"

definition start_topo :: "mininet \<Rightarrow> ('a runner_scheme, unit) py" where
  "start_topo m = block
     [topo_start_network m,
      py_bind (py_get xp_topo_class) (\<lambda>c. case c of
        MultiIfClass \<Rightarrow> multi_if_configure m
      | MultiIfMultiClientClass \<Rightarrow> multi_client_configure m)]"

definition run_experiment :: "world \<Rightarrow> string \<Rightarrow> ('a runner_scheme, unit) py" where
  "run_experiment w f =
     py_bind (py_get run_files) (\<lambda>fs.
     py_bind (py_lift (rbind (new_experiment_parameter fs (Some f)) (\<lambda>p. get_param p ''xpType''))) (\<lambda>x.
     py_bind (py_lift (find_class x (EXPERIMENTS (w_host w)))) (\<lambda>c. case c of
       None \<Rightarrow> py_raise (GenericException (''Unknown experiment '' @ str_pval x))
     | Some c \<Rightarrow> perform c fs (Some f) (w_net w))))"

definition open_cli :: "('a runner_scheme, unit) py" where
  "open_cli = py_bind (py_get net) (\<lambda>n. if n = None then py_raise AttributeError else emit OpenCli)"

definition stop_topo :: "mininet \<Rightarrow> ('a runner_scheme, unit) py" where
  "stop_topo m = py_finally (topo_stop_network m) cleanup_tmp_files"

text \<open>\<open>Runner.__init__\<close>: up to the start of the network, then the rest.\<close>

definition load_topology :: "world \<Rightarrow> string \<Rightarrow> ('a runner_scheme, topo_param) py" where
  "load_topology w topo_file =
     py_bind (if is_yaml topo_file
       then py_bind (yaml_topo_to_legacy_tmpfile w topo_file) (\<lambda>f.
         py_bind (py_modify (\<lambda>s. s\<lparr>run_tmp := run_tmp s @ [f]\<rparr>)) (\<lambda>_. py_return f))
       else py_return topo_file) (\<lambda>f.
     py_bind (py_get run_files) (\<lambda>fs. py_lift (new_topo_parameter fs (Some f))))"

definition runner_open :: "world \<Rightarrow> string \<Rightarrow> string \<Rightarrow> ('a runner_scheme, unit) py" where
  "runner_open w builder_type topo_file =
     py_bind (get_git_revision_short_hash w) (\<lambda>_. py_bind (py_modify (\<lambda>s. s\<lparr>run_tmp := []\<rparr>)) (\<lambda>_.
     py_bind (load_topology w topo_file) (\<lambda>tp. block
       [set_builder builder_type, apply_topo (w_net w) tp, apply_topo_config tp, start_topo (w_net w)])))"

definition runner_session :: "world \<Rightarrow> string \<Rightarrow> ('a runner_scheme, unit) py" where
  "runner_session w f = block [run_experiment w f, stop_topo (w_net w)]"

definition runner_init :: "world \<Rightarrow> string \<Rightarrow> string \<Rightarrow> string option \<Rightarrow> ('a runner_scheme, unit) py" where
  "runner_init w builder_type topo_file xp_file = block
     (runner_open w builder_type topo_file #
      (case xp_file of
         Some (c # cs) \<Rightarrow> [runner_session w (c # cs), runner_session w (c # cs)]
       | _ \<Rightarrow> [open_cli, stop_topo (w_net w)]))"

text \<open>
  The main program: every exception is only logged, and the runner is dropped, which runs its
  \<open>__del__\<close>.  (Then Mininet's own \<open>cleanup\<close> is called.)
\<close>

abbreviation runner_del :: "('a runner_scheme, unit) py" where
  "runner_del \<equiv> cleanup_tmp_files"

definition runner_main :: "world \<Rightarrow> string \<Rightarrow> string option \<Rightarrow> ('a runner_scheme, unit) py" where
  "runner_main w topo_file xp_file = block [py_swallow (runner_init w ''mininet'' topo_file xp_file), runner_del]"

end
