(* ===== verification/Frames.thy ===== *)
theory Frames
  imports Working Runner
begin

text \<open>
  What no command of an experiment touches.  A predicate that survives an event, a line of the
  log and the saving of sysctls survives every statement of the experiments; one that also
  survives the constructor survives whole experiments, with or without an exception.
\<close>

lemma always_questions [always_intro]:
  "always P (builder_get_host m who)" "always P (builder_get_interface_names m w)" "always P (node_mac m w i)"
  "always P (py_nth xs n)" "always P (py_last xs)" "always P (net_names m)"
  by (intro always_pure pure_get_host pure_interface_names pure_node_mac pure_index pure_net_names)+

lemma always_read_attr [always_intro]: "always P (py_attr f)"
  unfolding py_attr_def by (intro always_intro)

lemma always_reads [always_intro]: "always P (xp_get k)" "always P (xp_attr a)"
  unfolding xp_get_def xp_attr_def by (intro always_intro)+

lemma always_fmt [always_intro]:
  "(\<And>t. always P (k t)) \<Longrightarrow> always P (fmt_attr a k)" "(\<And>t. always P (k t)) \<Longrightarrow> always P (cat_attr a k)"
  "(\<And>t. always P (k t)) \<Longrightarrow> always P (server_ip i k)" "(\<And>t. always P (k t)) \<Longrightarrow> always P (fmt_get a k)"
  "(\<And>t. always P (k t)) \<Longrightarrow> always P (int_get a k)" "(\<And>b. always P (l b)) \<Longrightarrow> always P (multipath_attr l)"
  unfolding fmt_attr_def cat_attr_def server_ip_def fmt_get_def int_get_def multipath_attr_def
  by ((intro always_intro, assumption)+)

lemma always_unless [always_intro]: "always P f \<Longrightarrow> always P g \<Longrightarrow> always P (unless_zero a f g)"
  unfolding unless_zero_def by (intro always_intro)

lemma always_swallow [always_intro]: "always P f \<Longrightarrow> always P (py_swallow f)"
  by (simp add: always_def py_swallow_def)

section \<open>Commands\<close>

locale untouched =
  fixes P :: "'a xp_scheme \<Rightarrow> bool"
  assumes event: "P s \<Longrightarrow> P (s\<lparr>events := events s @ [e]\<rparr>)"
    and line: "P s \<Longrightarrow> P (s\<lparr>log_lines := log_lines s @ [l]\<rparr>)"
    and saving: "P s \<Longrightarrow> P (set_saved sl d s)"
begin

lemma always_write: "always P (emit e)" "always P (log_write l)"
  unfolding emit_def log_write_def by (intro always_intro event line; assumption)+

lemma commands [always_intro]:
  "always P (topo_command_to m who cmd)" "always P (topo_command_global m cmd)"
proof -
  show "always P (topo_command_to m who cmd)"
    unfolding topo_command_to_def builder_command_to_def
    by (intro always_intro always_write; cases who; simp; intro always_intro always_write)
  show "always P (topo_command_global m cmd)"
    unfolding topo_command_global_def builder_command_global_def Let_def split_def
    by (intro always_intro always_write)
qed

lemma cli [always_intro]: "always P builder_get_cli"
  unfolding builder_get_cli_def by (intro always_intro always_write)

lemma tell [always_intro]: "always P cmd \<Longrightarrow> always P (xp_tell m who cmd)"
  unfolding xp_tell_def by (intro always_intro)

lemma to [always_intro]: "always P (to_client m c)" "always P (to_server m c)" "always P (to_router m c)"
  unfolding to_client_def to_server_def to_router_def by (intro always_intro)+

lemma slot_commands: "always P (slot_command m h c)" "always P (slot_node sl)"
  unfolding slot_command_def slot_node_def by (intro always_intro) (cases sl; simp; intro always_intro)

lemma saves: "always P (save_slot m sl)"
  unfolding save_slot_def save_one_def by (intro always_intro slot_commands saving; assumption)

lemma over: "always P (over_saved sl (write_one m sl))" "always P (over_saved sl (restore_one m sl))"
  unfolding over_saved_def write_one_def restore_one_def by (intro always_intro slot_commands)+

lemma sysctls [always_intro]: "always P (setup_sysctl m)" "always P (restore_sysctl m)"
  unfolding setup_sysctl_def save_sysctl_def write_sysctl_def restore_sysctl_def by (intro always_intro saves over)+

lemma netem [always_intro]: "always P (run_netem_at m)"
  unfolding run_netem_at_def configure_changing_bottleneck_def by (intro always_intro)

lemma managers [always_intro]:
  "always P (run_userspace_path_manager m)" "always P (clean_userspace_path_manager m)"
  "always P (put_priority_on_paths m)" "always P (run_tcpdump m)"
  unfolding run_userspace_path_manager_def run_path_manager_def clean_userspace_path_manager_def kill_path_manager_def
    put_priority_on_paths_def set_priority_def set_backup_def run_tcpdump_def by (intro always_intro)+

lemma phases [always_intro]:
  "always P (xp_prepare m)" "always P (xp_clean m)" "always P (random_file_prepare m)" "always P (random_file_clean m)"
  unfolding random_file_prepare_def random_file_clean_def xp_prepare_def xp_clean_def by (intro always_intro)+

lemma pinging [always_intro]: "always P (ping m)" "always P (ping_first_server m)"
  unfolding ping_def ping_first_server_def ping_pair_def by (intro always_intro)+

end

section \<open>Whole experiments\<close>

text \<open>A constructor that cannot end ends the experiment.\<close>

definition fails :: "('s \<Rightarrow> bool) \<Rightarrow> ('s, 'a) py \<Rightarrow> bool" where
  "fails P f \<longleftrightarrow> (\<forall>s x t. P s \<longrightarrow> f s \<noteq> (Inr x, t))"

lemma failsD: "fails P f \<Longrightarrow> P s \<Longrightarrow> \<exists>e. fst (f s) = Inl e"
  unfolding fails_def by (metis sumE surjective_pairing)

lemma fails_raise: "fails P (py_raise e)"
  by (simp add: fails_def)

lemma fails_weaken: "fails (\<lambda>_. True) f \<Longrightarrow> fails P f"
  by (simp add: fails_def)

lemma fails_first: "fails P f \<Longrightarrow> fails P (py_bind f k)"
  unfolding fails_def by (auto simp: py_bind_eq_Inr)

lemma fails_later: "keeps P f \<Longrightarrow> (\<And>x. fails P (k x)) \<Longrightarrow> fails P (py_bind f k)"
  unfolding fails_def py_bind_eq_Inr by (auto dest: keepsD)

lemma fails_any: "(\<And>x. fails (\<lambda>_. True) (k x)) \<Longrightarrow> fails (\<lambda>_. True) (py_bind f k)"
  by (rule fails_later) (simp_all add: keeps_def)

lemma failing_bind: "fails (\<lambda>_. True) f \<Longrightarrow> always P f \<Longrightarrow> always P (py_bind f k)"
  unfolding always_def fails_def by (auto simp: py_bind_apply split: prod.split sum.split)

lemma fails_param_dic: "fails P (py_lift (param_dic p))"
  by (simp add: fails_def param_dic_def)

lemma fails_nc_load: "fails (\<lambda>_. True) nc_load"
  unfolding nc_load_def block.simps by (intro fails_any fails_first fails_param_dic)

lemma fails_nc_init: "fails (\<lambda>_. True) (nc_init nc_load p)" "fails (\<lambda>_. True) (nc_init ncpv_load p)" "fails (\<lambda>_. True) (ncpv_init m p)"
  unfolding nc_init_def ncpv_load_def ncpv_init_def block.simps
  by (rule fails_any, rule fails_first, rule fails_nc_load)
     (rule fails_any, rule fails_first, rule fails_first, rule fails_nc_load,
      rule fails_first, rule fails_any, rule fails_first, rule fails_first, rule fails_nc_load)

locale frame = untouched P for P :: "'a xp_scheme \<Rightarrow> bool" +
  assumes built: "P s \<Longrightarrow> P (s\<lparr>experiment_parameter := p, sysctl_to_restore := None,
       client_sysctl_to_restore := None, server_sysctl_to_restore := None, xp_attrs := []\<rparr>)"
    and attribute: "P s \<Longrightarrow> P (s\<lparr>xp_attrs := A\<rparr>)"
begin

lemma building [always_intro]:
  "always P (experiment_init p)" "always P (load_attr kv)"
  unfolding experiment_init_def load_attr_def by (intro always_intro built attribute; assumption)+

lemma constructors:
  "always P (iperf_init m p)" "always P (scenario_init m p)" "always P (ab_init m p)" "always P (http_init m p)"
  "always P (https_init m p)" "always P (sendfile_init m p)" "always P (netperf_init m p)" "always P (ditg_init m p)"
  "always P (vlc_init m p)" "always P (msg_init (experiment_init p) msg_load (ping m))"
  "always P (siri_init (experiment_init p) siri_load (siri_ping m))" "always P (sirihttp_init m p)" "always P (sirimsg_init m p)"
  "always P (quicsiri_init m p)" "always P (pquic_init m p)" "always P (quic_init m p)" "always P (quiche_init m p)"
  "always P (nc_init nc_load p)" "always P (ncpv_init m p)"
  "always P (epload_init m p)"
  unfolding epload_init_def epload_load_def iperf_init_def iperf_load_def scenario_init_def scenario_load_def ab_init_def ab_load_def http_init_def https_init_def
    sendfile_init_def sendfile_ping_def netperf_init_def netperf_load_def netperf_ping_def ditg_init_def ditg_load_def
    vlc_init_def vlc_load_def vlc_ping_def msg_init_def msg_load_def siri_init_def siri_load_def siri_ping_def
    sirihttp_init_def sirihttp_load_def sirihttp_ping_def sirimsg_init_def sirimsg_load_def quicsiri_init_def quicsiri_load_def
    quicsiri_ping_def pquic_init_def pquic_load_def quic_init_def quic_load_def quic_ping_def quiche_init_def quiche_load_def
    nc_init_def nc_load_def nc_set_ports_def ncpv_init_def ncpv_load_def ncpv_ping_def random_file_init_def random_file_load_parameters_def
  by (intro always_intro attribute; assumption)+

lemma runs_basic:
  "always P (ping_run m)" "always P (iperf_run m)" "always P (scenario_run m)" "always P (ab_run h m)"
  "always P (http_run m)" "always P (https_run h m)" "always P (sendfile_run m)" "always P (netperf_run m)"
  "always P (ditg_run m)" "always P (vlc_run m)" "always P (epload_run m)"
  unfolding epload_run_def epload_client_cmd_def epload_sub_cmd_def epload_sub_back_cmd_def ping_run_def iperf_run_def iperf_client_cmd_def scenario_run_def cfg_client_at_def ab_run_def ab_client_cmd_def
    http_run_def http_client_cmd_def https_run_def https_client_cmd_def sendfile_run_def sendfile_client_cmd_def
    netperf_run_def netperf_client_cmd_def ditg_run_def ditg_client_cmd_def ditg_profile_def vlc_run_def vlc_client_cmd_def
  by (intro always_intro; simp add: split_def; intro always_intro)+

lemma runs_more:
  "always P (msg_run h m)" "always P (siri_run h m)" "always P (sirihttp_run h m)" "always P (sirimsg_run h m)"
  "always P (quicsiri_run m)" "always P (pquic_run m)" "always P (quic_run h m)" "always P (quiche_run m)"
  "always P (quic_mpath_run m)"
  unfolding msg_run_def msg_server_cmd_def msg_client_cmd_def siri_run_def siri_client_cmd_def sirihttp_run_def
    sirihttp_client_cmd_def sirimsg_run_def quicsiri_run_def quicsiri_client_cmd_def pquic_run_def pquic_server_cmd_def
    pquic_client_cmd_def pquic_plugin_cmd_def quic_run_def quic_server_cmd_def quic_client_cmd_def no_congestion_nodes_def
    quiche_run_def quiche_server_cmd_def quiche_client_cmd_def quic_mpath_run_def quic_mpath_script_def
  by (intro always_intro)+

lemma prepares:
  "always P (iperf_prepare m)" "always P (scenario_prepare m)" "always P (ab_prepare m)" "always P (http_prepare m)"
  "always P (https_prepare m)" "always P (sendfile_prepare m)" "always P (netperf_prepare m)" "always P (ditg_prepare m)"
  "always P (vlc_prepare m)" "always P (msg_prepare (xp_prepare m) m)" "always P (siri_prepare (xp_prepare m) m)"
  "always P (sirihttp_prepare m)" "always P (sirimsg_prepare m)" "always P (quicsiri_prepare m)" "always P (pquic_prepare m)"
  "always P (quic_prepare m)" "always P (quiche_prepare m)" "always P (epload_prepare m)"
  unfolding epload_prepare_def iperf_prepare_def scenario_prepare_def ab_prepare_def http_prepare_def https_prepare_def sendfile_prepare_def
    netperf_prepare_def ditg_prepare_def vlc_prepare_def msg_prepare_def siri_prepare_def sirihttp_prepare_def
    sirimsg_prepare_def quicsiri_prepare_def pquic_prepare_def quic_prepare_def quiche_prepare_def
  by (intro always_intro)+

lemma cleans: "always P (vlc_clean m)" "always P (sirimsg_clean m)"
  unfolding vlc_clean_def sirimsg_clean_def by (intro always_intro)+

lemma every_class:
  assumes "(name, c) \<in> set (EXPERIMENTS h)"
  shows "(\<forall>p. always P (cls_init c m p)) \<and> (always P (cls_prepare c m) \<and> always P (cls_run c m) \<and> always P (cls_clean c m) \<or>
      (\<forall>p. fails (\<lambda>_. True) (cls_init c m p)))"
  using assms unfolding EXPERIMENTS_def
  by (simp, elim disjE conjE)
     (simp_all add: ab_class_def ditg_class_def epload_class_def http_class_def https_class_def iperf_class_def
        scenario_class_def msg_class_def nc_class_def ncpv_class_def netperf_class_def none_class_def ping_class_def
        pquic_class_def quic_class_def quiche_class_def quic_mpath_class_def quicsiri_class_def sendfile_class_def
        siri_class_def sirihttp_class_def sirimsg_class_def vlc_class_def constructors runs_basic runs_more prepares cleans
        phases building cli fails_nc_init)

lemma whole_experiment:
  assumes "(name, c) \<in> set (EXPERIMENTS h)"
  shows "always P (perform c fs f m)"
proof -
  have "always P (perform c fs f m)"
    if "\<And>p. always P (cls_init c m p)" "always P (cls_prepare c m)" "always P (cls_run c m)" "always P (cls_clean c m)"
    using that unfolding perform_def classic_run_def by (intro always_intro)
  moreover have "always P (perform c fs f m)"
    if "\<And>p. always P (cls_init c m p)" "\<And>p. fails (\<lambda>_. True) (cls_init c m p)"
    using that unfolding perform_def block.simps by (intro always_intro failing_bind)
  ultimately show ?thesis using every_class [OF assms, of m] by blast
qed

end

text \<open>What holds whenever a statement ends without an exception.\<close>

definition ends_in :: "('s \<Rightarrow> bool) \<Rightarrow> ('s \<Rightarrow> bool) \<Rightarrow> ('s, 'a) py \<Rightarrow> bool" where
  "ends_in P Q f \<longleftrightarrow> (\<forall>s x t. P s \<longrightarrow> f s = (Inr x, t) \<longrightarrow> Q t)"

lemma ends_in_bind: "ends_in P Q f \<Longrightarrow> (\<And>x. ends_in Q R (k x)) \<Longrightarrow> ends_in P R (py_bind f k)"
  unfolding ends_in_def py_bind_eq_Inr by blast

lemma ends_in_keeps: "ends_in P P f \<longleftrightarrow> keeps P f"
  by (auto simp: ends_in_def keeps_def)

lemma ends_in_any: "ends_in P (\<lambda>_. True) f"
  by (simp add: ends_in_def)

lemma fails_after: "ends_in P Q f \<Longrightarrow> (\<And>x. fails Q (k x)) \<Longrightarrow> fails P (py_bind f k)"
  unfolding fails_def ends_in_def py_bind_eq_Inr by blast

end
