(* ===== verification/Broken.thy ===== *)
theory Broken
  imports Frames
begin

text \<open>The registered experiments that never end without an exception, and why.\<close>

section \<open>What the commands leave alone\<close>

lemma set_saved_attrs [simp]:
  "xp_attrs (set_saved sl d s) = xp_attrs s" "xp_topo_class (set_saved sl d s) = xp_topo_class s"
  by (cases sl; simp)+

text \<open>Nothing changes the class of the topology, and only the constructor sets attributes.\<close>

interpretation same_class: frame "\<lambda>s. xp_topo_class s = t"
  by unfold_locales simp_all

abbreviation no_file :: "'a xp_scheme \<Rightarrow> bool" where
  "no_file s \<equiv> dict_get (xp_attrs s) ''file'' = None"

interpretation no_file: untouched no_file
  by unfold_locales simp_all

section \<open>Constructors that stop before any command\<close>

lemma always_load: "always (\<lambda>s. events s = es) (load_attr kv)"
  unfolding load_attr_def xp_get_def by (intro always_intro; simp)

lemma always_nc_init:
  "always (\<lambda>s. events s = es) (nc_init nc_load p)" "always (\<lambda>s. events s = es) (nc_init ncpv_load p)"
  "always (\<lambda>s. events s = es) (ncpv_init m p)"
proof -
  show *: "always (\<lambda>s. events s = es) (nc_init nc_load p)" "always (\<lambda>s. events s = es) (nc_init ncpv_load p)"
    unfolding nc_init_def ncpv_load_def nc_load_def nc_set_ports_def experiment_init_def by (intro always_intro always_load; simp)+
  show "always (\<lambda>s. events s = es) (ncpv_init m p)"
    unfolding ncpv_init_def block.simps by (intro failing_bind fails_nc_init *)
qed

section \<open>The experiments that cannot end\<close>

definition silent_names :: "string list" where
  "silent_names = [''epload'', ''nc'', ''ncpv'']"

definition broken_names :: "topo_class \<Rightarrow> string list" where
  "broken_names t = silent_names @ [''sirihttp'', ''vlc''] @ (if t = MultiIfClass then [''iperfScenario''] else [])"

lemma perform_fails:
  "(\<And>p. fails P (block [cls_init c m p, classic_run (cls_prepare c m) (cls_run c m) (cls_clean c m)])) \<Longrightarrow> fails P (perform c fs f m)"
  unfolding perform_def by (rule fails_later [OF keeps_basic(3)])

lemma epload_fails: "perform epload_class fs f m s = (Inl (case new_experiment_parameter fs f of Inl e \<Rightarrow> e | Inr _ \<Rightarrow> NameError), s)"
  by (simp add: perform_def epload_class_def epload_parameters_def rbind_def split: sum.split)

lemma nc_fails: "fails (\<lambda>_. True) (perform nc_class fs f m)" "always (\<lambda>s. events s = es) (perform nc_class fs f m)"
  unfolding perform_def nc_class_def xp_class.simps block.simps
  by (intro fails_any fails_first fails_nc_init)
     (intro always_bind [OF always_basic(3)] failing_bind fails_nc_init always_nc_init)

lemma ncpv_fails: "fails (\<lambda>_. True) (perform ncpv_class fs f m)" "always (\<lambda>s. events s = es) (perform ncpv_class fs f m)"
  unfolding perform_def ncpv_class_def xp_class.simps block.simps
  by (intro fails_any fails_first fails_nc_init)
     (intro always_bind [OF always_basic(3)] failing_bind fails_nc_init always_nc_init)

lemma vlc_fails: "fails (\<lambda>_. True) (perform vlc_class fs f m)"
  by (rule perform_fails)
     (simp add: fails_def py_bind_eq_Inr vlc_class_def classic_run_def vlc_clean_def)

text \<open>\<open>SiriHTTP\<close> never sets the attribute \<open>file\<close> that \<open>prepare\<close> reads.\<close>

lemma siri_load_keys: "always no_file siri_load"
  unfolding siri_load_def load_attr_def for_each.simps by (intro always_intro; simp)

lemma sirihttp_init_no_file:
  assumes "sirihttp_init m p s = (Inr x, t)"
  shows "dict_get (xp_attrs t) ''file'' = None"
proof -
  define rest :: "('a xp_scheme, unit) py" where "rest = block [sirihttp_load, sirihttp_ping m, sirihttp_load, sirihttp_ping m]"
  have "sirihttp_init m p = py_bind (experiment_init p) (\<lambda>_. rest)"
    by (simp add: sirihttp_init_def siri_init_def random_file_init_def bind_assoc rest_def)
  then have s': "dict_get (xp_attrs (fresh p [] s)) ''file'' = None" "rest (fresh p [] s) = (Inr x, t)"
    using assms by (simp_all add: py_bind_eq_Inr experiment_init_fresh)
  have "keeps no_file rest"
    unfolding rest_def sirihttp_load_def sirihttp_ping_def by (intro always_keeps always_intro siri_load_keys)
  from keepsD [OF this s'] show ?thesis .
qed

lemma no_file_prepare: "fails no_file (random_file_prepare m)"
proof -
  have "fails no_file (xp_attr ''file'')"
    by (simp add: fails_def xp_attr_def py_attr_def)
  then show ?thesis
    unfolding random_file_prepare_def block.simps by (intro fails_later [OF always_keeps [OF no_file.phases(1)]] fails_first)
qed

lemma sirihttp_fails: "fails (\<lambda>_. True) (perform (sirihttp_class h) fs f m)"
  unfolding sirihttp_class_def
  by (rule perform_fails, unfold xp_class.simps block.simps classic_run_def,
      rule fails_after [where Q = no_file], unfold ends_in_def, blast dest: sirihttp_init_no_file)
     (simp only: sirihttp_prepare_def siri_prepare_def block.simps, intro fails_first no_file_prepare)

lemma scenario_fails: "fails (\<lambda>s. xp_topo_class s = MultiIfClass) (perform scenario_class fs f m)"
proof -
  let ?P = "\<lambda>s :: 'a xp_scheme. xp_topo_class s = MultiIfClass"
  note keep = always_keeps [OF same_class.phases(1)] always_keeps [OF same_class.to(1)] always_keeps [OF same_class.to(2)]
  note init = always_keeps [OF same_class.constructors(2)]
  have "fails ?P (scenario_prepare m)"
    unfolding scenario_prepare_def block.simps
    by (rule fails_later [OF keep(1)], rule fails_later [OF keep(2)], rule fails_later [OF keep(3)], rule fails_first)
       (simp add: fails_def)
  then have "fails ?P (block [scenario_init m p, classic_run (scenario_prepare m) (scenario_run m) (xp_clean m)])" for p
    unfolding block.simps classic_run_def by (intro fails_later [OF init] fails_first)
  then show ?thesis
    unfolding scenario_class_def by (intro perform_fails) simp
qed

text \<open>
  C37. The experiments \<open>epload\<close>, \<open>nc\<close>, \<open>ncpv\<close>, \<open>sirihttp\<close> and \<open>vlc\<close> end with an exception whatever the
  files and the network are, and so does \<open>iperfScenario\<close> on the single-client topology; the
  first three fail in the constructor, before any command.
\<close>

theorem broken_experiments:
  fixes s :: "'a xp_scheme"
  assumes "(name, c) \<in> set (EXPERIMENTS h)" "name \<in> set (broken_names (xp_topo_class s))"
  shows "(\<exists>e. fst (perform c fs f m s) = Inl e) \<and>
     (name \<in> set silent_names \<longrightarrow> events (snd (perform c fs f m s)) = events s)"
proof -
  have cases: "(name, c) \<in> {(''epload'', epload_class), (''nc'', nc_class), (''ncpv'', ncpv_class),
       (''sirihttp'', sirihttp_class h), (''vlc'', vlc_class), (''iperfScenario'', scenario_class)}"
    "name = ''iperfScenario'' \<Longrightarrow> xp_topo_class s = MultiIfClass"
    using assms by (auto simp: EXPERIMENTS_def broken_names_def silent_names_def split: if_splits)
  have silent: "events (snd (perform c fs f m s)) = events s" if "name \<in> set silent_names"
    using that cases(1) alwaysD [OF nc_fails(2) refl] alwaysD [OF ncpv_fails(2) refl]
    by (auto simp: silent_names_def epload_fails)
  have "\<exists>e. fst (perform c fs f m s) = Inl e"
    using cases failsD [OF nc_fails(1)] failsD [OF ncpv_fails(1)] failsD [OF vlc_fails] failsD [OF sirihttp_fails]
      failsD [OF scenario_fails, of s] by (auto simp: epload_fails)
  with silent show ?thesis by blast
qed

end
