(* ===== verification/ExpDemo.thy ===== *)
theory ExpDemo
  imports SiriMsgSession Broken
begin

text \<open>A working experiment on the demo network: \<open>iperf\<close> with the default parameters.\<close>

definition iperf_params :: params where
  "iperf_params = add_defaults IPERF_DEFAULTS demo_params"

definition iperf_plan :: xp_plan where
  "iperf_plan = demo_plan\<lparr>xp_params := iperf_params\<rparr>"

lemma iperf_loaded: "cls_parameters iperf_class fs None = Inr iperf_params"
  by (simp add: iperf_class_def parameters_with_def new_experiment_parameter_def new_parameter_def iperf_params_def demo_params_def)

lemma get_iperf: "get_param iperf_params k = (case dict_get IPERF_DEFAULTS k of Some v \<Rightarrow> Inr v | None \<Rightarrow> get_param demo_params k)"
proof -
  have "wf_dict IPERF_DEFAULTS" by (simp add: wf_dict_def IPERF_DEFAULTS_def)
  then show ?thesis
    by (simp add: iperf_params_def demo_params_def get_param_def add_defaults_def dict_get_update split: option.splits)
qed

lemma iperf_text: "text_values iperf_params"
  by (auto simp: text_values_def get_iperf get_demo IPERF_DEFAULTS_def EXPERIMENT_DEFAULT_PARAMETERS_def split: if_splits option.splits)

lemma iperf_plain: "plain_paths iperf_params"
  using demo_plain by (simp add: plain_paths_def backup_of_def param_val_def get_iperf IPERF_DEFAULTS_def)

lemma iperf_network:
  "on_network iperf_plan (multi_if_graph [demo_link ''c2r'' 0] []) [demo_link ''c2r'' 0] False (fresh iperf_params [] demo_xp)"
  using demo_on_network
  by (simp add: iperf_plan_def on_network_def xp_ready_def fresh_def nodes_set_def demo_xp_def demo_plan_def
      client_interface_count_def xp_server_interface_count_def server_interface_count_def)


theorem broken_experiments_witness:
  "\<exists>e. fst (perform vlc_class (\<lambda>_. None) None demo_machine demo_xp) = Inl e"
  using broken_experiments [of "''vlc''" vlc_class undefined demo_xp "\<lambda>_. None" None demo_machine]
  by (simp add: EXPERIMENTS_def broken_names_def)

text \<open>
  Every registered experiment is one that works, one that always raises, or \<open>sirimsg\<close>; only
  \<open>iperfScenario\<close> is of both kinds, as the topology decides.
\<close>

lemma registered_classified:
  "set (map fst (EXPERIMENTS h)) = set working_names \<union> set (broken_names k) \<union> {''sirimsg''}"
    "set working_names \<inter> set (broken_names k) \<subseteq> {''iperfScenario''}"
  by (auto simp: EXPERIMENTS_def working_names_def broken_names_def silent_names_def)

text \<open>\<open>sirimsg\<close> with a file that sets the run time.\<close>

definition sirimsg_demo_params :: params where
  "sirimsg_demo_params = (add_defaults SIRI_DEFAULTS (add_defaults MSG_DEFAULTS demo_params))\<lparr>parameters := [(''siriRunTime'', PStr ''5'')]\<rparr>"

lemma sirimsg_loaded: "cls_parameters (sirimsg_class h) [''xp'' \<mapsto> ''siriRunTime:5''] (Some ''xp'') = Inr sirimsg_demo_params"
proof -
  have "load_parameter_text ''siriRunTime:5'' [] = [(''siriRunTime'', PStr ''5'')]" by code_simp
  then show ?thesis
    by (simp add: sirimsg_class_def sirimsg_parameters_def parameters_with_def new_experiment_parameter_def new_parameter_def
        load_parameter_file_def sirimsg_demo_params_def demo_params_def add_defaults_def)
qed

lemma get_sirimsg: "get_param sirimsg_demo_params k = (if k = ''siriRunTime'' then Inr (PStr ''5'') else
     case dict_get SIRI_DEFAULTS k of Some v \<Rightarrow> Inr v | None \<Rightarrow>
     (case dict_get MSG_DEFAULTS k of Some v \<Rightarrow> Inr v | None \<Rightarrow> get_param demo_params k))"
proof -
  have "wf_dict SIRI_DEFAULTS" "wf_dict MSG_DEFAULTS" by (simp_all add: wf_dict_def SIRI_DEFAULTS_def MSG_DEFAULTS_def)
  then show ?thesis
    by (simp add: sirimsg_demo_params_def demo_params_def get_param_def add_defaults_def dict_get_update split: option.splits)
qed


end
