(* ===== verification/RunnerFrames.thy ===== *)
theory RunnerFrames
  imports Frames
begin

text \<open>What building, starting and configuring a topology leaves alone.\<close>

locale network = frame P for P :: "'a xp_scheme \<Rightarrow> bool" +
  assumes fields:
    "P s \<Longrightarrow> P (s\<lparr>graph := v0\<rparr>)" "P s \<Longrightarrow> P (s\<lparr>topo_parameter := v1\<rparr>)" "P s \<Longrightarrow> P (s\<lparr>change_netem := v2\<rparr>)"
    "P s \<Longrightarrow> P (s\<lparr>log_lines := v3\<rparr>)" "P s \<Longrightarrow> P (s\<lparr>log_open := v4\<rparr>)" "P s \<Longrightarrow> P (s\<lparr>clients := v5\<rparr>)"
    "P s \<Longrightarrow> P (s\<lparr>routers := v6\<rparr>)" "P s \<Longrightarrow> P (s\<lparr>servers := v7\<rparr>)" "P s \<Longrightarrow> P (s\<lparr>bottleneck_links := v8\<rparr>)"
    "P s \<Longrightarrow> P (s\<lparr>param := v9\<rparr>)" "P s \<Longrightarrow> P (s\<lparr>mi_client := v10\<rparr>)" "P s \<Longrightarrow> P (s\<lparr>mi_server := v11\<rparr>)"
    "P s \<Longrightarrow> P (s\<lparr>mi_router := v12\<rparr>)" "P s \<Longrightarrow> P (s\<lparr>c2r_links := v13\<rparr>)" "P s \<Longrightarrow> P (s\<lparr>r2s_links := v14\<rparr>)"
    "P s \<Longrightarrow> P (s\<lparr>cfg_client := v15\<rparr>)" "P s \<Longrightarrow> P (s\<lparr>cfg_server := v16\<rparr>)" "P s \<Longrightarrow> P (s\<lparr>cfg_router := v17\<rparr>)"
    "P s \<Longrightarrow> P (s\<lparr>cfg_clients := v18\<rparr>)" "P s \<Longrightarrow> P (s\<lparr>cfg_servers := v19\<rparr>)" "P s \<Longrightarrow> P (s\<lparr>xp_topo_class := v20\<rparr>)"
begin

lemma growing [always_intro]:
  "always P (builder_add_host m n)" "always P (builder_add_switch m n)" "always P (builder_add_link a b)"
  unfolding builder_add_host_def builder_add_switch_def builder_add_link_def grow_def by (intro always_intro fields; assumption)+

lemma building_topology [always_intro]:
  "always P (topo_init tp)" "always P (add_client m)" "always P (add_server m)" "always P (add_router m)"
  "always P (new_bottleneck m l)" "always P (add_bottleneck_link m h h' l' k)"
  unfolding topo_init_def add_client_def add_server_def add_router_def new_bottleneck_def add_bottleneck_link_def
  by (intro always_intro fields; assumption)+

lemma topology_classes:
  "always P (multi_if_topo_init m tp)" "always P (multi_client_topo_init m tp)"
  unfolding multi_if_topo_init_def add_c2r_link_def add_r2s_link_def multi_client_topo_init_def add_congestion_pair_def
  by (intro always_intro fields; assumption)+

lemma looking_up [always_intro]: "always P (get_client i)" "always P (get_server i)" "always P (get_router i)"
  unfolding get_client_def get_server_def get_router_def by (intro always_intro)+

lemma telling [always_intro]:
  "always P (tell m who cmd)" "always P (tell_mac m owner ifname peer ip)" "always P (cfg_client_at i)"
  "always P f \<Longrightarrow> always P (cmd_then_node m cmd f)" "always P f \<Longrightarrow> always P (node_then_cmd m f cmd)"
  unfolding tell_def tell_mac_def cfg_client_at_def cmd_then_node_def node_then_cmd_def by (intro always_intro; assumption?)+

lemma preparing [always_intro]:
  "always P (topo_reinit_variables m)" "always P (disable_tso m)" "always P (configure_bottlenecks m)"
  unfolding topo_reinit_variables_def reinit_bottleneck_def set_bottleneck_def disable_tso_def configure_bottlenecks_def
    configure_bottleneck_def delete_tc_def
  by (intro always_intro fields; assumption)+

lemma configuring [always_intro]:
  "always P (multi_if_configure_interfaces m)" "always P (multi_if_configure_routing m)"
  "always P (multi_client_configure_interfaces m)" "always P (multi_client_configure_routing m)"
  unfolding multi_if_configure_interfaces_def configure_c2r_client_def configure_c2r_router_def configure_r2s_def
    multi_if_configure_routing_def client_routes_def server_routes_def multi_client_configure_interfaces_def
    configure_congestion_client_def configure_congestion_server_def multi_client_configure_routing_def
    congestion_client_route_def congestion_server_route_def split_def
  by (intro always_intro fields; assumption)+

lemma configured: "always P (multi_if_configure m)" "always P (multi_client_configure m)"
  unfolding multi_if_configure_def multi_client_configure_def configure_network_def by (intro always_intro)+

end

end
