(* ===== verification/RunnerProps.thy ===== *)
theory RunnerProps
  imports RunnerFrames ExpProps
begin

text \<open>What a run of the program does as a whole.\<close>

section \<open>After the network has stopped\<close>

definition stopped :: "'a builder_scheme \<Rightarrow> bool" where
  "stopped s \<longleftrightarrow> NetStop \<in> set (events s)"

text \<open>A node of a stopped network runs no command.\<close>

definition refuses :: "mininet \<Rightarrow> bool" where
  "refuses m \<longleftrightarrow> (\<forall>es n c. NetStop \<in> set es \<longrightarrow> (\<exists>e. node_cmd m es n c = Inl e))"

interpretation stopped: frame stopped
  by unfold_locales (simp_all add: stopped_def)

interpretation opened: network "\<lambda>s. net s \<noteq> None"
proof unfold_locales
  show "net (set_saved sl d s) \<noteq> None" if "net s \<noteq> None" for sl d and s :: "'a xp_scheme"
    using that by (cases sl) simp_all
qed simp_all

lemma refused:
  assumes "refuses m"
  shows "fails (stopped :: 'a xp_scheme \<Rightarrow> bool) (topo_command_to m h c)"
proof -
  have "fails (stopped :: 'a xp_scheme \<Rightarrow> bool) (builder_command_to m h c)"
    using assms by (cases h) (auto simp: fails_def builder_command_to_def emit_def py_bind_eq_Inr stopped_def refuses_def, metis sum.distinct(1))
  then show ?thesis
    unfolding topo_command_to_def by (intro fails_later [OF always_keeps [OF stopped.always_write(2)]])
qed

lemma saving_fails:
  assumes "refuses m"
  shows "fails stopped (save_slot m ClientSlot)"
proof -
  have one: "fails stopped (save_one m ClientSlot (Some h) kv)" for h kv
    unfolding save_one_def slot_command_def by (simp, intro fails_first refused [OF assms])
  have "fails stopped (for_each (slot_keys ClientSlot) (save_one m ClientSlot (Some h)))" for h
    unfolding slot_keys.simps SYSCTL_KEY_CLIENT_def for_each.simps by (intro fails_first one)
  then have "fails stopped (py_bind (slot_node ClientSlot) (\<lambda>who. for_each (slot_keys ClientSlot) (save_one m ClientSlot who)))"
    unfolding slot_node_def slot.case bind_assoc bind_return by (intro fails_later [OF always_keeps [OF always_read_attr]])
  then show ?thesis
    unfolding save_slot_def
    by (rule fails_later [rotated]) (simp_all add: keeps_def stopped_def)
qed

lemma preparing_fails: "refuses m \<Longrightarrow> fails stopped (xp_prepare m)"
  unfolding xp_prepare_def setup_sysctl_def save_sysctl_def block.simps
  by (rule fails_first, rule fails_first, rule fails_later [OF always_keeps [OF stopped.saves]], rule fails_first,
      rule saving_fails)

lemma random_preparing_fails: "refuses m \<Longrightarrow> fails stopped (random_file_prepare m)"
  unfolding random_file_prepare_def block.simps by (intro fails_first preparing_fails)

lemma every_prepare_fails:
  assumes "(name, c) \<in> set (EXPERIMENTS h)" "refuses m"
  shows "fails stopped (cls_prepare c m)"
proof -
  note base = fails_first [OF preparing_fails [OF assms(2)]] fails_first [OF random_preparing_fails [OF assms(2)]]
    preparing_fails [OF assms(2)]
  show ?thesis
    using assms(1) unfolding EXPERIMENTS_def
    by (simp, elim disjE conjE)
       (simp_all add: ab_class_def ditg_class_def epload_class_def http_class_def https_class_def iperf_class_def
          scenario_class_def msg_class_def nc_class_def ncpv_class_def netperf_class_def none_class_def ping_class_def
          pquic_class_def quic_class_def quiche_class_def quic_mpath_class_def quicsiri_class_def sendfile_class_def
          siri_class_def sirihttp_class_def sirimsg_class_def vlc_class_def
          ab_prepare_def ditg_prepare_def epload_prepare_def http_prepare_def https_prepare_def iperf_prepare_def
          scenario_prepare_def msg_prepare_def nc_prepare_def netperf_prepare_def pquic_prepare_def quic_prepare_def
          quiche_prepare_def quicsiri_prepare_def sendfile_prepare_def siri_prepare_def sirihttp_prepare_def
          sirimsg_prepare_def vlc_prepare_def bind_assoc base)
qed

lemma every_experiment_fails:
  assumes "(name, c) \<in> set (EXPERIMENTS h)" "refuses m"
  shows "fails stopped (perform c fs f m)"
proof -
  have "keeps stopped (cls_init c m p)" for p
    using stopped.every_class [OF assms(1)] by (blast intro: always_keeps)
  then show ?thesis
    unfolding perform_def classic_run_def block.simps
    by (intro fails_later [OF keeps_basic(3)] fails_later [of stopped "cls_init c m _"] fails_first every_prepare_fails [OF assms])
qed

lemma second_experiment_fails:
  assumes "refuses (w_net w)"
  shows "fails stopped (run_experiment w f :: ('a runner_scheme, unit) py)"
proof -
  have "fails (stopped :: 'a runner_scheme \<Rightarrow> bool) (case find of None \<Rightarrow> py_raise e | Some c \<Rightarrow> perform c fs (Some f) (w_net w))"
    if "find_class x (EXPERIMENTS (w_host w)) = Inr find" for find x e fs
    using that map_of_SomeD every_experiment_fails [OF _ assms]
    by (fastforce simp: find_class_def fails_raise split: pval.splits option.split)
  then show ?thesis
    by (auto simp: fails_def run_experiment_def py_bind_eq_Inr)
qed

lemma runner_open_net: "ends_in P (\<lambda>s :: 'a runner_scheme. net s \<noteq> None) (runner_open w b f)"
proof -
  have start: "ends_in P (\<lambda>s :: 'a runner_scheme. net s \<noteq> None) (builder_start_network m)" for P m
    by (auto simp: ends_in_def builder_start_network_def emit_def py_bind_eq_Inr)
  have "keeps (\<lambda>s :: 'a runner_scheme. net s \<noteq> None) (case c of MultiIfClass \<Rightarrow> multi_if_configure m | MultiIfMultiClientClass \<Rightarrow> multi_client_configure m)" for c m
    by (cases c) (simp_all only: topo_class.case always_keeps [OF opened.configured(1)] always_keeps [OF opened.configured(2)])
  then have "ends_in P (\<lambda>s :: 'a runner_scheme. net s \<noteq> None) (start_topo m)" for P m
    unfolding start_topo_def block.simps
    by (intro ends_in_bind [OF start] ends_in_keeps [THEN iffD2] keeps_intro)
  then show ?thesis
    unfolding runner_open_def block.simps
    by (intro ends_in_bind [OF ends_in_any] ends_in_bind [where Q = "\<lambda>s. net s \<noteq> None"]) (simp_all add: ends_in_def)
qed

lemma runner_session_stops: "ends_in (\<lambda>s :: 'a runner_scheme. net s \<noteq> None) stopped (runner_session w f)"
proof -
  have "always (\<lambda>s :: 'a runner_scheme. net s \<noteq> None)
      (case find of None \<Rightarrow> py_raise e | Some c \<Rightarrow> perform c fs (Some f) (w_net w))"
    if "find_class x (EXPERIMENTS (w_host w)) = Inr find" for find x e fs
    using that map_of_SomeD opened.whole_experiment
    by (fastforce simp: find_class_def always_basic split: pval.splits option.split)
  then have "keeps (\<lambda>s :: 'a runner_scheme. net s \<noteq> None) (run_experiment w f)"
    by (fastforce simp: keeps_def run_experiment_def py_bind_eq_Inr dest: always_keeps)
  then have run: "ends_in (\<lambda>s :: 'a runner_scheme. net s \<noteq> None) (\<lambda>s. net s \<noteq> None) (run_experiment w f)"
    by (simp only: ends_in_keeps)
  have "ends_in (\<lambda>s :: 'a runner_scheme. net s \<noteq> None) stopped (py_bind (stop_topo m) (\<lambda>_. py_return ()))" for m
    by (auto simp: ends_in_def stop_topo_def py_finally_def builder_stop_network_def emit_def cleanup_tmp_files_def stopped_def
        py_bind_apply split: prod.splits sum.splits)
  then show ?thesis
    unfolding runner_session_def block.simps by (rule ends_in_bind [OF run])
qed


end
