(* ===== verification/RunnerFiles.thy ===== *)
theory RunnerFiles
  imports RunnerProps
begin

text \<open>The temporary file of a converted topology.\<close>

section \<open>Only the conversion and the cleaning touch the files\<close>

lemma set_saved_files [simp]:
  "run_files (set_saved sl d s) = run_files s" "run_tmp (set_saved sl d s) = run_tmp s"
  by (cases sl; simp)+

interpretation files: network "\<lambda>s :: 'a runner_scheme. Q (run_files s) (run_tmp s)"
  by unfold_locales simp_all

text \<open>\<open>F\<close> are the files before, \<open>tmp\<close> the name of the temporary file.\<close>

definition tidy :: "(string \<Rightarrow> string option) \<Rightarrow> string \<Rightarrow> (string \<Rightarrow> string option) \<Rightarrow> string list \<Rightarrow> bool" where
  "tidy F tmp G ts \<longleftrightarrow> G = F \<and> ts = [] \<or> (\<exists>x. G = F(tmp \<mapsto> x) \<and> ts = [tmp])"

abbreviation tidy_state :: "(string \<Rightarrow> string option) \<Rightarrow> string \<Rightarrow> 'a runner_scheme \<Rightarrow> bool" where
  "tidy_state F tmp s \<equiv> tidy F tmp (run_files s) (run_tmp s)"

lemma cleaned:
  assumes "F tmp = None" "tidy_state F tmp s"
  shows "cleanup_tmp_files s = (Inr (), s\<lparr>run_files := F, run_tmp := []\<rparr>)"
proof -
  have "(\<lambda>f. if f \<in> set (run_tmp s) then None else run_files s f) = F"
    using assms by (auto simp: tidy_def)
  then show ?thesis by (simp add: cleanup_tmp_files_def)
qed

lemma tidy_cleanup: "F tmp = None \<Longrightarrow> always (tidy_state F tmp) cleanup_tmp_files"
  by (simp add: always_def cleaned) (simp add: tidy_def)

lemma tidy_stop: "F tmp = None \<Longrightarrow> always (tidy_state F tmp) (stop_topo m)"
  unfolding stop_topo_def builder_stop_network_def by (intro always_intro tidy_cleanup files.always_write)

lemma tidy_experiment:
  fixes w :: world
  shows "always (tidy_state F tmp) (run_experiment w f)"
proof -
  have perform: "always (tidy_state F tmp) (case find of None \<Rightarrow> py_raise e | Some c \<Rightarrow> perform c fs (Some f) (w_net w))"
    if "find_class x (EXPERIMENTS (w_host w)) = Inr find" for find x e fs
    using that map_of_SomeD files.whole_experiment
    by (fastforce simp: find_class_def always_basic split: pval.splits option.split)
  have found: "always (tidy_state F tmp) (py_bind (py_lift (find_class x (EXPERIMENTS (w_host w))))
      (\<lambda>c. case c of None \<Rightarrow> py_raise (e x) | Some c \<Rightarrow> perform c fs (Some f) (w_net w)))" for x e fs
    using perform [of x] by (auto simp: always_def py_bind_apply split: sum.splits)
  show ?thesis
    unfolding run_experiment_def
    by (rule always_bind, rule always_basic, rule always_bind, rule always_basic, rule found)
qed

lemma tidy_start:
  "always (tidy_state F tmp) (set_builder b)" "always (tidy_state F tmp) (apply_topo m tp)"
  "always (tidy_state F tmp) (apply_topo_config tp)" "always (tidy_state F tmp) (start_topo m)"
  "always (tidy_state F tmp) open_cli"
proof -
  show "always (tidy_state F tmp) (set_builder b)"
    unfolding set_builder_def by (intro always_intro; simp)
  show "always (tidy_state F tmp) (apply_topo m tp)"
    unfolding apply_topo_def with_topo_class_def
    by (intro always_intro; auto split: topo_class.split intro!: always_intro files.topology_classes)
  show "always (tidy_state F tmp) (apply_topo_config tp)"
    unfolding apply_topo_config_def with_topo_class_def topo_config_init_def by (intro always_intro; simp)
  show "always (tidy_state F tmp) (start_topo m)"
    unfolding start_topo_def builder_start_network_def
    by (intro always_intro files.always_write; auto split: topo_class.split intro!: files.configured)
  show "always (tidy_state F tmp) open_cli"
    unfolding open_cli_def by (intro always_intro files.always_write)
qed

section \<open>The whole program\<close>

lemma after_bind:
  "Q (snd (f s)) \<Longrightarrow> (\<And>x. always Q (k x)) \<Longrightarrow> Q (snd (py_bind f k s))"
  by (auto simp: always_def py_bind_apply split: prod.split sum.split)

lemma tidy_load:
  assumes "run_files s = F" "run_tmp s = []"
  shows "tidy_state F (w_tmp w) (snd (load_topology w f s))"
proof -
  show ?thesis
  proof (cases "is_yaml f")
    case False
    then show ?thesis using assms by (simp add: load_topology_def tidy_def)
  next
    case True
    show ?thesis
    proof (cases "rbind (some_or FileNotFoundError (F f)) (\<lambda>t. rbind (w_yaml w t) yaml_text)")
      case (Inl e)
      then show ?thesis using True assms
        by (cases "F f") (auto simp: load_topology_def yaml_topo_to_legacy_tmpfile_def py_bind_apply tidy_def split: sum.splits)
    next
      case (Inr x)
      then show ?thesis using True assms
        by (cases "F f") (auto simp: load_topology_def yaml_topo_to_legacy_tmpfile_def py_bind_apply tidy_def)
    qed
  qed
qed

lemma git_hash_files:
  fixes s :: "'a runner_scheme"
  assumes "get_git_revision_short_hash w s = (r, t)"
  shows "run_files t = run_files s" "run_tmp t = run_tmp s" "r = Inr h \<Longrightarrow> t = s"
  using assms by (auto simp: get_git_revision_short_hash_def py_bind_apply split: sum.splits)

lemma tidy_open:
  assumes "run_files s = F" "run_tmp s = []"
  shows "tidy_state F (w_tmp w) (snd (runner_open w b f s))"
proof (cases "get_git_revision_short_hash w s")
  case (Pair r u)
  note u = git_hash_files [OF Pair]
  show ?thesis
  proof (cases r)
    case (Inl e)
    then show ?thesis using assms Pair u(1,2) by (simp add: runner_open_def py_bind_apply tidy_def)
  next
    case (Inr h)
    let ?s = "s\<lparr>run_tmp := []\<rparr>"
    have "runner_open w b f s = py_bind (load_topology w f) (\<lambda>tp. block
         [set_builder b, apply_topo (w_net w) tp, apply_topo_config tp, start_topo (w_net w)]) ?s"
      using Pair Inr u(3) by (simp add: runner_open_def py_bind_apply)
    moreover have "tidy_state F (w_tmp w) (snd (\<dots>))"
    proof (rule after_bind [where Q = "tidy_state F (w_tmp w)"])
      show "tidy_state F (w_tmp w) (snd (load_topology w f ?s))" by (rule tidy_load) (use assms in simp_all)
    qed (intro always_block_Nil always_block_Cons tidy_start)
    ultimately show ?thesis by simp
  qed
qed

lemma tidy_init:
  assumes "run_files s = F" "run_tmp s = []" "F (w_tmp w) = None"
  shows "tidy_state F (w_tmp w) (snd (runner_init w b f xf s))"
proof -
  have session: "always (tidy_state F (w_tmp w)) (runner_session w g)" for g
    unfolding runner_session_def by (intro always_intro tidy_experiment tidy_stop assms(3))
  have rest: "always (tidy_state F (w_tmp w)) (block (case xf of
       Some (c # cs) \<Rightarrow> [runner_session w (c # cs), runner_session w (c # cs)] | _ \<Rightarrow> [open_cli, stop_topo (w_net w)]))"
    by (cases xf; cases "the xf"; simp only: option.case list.case option.sel;
        intro always_block_Nil always_block_Cons session tidy_start tidy_stop assms(3))
  show ?thesis
    unfolding runner_init_def block.simps by (rule after_bind [where Q = "tidy_state F (w_tmp w)"], rule tidy_open [OF assms(1,2)], rule rest)
qed

lemma main_removes_file:
  assumes "run_tmp s = []" "run_files s (w_tmp w) = None"
  shows "\<exists>t. runner_main w topo_file xp_file s = (Inr (), t) \<and> run_files t = run_files s \<and> run_tmp t = []"
proof -
  define u where "u = snd (runner_init w ''mininet'' topo_file xp_file s)"
  have "tidy_state (run_files s) (w_tmp w) u"
    unfolding u_def by (rule tidy_init [OF refl assms])
  from cleaned [OF assms(2) this] show ?thesis
    by (simp add: runner_main_def py_swallow_def py_bind_apply flip: u_def)
qed

end
