(* ===== verification/TopoClasses.thy ===== *)
theory TopoClasses
  imports RunnerFiles
begin

text \<open>The two topologies side by side: what each builds, and how each starts.\<close>

section \<open>Configuring sets no sysctl\<close>

lemma quiet_tso: "quiet (tso_events m g)"
  by (auto simp: quiet_def tso_events_def tso_cmd_def quiet_cmd starts_with_def)

lemma quiet_bottleneck: "quiet (bottleneck_events m g l)"
  by (auto simp: quiet_def bottleneck_events_def bottleneck_cmds_def Let_def build_delete_tc_cmd_def build_netem_cmd_def
      quiet_cmd starts_with_def)

lemma quiet_interfaces: "quiet (interface_events m g left right nc nr)"
  by (auto simp: quiet_def interface_events_def c2r_client_events_def c2r_router_events_def r2s_events_def up_event_def arp_event_def
      flush_event_def interface_up_command_def arp_command_def quiet_cmd starts_with_def)

lemma quiet_routing: "quiet (routing_events left right nc nr)"
  by (auto simp: quiet_def routing_events_def table_events_def route_snapshot_def quiet_cmd starts_with_def)

lemma configure_quiet: "quiet (configure_events m left right cs rs)"
  using quiet_tso quiet_bottleneck quiet_interfaces quiet_routing unfolding configure_events_def Let_def by (auto simp: quiet_def)

lemma multi_client_quiet: "quiet (multi_client_events m left right cs rs)"
proof -
  have "quiet (congestion_client_events m g left i)" "quiet (congestion_server_events m g right nc i)" for g nc i
    by (auto simp: quiet_def congestion_client_events_def congestion_server_events_def up_event_def arp_event_def
        interface_up_command_def arp_command_def quiet_cmd starts_with_def)
  moreover have "quiet (congestion_route_events left right nc)" for nc
    by (auto simp: quiet_def congestion_route_events_def add_global_default_route_command_def
        add_simple_default_route_command_def quiet_cmd starts_with_def)
  ultimately show ?thesis
    using quiet_tso quiet_bottleneck quiet_interfaces quiet_routing unfolding multi_client_events_def Let_def by (auto simp: quiet_def)
qed

section \<open>By class\<close>

definition class_name :: "topo_class \<Rightarrow> string" where
  "class_name k = (case k of MultiIfClass \<Rightarrow> ''MultiIf'' | MultiIfMultiClientClass \<Rightarrow> ''MultiIfMultiClient'')"

definition class_graph :: "topo_class \<Rightarrow> link list \<Rightarrow> link list \<Rightarrow> graph_op list" where
  "class_graph k = (case k of MultiIfClass \<Rightarrow> multi_if_graph | MultiIfMultiClientClass \<Rightarrow> multi_client_graph)"

definition class_events :: "topo_class \<Rightarrow> mininet \<Rightarrow> string \<Rightarrow> string \<Rightarrow> link list \<Rightarrow> link list \<Rightarrow> event list" where
  "class_events k = (case k of MultiIfClass \<Rightarrow> configure_events | MultiIfMultiClientClass \<Rightarrow> multi_client_events)"

definition class_start :: "topo_class \<Rightarrow> mininet \<Rightarrow> topo_param \<Rightarrow> ('a multi_if_scheme, unit) py" where
  "class_start k = (case k of MultiIfClass \<Rightarrow> multi_if_start | MultiIfMultiClientClass \<Rightarrow> multi_client_start)"

definition class_built :: "topo_class \<Rightarrow> topo_param \<Rightarrow> bool \<Rightarrow> 'a multi_if_scheme \<Rightarrow> 'a multi_if_scheme" where
  "class_built k = (case k of MultiIfClass \<Rightarrow> multi_if_built | MultiIfMultiClientClass \<Rightarrow> multi_client_built)"

definition class_running :: "topo_class \<Rightarrow> topo_param \<Rightarrow> bool \<Rightarrow> 'a multi_if_scheme \<Rightarrow> 'a multi_if_scheme" where
  "class_running k = (case k of MultiIfClass \<Rightarrow> multi_if_running | MultiIfMultiClientClass \<Rightarrow> multi_client_running)"

text \<open>The number of interfaces an experiment counts at the server.\<close>

definition class_servers :: "topo_class \<Rightarrow> nat \<Rightarrow> nat \<Rightarrow> nat" where
  "class_servers k nc nr = (case k of MultiIfClass \<Rightarrow> max nr 1 | MultiIfMultiClientClass \<Rightarrow> Suc nc)"

lemma class_found: "find_class (PStr (class_name k)) TOPOS = Inr (Some k)"
  by (cases k) (simp_all add: class_name_def find_class_def TOPOS_def)

lemma class_init_ok:
  assumes "mininet_ok m" "get_param tp CHANGE_NETEM = Inr (PStr v)"
  shows "(case k of MultiIfClass \<Rightarrow> multi_if_topo_init m tp | MultiIfMultiClientClass \<Rightarrow> multi_client_topo_init m tp) s =
     (Inr (), class_built k tp (lower v = ''yes'') s)"
  by (cases k) (simp_all add: class_built_def multi_if_init_ok [OF assms] multi_client_init_ok [OF assms])

lemma class_built_keeps:
  "events (class_built k tp c s) = events s" "net (class_built k tp c s) = net s"
  by (cases k; simp add: class_built_def multi_client_built_def multi_if_built_def Let_def)+

lemma class_start_steps:
  "class_start k m tp = block
     [case k of MultiIfClass \<Rightarrow> multi_if_topo_init m tp | MultiIfMultiClientClass \<Rightarrow> multi_client_topo_init m tp,
      topo_config_init tp, builder_start_network m,
      case k of MultiIfClass \<Rightarrow> multi_if_configure m | MultiIfMultiClientClass \<Rightarrow> multi_client_configure m]"
  by (cases k) (simp_all add: class_start_def multi_if_start_def multi_client_start_def)

lemma class_start_ok:
  assumes "mininet_ok m" "distinct (map link_key (link_characteristics tp))"
    and "\<forall>l \<in> set (get_client_to_router_links tp @ get_router_to_server_links tp). \<exists>b. buffer_size l = Inr b"
    and "has_subnets left right tp" "get_param tp CHANGE_NETEM = Inr (PStr v)" "graph s = []" "NetStop \<notin> set (events s)"
  shows "class_start k m tp s =
     (Inr (), ran m (class_events k m left right (get_client_to_router_links tp) (get_router_to_server_links tp))
       (class_running k tp (lower v = ''yes'') s))"
  by (cases k) (simp_all add: class_start_def class_events_def class_running_def multi_if_start_ok [OF assms] multi_client_start_ok [OF assms])

lemma class_quiet: "quiet (class_events k m left right cs rs)"
  by (cases k) (simp_all add: class_events_def configure_quiet multi_client_quiet)

lemma class_links_ok:
  assumes "mininet_ok m" "links_ok cs rs" "\<forall>l \<in> set (cs @ rs). \<exists>b. buffer_size l = Inr b"
  shows "network_links_ok m (class_graph k cs rs) (cs @ rs)"
  using assms(3) switch_interfaces [OF assms(1,2)] multi_client_switch_interfaces [OF assms(1,2)]
  by (cases k) (simp_all add: network_links_ok_def class_graph_def)

end
