(* ===== verification/RunnerRun.thy ===== *)
theory RunnerRun
  imports TopoClasses
begin

text \<open>The runner on either topology: the commands of a session, in order.\<close>

section \<open>Opening\<close>

lemma load_topology_fields:
  assumes "load_topology w f s = (Inr tp, t)"
  shows "events t = events s" "\<exists>F T. t = s\<lparr>run_files := F, run_tmp := T\<rparr>"
proof -
  have "t = s\<lparr>run_files := run_files t, run_tmp := run_tmp t\<rparr>"
    using assms by (auto simp: load_topology_def yaml_topo_to_legacy_tmpfile_def py_bind_eq_Inr split: if_splits)
  then show *: "\<exists>F T. t = s\<lparr>run_files := F, run_tmp := T\<rparr>" by blast
  then show "events t = events s" by auto
qed

lemma git_hash_ok: "w_git w (w_root w) = Inr hash \<Longrightarrow> get_git_revision_short_hash w s = (Inr (strip hash), s)"
  by (simp add: get_git_revision_short_hash_def py_bind_apply)

text \<open>The state in which the topology is built: no graph, no network, a new configuration object.\<close>

definition unbuilt :: "topo_class \<Rightarrow> 'a runner_scheme \<Rightarrow> 'a runner_scheme" where
  "unbuilt k s = s\<lparr>graph := [], net := None, cfg_client := None, cfg_server := None, cfg_router := None, cfg_clients := None,
     cfg_servers := None, xp_topo_class := k\<rparr>"

text \<open>What the runner resets between building and starting can as well be reset before.\<close>

lemma built_unbuilt:
  "(class_built k tp c (t\<lparr>graph := [], net := None\<rparr>))\<lparr>param := tp, cfg_client := None, cfg_server := None, cfg_router := None,
     cfg_clients := None, cfg_servers := None, xp_topo_class := k\<rparr> = (class_built k tp c (unbuilt k t))\<lparr>param := tp\<rparr>"
  by (cases k) (simp_all add: class_built_def multi_client_built_def multi_if_built_def Let_def unbuilt_def)

lemma unbuilt_class: "xp_topo_class (class_built k tp c (unbuilt k t)) = k"
  by (cases k) (simp_all add: class_built_def multi_client_built_def multi_if_built_def Let_def unbuilt_def)

lemma runner_open_starts:
  fixes s :: "'a runner_scheme"
  assumes m: "mininet_ok (w_net w)" and v: "w_git w (w_root w) = Inr hash"
    and made: "load_topology w f (s\<lparr>run_tmp := []\<rparr>) = (Inr tp, t)"
    and tp: "get_param tp TOPO_ATTR = Inr (PStr (class_name k))" "get_param tp CHANGE_NETEM = Inr (PStr c)"
  shows "runner_open w ''mininet'' f s = class_start k (w_net w) tp (unbuilt k t)"
proof -
  let ?b = "class_built k tp (lower c = ''yes'')"
  let ?u = "(?b (unbuilt k t))\<lparr>param := tp\<rparr>"
  note init = class_init_ok [OF m tp(2), of k]
  have "runner_open w ''mininet'' f s = block [set_builder ''mininet'', apply_topo (w_net w) tp, apply_topo_config tp, start_topo (w_net w)] t"
    by (simp add: runner_open_def py_bind_apply git_hash_ok [OF v] made)
  also have "\<dots> = start_topo (w_net w) ?u"
    by (simp add: set_builder_def apply_topo_def apply_topo_config_def with_topo_class_def tp class_found bind_unit
        py_bind_ok [OF init] topo_config_init_def)
       (simp add: py_bind_apply built_unbuilt)
  also have "\<dots> = class_start k (w_net w) tp (unbuilt k t)"
    by (simp add: class_start_steps start_topo_def py_bind_ok [OF init] topo_config_init_def builder_start_network_def
        mininet_okD [OF m] emit_def bind_unit)
       (simp add: py_bind_apply unbuilt_class)
  finally show ?thesis .
qed

section \<open>Sessions\<close>

text \<open>A loaded topology the runner can start, and what is left of it when it runs.\<close>

definition startable :: "topo_class \<Rightarrow> mininet \<Rightarrow> topo_param \<Rightarrow> string \<Rightarrow> string \<Rightarrow> bool" where
  "startable k m tp left right \<longleftrightarrow> mininet_ok m \<and> (\<forall>es. net_stop m es = Inr ()) \<and>
     get_param tp TOPO_ATTR = Inr (PStr (class_name k)) \<and> (\<exists>c. get_param tp CHANGE_NETEM = Inr (PStr c)) \<and>
     distinct (map link_key (link_characteristics tp)) \<and> (\<forall>l \<in> set (link_characteristics tp). \<exists>b. buffer_size l = Inr b) \<and>
     has_subnets left right tp"

abbreviation start_events :: "topo_class \<Rightarrow> mininet \<Rightarrow> topo_param \<Rightarrow> string \<Rightarrow> string \<Rightarrow> event list" where
  "start_events k m tp left right \<equiv>
     NetStart # class_events k m left right (get_client_to_router_links tp) (get_router_to_server_links tp)"

definition plan_of :: "topo_class \<Rightarrow> topo_param \<Rightarrow> string \<Rightarrow> string \<Rightarrow> params \<Rightarrow> xp_plan" where
  "plan_of k tp left right p = \<lparr>xp_left = left, xp_right = right, xp_params = p,
     xp_nc = max (length (get_client_to_router_links tp)) 1,
     xp_ns = class_servers k (length (get_client_to_router_links tp)) (length (get_router_to_server_links tp))\<rparr>"

abbreviation all_links :: "topo_param \<Rightarrow> link list" where
  "all_links tp \<equiv> get_client_to_router_links tp @ get_router_to_server_links tp"

abbreviation start_graph :: "topo_class \<Rightarrow> topo_param \<Rightarrow> graph_op list" where
  "start_graph k tp \<equiv> class_graph k (get_client_to_router_links tp) (get_router_to_server_links tp)"

text \<open>An experiment finds the network it relies on, of either class.\<close>

lemma class_on_network:
  assumes "has_subnets left right tp"
  shows "on_network (plan_of k tp left right p) (start_graph k tp) (all_links tp) b
     (fresh p [] (ran m es (class_running k tp b (unbuilt k t))))"
  using assms
  by (cases k; simp add: on_network_def xp_ready_def plan_of_def fresh_def nodes_set_def ran_def class_running_def class_graph_def
        class_servers_def multi_if_running_def multi_client_running_def reinit_of_def multi_client_built_def multi_if_built_def
        Let_def unbuilt_def comp_def client_interface_count_def xp_server_interface_count_def server_interface_count_def
        multi_client_server_interface_count_def some_or_def del: upt_Suc)
     (simp_all add: bottleneck_of_def)

lemma class_running_keeps:
  fixes t :: "'a runner_scheme" and k :: topo_class and tp :: topo_param and b :: bool
  defines "u \<equiv> class_running k tp b (unbuilt k t)"
  shows "events u = events t @ [NetStart]" "net u \<noteq> None" "run_files u = run_files t" "run_tmp u = run_tmp t"
    "log_open u"
  by (cases k; simp add: u_def class_running_def class_graph_def multi_if_running_def multi_client_running_def reinit_of_def
        multi_client_built_def multi_if_built_def Let_def unbuilt_def)+

text \<open>And it finds the additional clients where it needs them.\<close>

definition roomy :: "string \<Rightarrow> topo_class \<Rightarrow> topo_param \<Rightarrow> bool" where
  "roomy name k tp \<longleftrightarrow> (name = ''iperfScenario'' \<longrightarrow>
     k = MultiIfMultiClientClass \<and> 2 \<le> length (get_client_to_router_links tp))"

lemma roomy_place:
  assumes "roomy name k tp"
  shows "own_place name (place (ran m es (class_running k tp b (unbuilt k t))))"
  using assms
  by (auto simp: own_place_def roomy_def several_clients_def place_def class_running_def multi_client_running_def reinit_of_def
      multi_client_built_def multi_if_built_def Let_def unbuilt_def ran_def simp del: upt_Suc)

lemma opened_state:
  fixes s :: "'a runner_scheme"
  assumes ok: "startable k (w_net w) tp left right" and v: "w_git w (w_root w) = Inr hash"
    and made: "load_topology w f (s\<lparr>run_tmp := []\<rparr>) = (Inr tp, t)" and new: "events s = []"
  shows "\<exists>u. runner_open w ''mininet'' f s = (Inr (), u) \<and> events u = start_events k (w_net w) tp left right \<and> live u \<and>
     net u \<noteq> None \<and> run_files u = run_files t \<and> run_tmp u = run_tmp t \<and>
     (\<exists>b. \<forall>p. on_network (plan_of k tp left right p) (start_graph k tp) (all_links tp) b (fresh p [] u)) \<and>
     (\<forall>name. roomy name k tp \<longrightarrow> own_place name (place u))"
proof -
  obtain c where c: "get_param tp CHANGE_NETEM = Inr (PStr c)" and m: "mininet_ok (w_net w)" and subnets: "has_subnets left right tp"
    and keys: "distinct (map link_key (link_characteristics tp))" and name: "get_param tp TOPO_ATTR = Inr (PStr (class_name k))"
    using ok by (auto simp: startable_def)
  have bufs: "\<forall>l \<in> set (all_links tp). \<exists>b. buffer_size l = Inr b"
    using ok by (auto simp: startable_def get_client_to_router_links_def get_router_to_server_links_def)
  have t: "events t = []" using load_topology_fields(1) [OF made] new by simp
  let ?E = "class_events k (w_net w) left right (get_client_to_router_links tp) (get_router_to_server_links tp)"
  define u where "u = ran (w_net w) ?E (class_running k tp (lower c = ''yes'') (unbuilt k t))"
  have u: "runner_open w ''mininet'' f s = (Inr (), u)"
    unfolding runner_open_starts [OF m v made name c] u_def
    by (rule class_start_ok [OF m keys bufs subnets c]) (simp_all add: unbuilt_def t)
  have ev: "events u = start_events k (w_net w) tp left right" by (simp add: u_def class_running_keeps t)
  have "NetStop \<notin> set ?E" using class_quiet by (simp add: quiet_def)
  then have live: "live u" using ev by (simp add: live_def u_def class_running_keeps)
  have files: "net u \<noteq> None" "run_files u = run_files t" "run_tmp u = run_tmp t"
    by (simp_all add: u_def class_running_keeps ran_def)
  show ?thesis using u ev live files class_on_network [OF subnets] roomy_place unfolding u_def by blast
qed

lemma stopped_state:
  assumes "\<forall>es. net_stop m es = Inr ()" "net u \<noteq> None" "tidy_state F tmp u" "F tmp = None"
  shows "stop_topo m u = (Inr (), u\<lparr>events := events u @ [NetStop], run_files := F, run_tmp := []\<rparr>)"
proof -
  have "tidy_state F tmp (u\<lparr>events := events u @ [NetStop]\<rparr>)" using assms(3) by simp
  from cleaned [OF assms(4) this] show ?thesis
    using assms(1,2) by (auto simp: stop_topo_def py_finally_def builder_stop_network_def emit_def py_bind_apply)
qed


section \<open>A session with an experiment\<close>

interpretation growing: frame "\<lambda>s. prefix es (events s)"
  by unfold_locales (simp_all add: prefix_def, auto)

lemma start_links_ok:
  assumes "startable k m tp left right"
  shows "network_links_ok m (start_graph k tp) (all_links tp)"
proof (rule class_links_ok)
  show "links_ok (get_client_to_router_links tp) (get_router_to_server_links tp)"
    using assms by (simp add: startable_def links_ok_filter)
qed (use assms in \<open>auto simp: startable_def get_client_to_router_links_def get_router_to_server_links_def\<close>)


end
