(* ===== verification/YamlTopo.thy ===== *)
theory YamlTopo
  imports RunnerRun
begin

text \<open>A YAML topology and the legacy file it stands for.\<close>

text \<open>An element of \<open>paths\<close> with whole numbers describes a link; the queue size may be left out.\<close>

definition describes :: "yaml \<Rightarrow> path_spec \<Rightarrow> bool" where
  "describes p sp \<longleftrightarrow> ysub p ''delay_ms'' = Inr (YInt (spec_delay sp)) \<and> ysub p ''bw_mbit'' = Inr (YInt (spec_bw sp)) \<and>
     (case yget p ''queue_pkts'' of None \<Rightarrow> YInt 100 | Some v \<Rightarrow> v) = YInt (spec_queue sp) \<and>
     yget p ''link_type'' = Some (YStr (spec_type sp)) \<and> yget p ''id'' = Some (YInt (spec_id sp))"

text \<open>The entries of the legacy file.\<close>

definition legacy_entries :: "string \<Rightarrow> string \<Rightarrow> string \<Rightarrow> path_spec list \<Rightarrow> (string \<times> string) list" where
  "legacy_entries left right ty specs =
     [(''leftSubnet'', left), (''rightSubnet'', right)] @ map path_entry specs @ [(''topoType'', ty)]"

lemma path_line_described: "describes p sp \<Longrightarrow> path_line k p = Inr (entry_line (path_entry sp))"
  by (auto simp: describes_def path_line_def Let_def entry_line_def path_entry_def path_key_def path_value_def str_yaml_def)

lemma path_lines_described:
  "list_all2 describes ps specs \<Longrightarrow>
     rmap (\<lambda>(idx, p). path_line idx p) (enumerate k ps) = Inr (map (\<lambda>sp. entry_line (path_entry sp)) specs)"
  by (induction ps specs arbitrary: k rule: list_all2_induct) (simp_all add: path_line_described)

lemma join_lines: "ls \<noteq> [] \<Longrightarrow> join nl ls @ nl = concat (map (\<lambda>l. l @ nl) ls)"
  by (induction ls rule: induct_list012) simp_all

definition yaml_describes :: "yaml \<Rightarrow> string \<Rightarrow> string \<Rightarrow> string \<Rightarrow> path_spec list \<Rightarrow> bool" where
  "yaml_describes y left right ty specs \<longleftrightarrow> (\<exists>t l r tt ps. ysub y ''topology'' = Inr t \<and>
     rbind (ysub t ''subnets'') (\<lambda>s. ysub s ''left'') = Inr l \<and> str_yaml l = left \<and>
     rbind (ysub t ''subnets'') (\<lambda>s. ysub s ''right'') = Inr r \<and> str_yaml r = right \<and>
     ysub t ''type'' = Inr tt \<and> str_yaml tt = ty \<and> yget t ''paths'' = Some (YSeq ps) \<and> list_all2 describes ps specs)"

lemma yaml_text_described:
  assumes "yaml_describes y left right ty specs"
  shows "yaml_text y = Inr (entries_text (legacy_entries left right ty specs))"
proof -
  have "yaml_lines y = Inr (map entry_line (legacy_entries left right ty specs))"
    using assms path_lines_described [of _ specs 0]
    by (auto simp: yaml_describes_def yaml_lines_def yiter_def legacy_entries_def entry_line_def comp_def)
  moreover have "map entry_line (legacy_entries left right ty specs) \<noteq> []" by (simp add: legacy_entries_def)
  ultimately show ?thesis
    unfolding yaml_text_def by (simp only: rbind_simps join_lines) (simp add: join_lines entries_text_def comp_def)
qed

lemma legacy_clean:
  assumes "clean_entry (''leftSubnet'', left)" "clean_entry (''rightSubnet'', right)" "clean_entry (''topoType'', ty)"
    "\<forall>sp \<in> set specs. path_spec_ok sp"
  shows "\<forall>e \<in> set (legacy_entries left right ty specs). clean_entry e"
  using assms by (auto simp: legacy_entries_def clean_path_entry)

lemma legacy_loads:
  assumes clean: "clean_entry (''leftSubnet'', left)" "clean_entry (''rightSubnet'', right)" "clean_entry (''topoType'', ty)"
    and ok: "\<forall>sp \<in> set specs. path_spec_ok sp" and dist: "distinct (map (\<lambda>sp. (spec_type sp, spec_id sp)) specs)"
    and f: "fs f = Some (entries_text (legacy_entries left right ty specs))"
  shows "new_topo_parameter fs (Some f) = Inr
    \<lparr>parameters = load_parameter_text (entries_text (legacy_entries left right ty specs)) [],
     default_parameters = TOPO_DEFAULT_PARAMETERS, link_characteristics = map spec_link (sort_key path_key specs)\<rparr>"
proof (rule new_topo_parameter_text, rule f)
  let ?es = "legacy_entries left right ty specs"
  have es: "file_entries (entries_text ?es) = ?es" by (rule file_entries_text [OF legacy_clean [OF clean ok]])
  show "load_link_characteristics (load_parameter_text (entries_text ?es) []) [] = Inr (map spec_link (sort_key path_key specs))"
    by (rule load_link_characteristics_specs [OF ok dist, where before = "[(''leftSubnet'', left), (''rightSubnet'', right)]"
          and others = "[(''topoType'', ty)]"]) (simp_all add: es [unfolded legacy_entries_def, simplified] legacy_entries_def starts_with_def)
  have "(CHANGE_NETEM, ''yes'') \<notin> set ?es"
    by (auto simp: legacy_entries_def path_entry_def path_key_def CHANGE_NETEM_def)
  then show "dict_get (load_parameter_text (entries_text ?es) []) CHANGE_NETEM \<noteq> Some (PStr ''yes'')"
    unfolding loaded_value es by (rule pack_not_yes)
qed

lemma legacy_values:
  assumes "clean_entry (''leftSubnet'', left)" "clean_entry (''rightSubnet'', right)" "clean_entry (''topoType'', ty)"
    "\<forall>sp \<in> set specs. path_spec_ok sp"
  shows "dict_get (load_parameter_text (entries_text (legacy_entries left right ty specs)) []) ''leftSubnet'' = Some (PStr left)"
    "dict_get (load_parameter_text (entries_text (legacy_entries left right ty specs)) []) ''rightSubnet'' = Some (PStr right)"
    "dict_get (load_parameter_text (entries_text (legacy_entries left right ty specs)) []) ''topoType'' = Some (PStr ty)"
proof -
  have es: "file_entries (entries_text (legacy_entries left right ty specs)) = legacy_entries left right ty specs"
    by (rule file_entries_text [OF legacy_clean [OF assms]])
  have no: "filter (\<lambda>e. fst e = k) (map path_entry specs) = []" if "\<not> starts_with ''path'' k" for k
    using that path_key_starts by (auto simp: path_entry_def filter_empty_conv)
  have "\<not> starts_with ''path'' ''leftSubnet''" "\<not> starts_with ''path'' ''rightSubnet''" "\<not> starts_with ''path'' ''topoType''"
    by (simp_all add: starts_with_def)
  then show "dict_get (load_parameter_text (entries_text (legacy_entries left right ty specs)) []) ''leftSubnet'' = Some (PStr left)"
    "dict_get (load_parameter_text (entries_text (legacy_entries left right ty specs)) []) ''rightSubnet'' = Some (PStr right)"
    "dict_get (load_parameter_text (entries_text (legacy_entries left right ty specs)) []) ''topoType'' = Some (PStr ty)"
    unfolding loaded_value es by (simp_all add: legacy_entries_def no pack_values_def)
qed

text \<open>
  C5. A YAML topology whose paths have whole numbers is equivalent to the legacy file with the
  same subnets, type and paths: loading it gives exactly the object that loading that file
  gives, with one link per path in key order, and writes that file as the temporary file.
\<close>

theorem yaml_equals_legacy:
  assumes y: "is_yaml f" "run_files s f = Some content" "w_yaml w content = Inr y" "yaml_describes y left right ty specs"
    and clean: "clean_entry (''leftSubnet'', left)" "clean_entry (''rightSubnet'', right)" "clean_entry (''topoType'', ty)"
    and ok: "\<forall>sp \<in> set specs. path_spec_ok sp" and dist: "distinct (map (\<lambda>sp. (spec_type sp, spec_id sp)) specs)"
    and legacy: "fs g = Some (entries_text (legacy_entries left right ty specs))"
  shows "\<exists>tp. load_topology w f s = (Inr tp, s\<lparr>run_files := (run_files s)(w_tmp w \<mapsto> entries_text (legacy_entries left right ty specs)),
       run_tmp := run_tmp s @ [w_tmp w]\<rparr>) \<and> new_topo_parameter fs (Some g) = Inr tp \<and>
     link_characteristics tp = map spec_link (sort_key path_key specs) \<and>
     get_param tp ''leftSubnet'' = Inr (PStr left) \<and> get_param tp ''rightSubnet'' = Inr (PStr right) \<and>
     get_param tp TOPO_ATTR = Inr (PStr ty)"
proof -
  note loads = legacy_loads [OF clean ok dist]
  note vals = legacy_values [OF clean ok]
  have "load_topology w f s = (new_topo_parameter ((run_files s)(w_tmp w \<mapsto> entries_text (legacy_entries left right ty specs))) (Some (w_tmp w)),
      s\<lparr>run_files := (run_files s)(w_tmp w \<mapsto> entries_text (legacy_entries left right ty specs)), run_tmp := run_tmp s @ [w_tmp w]\<rparr>)"
    by (simp add: load_topology_def yaml_topo_to_legacy_tmpfile_def py_bind_apply y yaml_text_described [OF y(4)])
  then show ?thesis
    using loads [where fs = fs and f = g] legacy loads [of "(run_files s)(w_tmp w \<mapsto> entries_text (legacy_entries left right ty specs))" "w_tmp w"]
    by (simp add: get_param_def TOPO_ATTR_def vals)
qed

end
