(* ===== verification/ArgParse.thy ===== *)
theory ArgParse
  imports PyStr
begin

text \<open>
  \<open>argparse\<close>, for options in the form the programs are called with here: the option, short or long,
  as one word and its value, if it takes one, as the next.  \<open>None\<close> is the exit with a usage text.
\<close>

text \<open>A word is a value when it does not start as an option does, or is a negative number.\<close>

definition negative_number :: "string \<Rightarrow> bool" where
  "negative_number w = (case w of [] \<Rightarrow> False
     | c # ds \<Rightarrow> c = CHR ''-'' \<and> (case dropWhile is_digit ds of
         [] \<Rightarrow> ds \<noteq> []
       | d # es \<Rightarrow> d = CHR ''.'' \<and> es \<noteq> [] \<and> list_all is_digit es))"

definition option_value :: "string \<Rightarrow> bool" where
  "option_value w \<longleftrightarrow> \<not> starts_with ''-'' w \<or> w = ''-'' \<or> negative_number w"

text \<open>The options are a table; \<open>set_arg\<close> stores a value, or the mere presence of an option.\<close>

fun parse_args :: "(string \<Rightarrow> 'f option) \<Rightarrow> ('f \<Rightarrow> string option \<Rightarrow> 'a \<Rightarrow> 'a option) \<Rightarrow> ('f \<Rightarrow> bool) \<Rightarrow> string list \<Rightarrow> 'a \<Rightarrow> 'a option" where
  "parse_args flag set_arg valued [] a = Some a"
| "parse_args flag set_arg valued (w # ws) a = (case flag w of
     None \<Rightarrow> None
   | Some f \<Rightarrow> if \<not> valued f then Option.bind (set_arg f None a) (parse_args flag set_arg valued ws)
       else (case ws of
           [] \<Rightarrow> None
         | v # vs \<Rightarrow> if option_value v then Option.bind (set_arg f (Some v) a) (parse_args flag set_arg valued vs) else None))"

lemma value_int: "option_value (show_int n)"
proof (cases "n < 0")
  case True
  have digits: "dropWhile is_digit (show_digits (- n)) = []" using True show_digits_digits [of "- n"] by (simp add: dropWhile_eq_Nil_conv)
  then show ?thesis using True by (simp add: option_value_def show_int_def negative_number_def digits)
next
  case False
  then obtain c ds where "show_int n = c # ds" "is_digit c"
    using show_digits_digits [of n] by (cases "show_digits n") (auto simp: show_int_def)
  then show ?thesis using is_digit_not_special(1) [of c] by (auto simp: option_value_def starts_with_def)
qed

end
