(* ===== verification/RunnerCommand.thy ===== *)
theory RunnerCommand
  imports RunnerFiles ArgParse
begin

text \<open>The command line of \<open>runner.py\<close>: the path of the topology and that of the experiment, which may be missing.\<close>

datatype runner_option = TopoFlag | ExperimentFlag

record runner_namespace =
  topo_param_file :: "string option"
  experiment_param_file :: "string option"

definition runner_flag :: "string \<Rightarrow> runner_option option" where
  "runner_flag = map_of [(''--topo_param_file'', TopoFlag), (''-t'', TopoFlag),
     (''--experiment_param_file'', ExperimentFlag), (''-x'', ExperimentFlag)]"

definition set_runner_arg :: "runner_option \<Rightarrow> string option \<Rightarrow> runner_namespace \<Rightarrow> runner_namespace option" where
  "set_runner_arg f v a = (case f of
     TopoFlag \<Rightarrow> Some (a\<lparr>topo_param_file := v\<rparr>)
   | ExperimentFlag \<Rightarrow> Some (a\<lparr>experiment_param_file := v\<rparr>))"

text \<open>The topology is required.\<close>

definition runner_args :: "string list \<Rightarrow> (string \<times> string option) option" where
  "runner_args ws = (case parse_args runner_flag set_runner_arg (\<lambda>_. True) ws \<lparr>topo_param_file = None, experiment_param_file = None\<rparr> of
     None \<Rightarrow> None
   | Some a \<Rightarrow> map_option (\<lambda>t. (t, experiment_param_file a)) (topo_param_file a))"

definition runner_program :: "world \<Rightarrow> string list \<Rightarrow> 'a runner_scheme \<Rightarrow> (unit res \<times> 'a runner_scheme) option" where
  "runner_program w ws s = map_option (\<lambda>(t, x). runner_main w t x s) (runner_args ws)"


end
