(* ===== verification/RunnerDemo.thy ===== *)
theory RunnerDemo
  imports ExpDemo YamlTopo RunnerCommand
begin

text \<open>A YAML topology with two paths, an \<open>iperfScenario\<close> experiment file, and the runner on them.\<close>

abbreviation demo_spec :: "int \<Rightarrow> path_spec" where
  "demo_spec i \<equiv> \<lparr>spec_type = ''c2r'', spec_id = i, spec_delay = 20, spec_queue = 100, spec_bw = 4\<rparr>"

abbreviation demo_specs :: "path_spec list" where
  "demo_specs \<equiv> [demo_spec 0, demo_spec 1]"

abbreviation demo_links :: "link list" where
  "demo_links \<equiv> [demo_link ''c2r'' 0, demo_link ''c2r'' 1]"

definition demo_yaml :: "topo_class \<Rightarrow> yaml" where
  "demo_yaml k = YMap [(YStr ''topology'', YMap
     [(YStr ''type'', YStr (class_name k)),
      (YStr ''subnets'', YMap [(YStr ''left'', YStr ''10.1.''), (YStr ''right'', YStr ''10.2.'')]),
      (YStr ''paths'', YSeq [YMap [(YStr ''id'', YInt 0), (YStr ''link_type'', YStr ''c2r''), (YStr ''delay_ms'', YInt 20),
         (YStr ''bw_mbit'', YInt 4)],
        YMap [(YStr ''id'', YInt 1), (YStr ''link_type'', YStr ''c2r''), (YStr ''delay_ms'', YInt 20), (YStr ''bw_mbit'', YInt 4)]])])]"

abbreviation demo_text :: "topo_class \<Rightarrow> string" where
  "demo_text k \<equiv> entries_text (legacy_entries ''10.1.'' ''10.2.'' (class_name k) demo_specs)"

definition demo_files :: "string \<Rightarrow> string option" where
  "demo_files = [''demo.yaml'' \<mapsto> ''yaml'', ''legacy'' \<mapsto> demo_text MultiIfClass, ''xp'' \<mapsto> ''xpType:iperfScenario'']"

definition demo_world :: "topo_class \<Rightarrow> world" where
  "demo_world k = \<lparr>w_net = demo_machine, w_git = (\<lambda>_. Inr ''1a2b3c''), w_root = ''/minitopo'', w_yaml = (\<lambda>_. Inr (demo_yaml k)), w_tmp = ''/tmp/x.topo'',
     w_host = undefined\<rparr>"

definition demo_start :: "unit runner_scheme" where
  "demo_start = \<lparr>graph = [], net = None, events = [], topo_parameter = demo_tp, change_netem = False, log_lines = [],
     log_open = False, clients = [], routers = [], servers = [], bottleneck_links = [], param = demo_tp,
     mi_client = Name [], mi_server = Name [], mi_router = Name [], c2r_links = [], r2s_links = [],
     cfg_client = None, cfg_server = None, cfg_router = None, cfg_clients = None, cfg_servers = None,
     xp_topo_class = MultiIfClass, experiment_parameter = demo_params, sysctl_to_restore = None,
     client_sysctl_to_restore = None, server_sysctl_to_restore = None, xp_attrs = [],
     cwd = ''/root'', run_files = demo_files, run_tmp = []\<rparr>"

lemma demo_describes: "yaml_describes (demo_yaml k) ''10.1.'' ''10.2.'' (class_name k) demo_specs"
  by (simp add: yaml_describes_def demo_yaml_def ysub_def yget_def str_yaml_def describes_def)

lemma demo_clean:
  "clean_entry (''leftSubnet'', ''10.1.'')" "clean_entry (''rightSubnet'', ''10.2.'')" "clean_entry (''topoType'', class_name k)"
  "\<forall>sp \<in> set demo_specs. path_spec_ok sp" "distinct (map (\<lambda>sp. (spec_type sp, spec_id sp)) demo_specs)"
  by (cases k; simp add: clean_entry_def is_space_def path_spec_ok_def class_name_def)+

lemma demo_is_yaml: "is_yaml ''demo.yaml''"
  by code_simp

lemma demo_sorted: "sort_key path_key demo_specs = demo_specs"
  by code_simp

theorem yaml_equals_legacy_witness:
  "\<exists>tp. fst (load_topology (demo_world MultiIfClass) ''demo.yaml'' demo_start) = Inr tp \<and>
     new_topo_parameter demo_files (Some ''legacy'') = Inr tp \<and> link_characteristics tp = demo_links"
proof -
  have "spec_link (demo_spec i) = demo_link ''c2r'' i" for i by (simp add: spec_link_def demo_link_def)
  then show ?thesis
    using yaml_equals_legacy [OF demo_is_yaml, of demo_start "''yaml''" "demo_world MultiIfClass" "demo_yaml MultiIfClass",
        OF _ _ demo_describes demo_clean, of demo_files "''legacy''",
        unfolded demo_sorted]
    by (auto simp: demo_start_def demo_files_def demo_world_def)
qed


section \<open>Sessions\<close>

lemma demo_loads:
  obtains tp t where "load_topology (demo_world k) ''demo.yaml'' (demo_start\<lparr>run_tmp := []\<rparr>) = (Inr tp, t)"
    "startable k (w_net (demo_world k)) tp ''10.1.'' ''10.2.''" "run_files t ''xp'' = Some ''xpType:iperfScenario''"
    "get_client_to_router_links tp = demo_links"
proof -
  let ?F = "demo_files(''/tmp/x.topo'' \<mapsto> demo_text k)"
  let ?d = "load_parameter_text (demo_text k) []"
  obtain tp where tp: "new_topo_parameter ?F (Some ''/tmp/x.topo'') = Inr tp"
    "tp = \<lparr>parameters = ?d, default_parameters = TOPO_DEFAULT_PARAMETERS, link_characteristics = map spec_link demo_specs\<rparr>"
    using legacy_loads [OF demo_clean, where fs = ?F and f = "''/tmp/x.topo''"] by (simp only: demo_sorted) simp
  have link: "spec_link (demo_spec i) = demo_link ''c2r'' i" for i by (simp add: spec_link_def demo_link_def)
  note vals = legacy_values [OF demo_clean(1-4)]
  have change: "get_param tp CHANGE_NETEM = Inr (PStr ''false'')"
    unfolding tp(2) by (cases k; simp add: class_name_def; code_simp)
  have links: "get_client_to_router_links tp = demo_links" "get_router_to_server_links tp = []"
    by (simp_all add: tp(2) link get_client_to_router_links_def get_router_to_server_links_def demo_link_def)
  have load: "load_topology (demo_world k) ''demo.yaml'' (demo_start\<lparr>run_tmp := []\<rparr>) =
      (Inr tp, demo_start\<lparr>run_files := ?F, run_tmp := [''/tmp/x.topo'']\<rparr>)"
    using demo_is_yaml tp(1)
    by (simp add: load_topology_def yaml_topo_to_legacy_tmpfile_def py_bind_apply demo_start_def demo_world_def
        demo_files_def yaml_text_described [OF demo_describes])
  have keys: "link_key (demo_link ''c2r'' 0) \<noteq> link_key (demo_link ''c2r'' 1)" by (simp add: link_key_def demo_link_def)
  have "startable k (w_net (demo_world k)) tp ''10.1.'' ''10.2.''"
    using change demo_buffer [of "''c2r''" 0] demo_buffer [of "''c2r''" 1] keys sysctl_net_ok
    by (simp add: startable_def demo_world_def has_subnets_def get_param_def TOPO_ATTR_def tp(2) vals link)
       (simp add: sysctl_net_def demo_net_def)
  then show ?thesis using that [OF load] links by (simp add: demo_files_def)
qed




definition xp_file_params :: params where
  "xp_file_params = demo_params\<lparr>parameters := [(''xpType'', PStr ''iperfScenario'')]\<rparr>"

lemma xp_file_loaded: "fs g = Some ''xpType:iperfScenario'' \<Longrightarrow> new_experiment_parameter fs (Some g) = Inr xp_file_params"
proof -
  have "load_parameter_text ''xpType:iperfScenario'' [] = [(''xpType'', PStr ''iperfScenario'')]" by code_simp
  then show "fs g = Some ''xpType:iperfScenario'' \<Longrightarrow> ?thesis"
    by (simp add: new_experiment_parameter_def new_parameter_def load_parameter_file_def xp_file_params_def demo_params_def add_defaults_def)
qed

definition scenario_params :: params where
  "scenario_params = add_defaults SCENARIO_DEFAULTS demo_params"

lemma get_scenario:
  "get_param scenario_params k = (if k = ''iperfScenarioFMSublows'' then Inr (PStr ''1'') else get_param demo_params k)"
  by (simp add: scenario_params_def demo_params_def get_param_def add_defaults_def SCENARIO_DEFAULTS_def dict_get_update wf_dict_def
      split: option.splits)

lemma scenario_text: "text_values scenario_params"
  by (auto simp: text_values_def get_scenario get_demo EXPERIMENT_DEFAULT_PARAMETERS_def split: if_splits option.splits)

lemma scenario_plain: "plain_paths scenario_params"
  using demo_plain by (simp add: plain_paths_def backup_of_def param_val_def get_scenario)

definition scenario_file_params :: params where
  "scenario_file_params = scenario_params\<lparr>parameters := [(''xpType'', PStr ''iperfScenario'')]\<rparr>"

lemma scenario_file_loaded: "fs g = Some ''xpType:iperfScenario'' \<Longrightarrow> cls_parameters scenario_class fs (Some g) = Inr scenario_file_params"
  by (simp add: scenario_class_def parameters_with_def xp_file_loaded scenario_file_params_def xp_file_params_def scenario_params_def
      demo_params_def add_defaults_def)

lemma get_scenario_file: "get_param scenario_file_params k = (if k = ''xpType'' then Inr (PStr ''iperfScenario'') else get_param scenario_params k)"
  by (simp add: get_param_def scenario_file_params_def scenario_params_def demo_params_def add_defaults_def)


end
