(* ===== verification/SiriServer.thy ===== *)
theory SiriServer
  imports Experiment
begin

text \<open>
  The server of the Siri experiments, \<open>utils/siri_server.py\<close>: the loop of one connection.  A
  chunk is what one \<open>recv\<close> returns, bytes written as characters; what the loop keeps between
  two chunks is a record.  The dictionaries \<open>delay_results\<close>, \<open>time_sent\<close> and \<open>mac\<close> are only read
  and written at the identifier of the connection, so their entry there is part of that record.
\<close>

abbreviation newline :: char where
  "newline \<equiv> CHR 0x0A"

record siri =
  first_data :: bool
  expected_req_size :: int
  res_size :: int
  waiting_time :: int
  expected_delay_results :: int
  buffer_data :: string
  next_buffer_data :: string
  message_sizes :: "nat list"
  message_id :: int
  delay_results :: "int list"
  time_sent :: "int list"
  mac :: "string option"
  answers :: "(int \<times> string) list"

text \<open>The last field is not a variable of the program: the pauses made and the replies sent so far.\<close>

definition siri_start :: siri where
  "siri_start = \<lparr>first_data = True, expected_req_size = 0, res_size = 0, waiting_time = 0, expected_delay_results = 0,
     buffer_data = [], next_buffer_data = [], message_sizes = [], message_id = 0, delay_results = [], time_sent = [],
     mac = None, answers = []\<rparr>"

definition MAX_SECURITY_HEADER_SIZE :: nat where "MAX_SECURITY_HEADER_SIZE = 128"
definition MIN_FIELDS_NB :: nat where "MIN_FIELDS_NB = 8"
definition SIRI_BUFFER_SIZE :: nat where "SIRI_BUFFER_SIZE = 512"

text \<open>What of a chunk belongs to the current request, and what is left for the next one.\<close>

definition use_data :: "string \<Rightarrow> string \<times> string" where
  "use_data d = (if \<not> ends_with [newline] d \<and> newline \<in> set d
     then let i = length (takeWhile (\<lambda>c. c \<noteq> newline) d) in (take (i + 1) d, drop (i + 1) d)
     else (d, []))"

text \<open>\<open>split_data[i]\<close>, and the assignments of the header's numbers.\<close>

definition siri_field :: "string list \<Rightarrow> nat \<Rightarrow> string res" where
  "siri_field ws i = (if i < length ws then Inr (ws ! i) else Inl IndexError)"

definition siri_number :: "string list \<Rightarrow> nat \<Rightarrow> (int \<Rightarrow> siri \<Rightarrow> siri) \<Rightarrow> (siri, unit) py" where
  "siri_number ws i f = py_bind (py_lift (rbind (siri_field ws i) parse_int)) (\<lambda>v. py_modify (f v))"

definition siri_header :: "(siri, flow) py" where
  "siri_header =
     py_bind (py_get (\<lambda>s. split_on (CHR ''&'') (buffer_data s))) (\<lambda>ws.
     py_bind (siri_number ws 4 (\<lambda>v s. s\<lparr>expected_delay_results := v\<rparr>)) (\<lambda>_.
     py_bind (py_get expected_delay_results) (\<lambda>n.
     if int (length ws) - int MIN_FIELDS_NB \<noteq> n then py_return Continue
     else py_bind (block
       [siri_number ws 0 (\<lambda>v s. s\<lparr>message_id := v\<rparr>),
        siri_number ws 1 (\<lambda>v s. s\<lparr>expected_req_size := v\<rparr>),
        siri_number ws 2 (\<lambda>v s. s\<lparr>res_size := v\<rparr>),
        siri_number ws 3 (\<lambda>v s. s\<lparr>waiting_time := v\<rparr>),
        siri_number ws 5 (\<lambda>v s. s\<lparr>time_sent := time_sent s @ [v]\<rparr>)]) (\<lambda>_.
     py_bind (py_lift (siri_field ws 6)) (\<lambda>a.
     py_bind (py_get mac) (\<lambda>known.
     if known \<noteq> None \<and> known \<noteq> Some a then py_return Break
     else py_bind (block
       [py_modify (\<lambda>s. s\<lparr>mac := Some a\<rparr>),
        for_each [0..<nat n] (\<lambda>i. siri_number ws (7 + i) (\<lambda>v s. s\<lparr>delay_results := delay_results s @ [v]\<rparr>)),
        py_modify (\<lambda>s. s\<lparr>first_data := False\<rparr>)]) (\<lambda>_. py_return Proceed)))))))"

text \<open>The reply; a negative count repeats the character no time.\<close>

definition siri_response :: "int \<Rightarrow> int \<Rightarrow> string" where
  "siri_response i n = show_int i @ ''&'' @ replicate (nat (n - int (length (show_int i)) - 2)) (CHR ''0'') @ [newline]"

definition siri_answer :: "(siri, flow) py" where
  "siri_answer = py_bind (py_get id) (\<lambda>s.
     if int (length (buffer_data s)) = expected_req_size s then
       if waiting_time s < 0 then py_raise ValueError
       else py_bind (py_modify (\<lambda>s. s\<lparr>answers := answers s @ [(waiting_time s, siri_response (message_id s) (res_size s))],
           first_data := True, buffer_data := [], message_sizes := []\<rparr>)) (\<lambda>_.
         py_bind (py_when (next_buffer_data s \<noteq> []) (py_modify (\<lambda>s. s\<lparr>buffer_data := next_buffer_data s, next_buffer_data := [],
           message_sizes := [length (next_buffer_data s)]\<rparr>))) (\<lambda>_. py_return Continue))
     else if int (length (buffer_data s)) > expected_req_size s then py_return Break
     else py_return Continue)"

text \<open>A turn of the loop, from the limit of the header on, and the whole turn.\<close>

definition siri_turn :: "(siri, flow) py" where
  "siri_turn = py_bind (py_get id) (\<lambda>s.
     if first_data s \<and> length (buffer_data s) \<le> MAX_SECURITY_HEADER_SIZE \<and>
        length (split_on (CHR ''&'') (buffer_data s)) < MIN_FIELDS_NB then py_return Continue
     else py_bind (if first_data s then siri_header else py_return Proceed)
       (\<lambda>f. if f = Proceed then siri_answer else py_return f))"

text \<open>Bytes that are not ASCII raise a kind of \<open>ValueError\<close>.\<close>

definition siri_recv :: "string \<Rightarrow> (siri, flow) py" where
  "siri_recv d =
     (if \<not> is_ascii d then py_raise ValueError
      else if d = [] then py_return Break
      else case use_data d of (used, rest) \<Rightarrow>
        py_bind (py_modify (\<lambda>s. s\<lparr>buffer_data := buffer_data s @ used, next_buffer_data := next_buffer_data s @ rest,
          message_sizes := message_sizes s @ [length used]\<rparr>)) (\<lambda>_. siri_turn))"

text \<open>The loop over the chunks received so far; \<open>Continue\<close>: it waits for more.\<close>

primrec siri_loop :: "string list \<Rightarrow> (siri, flow) py" where
  "siri_loop [] = py_return Continue"
| "siri_loop (d # ds) = py_bind (siri_recv d) (\<lambda>f. if f = Break then py_return Break else siri_loop ds)"

text \<open>The same for one chunk, as a step of a thread: its next variables, if it stays in its loop.\<close>

definition siri_serve :: "string \<Rightarrow> siri \<Rightarrow> siri option" where
  "siri_serve d c = (case siri_recv d c of (Inr Break, _) \<Rightarrow> None | (Inr _, c') \<Rightarrow> Some c' | (Inl _, _) \<Rightarrow> None)"

end
