(* ===== verification/SiriProps.thy ===== *)
theory SiriProps
  imports SiriServer
begin

text \<open>What one connection of the Siri server does with a stream of requests.\<close>

section \<open>Requests\<close>

text \<open>A request as the client writes it: eight fields and more, padding, and a newline at the end.\<close>

record request =
  rq_id :: int
  rq_size :: int
  rq_res :: int
  rq_wait :: int
  rq_time :: int
  rq_mac :: string
  rq_delays :: "int list"
  rq_pad :: string

definition rq_fields :: "request \<Rightarrow> string list" where
  "rq_fields r = [show_int (rq_id r), show_int (rq_size r), show_int (rq_res r), show_int (rq_wait r),
     show_int (int (length (rq_delays r))), show_int (rq_time r), rq_mac r] @ map show_int (rq_delays r)"

definition rq_words :: "request \<Rightarrow> string list" where
  "rq_words r = rq_fields r @ [rq_pad r @ [newline]]"

definition rq_text :: "request \<Rightarrow> string" where
  "rq_text r = join ''&'' (rq_words r)"

text \<open>The announced size is right, and the first five fields leave room in the limit of the header.\<close>

definition rq_ok :: "request \<Rightarrow> bool" where
  "rq_ok r \<longleftrightarrow> rq_size r = int (length (rq_text r)) \<and> 0 \<le> rq_wait r \<and>
     CHR ''&'' \<notin> set (rq_mac r @ rq_pad r) \<and> newline \<notin> set (rq_mac r @ rq_pad r) \<and> is_ascii (rq_mac r @ rq_pad r) \<and>
     length (join ''&'' (take 5 (rq_words r))) \<le> MAX_SECURITY_HEADER_SIZE"

definition rq_reply :: "request \<Rightarrow> int \<times> string" where
  "rq_reply r = (rq_wait r, siri_response (rq_id r) (rq_res r))"

section \<open>Prefixes of a joined text\<close>

lemma append_longer: "xs @ ys = zs @ ws \<Longrightarrow> length zs \<le> length xs \<Longrightarrow> \<exists>y. xs = zs @ y \<and> ws = y @ ys"
proof -
  assume "xs @ ys = zs @ ws" and len: "length zs \<le> length xs"
  then consider us where "xs = zs @ us" "us @ ys = ws" | us where "xs @ us = zs" "ys = us @ ws"
    by (auto simp: append_eq_append_conv2)
  then show ?thesis using len by cases auto
qed

text \<open>A prefix of words joined by a separator consists of whole words and a part of the next.\<close>

lemma prefix_join:
  assumes "\<forall>w \<in> set ws. c \<notin> set w" "ws \<noteq> []" "join [c] ws = b @ u"
  shows "\<exists>k v. k < length ws \<and> split_on c b = take k ws @ [v] \<and> (\<exists>x. ws ! k = v @ x) \<and> (k = length ws - 1 \<longrightarrow> ws ! k = v @ u)"
  using assms
proof (induction ws arbitrary: b)
  case (Cons w ws)
  show ?case
  proof (cases "ws = []")
    case True
    then have "w = b @ u" using Cons.prems(3) by simp
    moreover from this have "c \<notin> set b" using Cons.prems(1) by simp
    ultimately show ?thesis using True by (intro exI [of _ 0] exI [of _ b]) (simp add: split_on_no_occ)
  next
    case False
    then have j: "w @ c # join [c] ws = b @ u" using Cons.prems(3) by (simp add: join_Cons)
    show ?thesis
    proof (cases "length b \<le> length w")
      case True
      then obtain x where w: "w = b @ x" using j by (auto simp: append_eq_append_conv2)
      then have "c \<notin> set b" using Cons.prems(1) by simp
      then show ?thesis using w False by (intro exI [of _ 0] exI [of _ b]) (simp add: split_on_no_occ)
    next
      case len: False
      then obtain z where z: "b = w @ z" "c # join [c] ws = z @ u" using j by (auto simp: append_eq_append_conv2)
      moreover have "z \<noteq> []" using z(1) len by auto
      ultimately obtain y where y: "b = w @ c # y" "join [c] ws = y @ u" by (cases z) auto
      obtain k v where k: "k < length ws" "split_on c y = take k ws @ [v]" "\<exists>x. ws ! k = v @ x" "k = length ws - 1 \<longrightarrow> ws ! k = v @ u"
        using Cons.IH [OF _ False y(2)] Cons.prems(1) by auto
      have "split_on c b = take (Suc k) (w # ws) @ [v]"
        using Cons.prems(1) k(2) by (simp add: y(1) split_on_append_sep)
      then show ?thesis using k False by (intro exI [of _ "Suc k"] exI [of _ v]) (auto simp: nth_Cons')
    qed
  qed
qed simp

lemma rq_no_sep: "rq_ok r \<Longrightarrow> \<forall>w \<in> set (rq_words r). CHR ''&'' \<notin> set w"
proof -
  have "CHR ''&'' \<notin> set (show_int i)" for i using show_int_chars [of "CHR ''&''" i] is_digit_not_special(7) [of "CHR ''&''"] by auto
  then show "rq_ok r \<Longrightarrow> ?thesis" by (auto simp: rq_ok_def rq_words_def rq_fields_def)
qed

lemma rq_no_newline: "rq_ok r \<Longrightarrow> w \<in> set (rq_fields r) \<Longrightarrow> newline \<notin> set w"
proof -
  have "newline \<notin> set (show_int i)" for i using show_int_chars [of newline i] is_digit_not_special(8) [of newline] by auto
  then show "rq_ok r \<Longrightarrow> w \<in> set (rq_fields r) \<Longrightarrow> ?thesis" by (auto simp: rq_ok_def rq_fields_def)
qed

lemma set_join: "set (join s ws) \<subseteq> set s \<union> (\<Union>w \<in> set ws. set w)"
  by (induction ws rule: induct_list012) auto

lemma join_snoc: "ws \<noteq> [] \<Longrightarrow> join s (ws @ [w]) = join s ws @ s @ w"
  by (induction ws rule: induct_list012) simp_all

text \<open>A request has one newline, its last character.\<close>

lemma rq_text_end:
  assumes "rq_ok r"
  obtains t where "rq_text r = t @ [newline]" "newline \<notin> set t"
proof -
  let ?t = "join ''&'' (rq_fields r) @ ''&'' @ rq_pad r"
  have "rq_fields r \<noteq> []" by (simp add: rq_fields_def)
  then have "rq_text r = ?t @ [newline]" by (simp add: rq_text_def rq_words_def join_snoc)
  moreover have "newline \<notin> set ?t"
    using rq_no_newline [OF assms] set_join [of "''&''" "rq_fields r"] assms by (auto simp: rq_ok_def)
  ultimately show ?thesis using that by blast
qed

lemma rq_ascii: "rq_ok r \<Longrightarrow> is_ascii (rq_text r)"
proof -
  have digit: "(of_char c :: nat) < 128" if "is_digit c \<or> c = CHR ''-''" for c
  proof -
    have "(of_char c :: int) = int (of_char c)" by (simp only: of_nat_of_char)
    then show ?thesis using that by (auto simp: is_digit_def simp del: of_nat_of_char)
  qed
  have "c \<in> set (show_int i) \<Longrightarrow> (of_char c :: nat) < 128" for c i using show_int_chars digit by blast
  moreover have "set (rq_text r) \<subseteq> {CHR ''&''} \<union> (\<Union>w \<in> set (rq_words r). set w)"
    using set_join [of "''&''" "rq_words r"] by (simp add: rq_text_def)
  ultimately show "rq_ok r \<Longrightarrow> ?thesis" by (fastforce simp: rq_ok_def rq_words_def rq_fields_def is_ascii_def)
qed


section \<open>The header\<close>

definition settled :: "string \<Rightarrow> request list \<Rightarrow> string \<Rightarrow> string \<Rightarrow> siri \<Rightarrow> bool" where
  "settled a rs b nx s \<longleftrightarrow> first_data s \<and> buffer_data s = b \<and> next_buffer_data s = nx \<and> answers s = map rq_reply rs \<and>
     delay_results s = concat (map rq_delays rs) \<and> time_sent s = map rq_time rs \<and> mac s \<in> {None, Some a}"

definition header_read :: "string \<Rightarrow> request list \<Rightarrow> request \<Rightarrow> string \<Rightarrow> string \<Rightarrow> siri \<Rightarrow> bool" where
  "header_read a rs r b nx s \<longleftrightarrow> \<not> first_data s \<and> buffer_data s = b \<and> next_buffer_data s = nx \<and> answers s = map rq_reply rs \<and>
     delay_results s = concat (map rq_delays (rs @ [r])) \<and> time_sent s = map rq_time (rs @ [r]) \<and> mac s \<in> {None, Some a} \<and>
     message_id s = rq_id r \<and> expected_req_size s = rq_size r \<and> res_size s = rq_res r \<and> waiting_time s = rq_wait r"

lemma siri_number_field: "i < length ws \<Longrightarrow> ws ! i = show_int v \<Longrightarrow> siri_number ws i f = py_modify (f v)"
  by (simp add: siri_number_def siri_field_def fun_eq_iff)

lemma delays_loop:
  assumes "\<forall>i < length vs. 7 + (k + i) < length ws \<and> ws ! (7 + (k + i)) = show_int (vs ! i)"
  shows "for_each [k..<k + length vs] (\<lambda>i. siri_number ws (7 + i) (\<lambda>v s. s\<lparr>delay_results := delay_results s @ [v]\<rparr>)) s =
    (Inr (), s\<lparr>delay_results := delay_results s @ vs\<rparr>)"
  using assms
proof (induction vs arbitrary: k s)
  case (Cons v vs)
  have "7 + k < length ws" "ws ! (7 + k) = show_int v" using Cons.prems by (auto dest: spec [of _ 0])
  note first = siri_number_field [OF this]
  have "\<forall>i < length vs. 7 + (Suc k + i) < length ws \<and> ws ! (7 + (Suc k + i)) = show_int (vs ! i)"
    using Cons.prems by (auto dest: spec [of _ "Suc i" for i])
  note Cons.IH [OF this, of "s\<lparr>delay_results := delay_results s @ [v]\<rparr>"]
  moreover have "[k..<k + length (v # vs)] = k # [Suc k..<Suc k + length vs]" by (simp add: upt_conv_Cons del: upt_Suc)
  ultimately show ?case by (simp add: first del: upt_Suc)
qed simp

lemma header_complete:
  assumes "split_on (CHR ''&'') (buffer_data s) = rq_fields r @ [v]" and "mac s \<in> {None, Some (rq_mac r)}"
  shows "siri_header s = (Inr Proceed, s\<lparr>expected_delay_results := int (length (rq_delays r)), message_id := rq_id r,
     expected_req_size := rq_size r, res_size := rq_res r, waiting_time := rq_wait r, time_sent := time_sent s @ [rq_time r],
     mac := Some (rq_mac r), delay_results := delay_results s @ rq_delays r, first_data := False\<rparr>)"
proof -
  define ws where "ws = rq_fields r @ [v]"
  have len: "length ws = length (rq_delays r) + 8" by (simp add: ws_def rq_fields_def)
  have nums: "siri_number ws 0 f = py_modify (f (rq_id r))" "siri_number ws 1 f = py_modify (f (rq_size r))"
    "siri_number ws 2 f = py_modify (f (rq_res r))" "siri_number ws 3 f = py_modify (f (rq_wait r))"
    "siri_number ws 4 f = py_modify (f (int (length (rq_delays r))))" "siri_number ws 5 f = py_modify (f (rq_time r))" for f
    using len by (auto intro!: siri_number_field simp: ws_def rq_fields_def nth_append)
  have addr: "siri_field ws 6 = Inr (rq_mac r)" using len by (simp add: siri_field_def ws_def rq_fields_def nth_append)
  have "\<forall>i < length (rq_delays r). 7 + (0 + i) < length ws \<and> ws ! (7 + (0 + i)) = show_int (rq_delays r ! i)"
    using len by (auto simp: ws_def rq_fields_def nth_append)
  note delays = delays_loop [OF this, simplified]
  show ?thesis
    using assms(2)
    by (auto simp: siri_header_def assms(1) [folded ws_def] nums nums(2) [unfolded One_nat_def] addr len MIN_FIELDS_NB_def
        py_bind_apply delays)
qed


section \<open>A turn of the loop\<close>

lemma join_append: "xs \<noteq> [] \<Longrightarrow> ys \<noteq> [] \<Longrightarrow> join s (xs @ ys) = join s xs @ s @ join s ys"
  by (induction xs rule: induct_list012) (simp_all add: join_Cons)

text \<open>Past the limit of the header, five fields are complete.\<close>

lemma five_fields:
  assumes ok: "rq_ok r" and b: "rq_text r = b @ u" "length b > MAX_SECURITY_HEADER_SIZE"
  shows "6 \<le> length (split_on (CHR ''&'') b)"
proof -
  let ?h = "join ''&'' (take 5 (rq_words r))" and ?t = "join ''&'' (drop 5 (rq_words r))"
  have ne: "take 5 (rq_words r) \<noteq> []" "drop 5 (rq_words r) \<noteq> []" by (simp_all add: rq_words_def rq_fields_def)
  have "rq_text r = ?h @ CHR ''&'' # ?t"
    using join_append [OF ne, of "''&''"] by (simp add: rq_text_def)
  moreover have len: "length ?h < length b" using ok b(2) by (simp add: rq_ok_def)
  ultimately obtain y where y: "b = ?h @ y" "CHR ''&'' # ?t = y @ u"
    using append_longer [of b u ?h] b(1) by auto
  then have "y \<noteq> []" using len by auto
  have "split_on (CHR ''&'') ?h = take 5 (rq_words r)"
    using rq_no_sep [OF ok] ne(1) by (intro split_on_join) (auto dest: in_set_takeD)
  then have "length (filter ((=) (CHR ''&'')) ?h) = 4"
    using length_split_on [of "CHR ''&''" ?h] by (simp add: rq_words_def rq_fields_def)
  moreover have "hd y = CHR ''&''" using y(2) \<open>y \<noteq> []\<close> by (cases y) simp_all
  ultimately show ?thesis using y(1) \<open>y \<noteq> []\<close> by (cases y) (simp_all add: length_split_on)
qed

lemma split_whole: "rq_ok r \<Longrightarrow> split_on (CHR ''&'') (rq_text r) = rq_words r"
  unfolding rq_text_def using rq_no_sep by (intro split_on_join) (simp_all add: rq_words_def)

text \<open>A turn that starts without the header waits for more, or has read it and goes on.\<close>

lemma turn_settled:
  assumes ok: "rq_ok r" "rq_mac r = a" and b: "rq_text r = b @ u" and s: "settled a rs b nx s"
  shows "(u \<noteq> [] \<and> (\<exists>t. siri_turn s = (Inr Continue, t) \<and> settled a rs b nx t)) \<or>
    (\<exists>t. siri_turn s = siri_answer t \<and> header_read a rs r b nx t)"
proof -
  let ?W = "split_on (CHR ''&'') b" and ?n = "int (length (rq_delays r))"
  have words: "length (rq_words r) = length (rq_delays r) + 8" by (simp add: rq_words_def rq_fields_def)
  obtain k v where k: "k < length (rq_words r)" "?W = take k (rq_words r) @ [v]"
    using prefix_join [OF rq_no_sep [OF ok(1)], of b u] b by (auto simp: rq_text_def rq_words_def)
  have whole: "k = length (rq_words r) - 1" if "u = []"
    using split_whole [OF ok(1)] b that k(1) arg_cong [OF k(2), of length] by simp
  have buf: "buffer_data s = b" "first_data s" "mac s \<in> {None, Some (rq_mac r)}" using s ok(2) by (simp_all add: settled_def)
  show ?thesis
  proof (cases "length b \<le> MAX_SECURITY_HEADER_SIZE \<and> length ?W < MIN_FIELDS_NB")
    case True
    then have "u \<noteq> []" using whole words k by (auto simp: MIN_FIELDS_NB_def)
    with True s buf show ?thesis by (simp add: siri_turn_def py_bind_apply)
  next
    case False
    then have five: "5 \<le> k" using five_fields [OF ok(1) b] k words by (force simp: MIN_FIELDS_NB_def)
    have turn: "siri_turn s = py_bind siri_header (\<lambda>f. if f = Proceed then siri_answer else py_return f) s"
      using False buf by (auto simp: siri_turn_def)
    show ?thesis
    proof (cases "k = length (rq_words r) - 1")
      case True
      then have "?W = rq_fields r @ [v]" using k(2) by (simp add: rq_words_def)
      from header_complete [of s, unfolded buf(1), OF this buf(3)]
      obtain t where "siri_header s = (Inr Proceed, t)" "header_read a rs r b nx t"
        using s ok(2) by (simp add: settled_def header_read_def)
      then show ?thesis by (auto simp: turn py_bind_apply)
    next
      case False
      have "take k (rq_words r) ! 4 = show_int ?n" using five by (simp add: rq_words_def rq_fields_def)
      then have "siri_number ?W 4 f = py_modify (f ?n)" for f
        using five k by (intro siri_number_field) (simp_all add: nth_append)
      moreover have "int (length ?W) - 8 \<noteq> ?n" using False k words by simp
      ultimately have "siri_header s = (Inr Continue, s\<lparr>expected_delay_results := ?n\<rparr>)"
        by (simp add: siri_header_def buf(1) py_bind_apply MIN_FIELDS_NB_def)
      then show ?thesis using False whole s by (auto simp: turn py_bind_apply settled_def)
    qed
  qed
qed

lemma answer_step:
  assumes ok: "rq_ok r" "rq_mac r = a" and b: "rq_text r = b @ u" and s: "header_read a rs r b nx s"
  shows "if u = [] then \<exists>t. siri_answer s = (Inr Continue, t) \<and> settled a (rs @ [r]) nx [] t
    else siri_answer s = (Inr Continue, s)"
proof -
  have size: "rq_size r = int (length b) + int (length u)" "0 \<le> rq_wait r" using ok b by (simp_all add: rq_ok_def)
  show ?thesis
  proof (cases "u = []")
    case True
    with s size show ?thesis
      by (cases "nx = []") (simp_all add: siri_answer_def header_read_def settled_def rq_reply_def py_bind_apply)
  next
    case False
    with s size show ?thesis by (simp add: siri_answer_def header_read_def)
  qed
qed

text \<open>A turn in the middle of a request keeps what it has; the turn that completes it replies.\<close>

abbreviation midway :: "string \<Rightarrow> request list \<Rightarrow> request \<Rightarrow> string \<Rightarrow> string \<Rightarrow> siri \<Rightarrow> bool" where
  "midway a rs r b nx s \<equiv> settled a rs b nx s \<or> header_read a rs r b nx s"

lemma turn_step:
  assumes ok: "rq_ok r" "rq_mac r = a" and b: "rq_text r = b @ u" and s: "midway a rs r b nx s"
  shows "\<exists>t. siri_turn s = (Inr Continue, t) \<and> (if u = [] then settled a (rs @ [r]) nx [] t else midway a rs r b nx t)"
proof -
  have go: "\<exists>t. siri_answer v = (Inr Continue, t) \<and> (if u = [] then settled a (rs @ [r]) nx [] t else midway a rs r b nx t)"
    if "header_read a rs r b nx v" for v
    using answer_step [OF ok b that] that by (cases "u = []") auto
  from s show ?thesis
  proof
    assume "settled a rs b nx s"
    from turn_settled [OF ok b this] show ?thesis
    proof
      assume "\<exists>t. siri_turn s = siri_answer t \<and> header_read a rs r b nx t"
      then show ?thesis using go by metis
    qed auto
  next
    assume h: "header_read a rs r b nx s"
    then have "siri_turn s = siri_answer s" by (simp add: siri_turn_def header_read_def py_bind_apply)
    with go [OF h] show ?thesis by simp
  qed
qed


section \<open>Streams of requests\<close>

definition one_newline :: "string \<Rightarrow> bool" where
  "one_newline d \<longleftrightarrow> length (filter ((=) newline) d) \<le> 1"

lemma first_sep_unique: "c \<notin> set xs \<Longrightarrow> c \<notin> set ys \<Longrightarrow> xs @ c # us = ys @ c # vs \<Longrightarrow> xs = ys \<and> us = vs"
proof (induction xs arbitrary: ys)
  case Nil
  then show ?case by (cases ys) auto
next
  case (Cons x xs)
  then show ?case by (cases ys) auto
qed

lemma use_data_none: "newline \<notin> set d \<Longrightarrow> use_data d = (d, [])"
  by (simp add: use_data_def)

lemma use_data_one: "newline \<notin> set x \<Longrightarrow> newline \<notin> set y \<Longrightarrow> use_data (x @ newline # y) = (x @ [newline], y)"
proof (cases y rule: rev_cases)
  case Nil
  then show ?thesis by (simp add: use_data_def ends_with_def starts_with_def)
next
  case (snoc z c)
  assume no: "newline \<notin> set x" "newline \<notin> set y"
  then have "takeWhile (\<lambda>c. c \<noteq> newline) (x @ newline # y) = x" by (induction x) auto
  with snoc no show ?thesis by (auto simp: use_data_def ends_with_def starts_with_def)
qed

text \<open>A whole chunk, from the state in which the loop waits for it.\<close>

lemma recv_part:
  assumes "rq_ok r" "rq_mac r = a" "rq_text r = (b @ d) @ u" "u \<noteq> []" "midway a rs r b [] s"
    and "is_ascii d" "d \<noteq> []" "newline \<notin> set d"
  shows "\<exists>t. siri_recv d s = (Inr Continue, t) \<and> midway a rs r (b @ d) [] t"
proof -
  let ?s = "s\<lparr>buffer_data := buffer_data s @ d, message_sizes := message_sizes s @ [length d]\<rparr>"
  have "midway a rs r (b @ d) [] ?s" using assms(5) by (auto simp: settled_def header_read_def)
  from turn_step [OF assms(1-3) this] show ?thesis
    using assms(4-8) by (auto simp: siri_recv_def use_data_none settled_def header_read_def)
qed

lemma recv_last:
  assumes "rq_ok r" "rq_mac r = a" "rq_text r = b @ x @ [newline]" "midway a rs r b [] s"
    and "is_ascii (x @ newline # y)" "newline \<notin> set x" "newline \<notin> set y"
  shows "\<exists>t. siri_recv (x @ newline # y) s = (Inr Continue, t) \<and> settled a (rs @ [r]) y [] t"
proof -
  let ?s = "s\<lparr>buffer_data := buffer_data s @ x @ [newline], next_buffer_data := y,
     message_sizes := message_sizes s @ [Suc (length x)]\<rparr>"
  have "midway a rs r (b @ x @ [newline]) y ?s" using assms(4) by (auto simp: settled_def header_read_def)
  from turn_step [OF assms(1,2) _ this, of "[]"] assms(3)
  obtain t where "siri_turn ?s = (Inr Continue, t)" "settled a (rs @ [r]) y [] t" by auto
  then show ?thesis
    using assms(4-7) by (auto simp: siri_recv_def use_data_one settled_def header_read_def)
qed

lemma siri_stream:
  assumes "\<forall>r \<in> set rs. rq_ok r \<and> rq_mac r = a" "\<forall>d \<in> set ds. d \<noteq> [] \<and> one_newline d"
    and "b @ concat ds = concat (map rq_text rs)" "newline \<notin> set b"
    and "case rs of [] \<Rightarrow> settled a qs b [] s | r # _ \<Rightarrow> midway a qs r b [] s"
  shows "\<exists>t. siri_loop ds s = (Inr Continue, t) \<and> settled a (qs @ rs) [] [] t"
  using assms
proof (induction ds arbitrary: rs qs b s)
  case Nil
  have "rs = []"
  proof (cases rs)
    case (Cons r rs')
    then obtain t where "rq_text r = t @ [newline]" using Nil.prems(1) rq_text_end by (metis list.set_intros(1))
    then show ?thesis using Nil.prems(3,4) Cons by simp
  qed
  then show ?case using Nil.prems by simp
next
  case (Cons d ds)
  then obtain r rs' where rs: "rs = r # rs'" by (cases rs) auto
  have ok: "rq_ok r" "rq_mac r = a" using Cons.prems(1) rs by simp_all
  obtain t where t: "rq_text r = t @ [newline]" "newline \<notin> set t" using rq_text_end [OF ok(1)] .
  have eq: "b @ d @ concat ds = t @ newline # concat (map rq_text rs')" using Cons.prems(3) rs t(1) by simp
  have mid: "midway a qs r b [] s" and d: "d \<noteq> []" "one_newline d" using Cons.prems(2,5) rs by simp_all
  have "set d \<subseteq> set (concat (map rq_text rs))" unfolding Cons.prems(3) [symmetric] by auto
  then have ascii: "is_ascii d" using Cons.prems(1) rq_ascii by (fastforce simp: is_ascii_def)
  show ?case
  proof (cases "newline \<in> set d")
    case False
    have "length (b @ d) \<le> length t"
    proof (rule ccontr)
      assume long: "\<not> ?thesis"
      then obtain y where y: "b @ d = t @ y" "newline # concat (map rq_text rs') = y @ concat ds"
        using append_longer [of "b @ d" "concat ds" t] eq by auto
      then have "y \<noteq> []" using long by auto
      then have "newline \<in> set (b @ d)" using y by (cases y) auto
      then show False using False Cons.prems(4) by simp
    qed
    then obtain y where y: "t = (b @ d) @ y" "concat ds = y @ newline # concat (map rq_text rs')"
      using append_longer [of t _ "b @ d" "concat ds"] eq by auto
    from recv_part [OF ok _ _ mid ascii d(1) False, of "y @ [newline]"]
    obtain v where v: "siri_recv d s = (Inr Continue, v)" "midway a qs r (b @ d) [] v" using t(1) y(1) by auto
    have "\<exists>x. siri_loop ds v = (Inr Continue, x) \<and> settled a (qs @ rs) [] [] x"
      by (rule Cons.IH [of rs "b @ d"]) (use Cons.prems False v(2) rs in auto)
    then show ?thesis using v(1) by (simp add: py_bind_apply)
  next
    case True
    then obtain x y where d': "d = x @ newline # y" "newline \<notin> set x" using split_list_first by metis
    then have y: "newline \<notin> set y" using d(2) by (auto simp: one_newline_def filter_empty_conv)
    have split: "b @ x = t" "y @ concat ds = concat (map rq_text rs')"
      using first_sep_unique [of newline "b @ x" t "y @ concat ds"] eq Cons.prems(4) t(2) d' by auto
    from recv_last [OF ok _ mid, of x y] ascii d' y split(1) t(1)
    obtain v where v: "siri_recv d s = (Inr Continue, v)" "settled a (qs @ [r]) y [] v" by auto
    have "\<exists>z. siri_loop ds v = (Inr Continue, z) \<and> settled a ((qs @ [r]) @ rs') [] [] z"
      by (rule Cons.IH [of rs' y]) (use Cons.prems(1,2) rs split(2) y v(2) in \<open>auto split: list.split\<close>)
    then show ?thesis using v(1) rs by (simp add: py_bind_apply)
  qed
qed


text \<open>A piece as long as the receive buffer cannot hold two newlines when the requests are longer.\<close>

lemma pieces_one_newline:
  assumes "\<forall>r \<in> set rs. rq_ok r \<and> SIRI_BUFFER_SIZE \<le> length (rq_text r)" "length d \<le> SIRI_BUFFER_SIZE"
    and "x @ d @ y = concat (map rq_text rs)"
  shows "one_newline d"
  using assms
proof (induction rs arbitrary: x)
  case (Cons r rs)
  obtain t where t: "rq_text r = t @ [newline]" "newline \<notin> set t" using rq_text_end Cons.prems(1) by (metis list.set_intros(1))
  show ?case
  proof (cases "length (rq_text r) \<le> length x")
    case True
    then obtain z where "x = rq_text r @ z" "concat (map rq_text rs) = z @ d @ y"
      using append_longer [of x "d @ y" "rq_text r"] Cons.prems(3) by auto
    then show ?thesis using Cons.IH [of z] Cons.prems(1,2) by simp
  next
    case False
    then obtain z where z: "rq_text r = x @ z" "d @ y = z @ concat (map rq_text rs)"
      using append_longer [of "rq_text r" "concat (map rq_text rs)" x "d @ y"] Cons.prems(3) by auto
    then have "z \<noteq> []" using False by auto
    then obtain w where w: "z = w @ [newline]" "newline \<notin> set w" using z(1) t by (cases z rule: rev_cases) auto
    show ?thesis
    proof (cases "length z \<le> length d")
      case True
      then obtain v where v: "d = z @ v" "concat (map rq_text rs) = v @ y"
        using append_longer [of d y z] z(2) by auto
      have "newline \<notin> set v"
      proof (cases rs)
        case (Cons q qs)
        obtain u where u: "rq_text q = u @ [newline]" "newline \<notin> set u"
          using rq_text_end [of q] Cons.prems(1) Cons by auto
        have "length v < length (rq_text q)"
          using Cons.prems(1,2) Cons v(1) \<open>z \<noteq> []\<close> by (cases z) auto
        then have "length v \<le> length u" using u(1) by simp
        then obtain p where "u = v @ p" using append_longer [of u _ v y] v(2) u(1) Cons by auto
        then show ?thesis using u(2) by simp
      qed (use v(2) in simp)
      then have "filter ((=) newline) v = []" "filter ((=) newline) w = []" using w(2) by (auto simp: filter_empty_conv)
      then show ?thesis using v(1) w(1) by (simp add: one_newline_def)
    next
      case False
      then obtain p where "z = d @ p" using append_longer [of z _ d y] z(2) by auto
      then have "p \<noteq> []" using False by auto
      then have "newline \<notin> set d" using \<open>z = d @ p\<close> w by (cases p rule: rev_cases) auto
      then have "filter ((=) newline) d = []" by (auto simp: filter_empty_conv)
      then show ?thesis by (simp add: one_newline_def)
    qed
  qed
qed (simp add: one_newline_def)

section \<open>Two requests in one piece\<close>

lemma split_on_join_append:
  "ws \<noteq> [] \<Longrightarrow> \<forall>w \<in> set ws. c \<notin> set w \<Longrightarrow> split_on c (join [c] ws @ c # y) = ws @ split_on c y"
  by (induction ws rule: induct_list012) (simp_all add: split_on_append_sep)

definition stuck :: "request \<Rightarrow> siri \<Rightarrow> bool" where
  "stuck r s \<longleftrightarrow> first_data s \<and> answers s = [] \<and> (\<exists>x. buffer_data s = rq_text r @ x \<and> CHR ''&'' \<in> set x)"

lemma stuck_turn:
  assumes ok: "rq_ok r" and s: "stuck r s"
  shows "\<exists>t. siri_turn s = (Inr Continue, t) \<and> stuck r t"
proof -
  let ?n = "int (length (rq_delays r))"
  obtain x where x: "buffer_data s = rq_text r @ x" "CHR ''&'' \<in> set x" using s by (auto simp: stuck_def)
  define ws where "ws = split_on (CHR ''&'') (buffer_data s)"
  have "rq_fields r \<noteq> []" by (simp add: rq_fields_def)
  then have "rq_text r = join ''&'' (rq_fields r) @ CHR ''&'' # rq_pad r @ [newline]"
    by (simp add: rq_text_def rq_words_def join_snoc)
  moreover have "\<forall>w \<in> set (rq_fields r). CHR ''&'' \<notin> set w" using rq_no_sep [OF ok] by (simp add: rq_words_def)
  ultimately have ws: "ws = rq_fields r @ split_on (CHR ''&'') (rq_pad r @ newline # x)"
    using split_on_join_append [of "rq_fields r" "CHR ''&''"] by (simp add: ws_def x(1) rq_fields_def)
  have "filter ((=) (CHR ''&'')) x \<noteq> []" using x(2) by (auto simp: filter_empty_conv)
  then have "2 \<le> length (split_on (CHR ''&'') (rq_pad r @ newline # x))"
    by (cases "filter ((=) (CHR ''&'')) x") (simp_all add: length_split_on)
  then have len: "length (rq_delays r) + 9 \<le> length ws" by (simp add: ws rq_fields_def)
  have "ws ! 4 = show_int ?n" by (simp add: ws rq_fields_def nth_append)
  then have "siri_number ws 4 f = py_modify (f ?n)" for f using len by (intro siri_number_field) simp_all
  moreover have "int (length ws) - 8 \<noteq> ?n" using len by simp
  ultimately have "siri_header s = (Inr Continue, s\<lparr>expected_delay_results := ?n\<rparr>)"
    by (simp add: siri_header_def flip: ws_def) (simp add: py_bind_apply MIN_FIELDS_NB_def)
  moreover have "\<not> length ws < MIN_FIELDS_NB" using len by (simp add: MIN_FIELDS_NB_def)
  ultimately show ?thesis using s by (simp add: siri_turn_def py_bind_apply stuck_def flip: ws_def)
qed

lemma stuck_recv:
  assumes ok: "rq_ok r" and s: "stuck r s" and d: "d \<noteq> []" "is_ascii d"
  shows "\<exists>t. siri_recv d s = (Inr Continue, t) \<and> stuck r t"
proof -
  obtain u v where u: "use_data d = (u, v)" by fastforce
  have "stuck r (s\<lparr>buffer_data := buffer_data s @ u, next_buffer_data := next_buffer_data s @ v,
      message_sizes := message_sizes s @ [length u]\<rparr>)" using s by (auto simp: stuck_def)
  from stuck_turn [OF ok this] show ?thesis using d by (simp add: siri_recv_def u)
qed

lemma stuck_loop:
  "rq_ok r \<Longrightarrow> stuck r s \<Longrightarrow> \<forall>d \<in> set ds. d \<noteq> [] \<and> is_ascii d \<Longrightarrow> \<exists>t. siri_loop ds s = (Inr Continue, t) \<and> stuck r t"
proof (induction ds arbitrary: s)
  case (Cons d ds)
  obtain v where v: "siri_recv d s = (Inr Continue, v)" "stuck r v" using stuck_recv [of r s d] Cons.prems by auto
  with Cons.IH [OF Cons.prems(1) v(2)] Cons.prems(3) show ?case by (simp add: py_bind_apply)
qed simp

section \<open>Properties\<close>

text \<open>
  However the network cuts a stream of well-formed requests into pieces of at most
  \<open>BUFFER_SIZE\<close> bytes, the loop of a connection answers every request.
\<close>

lemma siri_answers_every_request:
  assumes "\<forall>r \<in> set rs. rq_ok r \<and> rq_mac r = a \<and> SIRI_BUFFER_SIZE \<le> length (rq_text r)"
    and "\<forall>d \<in> set ds. d \<noteq> [] \<and> length d \<le> SIRI_BUFFER_SIZE" and "concat ds = concat (map rq_text rs)"
  shows "\<exists>t. siri_loop ds siri_start = (Inr Continue, t) \<and> answers t = map rq_reply rs \<and>
     delay_results t = concat (map rq_delays rs) \<and> time_sent t = map rq_time rs \<and>
     buffer_data t = [] \<and> next_buffer_data t = [] \<and> first_data t"
proof -
  have "one_newline d" if "d \<in> set ds" for d
  proof -
    from split_list [OF that] obtain xs ys where "ds = xs @ d # ys" by blast
    then have "concat xs @ d @ concat ys = concat (map rq_text rs)" using assms(3) by simp
    then show ?thesis using assms(1,2) that by (intro pieces_one_newline) auto
  qed
  moreover have "case rs of [] \<Rightarrow> settled a [] [] [] siri_start | r # _ \<Rightarrow> midway a [] r [] [] siri_start"
    by (simp add: settled_def siri_start_def split: list.split)
  ultimately show ?thesis
    using siri_stream [of rs a ds "[]" "[]" siri_start] assms by (auto simp: settled_def)
qed

text \<open>
  C38. Two well-formed requests that reach the server in one piece are both lost: the fields of
  the two are counted together, no number of fields ever fits again, and whatever follows the
  server keeps the connection open and never replies.
\<close>

theorem siri_joined_requests_lost:
  assumes "rq_ok q" "rq_ok r" and "\<forall>d \<in> set ds. d \<noteq> [] \<and> is_ascii d"
  shows "\<exists>t. siri_loop ((rq_text q @ rq_text r) # ds) siri_start = (Inr Continue, t) \<and> answers t = []"
proof -
  define d where "d = rq_text q @ rq_text r"
  obtain y where y: "rq_text r = y @ [newline]" using rq_text_end [OF assms(2)] .
  have d: "use_data d = (d, [])" "d \<noteq> []" "is_ascii d"
    using y rq_ascii [OF assms(1)] rq_ascii [OF assms(2)]
    by (auto simp: d_def use_data_def ends_with_def starts_with_def is_ascii_def)
  have "CHR ''&'' \<in> set (rq_text r)" by (simp add: rq_text_def rq_words_def rq_fields_def)
  then have "stuck q (siri_start\<lparr>buffer_data := d, next_buffer_data := [], message_sizes := [length d]\<rparr>)"
    by (auto simp: stuck_def siri_start_def d_def)
  from stuck_turn [OF assms(1) this] obtain s where s: "siri_recv d siri_start = (Inr Continue, s)" "stuck q s"
    using d by (auto simp: siri_recv_def siri_start_def)
  from stuck_loop [OF assms(1) s(2) assms(3)] s(1) show ?thesis by (auto simp: py_bind_apply stuck_def d_def)
qed

end
