(* ===== verification/SiriDemo.thy ===== *)
theory SiriDemo
  imports SiriProps
begin

text \<open>A request of 600 bytes that arrives in two pieces, and two of them in one.\<close>

definition demo_request :: request where
  "demo_request = \<lparr>rq_id = 0, rq_size = 600, rq_res = 750, rq_wait = 0, rq_time = 1000, rq_mac = ''m'', rq_delays = [],
     rq_pad = replicate 578 (CHR ''0'')\<rparr>"

lemma demo_request_text: "rq_text demo_request = ''0&600&750&0&0&1000&m&'' @ replicate 578 (CHR ''0'') @ [newline]"
proof -
  have "show_int 0 = ''0''" "show_int 600 = ''600''" "show_int 750 = ''750''" "show_int 1000 = ''1000''" by code_simp+
  then show ?thesis by (simp add: rq_text_def rq_words_def rq_fields_def demo_request_def)
qed

lemma demo_request_ok: "rq_ok demo_request"
proof -
  have "length (join ''&'' (take 5 (rq_words demo_request))) = 13" by code_simp
  moreover have "is_ascii (rq_mac demo_request @ rq_pad demo_request)" by (simp add: is_ascii_def demo_request_def)
  ultimately show ?thesis
    unfolding rq_ok_def demo_request_text by (simp add: MAX_SECURITY_HEADER_SIZE_def) (simp add: demo_request_def)
qed

lemma demo_request_pieces:
  "\<exists>t. siri_loop [take 512 (rq_text demo_request), drop 512 (rq_text demo_request)] siri_start = (Inr Continue, t) \<and>
     answers t = [(0, siri_response 0 750)]"
proof -
  let ?ds = "[take 512 (rq_text demo_request), drop 512 (rq_text demo_request)]"
  have len: "length (rq_text demo_request) = 600" by (simp add: demo_request_text)
  have fields: "rq_mac demo_request = ''m''" "rq_reply demo_request = (0, siri_response 0 750)"
    by (simp_all add: demo_request_def rq_reply_def)
  have "\<exists>t. siri_loop ?ds siri_start = (Inr Continue, t) \<and> answers t = map rq_reply [demo_request] \<and>
     delay_results t = concat (map rq_delays [demo_request]) \<and> time_sent t = map rq_time [demo_request] \<and>
     buffer_data t = [] \<and> next_buffer_data t = [] \<and> first_data t"
    by (rule siri_answers_every_request [of _ "''m''"]) (use len in \<open>auto simp: demo_request_ok fields SIRI_BUFFER_SIZE_def\<close>)
  then show ?thesis using fields(2) by auto
qed

theorem siri_joined_requests_lost_witness:
  "\<exists>t. siri_loop [rq_text demo_request @ rq_text demo_request, ''0'', ''0''] siri_start = (Inr Continue, t) \<and> answers t = []"
  using siri_joined_requests_lost [OF demo_request_ok demo_request_ok, of "[''0'', ''0'']"] by (simp add: is_ascii_def)

end
