(* ===== verification/MsgTools.thy ===== *)
theory MsgTools
  imports Experiment
begin

text \<open>
  The two ends of the \<open>msg\<close> experiment, \<open>utils/msg_server.py\<close> and \<open>utils/msg_client.py\<close>: the loop
  of a connection of the server, and the loop of the client.  Chunks are what \<open>recv\<close> returns.
  The clock and the random digits are readings given with each turn.
\<close>

record reading =
  stop_at :: int
  start_at :: int
  picks :: "nat \<Rightarrow> nat"

record msg_args =
  msg_sleep :: pyfloat
  msg_bytes :: int
  msg_nb :: int
  msg_bulk :: bool

text \<open>\<open>time.sleep\<close>\<close>

definition py_sleep :: "pyfloat \<Rightarrow> ('s, unit) py" where
  "py_sleep x = (case x of Fin r \<Rightarrow> if 0 \<le> r then py_return () else py_raise ValueError
     | NegZero \<Rightarrow> py_return () | PosInf \<Rightarrow> py_raise OverflowError | NegInf \<Rightarrow> py_raise OverflowError | NaN \<Rightarrow> py_raise ValueError)"

definition string_generator :: "(nat \<Rightarrow> nat) \<Rightarrow> int \<Rightarrow> string \<Rightarrow> string" where
  "string_generator pick n chars = map (\<lambda>i. chars ! (pick i mod length chars)) [0..<nat n]"

abbreviation digits :: string where
  "digits \<equiv> ''0123456789''"

text \<open>\<open>s[n:]\<close>\<close>

definition slice_from :: "int \<Rightarrow> string \<Rightarrow> string" where
  "slice_from n s = drop (nat (if n < 0 then int (length s) + n else n)) s"

section \<open>The server\<close>

record msg_server =
  srv_start :: "int option"
  srv_buffer :: string
  srv_delays :: "int list"
  srv_sent :: "string list"

definition msg_server_start :: msg_server where
  "msg_server_start = \<lparr>srv_start = None, srv_buffer = [], srv_delays = [], srv_sent = []\<rparr>"

definition msg_recv :: "msg_args \<Rightarrow> reading \<Rightarrow> string \<Rightarrow> (msg_server, flow) py" where
  "msg_recv a r d =
     (if \<not> is_ascii d then py_raise ValueError
      else if d = [] then py_return Break
      else py_bind (py_modify (\<lambda>s. s\<lparr>srv_buffer := srv_buffer s @ d\<rparr>)) (\<lambda>_.
        py_bind (py_get (\<lambda>s. int (length (srv_buffer s)))) (\<lambda>n.
        py_bind (py_when (msg_bytes a \<le> n) (block
          [py_modify (\<lambda>s. case srv_start s of None \<Rightarrow> s | Some t \<Rightarrow> s\<lparr>srv_delays := srv_delays s @ [stop_at r - t]\<rparr>),
           py_sleep (msg_sleep a),
           py_modify (\<lambda>s. s\<lparr>srv_start := Some (start_at r)\<rparr>),
           py_modify (\<lambda>s. s\<lparr>srv_sent := srv_sent s @ [string_generator (picks r) (msg_bytes a) digits]\<rparr>),
           py_modify (\<lambda>s. s\<lparr>srv_buffer := slice_from (msg_bytes a) (srv_buffer s)\<rparr>)])) (\<lambda>_. py_return Continue))))"

text \<open>The loop over the chunks received so far, with a reading for each.\<close>

primrec msg_loop :: "msg_args \<Rightarrow> (reading \<times> string) list \<Rightarrow> (msg_server, flow) py" where
  "msg_loop a [] = py_return Continue"
| "msg_loop a (rd # ds) = py_bind (msg_recv a (fst rd) (snd rd)) (\<lambda>f. if f = Break then py_return Break else msg_loop a ds)"

text \<open>One chunk as a step of a thread.\<close>

definition msg_serve :: "msg_args \<Rightarrow> reading \<times> string \<Rightarrow> msg_server \<Rightarrow> msg_server option" where
  "msg_serve a rd c = (case msg_recv a (fst rd) (snd rd) c of (Inr Break, _) \<Rightarrow> None | (Inr _, c') \<Rightarrow> Some c' | (Inl _, _) \<Rightarrow> None)"

section \<open>The client\<close>

text \<open>Where the client is: at the top of its loop, in the loop that reads a reply, or behind \<open>sock.close()\<close>.\<close>

datatype client_pc = Sending | Receiving | Finished

record msg_client =
  cli_at :: client_pc
  cli_i :: nat
  cli_start :: int
  cli_buffer :: string
  cli_delays :: "int list"

definition msg_client_start :: msg_client where
  "msg_client_start = \<lparr>cli_at = Sending, cli_i = 0, cli_start = 0, cli_buffer = [], cli_delays = []\<rparr>"

text \<open>After the reading loop: the whole reply, or an issue, which ends the program.\<close>

definition client_check :: "msg_args \<Rightarrow> reading \<Rightarrow> msg_client \<Rightarrow> msg_client" where
  "client_check a r c =
     (if int (length (cli_buffer c)) = msg_bytes a
      then c\<lparr>cli_delays := cli_delays c @ [stop_at r - cli_start c], cli_at := Sending, cli_i := Suc (cli_i c)\<rparr>
      else c\<lparr>cli_at := Finished\<rparr>)"

text \<open>The condition of the reading loop.\<close>

definition client_while :: "msg_args \<Rightarrow> reading \<Rightarrow> msg_client \<Rightarrow> msg_client" where
  "client_while a r c = (if int (length (cli_buffer c)) < msg_bytes a then c\<lparr>cli_at := Receiving\<rparr> else client_check a r c)"

text \<open>A turn of the sending loop: what it writes to the socket; an exception runs the \<open>finally\<close> clause, too.\<close>

definition client_send :: "msg_args \<Rightarrow> reading \<Rightarrow> msg_client \<Rightarrow> string \<times> msg_client" where
  "client_send a r c =
     (if msg_nb a \<le> int (cli_i c) then ([], c\<lparr>cli_at := Finished\<rparr>)
      else case py_sleep (msg_sleep a) c of
        (Inl _, c) \<Rightarrow> ([], c\<lparr>cli_at := Finished\<rparr>)
      | (Inr _, c) \<Rightarrow>
        let request = string_generator (picks r) (msg_bytes a) digits; c = c\<lparr>cli_start := start_at r\<rparr> in
        if msg_bulk a then (request, c\<lparr>cli_i := Suc (cli_i c)\<rparr>)
        else (request, client_while a r (c\<lparr>cli_buffer := []\<rparr>)))"

text \<open>A turn of the reading loop.\<close>

definition client_recv :: "msg_args \<Rightarrow> reading \<Rightarrow> string \<Rightarrow> msg_client \<Rightarrow> msg_client" where
  "client_recv a r d c =
     (if \<not> is_ascii d then c\<lparr>cli_at := Finished\<rparr>
      else if d = [] then client_check a r c
      else client_while a r (c\<lparr>cli_buffer := cli_buffer c @ d\<rparr>))"

section \<open>Both ends\<close>

text \<open>
  One connection: the bytes on their way, in each direction, and whether the server still reads.
  What \<open>recv\<close> returns is any non-empty piece of these of at most \<open>BUFFER_SIZE\<close> bytes, or nothing
  once the other end is closed and everything has been read.
\<close>

definition MSG_BUFFER_SIZE :: nat where "MSG_BUFFER_SIZE = 2048"

record chat =
  client_end :: msg_client
  server_end :: msg_server
  server_open :: bool
  to_server :: string
  to_client :: string

definition chat_start :: chat where
  "chat_start = \<lparr>client_end = msg_client_start, server_end = msg_server_start, server_open = True, to_server = [], to_client = []\<rparr>"

text \<open>What a turn of the server makes of a connection.\<close>

definition server_turn :: "msg_args \<Rightarrow> reading \<Rightarrow> string \<Rightarrow> string \<Rightarrow> chat \<Rightarrow> chat" where
  "server_turn a r d rest s = (case msg_recv a r d (server_end s) of
     (Inr Continue, v) \<Rightarrow> s\<lparr>server_end := v, to_server := rest,
        to_client := to_client s @ concat (drop (length (srv_sent (server_end s))) (srv_sent v))\<rparr>
   | (_, v) \<Rightarrow> s\<lparr>server_end := v, to_server := rest, server_open := False\<rparr>)"

inductive chat_step :: "msg_args \<Rightarrow> msg_args \<Rightarrow> chat \<Rightarrow> chat \<Rightarrow> bool" for a b where
  client_sends: "cli_at (client_end s) = Sending \<Longrightarrow> client_send a r (client_end s) = (d, c) \<Longrightarrow>
    chat_step a b s (s\<lparr>client_end := c, to_server := to_server s @ d\<rparr>)"
| client_reads: "cli_at (client_end s) = Receiving \<Longrightarrow> to_client s = d @ rest \<Longrightarrow> d \<noteq> [] \<Longrightarrow> length d \<le> MSG_BUFFER_SIZE \<Longrightarrow>
    chat_step a b s (s\<lparr>client_end := client_recv a r d (client_end s), to_client := rest\<rparr>)"
| client_eof: "cli_at (client_end s) = Receiving \<Longrightarrow> to_client s = [] \<Longrightarrow> \<not> server_open s \<Longrightarrow>
    chat_step a b s (s\<lparr>client_end := client_recv a r [] (client_end s)\<rparr>)"
| server_reads: "server_open s \<Longrightarrow> to_server s = d @ rest \<Longrightarrow> d \<noteq> [] \<Longrightarrow> length d \<le> MSG_BUFFER_SIZE \<Longrightarrow>
    chat_step a b s (server_turn b r d rest s)"
| server_eof: "server_open s \<Longrightarrow> to_server s = [] \<Longrightarrow> cli_at (client_end s) = Finished \<Longrightarrow>
    chat_step a b s (server_turn b r [] [] s)"

inductive_cases chat_stepE: "chat_step a b s t"

end
