(* ===== verification/MsgProps.thy ===== *)
theory MsgProps
  imports MsgTools
begin

text \<open>The server's account of its bytes, and the exchange of the two programs.\<close>

section \<open>The server alone\<close>

definition sleeps :: "msg_args \<Rightarrow> bool" where
  "sleeps a \<longleftrightarrow> (\<exists>q. msg_sleep a = Fin q \<and> 0 \<le> q)"

lemma sleepsD [simp]: "sleeps a \<Longrightarrow> py_sleep (msg_sleep a) = py_return ()"
  by (auto simp: sleeps_def py_sleep_def)

lemma length_generator [simp]: "length (string_generator pick n chars) = nat n"
  by (simp add: string_generator_def)

lemma generator_ascii: "is_ascii (string_generator pick n digits)"
proof -
  have "digits ! (pick i mod length digits) \<in> set digits" for i by (intro nth_mem) simp
  then have "set (string_generator pick n digits) \<subseteq> set digits" by (auto simp: string_generator_def)
  moreover have "is_ascii digits" by (simp add: is_ascii_def)
  ultimately show ?thesis by (auto simp: is_ascii_def)
qed

lemma is_ascii_simps [simp]: "is_ascii []" "is_ascii (x @ y) \<longleftrightarrow> is_ascii x \<and> is_ascii y"
  by (auto simp: is_ascii_def)

lemma slice_from_drop: "0 \<le> n \<Longrightarrow> slice_from n s = drop (nat n) s"
  by (simp add: slice_from_def)

text \<open>A chunk that leaves a message incomplete, and one that completes it.\<close>

lemma msg_recv_part:
  "is_ascii d \<Longrightarrow> d \<noteq> [] \<Longrightarrow> int (length (srv_buffer s @ d)) < msg_bytes a \<Longrightarrow>
     msg_recv a r d s = (Inr Continue, s\<lparr>srv_buffer := srv_buffer s @ d\<rparr>)"
  by (simp add: msg_recv_def py_bind_apply)

definition timed :: "reading \<Rightarrow> msg_server \<Rightarrow> int list" where
  "timed r s = srv_delays s @ (case srv_start s of None \<Rightarrow> [] | Some t \<Rightarrow> [stop_at r - t])"

lemma msg_recv_full:
  assumes "sleeps a" "0 \<le> msg_bytes a" "is_ascii d" "d \<noteq> []" "msg_bytes a \<le> int (length (srv_buffer s @ d))"
  shows "msg_recv a r d s = (Inr Continue, s\<lparr>srv_start := Some (start_at r),
     srv_buffer := drop (nat (msg_bytes a)) (srv_buffer s @ d), srv_delays := timed r s,
     srv_sent := srv_sent s @ [string_generator (picks r) (msg_bytes a) digits]\<rparr>)"
  using assms by (cases "srv_start s") (simp_all add: msg_recv_def py_bind_apply slice_from_drop timed_def)

text \<open>What the server sent between two states, in so many chunks of so many bytes.\<close>

definition accounts :: "msg_args \<Rightarrow> int \<Rightarrow> nat \<Rightarrow> msg_server \<Rightarrow> msg_server \<Rightarrow> bool" where
  "accounts a n k s t \<longleftrightarrow> (\<exists>ms. srv_sent t = srv_sent s @ ms \<and> (\<forall>m \<in> set ms. int (length m) = msg_bytes a) \<and>
     length ms \<le> k \<and> int (length (srv_buffer s)) + n = msg_bytes a * int (length ms) + int (length (srv_buffer t)))"

lemma accounts_refl: "accounts a 0 0 s s"
  by (simp add: accounts_def)

lemma accounts_trans:
  assumes "accounts a n k s t" "accounts a n' k' t u"
  shows "accounts a (n + n') (k + k') s u"
proof -
  obtain ms where ms: "srv_sent t = srv_sent s @ ms" "\<forall>m \<in> set ms. int (length m) = msg_bytes a" "length ms \<le> k"
    "int (length (srv_buffer s)) + n = msg_bytes a * int (length ms) + int (length (srv_buffer t))"
    using assms(1) by (auto simp: accounts_def)
  obtain ns where ns: "srv_sent u = srv_sent t @ ns" "\<forall>m \<in> set ns. int (length m) = msg_bytes a" "length ns \<le> k'"
    "int (length (srv_buffer t)) + n' = msg_bytes a * int (length ns) + int (length (srv_buffer u))"
    using assms(2) by (auto simp: accounts_def)
  show ?thesis
    unfolding accounts_def using ms ns by (intro exI [of _ "ms @ ns"]) (auto simp: distrib_left)
qed

lemma msg_recv_accounts:
  assumes "sleeps a" "0 \<le> msg_bytes a" "is_ascii d" "d \<noteq> []"
  shows "\<exists>t. msg_recv a r d s = (Inr Continue, t) \<and> accounts a (int (length d)) 1 s t"
proof (cases "int (length (srv_buffer s @ d)) < msg_bytes a")
  case True
  have "accounts a (int (length d)) 1 s (s\<lparr>srv_buffer := srv_buffer s @ d\<rparr>)" by (simp add: accounts_def)
  then show ?thesis using msg_recv_part [OF assms(3,4) True] by blast
next
  case False
  let ?t = "s\<lparr>srv_start := Some (start_at r), srv_buffer := drop (nat (msg_bytes a)) (srv_buffer s @ d),
    srv_delays := timed r s, srv_sent := srv_sent s @ [string_generator (picks r) (msg_bytes a) digits]\<rparr>"
  have "int (length (srv_buffer ?t)) = int (length (srv_buffer s)) + int (length d) - msg_bytes a"
    using False assms(2) by simp
  then have "accounts a (int (length d)) 1 s ?t" using assms(2) by (simp add: accounts_def)
  then show ?thesis using msg_recv_full [OF assms, of s r] False by auto
qed

lemma msg_loop_accounts:
  "sleeps a \<Longrightarrow> 0 \<le> msg_bytes a \<Longrightarrow> \<forall>x \<in> set ds. is_ascii (snd x) \<and> snd x \<noteq> [] \<Longrightarrow>
     \<exists>t. msg_loop a ds s = (Inr Continue, t) \<and> accounts a (int (length (concat (map snd ds)))) (length ds) s t"
proof (induction ds arbitrary: s)
  case (Cons x ds)
  obtain u where u: "msg_recv a (fst x) (snd x) s = (Inr Continue, u)" "accounts a (int (length (snd x))) 1 s u"
    using msg_recv_accounts [of a "snd x" "fst x" s] Cons.prems by auto
  obtain t where t: "msg_loop a ds u = (Inr Continue, t)" "accounts a (int (length (concat (map snd ds)))) (length ds) u t"
    using Cons.IH [of u] Cons.prems by auto
  show ?case using accounts_trans [OF u(2) t(2)] u(1) t(1) by (simp add: py_bind_apply)
qed (simp add: accounts_refl)

lemma msg_server_conserves:
  assumes "sleeps a" "0 \<le> msg_bytes a" and "\<forall>x \<in> set ds. is_ascii (snd x) \<and> snd x \<noteq> []"
  shows "\<exists>t. msg_loop a ds msg_server_start = (Inr Continue, t) \<and>
     int (length (concat (map snd ds))) = msg_bytes a * int (length (srv_sent t)) + int (length (srv_buffer t)) \<and>
     length (srv_sent t) \<le> length ds \<and> (\<forall>m \<in> set (srv_sent t). int (length m) = msg_bytes a)"
  using msg_loop_accounts [OF assms, of msg_server_start] by (auto simp: accounts_def msg_server_start_def)

text \<open>Chunks no longer than a message never leave a whole message in the buffer.\<close>

lemma msg_recv_below:
  assumes "sleeps a" "0 \<le> msg_bytes a" "is_ascii d" "d \<noteq> []" "int (length d) \<le> msg_bytes a"
    and "int (length (srv_buffer s)) < msg_bytes a" "msg_recv a r d s = (f, t)"
  shows "int (length (srv_buffer t)) < msg_bytes a"
proof (cases "int (length (srv_buffer s @ d)) < msg_bytes a")
  case True
  then show ?thesis using msg_recv_part [OF assms(3,4) True, of r] assms(7) by auto
next
  case False
  then show ?thesis using msg_recv_full [OF assms(1-4), of s r] assms(2,5-7) by auto
qed

lemma msg_loop_below:
  "sleeps a \<Longrightarrow> 0 \<le> msg_bytes a \<Longrightarrow> \<forall>x \<in> set ds. is_ascii (snd x) \<and> snd x \<noteq> [] \<and> int (length (snd x)) \<le> msg_bytes a \<Longrightarrow>
     int (length (srv_buffer s)) < msg_bytes a \<Longrightarrow> msg_loop a ds s = (Inr Continue, t) \<Longrightarrow> int (length (srv_buffer t)) < msg_bytes a"
proof (induction ds arbitrary: s)
  case (Cons x ds)
  obtain u where u: "msg_recv a (fst x) (snd x) s = (Inr Continue, u)"
    using msg_recv_accounts [of a "snd x" "fst x" s] Cons.prems by auto
  have "int (length (srv_buffer u)) < msg_bytes a" using msg_recv_below [OF _ _ _ _ _ _ u] Cons.prems by simp
  then show ?case using Cons.IH [of u] Cons.prems u by (simp add: py_bind_apply)
qed simp

text \<open>So the replies are the whole messages received.\<close>

lemma msg_server_counts:
  assumes "sleeps a" "0 < msg_bytes a"
    and "\<forall>x \<in> set ds. is_ascii (snd x) \<and> snd x \<noteq> [] \<and> int (length (snd x)) \<le> msg_bytes a"
    and "msg_loop a ds msg_server_start = (Inr Continue, t)"
  shows "int (length (srv_sent t)) = int (length (concat (map snd ds))) div msg_bytes a"
proof -
  have "int (length (srv_buffer t)) < msg_bytes a"
    using msg_loop_below [OF assms(1) _ assms(3) _ assms(4)] assms(2) by (simp add: msg_server_start_def)
  moreover have "int (length (concat (map snd ds))) = msg_bytes a * int (length (srv_sent t)) + int (length (srv_buffer t))"
    using msg_server_conserves [OF assms(1), of ds] assms(2-4) by auto
  ultimately show ?thesis using assms(2) by (simp add: div_mult_self4)
qed

text \<open>
  Of several messages that arrive in one chunk the server answers one and keeps the others
  in its buffer, unanswered until more data comes.
\<close>

lemma msg_server_one_reply_per_chunk:
  assumes "sleeps a" "0 < msg_bytes a" "is_ascii d" "int (length d) = msg_bytes a * int k" "0 < k"
  shows "\<exists>t. msg_recv a r d msg_server_start = (Inr Continue, t) \<and> length (srv_sent t) = 1 \<and>
     int (length (srv_buffer t)) = msg_bytes a * int (k - 1)"
proof -
  have "msg_bytes a \<le> msg_bytes a * int k" using assms(2,5) by (simp add: mult_le_cancel_left1)
  moreover have "d \<noteq> []" using assms(2,4,5) by auto
  ultimately show ?thesis
    using msg_recv_full [of a d msg_server_start r] assms
    by (simp add: msg_server_start_def algebra_simps of_nat_diff nat_le_iff)
qed

section \<open>The client and the server\<close>

definition chat_ok :: "msg_args \<Rightarrow> msg_args \<Rightarrow> bool" where
  "chat_ok a b \<longleftrightarrow> sleeps a \<and> sleeps b \<and> msg_bytes a = msg_bytes b \<and> 0 < msg_bytes a \<and> 0 \<le> msg_nb a \<and> \<not> msg_bulk a"

definition chat_reachable :: "msg_args \<Rightarrow> msg_args \<Rightarrow> chat \<Rightarrow> bool" where
  "chat_reachable a b s \<longleftrightarrow> (chat_step a b)\<^sup>*\<^sup>* chat_start s"

text \<open>Nothing under way; the request under way; the reply under way.\<close>

definition quiet_line :: "chat \<Rightarrow> bool" where
  "quiet_line s \<longleftrightarrow> to_server s = [] \<and> to_client s = [] \<and> srv_buffer (server_end s) = [] \<and>
     length (srv_sent (server_end s)) = cli_i (client_end s)"

definition asking :: "int \<Rightarrow> chat \<Rightarrow> bool" where
  "asking B s \<longleftrightarrow> to_client s = [] \<and> cli_buffer (client_end s) = [] \<and> to_server s \<noteq> [] \<and>
     int (length (srv_buffer (server_end s)) + length (to_server s)) = B \<and> length (srv_sent (server_end s)) = cli_i (client_end s)"

definition replying :: "int \<Rightarrow> chat \<Rightarrow> bool" where
  "replying B s \<longleftrightarrow> to_server s = [] \<and> srv_buffer (server_end s) = [] \<and> to_client s \<noteq> [] \<and>
     int (length (cli_buffer (client_end s)) + length (to_client s)) = B \<and>
     length (srv_sent (server_end s)) = Suc (cli_i (client_end s))"

definition chat_inv :: "int \<Rightarrow> nat \<Rightarrow> chat \<Rightarrow> bool" where
  "chat_inv B n s \<longleftrightarrow> is_ascii (to_server s @ to_client s) \<and> length (cli_delays (client_end s)) = cli_i (client_end s) \<and>
     (srv_start (server_end s) = None \<longleftrightarrow> srv_sent (server_end s) = []) \<and>
     length (srv_delays (server_end s)) = length (srv_sent (server_end s)) - 1 \<and>
     (case cli_at (client_end s) of
        Sending \<Rightarrow> cli_i (client_end s) \<le> n \<and> server_open s \<and> quiet_line s
      | Receiving \<Rightarrow> cli_i (client_end s) < n \<and> server_open s \<and> (asking B s \<or> replying B s)
      | Finished \<Rightarrow> cli_i (client_end s) = n \<and> quiet_line s)"

text \<open>A bound on the steps left.\<close>

definition chat_work :: "int \<Rightarrow> nat \<Rightarrow> chat \<Rightarrow> int" where
  "chat_work B n s = (let left = (int n - int (cli_i (client_end s))) * (2 * B + 2) in case cli_at (client_end s) of
     Sending \<Rightarrow> left + 2
   | Receiving \<Rightarrow> left - (if to_server s = [] then B + int (length (cli_buffer (client_end s))) else B - int (length (to_server s)))
   | Finished \<Rightarrow> if server_open s then 1 else 0)"

lemma chat_inv_start: "0 \<le> msg_nb a \<Longrightarrow> chat_inv B n chat_start"
  by (simp add: chat_inv_def chat_start_def msg_client_start_def msg_server_start_def quiet_line_def is_ascii_def)

lemma client_sends_inv:
  assumes "chat_ok a b" "chat_inv (msg_bytes a) (nat (msg_nb a)) s" "cli_at (client_end s) = Sending"
    "client_send a r (client_end s) = (d, c)" "t = s\<lparr>client_end := c, to_server := to_server s @ d\<rparr>"
  shows "chat_inv (msg_bytes a) (nat (msg_nb a)) t \<and>
    chat_work (msg_bytes a) (nat (msg_nb a)) t < chat_work (msg_bytes a) (nat (msg_nb a)) s"
proof (cases "msg_nb a \<le> int (cli_i (client_end s))")
  case True
  then have "d = []" "c = (client_end s)\<lparr>cli_at := Finished\<rparr>" using assms(4) by (simp_all add: client_send_def)
  moreover have "int (cli_i (client_end s)) = msg_nb a" using assms(1-3) True by (auto simp: chat_inv_def chat_ok_def le_nat_iff)
  ultimately show ?thesis
    using assms by (simp add: chat_inv_def chat_work_def quiet_line_def)
next
  case False
  have "sleeps a" "\<not> msg_bulk a" "0 < msg_bytes a" using assms(1) by (simp_all add: chat_ok_def)
  with False assms(4) have d: "d = string_generator (picks r) (msg_bytes a) digits"
    "c = (client_end s)\<lparr>cli_start := start_at r, cli_buffer := [], cli_at := Receiving\<rparr>"
    by (simp_all add: client_send_def client_while_def Let_def)
  moreover have "d \<noteq> []" "int (length d) = msg_bytes a" using \<open>0 < msg_bytes a\<close> by (auto simp: d(1) string_generator_def)
  moreover have "is_ascii d" by (simp add: d(1) generator_ascii)
  ultimately show ?thesis
    using assms(2,3,5) False \<open>0 < msg_bytes a\<close>
    by (simp add: chat_inv_def chat_work_def asking_def quiet_line_def)
qed

lemma client_reads_inv:
  assumes "chat_ok a b" "chat_inv (msg_bytes a) (nat (msg_nb a)) s" "cli_at (client_end s) = Receiving"
    "to_client s = d @ rest" "d \<noteq> []" "t = s\<lparr>client_end := client_recv a r d (client_end s), to_client := rest\<rparr>"
  shows "chat_inv (msg_bytes a) (nat (msg_nb a)) t \<and>
    chat_work (msg_bytes a) (nat (msg_nb a)) t < chat_work (msg_bytes a) (nat (msg_nb a)) s"
proof -
  let ?c = "client_end s"
  have B: "0 < msg_bytes a" using assms(1) by (simp add: chat_ok_def)
  have s: "replying (msg_bytes a) s" "is_ascii d" using assms(2-5) by (auto simp: chat_inv_def asking_def)
  show ?thesis
  proof (cases "rest = []")
    case True
    then have "int (length (cli_buffer ?c @ d)) = msg_bytes a" using s(1) assms(4) by (simp add: replying_def)
    then have c: "client_recv a r d ?c = ?c\<lparr>cli_buffer := cli_buffer ?c @ d, cli_delays := cli_delays ?c @ [stop_at r - cli_start ?c],
        cli_at := Sending, cli_i := Suc (cli_i ?c)\<rparr>"
      using s(2) assms(5) by (simp add: client_recv_def client_while_def client_check_def)
    have "chat_inv (msg_bytes a) (nat (msg_nb a)) t"
      using assms(2,3) s(1) True by (simp add: assms(6) c chat_inv_def quiet_line_def replying_def)
    moreover have "int (length (cli_buffer ?c)) < msg_bytes a" using s(1) by (cases "to_client s") (simp_all add: replying_def)
    ultimately show ?thesis
      using assms(3) s(1) by (simp add: assms(6) c chat_work_def replying_def algebra_simps)
  next
    case False
    then have "int (length (cli_buffer ?c @ d)) < msg_bytes a" using s(1) assms(4) by (cases rest) (simp_all add: replying_def)
    then have c: "client_recv a r d ?c = ?c\<lparr>cli_buffer := cli_buffer ?c @ d, cli_at := Receiving\<rparr>"
      using s(2) assms(5) by (simp add: client_recv_def client_while_def)
    then show ?thesis
      using assms(2-5) s(1) False by (simp add: assms(6) chat_inv_def chat_work_def replying_def asking_def)
  qed
qed

lemma server_reads_inv:
  assumes "chat_ok a b" "chat_inv (msg_bytes a) (nat (msg_nb a)) s" "to_server s = d @ rest" "d \<noteq> []"
    "t = server_turn b r d rest s"
  shows "chat_inv (msg_bytes a) (nat (msg_nb a)) t \<and>
    chat_work (msg_bytes a) (nat (msg_nb a)) t < chat_work (msg_bytes a) (nat (msg_nb a)) s"
proof -
  let ?v = "server_end s"
  have B: "0 < msg_bytes b" "msg_bytes a = msg_bytes b" "sleeps b" using assms(1) by (simp_all add: chat_ok_def)
  have at: "cli_at (client_end s) = Receiving" "asking (msg_bytes b) s" "is_ascii d"
    using assms(2-4) B(2) by (auto simp: chat_inv_def quiet_line_def replying_def split: client_pc.splits)
  show ?thesis
  proof (cases "rest = []")
    case True
    let ?m = "string_generator (picks r) (msg_bytes b) digits"
    have len: "int (length (srv_buffer ?v @ d)) = msg_bytes b" using at(2) assms(3) True by (simp add: asking_def)
    have v: "msg_recv b r d ?v = (Inr Continue, ?v\<lparr>srv_start := Some (start_at r), srv_buffer := [], srv_delays := timed r ?v,
        srv_sent := srv_sent ?v @ [?m]\<rparr>)"
      using msg_recv_full [OF B(3) _ at(3) assms(4), of ?v r] len B(1) by simp
    have t: "t = s\<lparr>server_end := ?v\<lparr>srv_start := Some (start_at r), srv_buffer := [], srv_delays := timed r ?v,
        srv_sent := srv_sent ?v @ [?m]\<rparr>, to_server := [], to_client := ?m\<rparr>"
      using at(2) True by (simp add: assms(5) server_turn_def v asking_def)
    have "?m \<noteq> []" using B(1) by (simp add: string_generator_def)
    moreover have "length (timed r ?v) = length (srv_sent ?v)"
      using assms(2) by (cases "srv_sent ?v") (auto simp: chat_inv_def timed_def)
    ultimately show ?thesis
      using assms(2,3,4) at B generator_ascii [of "picks r" "msg_bytes b"]
      by (cases d) (simp_all add: t chat_inv_def chat_work_def replying_def asking_def)
  next
    case False
    then have "int (length (srv_buffer ?v @ d)) < msg_bytes b" using at(2) assms(3) by (cases rest) (simp_all add: asking_def)
    from msg_recv_part [OF at(3) assms(4) this, of r]
    have "t = s\<lparr>server_end := ?v\<lparr>srv_buffer := srv_buffer ?v @ d\<rparr>, to_server := rest\<rparr>"
      by (simp add: assms(5) server_turn_def)
    moreover have "0 < int (length d)" using assms(4) by simp
    ultimately show ?thesis
      using assms(2-4) at B(2) False by (auto simp: chat_inv_def chat_work_def asking_def replying_def)
  qed
qed

lemma server_eof_inv:
  assumes "chat_inv B n s" "cli_at (client_end s) = Finished" "server_open s" "t = server_turn b r [] [] s"
  shows "chat_inv B n t \<and> chat_work B n t < chat_work B n s"
proof -
  have "msg_recv b r [] (server_end s) = (Inr Break, server_end s)" by (simp add: msg_recv_def is_ascii_def)
  then have "t = s\<lparr>to_server := [], server_open := False\<rparr>" by (simp add: assms(4) server_turn_def)
  then show ?thesis using assms(1-3) by (simp add: chat_inv_def chat_work_def quiet_line_def)
qed

lemma chat_step_inv:
  assumes ok: "chat_ok a b" and inv: "chat_inv (msg_bytes a) (nat (msg_nb a)) s" and step: "chat_step a b s t"
  shows "chat_inv (msg_bytes a) (nat (msg_nb a)) t \<and>
    chat_work (msg_bytes a) (nat (msg_nb a)) t < chat_work (msg_bytes a) (nat (msg_nb a)) s"
  using step
proof (cases rule: chat_step.cases)
  case (client_sends r d c)
  then show ?thesis by (intro client_sends_inv [OF ok inv])
next
  case (client_reads d rest r)
  then show ?thesis by (intro client_reads_inv [OF ok inv])
next
  case (client_eof r)
  then show ?thesis using inv by (simp add: chat_inv_def)
next
  case (server_reads d rest r)
  then show ?thesis by (intro server_reads_inv [OF ok inv])
next
  case (server_eof r)
  then show ?thesis by (intro server_eof_inv [OF inv])
qed

lemma chat_reachable_inv:
  assumes "chat_ok a b" "chat_reachable a b s"
  shows "chat_inv (msg_bytes a) (nat (msg_nb a)) s"
  using assms(2) unfolding chat_reachable_def
proof (induction rule: rtranclp_induct)
  case base
  show ?case using chat_inv_start [of a] assms(1) by (simp add: chat_ok_def)
next
  case (step s t)
  then show ?case using chat_step_inv [OF assms(1)] by blast
qed

lemma chat_work_nonneg:
  assumes "chat_ok a b" "chat_inv (msg_bytes a) (nat (msg_nb a)) s"
  shows "0 \<le> chat_work (msg_bytes a) (nat (msg_nb a)) s"
proof -
  have B: "0 < msg_bytes a" using assms(1) by (simp add: chat_ok_def)
  have pos: "2 * msg_bytes a + 2 \<le> (int n - int i) * (2 * msg_bytes a + 2)" if "i < n" for i n
    using that B mult_right_mono [of 1 "int n - int i" "2 * msg_bytes a + 2"] by simp
  show ?thesis
  proof (cases "cli_at (client_end s)")
    case Receiving
    then have "asking (msg_bytes a) s \<or> replying (msg_bytes a) s" "cli_i (client_end s) < nat (msg_nb a)"
      using assms(2) by (simp_all add: chat_inv_def)
    moreover from this(1) obtain x where "x \<le> 2 * msg_bytes a" "chat_work (msg_bytes a) (nat (msg_nb a)) s =
        (int (nat (msg_nb a)) - int (cli_i (client_end s))) * (2 * msg_bytes a + 2) - x"
      using Receiving B by (auto simp: chat_work_def asking_def replying_def)
    ultimately show ?thesis using pos [of "cli_i (client_end s)" "nat (msg_nb a)"] by linarith
  qed (use assms(2) B in \<open>auto simp: chat_work_def chat_inv_def intro!: mult_nonneg_nonneg\<close>)
qed

lemma chat_progress:
  assumes ok: "chat_ok a b" and inv: "chat_inv (msg_bytes a) (nat (msg_nb a)) s"
    and more: "\<not> (cli_at (client_end s) = Finished \<and> \<not> server_open s)"
  shows "\<exists>t. chat_step a b s t"
proof -
  have piece: "\<exists>d rest. w = d @ rest \<and> d \<noteq> [] \<and> length d \<le> MSG_BUFFER_SIZE" if "w \<noteq> []" for w :: string
    using that by (intro exI [of _ "take 1 w"] exI [of _ "drop 1 w"]) (auto simp: MSG_BUFFER_SIZE_def)
  show ?thesis
  proof (cases "cli_at (client_end s)")
    case Sending
    then show ?thesis using client_sends [of s a undefined _ _ b] by (metis prod.exhaust)
  next
    case Receiving
    then have "server_open s" "to_server s \<noteq> [] \<or> to_client s \<noteq> []"
      using inv by (auto simp: chat_inv_def asking_def replying_def)
    with Receiving piece show ?thesis by (metis client_reads server_reads)
  next
    case Finished
    then have "server_open s" "to_server s = []" using more inv by (simp_all add: chat_inv_def quiet_line_def)
    with Finished show ?thesis by (blast intro: server_eof)
  qed
qed

text \<open>
  C7. When both programs have the same message size, the exchange of a client that waits for
  each reply always completes, however the network cuts the bytes: no reachable state is
  without a next step until both ends are closed, every step lowers a bound that stays above
  zero, and once both are closed all requests have been answered in full and each end has
  recorded its delays.
\<close>

theorem msg_exchange_completes:
  assumes "chat_ok a b" "chat_reachable a b s"
  shows "(\<forall>t. chat_step a b s t \<longrightarrow> 0 \<le> chat_work (msg_bytes a) (nat (msg_nb a)) t \<and>
       chat_work (msg_bytes a) (nat (msg_nb a)) t < chat_work (msg_bytes a) (nat (msg_nb a)) s) \<and>
     ((\<exists>t. chat_step a b s t) \<or>
       cli_at (client_end s) = Finished \<and> \<not> server_open s \<and> length (cli_delays (client_end s)) = nat (msg_nb a) \<and>
       length (srv_sent (server_end s)) = nat (msg_nb a) \<and> length (srv_delays (server_end s)) = nat (msg_nb a) - 1 \<and>
       srv_buffer (server_end s) = [])"
proof -
  have inv: "chat_inv (msg_bytes a) (nat (msg_nb a)) s" by (rule chat_reachable_inv [OF assms])
  have "\<forall>t. chat_step a b s t \<longrightarrow> 0 \<le> chat_work (msg_bytes a) (nat (msg_nb a)) t \<and>
       chat_work (msg_bytes a) (nat (msg_nb a)) t < chat_work (msg_bytes a) (nat (msg_nb a)) s"
    using chat_step_inv [OF assms(1) inv] chat_work_nonneg [OF assms(1)] by blast
  moreover have "\<exists>t. chat_step a b s t" if "\<not> (cli_at (client_end s) = Finished \<and> \<not> server_open s)"
    by (rule chat_progress [OF assms(1) inv that])
  moreover have "length (cli_delays (client_end s)) = nat (msg_nb a) \<and> length (srv_sent (server_end s)) = nat (msg_nb a) \<and>
      length (srv_delays (server_end s)) = nat (msg_nb a) - 1 \<and> srv_buffer (server_end s) = []"
    if "cli_at (client_end s) = Finished"
    using inv that by (simp add: chat_inv_def quiet_line_def)
  ultimately show ?thesis by blast
qed

end
