(* ===== verification/ThreadPool.thy ===== *)
theory ThreadPool
  imports Prelude
begin

text \<open>
  The main loops of \<open>utils/siri_server.py\<close> and \<open>utils/msg_server.py\<close>, which are the same: one
  thread per connection, and the threads that have finished are joined after each accept.  What
  a thread does with a chunk is \<open>serve\<close>: its next state, or \<open>None\<close> when it leaves its loop.
\<close>

section \<open>The steps\<close>

text \<open>Where the main thread is; \<open>Failed\<close>: a \<open>KeyError\<close> has ended it.\<close>

datatype main_pc = Accepting | Joining | Waiting nat | Failed

text \<open>
  The keys of the dictionary \<open>threads\<close>, the threads still in their loop with their variables,
  and the list \<open>to_join\<close>.
\<close>

record 'c pool =
  conn_id :: nat
  threads :: "nat list"
  serving :: "nat \<Rightarrow> 'c option"
  to_join :: "nat list"
  main_at :: main_pc

definition pool_start :: "'c pool" where
  "pool_start = \<lparr>conn_id = 0, threads = [], serving = (\<lambda>_. None), to_join = [], main_at = Accepting\<rparr>"

inductive main_step :: "'c \<Rightarrow> 'c pool \<Rightarrow> 'c pool \<Rightarrow> bool" for init where
  accepts: "main_at p = Accepting \<Longrightarrow> main_step init p
    (p\<lparr>conn_id := Suc (conn_id p), threads := List.insert (conn_id p) (threads p),
      serving := (serving p)(conn_id p \<mapsto> init), main_at := Joining\<rparr>)"
| pops: "main_at p = Joining \<Longrightarrow> to_join p \<noteq> [] \<Longrightarrow> main_step init p
    (p\<lparr>to_join := butlast (to_join p), main_at := Waiting (last (to_join p))\<rparr>)"
| joins: "main_at p = Waiting i \<Longrightarrow> i \<in> set (threads p) \<Longrightarrow> serving p i = None \<Longrightarrow> main_step init p
    (p\<lparr>threads := remove1 i (threads p), main_at := Joining\<rparr>)"
| misses: "main_at p = Waiting i \<Longrightarrow> i \<notin> set (threads p) \<Longrightarrow> main_step init p (p\<lparr>main_at := Failed\<rparr>)"
| all_joined: "main_at p = Joining \<Longrightarrow> to_join p = [] \<Longrightarrow> main_step init p (p\<lparr>main_at := Accepting\<rparr>)"

text \<open>A thread leaves its loop on its own or when its socket raises; its last act is to append its identifier.\<close>

inductive thread_step :: "('d \<Rightarrow> 'c \<Rightarrow> 'c option) \<Rightarrow> 'c pool \<Rightarrow> 'c pool \<Rightarrow> bool" for serve where
  receives: "serving p i = Some c \<Longrightarrow> serve d c = Some c' \<Longrightarrow> thread_step serve p (p\<lparr>serving := (serving p)(i \<mapsto> c')\<rparr>)"
| leaves: "serving p i = Some c \<Longrightarrow> serve d c = None \<Longrightarrow> thread_step serve p
    (p\<lparr>serving := (serving p)(i := None), to_join := to_join p @ [i]\<rparr>)"
| breaks: "serving p i = Some c \<Longrightarrow> thread_step serve p
    (p\<lparr>serving := (serving p)(i := None), to_join := to_join p @ [i]\<rparr>)"

definition pool_step :: "('d \<Rightarrow> 'c \<Rightarrow> 'c option) \<Rightarrow> 'c \<Rightarrow> 'c pool \<Rightarrow> 'c pool \<Rightarrow> bool" where
  "pool_step serve init p q \<longleftrightarrow> main_step init p q \<or> thread_step serve p q"

definition pool_reachable :: "('d \<Rightarrow> 'c \<Rightarrow> 'c option) \<Rightarrow> 'c \<Rightarrow> 'c pool \<Rightarrow> bool" where
  "pool_reachable serve init p \<longleftrightarrow> (pool_step serve init)\<^sup>*\<^sup>* pool_start p"

inductive_cases main_stepE: "main_step init p q"
inductive_cases thread_stepE: "thread_step serve p q"

section \<open>The invariant\<close>

definition waited :: "main_pc \<Rightarrow> nat set" where
  "waited m = (case m of Waiting i \<Rightarrow> {i} | _ \<Rightarrow> {})"

lemma waited_simps [simp]:
  "waited Accepting = {}" "waited Joining = {}" "waited (Waiting i) = {i}" "waited Failed = {}"
  by (simp_all add: waited_def)

text \<open>Each key of \<open>threads\<close> is served, in \<open>to_join\<close>, or waited for, and only one of these.\<close>

definition pool_inv :: "'c pool \<Rightarrow> bool" where
  "pool_inv p \<longleftrightarrow> distinct (threads p) \<and> distinct (to_join p) \<and> (\<forall>i \<in> set (threads p). i < conn_id p) \<and>
     set (threads p) = dom (serving p) \<union> set (to_join p) \<union> waited (main_at p) \<and>
     dom (serving p) \<inter> set (to_join p) = {} \<and> waited (main_at p) \<inter> (dom (serving p) \<union> set (to_join p)) = {} \<and>
     main_at p \<noteq> Failed"

lemma pool_inv_start: "pool_inv pool_start"
  by (simp add: pool_inv_def pool_start_def)

lemma pool_inv_main: "main_step init p q \<Longrightarrow> pool_inv p \<Longrightarrow> pool_inv q"
proof (erule main_stepE)
  assume p: "pool_inv p" "main_at p = Joining" "to_join p \<noteq> []"
    and q: "q = p\<lparr>to_join := butlast (to_join p), main_at := Waiting (last (to_join p))\<rparr>"
  then obtain js j where js: "to_join p = js @ [j]" by (cases "to_join p" rule: rev_cases) auto
  with p q show "pool_inv q" by (auto simp: pool_inv_def)
qed (auto simp: pool_inv_def intro: less_SucI)

lemma pool_inv_thread: "thread_step serve p q \<Longrightarrow> pool_inv p \<Longrightarrow> pool_inv q"
  by (erule thread_stepE) (auto simp: pool_inv_def dom_def)

lemma pool_inv_reachable: "pool_reachable serve init p \<Longrightarrow> pool_inv p"
  unfolding pool_reachable_def
  by (induction rule: rtranclp_induct) (auto simp: pool_inv_start pool_step_def intro: pool_inv_main pool_inv_thread)

text \<open>What the joining loop still has to do when no connection is accepted.\<close>

definition join_work :: "'c pool \<Rightarrow> nat" where
  "join_work p = (let n = card (dom (serving p)) + length (to_join p) in
     case main_at p of Joining \<Rightarrow> 2 * n + 1 | Waiting _ \<Rightarrow> 2 * n + 2 | _ \<Rightarrow> 0)"

lemma finite_serving: "pool_inv p \<Longrightarrow> finite (dom (serving p))"
  unfolding pool_inv_def by (metis List.finite_set finite_Un)

lemma main_work: "main_step init p q \<Longrightarrow> main_at p \<noteq> Accepting \<Longrightarrow> join_work q < join_work p"
  by (erule main_stepE; cases "to_join p") (simp_all add: join_work_def Let_def)

lemma thread_work: "thread_step serve p q \<Longrightarrow> pool_inv p \<Longrightarrow> join_work q \<le> join_work p \<and> main_at q = main_at p"
proof (erule thread_stepE)
  fix i c c' d
  assume "pool_inv p" "q = p\<lparr>serving := (serving p)(i \<mapsto> c')\<rparr>" "serving p i = Some c"
  then show "join_work q \<le> join_work p \<and> main_at q = main_at p"
    by (simp add: join_work_def insert_absorb domI)
next
  fix i c d
  assume p: "pool_inv p" "serving p i = Some c"
    and q: "q = p\<lparr>serving := (serving p)(i := None), to_join := to_join p @ [i]\<rparr>"
  then have "card (dom (serving p)) = Suc (card (dom (serving p) - {i}))"
    using finite_serving by (metis card.remove domI)
  with p q show "join_work q \<le> join_work p \<and> main_at q = main_at p" by (simp add: join_work_def)
next
  fix i c
  assume p: "pool_inv p" "serving p i = Some c"
    and q: "q = p\<lparr>serving := (serving p)(i := None), to_join := to_join p @ [i]\<rparr>"
  then have "card (dom (serving p)) = Suc (card (dom (serving p) - {i}))"
    using finite_serving by (metis card.remove domI)
  with p q show "join_work q \<le> join_work p \<and> main_at q = main_at p" by (simp add: join_work_def)
qed

section \<open>Properties\<close>

text \<open>
  C39. In every reachable state of a server the main thread has not failed: each identifier in
  \<open>to_join\<close> is a key of \<open>threads\<close>, and the keys are exactly the connections still served, those
  that wait to be joined and the one being joined, each in one of the three only.
\<close>

theorem pool_accounts_for_threads:
  assumes "pool_reachable serve init p"
  shows "main_at p \<noteq> Failed \<and> distinct (threads p) \<and> distinct (to_join p) \<and>
     set (threads p) = dom (serving p) \<union> set (to_join p) \<union> waited (main_at p) \<and>
     dom (serving p) \<inter> set (to_join p) = {} \<and> waited (main_at p) \<inter> (dom (serving p) \<union> set (to_join p)) = {}"
  using pool_inv_reachable [OF assms] by (simp add: pool_inv_def)

text \<open>
  C10. The joining loop ends: in every reachable state the main thread can take a step, each of
  its steps outside \<open>accept\<close> lowers a measure that no step of another thread raises, and when it
  is back at \<open>accept\<close> no finished thread is left in the dictionary at that moment.
\<close>

theorem pool_joining_ends:
  assumes "pool_reachable serve init p"
  shows "(\<exists>q. main_step init p q) \<and>
     (\<forall>q. main_step init p q \<longrightarrow> main_at p \<noteq> Accepting \<longrightarrow> join_work q < join_work p) \<and>
     (\<forall>q. thread_step serve p q \<longrightarrow> join_work q \<le> join_work p \<and> main_at q = main_at p) \<and>
     (\<forall>q. main_step init p q \<longrightarrow> main_at q = Accepting \<longrightarrow> set (threads q) = dom (serving q))"
proof -
  have inv: "pool_inv p" using pool_inv_reachable [OF assms] .
  have "\<exists>q. main_step init p q"
  proof (cases "main_at p")
    case (Waiting i)
    then have "i \<in> set (threads p)" "serving p i = None" using inv by (auto simp: pool_inv_def)
    with Waiting show ?thesis by (blast intro: joins)
  next
    case Joining
    then show ?thesis by (cases "to_join p = []") (blast intro: pops all_joined)+
  qed (use inv in \<open>auto simp: pool_inv_def intro: accepts\<close>)
  moreover have "set (threads q) = dom (serving q)" if "main_step init p q" "main_at q = Accepting" for q
    using that(1) by (rule main_stepE) (use that(2) inv in \<open>simp_all add: pool_inv_def\<close>)
  ultimately show ?thesis by (intro conjI allI impI) (simp_all add: main_work thread_work [OF _ inv])
qed

end
