(* ===== verification/Connections.thy ===== *)
theory Connections
  imports SiriProps MsgProps ThreadPool
begin

text \<open>
  The two servers as whole programs: the threads of \<open>ThreadPool\<close> with the loops of
  \<open>SiriServer\<close> and \<open>MsgTools\<close>.  A run is a pool with the log of what happened on its sockets.
\<close>

section \<open>Runs with a log\<close>

text \<open>An entry of the log: the connection, and the chunk it received, or \<open>None\<close> where its socket raised.\<close>

inductive pool_run :: "('d \<Rightarrow> 'c \<Rightarrow> 'c option) \<Rightarrow> 'c \<Rightarrow> (nat \<times> 'd option) list \<Rightarrow> 'c pool \<Rightarrow> bool" for serve init where
  run_start: "pool_run serve init [] pool_start"
| run_main: "pool_run serve init hist p \<Longrightarrow> main_step init p q \<Longrightarrow> pool_run serve init hist q"
| run_receives: "pool_run serve init hist p \<Longrightarrow> serving p i = Some c \<Longrightarrow> serve d c = Some c' \<Longrightarrow>
    pool_run serve init (hist @ [(i, Some d)]) (p\<lparr>serving := (serving p)(i \<mapsto> c')\<rparr>)"
| run_leaves: "pool_run serve init hist p \<Longrightarrow> serving p i = Some c \<Longrightarrow> serve d c = None \<Longrightarrow>
    pool_run serve init (hist @ [(i, Some d)]) (p\<lparr>serving := (serving p)(i := None), to_join := to_join p @ [i]\<rparr>)"
| run_breaks: "pool_run serve init hist p \<Longrightarrow> serving p i = Some c \<Longrightarrow>
    pool_run serve init (hist @ [(i, None)]) (p\<lparr>serving := (serving p)(i := None), to_join := to_join p @ [i]\<rparr>)"

text \<open>The log adds nothing to what can happen.\<close>

lemma pool_run_reachable: "pool_run serve init hist p \<Longrightarrow> pool_reachable serve init p"
  unfolding pool_reachable_def
  by (induction rule: pool_run.induct)
     (auto simp: pool_step_def intro: rtranclp.rtrancl_into_rtrancl thread_step.intros)

lemma pool_reachable_run: "pool_reachable serve init p \<Longrightarrow> \<exists>hist. pool_run serve init hist p"
  unfolding pool_reachable_def
proof (induction rule: rtranclp_induct)
  case (step p q)
  then obtain hist where hist: "pool_run serve init hist p" by blast
  from step(2) show ?case unfolding pool_step_def
    by (auto elim!: thread_stepE intro: run_main [OF hist] run_receives [OF hist] run_leaves [OF hist] run_breaks [OF hist])
qed (blast intro: run_start)

text \<open>The chunks one connection received, in order.\<close>

definition received :: "nat \<Rightarrow> (nat \<times> 'd option) list \<Rightarrow> 'd list" where
  "received i hist = List.map_filter (\<lambda>e. if fst e = i then snd e else None) hist"

lemma received_simps [simp]:
  "received i [] = []"
  "received i (hist @ [(j, Some d)]) = (if j = i then received i hist @ [d] else received i hist)"
  "received i (hist @ [(j, None)]) = received i hist"
  by (simp_all add: received_def List.map_filter_def)

section \<open>The loop of a thread\<close>

text \<open>
  What a thread relies on: \<open>serve\<close> is one turn of the loop \<open>run\<close>, and gives \<open>None\<close> where the loop
  ends, on its own or by an exception.
\<close>

locale thread_loop =
  fixes serve :: "'d \<Rightarrow> 'c \<Rightarrow> 'c option" and run :: "'d list \<Rightarrow> ('c, flow) py" and init :: 'c
  assumes run_none: "run [] c = (Inr Continue, c)"
    and run_stays: "serve d c = Some c' \<Longrightarrow> run (d # ds) c = run ds c'"
    and run_ends: "serve d c = None \<Longrightarrow> fst (run (d # ds) c) \<noteq> Inr Continue"
begin

lemma run_snoc_stays: "run ds c = (Inr Continue, x) \<Longrightarrow> serve d x = Some y \<Longrightarrow> run (ds @ [d]) c = (Inr Continue, y)"
proof (induction ds arbitrary: c)
  case (Cons e ds)
  obtain c' where "serve e c = Some c'" using Cons.prems(1) run_ends [of e c ds] by (cases "serve e c") auto
  with Cons show ?case by (simp add: run_stays)
qed (simp add: run_none run_stays)

lemma run_snoc_ends: "run ds c = (Inr Continue, x) \<Longrightarrow> serve d x = None \<Longrightarrow> fst (run (ds @ [d]) c) \<noteq> Inr Continue"
proof (induction ds arbitrary: c)
  case (Cons e ds)
  obtain c' where "serve e c = Some c'" using Cons.prems(1) run_ends [of e c ds] by (cases "serve e c") auto
  with Cons show ?case by (simp add: run_stays)
qed (simp add: run_none run_ends)

text \<open>
  A thread that is served has the variables that its own chunks give; one whose socket did not
  raise is served as long as the loop goes on.
\<close>

definition own_state :: "(nat \<times> 'd option) list \<Rightarrow> 'c pool \<Rightarrow> nat \<Rightarrow> bool" where
  "own_state hist p i \<longleftrightarrow> (\<forall>c. serving p i = Some c \<longrightarrow> run (received i hist) init = (Inr Continue, c)) \<and>
     ((i, None) \<notin> set hist \<longrightarrow> serving p i = None \<longrightarrow> fst (run (received i hist) init) \<noteq> Inr Continue)"

lemma threads_independent:
  assumes "pool_run serve init hist p"
  shows "(\<forall>i < conn_id p. own_state hist p i) \<and> (\<forall>e \<in> set hist. fst e < conn_id p)"
  using assms
proof (induction rule: pool_run.induct)
  case run_start
  show ?case by (simp add: pool_start_def)
next
  case (run_main hist p q)
  have "pool_inv p" using pool_inv_reachable [OF pool_run_reachable] run_main(1) .
  have new: "received (conn_id p) hist = []"
    using run_main.IH by (force simp: received_def List.map_filter_def filter_empty_conv)
  from run_main(2) show ?case
    using run_main.IH by (cases rule: main_stepE) (auto simp: own_state_def less_Suc_eq new run_none)
next
  case (run_receives hist p i c d c')
  have "i < conn_id p" using pool_inv_reachable [OF pool_run_reachable [OF run_receives(1)]] run_receives(2)
    by (auto simp: pool_inv_def)
  with run_receives show ?case by (auto simp: own_state_def dest: run_snoc_stays)
next
  case (run_leaves hist p i c d)
  have "i < conn_id p" using pool_inv_reachable [OF pool_run_reachable [OF run_leaves(1)]] run_leaves(2)
    by (auto simp: pool_inv_def)
  with run_leaves show ?case by (auto simp: own_state_def dest: run_snoc_ends)
next
  case (run_breaks hist p i c)
  have "i < conn_id p" using pool_inv_reachable [OF pool_run_reachable [OF run_breaks(1)]] run_breaks(2)
    by (auto simp: pool_inv_def)
  with run_breaks show ?case by (auto simp: own_state_def)
qed

lemma served_by_own_chunks:
  assumes "pool_run serve init hist p" "i < conn_id p" "(i, None) \<notin> set hist"
    and "run (received i hist) init = (Inr Continue, t)"
  shows "serving p i = Some t"
  using threads_independent [OF assms(1)] assms(2-4) by (cases "serving p i") (auto simp: own_state_def)

end

interpretation siri: thread_loop siri_serve siri_loop siri_start
  by unfold_locales (auto simp: siri_serve_def py_bind_apply split: prod.splits sum.splits flow.splits)

interpretation msg: thread_loop "msg_serve a" "msg_loop a" msg_server_start
  by unfold_locales (auto simp: msg_serve_def py_bind_apply split: prod.splits sum.splits flow.splits)

section \<open>The two programs\<close>

definition siri_program :: "(nat \<times> string option) list \<Rightarrow> siri pool \<Rightarrow> bool" where
  "siri_program = pool_run siri_serve siri_start"

definition msg_program :: "msg_args \<Rightarrow> (nat \<times> (reading \<times> string) option) list \<Rightarrow> msg_server pool \<Rightarrow> bool" where
  "msg_program a = pool_run (msg_serve a) msg_server_start"

text \<open>
  C6. The Siri server answers every request of every client, whatever its other connections do
  and however the steps of the threads and of the main loop interleave: as long as the socket of
  a connection raises nothing, its thread is in its loop, has answered exactly the requests that
  arrived there, in order and after their pauses, has recorded their delays and sending times,
  and waits for the next request with empty buffers.  The requests may be cut into any pieces of
  at most \<open>BUFFER_SIZE\<close> bytes; each is at least that long, and those of a connection come from
  one address.
\<close>

theorem siri_server_answers:
  assumes "siri_program hist p" "i < conn_id p" "(i, None) \<notin> set hist"
    and "\<forall>r \<in> set rs. rq_ok r \<and> rq_mac r = a \<and> SIRI_BUFFER_SIZE \<le> length (rq_text r)"
    and "\<forall>d \<in> set (received i hist). d \<noteq> [] \<and> length d \<le> SIRI_BUFFER_SIZE"
    and "concat (received i hist) = concat (map rq_text rs)"
  shows "\<exists>c. serving p i = Some c \<and> answers c = map rq_reply rs \<and> delay_results c = concat (map rq_delays rs) \<and>
     time_sent c = map rq_time rs \<and> buffer_data c = [] \<and> next_buffer_data c = [] \<and> first_data c"
  using siri_answers_every_request [OF assms(4-6)] siri.served_by_own_chunks [OF assms(1) [unfolded siri_program_def] assms(2,3)]
  by blast

text \<open>
  C40. The message server loses no byte of any connection, whatever the others do: the thread of
  a connection whose socket raises nothing stays in its loop, and the bytes it received are the
  size of a message times its replies, plus its buffer; it has replied at most once per chunk, each
  reply has the size of a message, and when no chunk is longer than a message the replies are
  exactly the whole messages received.
\<close>

theorem msg_server_accounts:
  assumes "msg_program a hist p" "i < conn_id p" "(i, None) \<notin> set hist" and "sleeps a" "0 < msg_bytes a"
    and "\<forall>x \<in> set (received i hist). is_ascii (snd x) \<and> snd x \<noteq> []"
  shows "\<exists>c. serving p i = Some c \<and>
     int (length (concat (map snd (received i hist)))) = msg_bytes a * int (length (srv_sent c)) + int (length (srv_buffer c)) \<and>
     length (srv_sent c) \<le> length (received i hist) \<and> (\<forall>m \<in> set (srv_sent c). int (length m) = msg_bytes a) \<and>
     ((\<forall>x \<in> set (received i hist). int (length (snd x)) \<le> msg_bytes a) \<longrightarrow>
       int (length (srv_sent c)) = int (length (concat (map snd (received i hist)))) div msg_bytes a)"
proof -
  obtain c where c: "msg_loop a (received i hist) msg_server_start = (Inr Continue, c)"
    and rest: "int (length (concat (map snd (received i hist)))) = msg_bytes a * int (length (srv_sent c)) + int (length (srv_buffer c))"
    "length (srv_sent c) \<le> length (received i hist)" "\<forall>m \<in> set (srv_sent c). int (length m) = msg_bytes a"
    using msg_server_conserves [OF assms(4) _ assms(6)] assms(5) by auto
  have "serving p i = Some c"
    using msg.served_by_own_chunks [OF assms(1) [unfolded msg_program_def] assms(2,3) c] .
  moreover have "int (length (srv_sent c)) = int (length (concat (map snd (received i hist)))) div msg_bytes a"
    if "\<forall>x \<in> set (received i hist). int (length (snd x)) \<le> msg_bytes a"
    using msg_server_counts [OF assms(4,5) _ c] assms(6) that by blast
  ultimately show ?thesis using rest by blast
qed

end
