(* ===== verification/ServerDemo.thy ===== *)
theory ServerDemo
  imports SiriDemo Connections
begin

text \<open>Connections of the two servers, and an exchange of one message.\<close>

definition demo_args :: msg_args where
  "demo_args = \<lparr>msg_sleep = Fin 5, msg_bytes = 4, msg_nb = 1, msg_bulk = False\<rparr>"

abbreviation demo_reading :: reading where
  "demo_reading \<equiv> \<lparr>stop_at = 7, start_at = 9, picks = (\<lambda>i. i)\<rparr>"

lemma demo_args_ok: "sleeps demo_args" "msg_bytes demo_args = 4" "chat_ok demo_args demo_args"
  by (simp_all add: demo_args_def sleeps_def chat_ok_def)

theorem msg_server_one_reply_per_chunk_witness:
  "\<exists>t. msg_recv demo_args demo_reading ''123456781234'' msg_server_start = (Inr Continue, t) \<and> length (srv_sent t) = 1 \<and>
     length (srv_buffer t) = 8"
  using msg_server_one_reply_per_chunk [OF demo_args_ok(1), of "''123456781234''" 3 demo_reading]
  by (simp add: demo_args_ok(2) is_ascii_def)

theorem msg_exchange_completes_witness:
  "\<exists>t. chat_step demo_args demo_args chat_start t \<and>
     chat_work (msg_bytes demo_args) (nat (msg_nb demo_args)) t < chat_work (msg_bytes demo_args) (nat (msg_nb demo_args)) chat_start"
proof -
  have "chat_reachable demo_args demo_args chat_start" by (simp add: chat_reachable_def)
  moreover have "cli_at (client_end chat_start) \<noteq> Finished" by (simp add: chat_start_def msg_client_start_def)
  ultimately show ?thesis using msg_exchange_completes [OF demo_args_ok(3)] by blast
qed

section \<open>Threads\<close>

text \<open>A server that has accepted one connection.\<close>

definition one_thread :: "'c \<Rightarrow> 'c pool" where
  "one_thread init = \<lparr>conn_id = 1, threads = [0], serving = [0 \<mapsto> init], to_join = [], main_at = Joining\<rparr>"

lemma one_thread_reachable: "pool_reachable serve init (one_thread init)"
proof -
  have "main_step init pool_start (one_thread init)"
    using accepts [of pool_start init] by (simp add: pool_start_def one_thread_def)
  then show ?thesis by (auto simp: pool_reachable_def pool_step_def)
qed

theorem pool_accounts_for_threads_witness:
  "\<exists>p. pool_reachable siri_serve siri_start p \<and> main_at p = Joining \<and> {0} = dom (serving p) \<union> set (to_join p)"
proof -
  let ?p = "one_thread siri_start"
  have r: "pool_reachable siri_serve siri_start ?p" by (rule one_thread_reachable)
  have "set (threads ?p) = dom (serving ?p) \<union> set (to_join ?p) \<union> waited (main_at ?p)"
    using pool_accounts_for_threads [OF r] by blast
  with r show ?thesis by (intro exI [of _ ?p]) (simp add: one_thread_def)
qed

theorem pool_joining_ends_witness:
  "\<exists>p q. pool_reachable (msg_serve demo_args) msg_server_start p \<and> main_step msg_server_start p q \<and> join_work q < join_work p"
proof -
  let ?p = "one_thread msg_server_start"
  have r: "pool_reachable (msg_serve demo_args) msg_server_start ?p" by (rule one_thread_reachable)
  obtain q where q: "main_step msg_server_start ?p q" using pool_joining_ends [OF r] by blast
  have "main_at ?p \<noteq> Accepting" by (simp add: one_thread_def)
  then have "join_work q < join_work ?p" using pool_joining_ends [OF r] q by blast
  with r q show ?thesis by blast
qed

section \<open>Two connections at once\<close>

lemma two_threads: "\<exists>p. pool_run serve init [] p \<and> conn_id p = 2 \<and> serving p = [0 \<mapsto> init, 1 \<mapsto> init]"
proof -
  have "pool_run serve init [] (one_thread init)"
    using run_main [OF run_start accepts [of pool_start init]] by (simp add: pool_start_def one_thread_def)
  then have "pool_run serve init [] ((one_thread init)\<lparr>main_at := Accepting\<rparr>)"
    by (rule run_main) (rule all_joined; simp add: one_thread_def)
  then have "pool_run serve init [] (one_thread init\<lparr>main_at := Accepting, conn_id := 2, threads := List.insert 1 [0],
      serving := [0 \<mapsto> init, 1 \<mapsto> init], main_at := Joining\<rparr>)"
    using run_main [OF _ accepts [of "(one_thread init)\<lparr>main_at := Accepting\<rparr>" init]]
    by (simp add: one_thread_def numeral_2_eq_2)
  then show ?thesis by fastforce
qed

lemma run_feeds:
  assumes "pool_run serve init h p" "serving p i = Some c" "serve d c = Some c'"
  shows "\<exists>q. pool_run serve init (h @ [(i, Some d)]) q \<and> conn_id q = conn_id p \<and> serving q = (serving p)(i \<mapsto> c')"
  using run_receives [OF assms] by fastforce

text \<open>A connection that gets two chunks, with one of the other connection between them.\<close>

lemma interleaved:
  assumes "serve d init = Some c" "serve e c = Some c'" "serve x init = Some y"
  shows "\<exists>p. pool_run serve init [(0, Some d), (1, Some x), (0, Some e)] p \<and> conn_id p = 2"
proof -
  from two_threads [of serve init] obtain p where p: "pool_run serve init [] p" "conn_id p = 2"
    "serving p = [0 \<mapsto> init, 1 \<mapsto> init]" by (elim exE conjE)
  have "serving p 0 = Some init" by (simp add: p(3))
  from run_feeds [OF p(1) this assms(1)] obtain q where q: "pool_run serve init ([] @ [(0, Some d)]) q"
    "conn_id q = conn_id p" "serving q = (serving p)(0 \<mapsto> c)" by (elim exE conjE)
  have "serving q 1 = Some init" by (simp add: p(3) q(3))
  from run_feeds [OF q(1) this assms(3)] obtain r where r: "pool_run serve init (([] @ [(0, Some d)]) @ [(1, Some x)]) r" "conn_id r = conn_id q"
    "serving r = (serving q)(1 \<mapsto> y)" by (elim exE conjE)
  have "serving r 0 = Some c" by (simp add: q(3) r(3))
  from run_feeds [OF r(1) this assms(2)] obtain t where t: "pool_run serve init ((([] @ [(0, Some d)]) @ [(1, Some x)]) @ [(0, Some e)]) t"
    "conn_id t = conn_id r" by (elim exE conjE)
  show ?thesis using t(1) by (intro exI [of _ t]) (simp add: t(2) r(2) q(2) p(2))
qed

theorem siri_server_answers_witness:
  "\<exists>p c. siri_program [(0, Some (take 512 (rq_text demo_request))), (1, Some ''x''), (0, Some (drop 512 (rq_text demo_request)))] p \<and>
     serving p 0 = Some c \<and> answers c = [(0, siri_response 0 750)]"
proof -
  let ?d = "take 512 (rq_text demo_request)" and ?e = "drop 512 (rq_text demo_request)"
  let ?h = "[(0, Some ?d), (1, Some ''x''), (0, Some ?e)]"
  obtain t where t: "siri_loop [?d, ?e] siri_start = (Inr Continue, t)" using demo_request_pieces by blast
  obtain c where c: "siri_serve ?d siri_start = Some c"
    using siri.run_ends [of ?d siri_start "[?e]"] t by (metis fst_conv not_Some_eq)
  obtain c' where c': "siri_serve ?e c = Some c'"
    using siri.run_ends [of ?e c "[]"] t siri.run_stays [OF c, of "[?e]"] by (metis fst_conv not_Some_eq)
  have "siri_serve ''x'' siri_start = Some (siri_start\<lparr>buffer_data := ''x'', message_sizes := [1]\<rparr>)" by code_simp
  then obtain p where p: "pool_run siri_serve siri_start ?h p" "conn_id p = 2" using interleaved [of siri_serve, OF c c'] by blast
  have len: "length (rq_text demo_request) = 600" by (simp add: demo_request_text)
  have fields: "rq_mac demo_request = ''m''" "rq_reply demo_request = (0, siri_response 0 750)"
    by (simp_all add: demo_request_def rq_reply_def)
  have "\<exists>c. serving p 0 = Some c \<and> answers c = map rq_reply [demo_request] \<and> delay_results c = concat (map rq_delays [demo_request]) \<and>
     time_sent c = map rq_time [demo_request] \<and> buffer_data c = [] \<and> next_buffer_data c = [] \<and> first_data c"
    by (rule siri_server_answers [where hist = ?h and a = "''m''"])
       (use len p in \<open>auto simp: siri_program_def received_def List.map_filter_def demo_request_ok fields SIRI_BUFFER_SIZE_def\<close>)
  then show ?thesis using p(1) fields(2) by (auto simp: siri_program_def)
qed

theorem msg_server_accounts_witness:
  "\<exists>p c. msg_program demo_args [(0, Some (demo_reading, ''123'')), (1, Some (demo_reading, ''9'')), (0, Some (demo_reading, ''45''))] p \<and>
     serving p 0 = Some c \<and> length (srv_sent c) = 1 \<and> length (srv_buffer c) = 1"
proof -
  let ?d = "(demo_reading, ''123'')" and ?e = "(demo_reading, ''45'')" and ?x = "(demo_reading, ''9'')"
  let ?h = "[(0, Some ?d), (1, Some ?x), (0, Some ?e)]"
  have stays: "\<exists>c'. msg_serve demo_args (demo_reading, d) c = Some c'" if "is_ascii d" "d \<noteq> []" for d c
    using msg_recv_accounts [OF demo_args_ok(1) _ that, of demo_reading c] by (auto simp: msg_serve_def demo_args_ok(2))
  obtain c c' y where "msg_serve demo_args ?d msg_server_start = Some c" "msg_serve demo_args ?e c = Some c'"
    "msg_serve demo_args ?x msg_server_start = Some y"
    using stays [of "''123''" msg_server_start] stays [of "''9''" msg_server_start] stays [of "''45''"] by (fastforce simp: is_ascii_def)
  then obtain p where p: "pool_run (msg_serve demo_args) msg_server_start ?h p" "conn_id p = 2" using interleaved by metis
  obtain c where "serving p 0 = Some c" "int (length (srv_sent c)) = 1" "5 = 4 * int (length (srv_sent c)) + int (length (srv_buffer c))"
    using msg_server_accounts [where hist = ?h and p = p and i = 0, OF _ _ _ demo_args_ok(1)] p
    by (auto simp: msg_program_def received_def List.map_filter_def demo_args_ok(2) is_ascii_def)
  moreover from this have "length (srv_sent c) = 1" by (simp only: of_nat_eq_1_iff)
  moreover from calculation have "length (srv_buffer c) = 1" by simp
  ultimately show ?thesis using p(1) by (intro exI [of _ p] exI [of _ c]) (simp add: msg_program_def)
qed

end
