(* ===== verification/SiriClient.thy ===== *)
theory SiriClient
  imports SiriProps "HOL-Library.Word"
begin

text \<open>
  The client of the Siri experiments, \<open>utils/SiriClient.java\<close>.  A Java \<open>int\<close> is a 32-bit word that
  wraps around and is compared as signed; clock readings are integers.  What a turn of the sending
  thread reads from outside (the clock, the random numbers, whether a write raises an
  \<open>IOException\<close>) is a record.
\<close>

type_synonym jint = "32 word"

text \<open>What ends a thread, or the program: an unchecked exception, or the exit after the usage text.\<close>

datatype java_end = AssertionErr | IllegalArgument | NumberFormat | UsageExit

record siri_opts =
  opt_run_time :: jint
  opt_query_size :: jint
  opt_response_size :: jint
  opt_delay :: jint
  opt_min :: jint
  opt_max :: jint
  opt_interval :: jint
  opt_buffer :: jint
  opt_burst :: jint
  opt_burst_interval :: jint

definition default_opts :: "jint \<Rightarrow> siri_opts" where
  "default_opts rt = \<lparr>opt_run_time = rt, opt_query_size = 2500, opt_response_size = 750, opt_delay = 0, opt_min = 85,
     opt_max = 500, opt_interval = 333, opt_buffer = 9, opt_burst = 0, opt_burst_interval = 0\<rparr>"

definition MAX_ID :: nat where "MAX_ID = 100"

text \<open>
  The object, once its socket is connected.  The last two fields are no attributes: whether the
  sending thread still runs, and what has been written to the socket.
\<close>

record siri_client =
  cl_run :: bool
  cl_open :: bool
  cl_message_id :: nat
  cl_sent_time :: "int list"
  cl_delays :: "int list"
  cl_counter :: jint
  cl_missed :: jint
  cl_packets :: jint
  cl_sender :: bool
  cl_written :: "string list"

definition siri_client_start :: siri_client where
  "siri_client_start = \<lparr>cl_run = True, cl_open = True, cl_message_id = 0, cl_sent_time = replicate MAX_ID 0, cl_delays = [],
     cl_counter = 0, cl_missed = 0, cl_packets = 0, cl_sender = True, cl_written = []\<rparr>"

record siri_turn_input =
  turn_elapsed :: int
  turn_now :: int
  turn_pick :: "nat \<Rightarrow> nat"
  turn_writes :: "nat \<Rightarrow> bool"

section \<open>Sending a query\<close>

text \<open>\<open>random.nextInt(bound)\<close>, for any number drawn\<close>

definition next_int :: "nat \<Rightarrow> jint \<Rightarrow> java_end + jint" where
  "next_int pick bound = (if bound \<le>s 0 then Inl IllegalArgument else Inr (word_of_int (int pick mod sint bound)))"

definition size_of_next_packet :: "siri_opts \<Rightarrow> nat \<Rightarrow> jint \<Rightarrow> java_end + jint" where
  "size_of_next_packet p pick remain =
     (if remain <s opt_min p then Inl AssertionErr
      else if remain \<le>s opt_max p \<and> opt_min p \<le>s remain then Inr remain
      else (case next_int pick (if remain - opt_max p <s opt_min p then opt_max p - 2 * opt_min p + 1
          else opt_max p - opt_min p + 1) of
        Inl e \<Rightarrow> Inl e
      | Inr r \<Rightarrow> Inr (opt_min p + r)))"

definition filled :: "jint \<Rightarrow> char \<Rightarrow> string" where
  "filled n c = (if 0 <s n then replicate (nat (sint n)) c else [])"

definition siri_mac :: string where "siri_mac = ''00:00:00:00:00:00''"

definition start_text :: "siri_opts \<Rightarrow> nat \<Rightarrow> int \<Rightarrow> string" where
  "start_text p i t = show_int (int i) @ ''&'' @ show_int (sint (opt_query_size p)) @ ''&'' @ show_int (sint (opt_response_size p)) @
     ''&'' @ show_int (sint (opt_delay p)) @ ''&'' @ show_int 0 @ ''&'' @ show_int t @ ''&'' @ siri_mac @ ''&''"

text \<open>The loop after the first packet; an \<open>IOException\<close> ends it.  It may also go on for ever.\<close>

partial_function (option) send_rest ::
  "siri_opts \<Rightarrow> siri_turn_input \<Rightarrow> nat \<Rightarrow> jint \<Rightarrow> siri_client \<Rightarrow> ((java_end + unit) \<times> siri_client) option" where
  "send_rest p t k remain c =
     (if remain \<le>s 0 then Some (Inr (), c)
      else (case size_of_next_packet p (turn_pick t k) remain of
        Inl e \<Rightarrow> Some (Inl e, c)
      | Inr n \<Rightarrow> if turn_writes t k
          then send_rest p t (Suc k) (remain - n) (c\<lparr>cl_counter := cl_counter c + n, cl_written := cl_written c @
            [if remain = n then filled (n - 1) (CHR ''0'') @ [newline] else filled n (CHR ''0'')]\<rparr>)
          else Some (Inr (), c)))"

text \<open>An \<open>IOException\<close> of the first write is reported only.\<close>

definition send_message :: "siri_opts \<Rightarrow> siri_turn_input \<Rightarrow> siri_client \<Rightarrow> ((java_end + unit) \<times> siri_client) option" where
  "send_message p t c =
     (if \<not> cl_open c then Some (Inr (), c)
      else let start = start_text p (cl_message_id c) (turn_now t);
             c = c\<lparr>cl_sent_time := (cl_sent_time c)[cl_message_id c := turn_now t],
               cl_message_id := (cl_message_id c + 1) mod MAX_ID\<rparr> in
        case size_of_next_packet p (turn_pick t 0) (opt_query_size p) of
          Inl e \<Rightarrow> Some (Inl e, c)
        | Inr sz \<Rightarrow>
          let n = (if word_of_nat (length start) \<le>s sz then sz else word_of_nat (length start));
            c = (if turn_writes t 0
              then c\<lparr>cl_written := cl_written c @ [start @ filled (n - word_of_nat (length start)) (CHR ''0'')]\<rparr> else c) in
          send_rest p t 1 (opt_query_size p - n) (c\<lparr>cl_counter := cl_counter c + n\<rparr>))"

section \<open>The two threads\<close>

definition stop_client :: "siri_client \<Rightarrow> siri_client" where
  "stop_client c = c\<lparr>cl_run := False, cl_open := False\<rparr>"

definition thread_sleep :: "jint \<Rightarrow> java_end + unit" where
  "thread_sleep ms = (if ms <s 0 then Inl IllegalArgument else Inr ())"

text \<open>
  A turn of the loop of the sending thread.  The receiving thread changes only the delays and the
  counter, and that by subtraction, so its turns can be taken before or after a whole turn.
\<close>

definition sender_turn :: "siri_opts \<Rightarrow> siri_turn_input \<Rightarrow> siri_client \<Rightarrow> ((java_end + unit) \<times> siri_client) option" where
  "sender_turn p t c =
     (let pause = 0 <s opt_burst p \<and> cl_packets c = opt_burst p in
      case thread_sleep (if pause then opt_burst_interval p else opt_interval p) of
        Inl e \<Rightarrow> Some (Inl e, c)
      | Inr _ \<Rightarrow>
        let c = (if pause then c\<lparr>cl_packets := 0\<rparr> else c) in
        if sint (opt_run_time p * 1000) \<le> turn_elapsed t then Some (Inr (), stop_client c)
        else if cl_open c \<and> cl_counter c \<le>s opt_query_size p * opt_buffer p then
          (case send_message p t c of
             None \<Rightarrow> None
           | Some (Inl e, c) \<Rightarrow> Some (Inl e, c)
           | Some (Inr _, c) \<Rightarrow> Some (Inr (), c\<lparr>cl_packets := cl_packets c + 1\<rparr>))
        else if cl_open c then Some (Inr (), c\<lparr>cl_missed := cl_missed c + 1\<rparr>)
        else Some (Inr (), c))"

text \<open>An exception nobody catches ends the thread.\<close>

definition sender_step :: "siri_opts \<Rightarrow> siri_turn_input \<Rightarrow> siri_client \<Rightarrow> siri_client option" where
  "sender_step p t c = map_option (\<lambda>(r, c). case r of Inl _ \<Rightarrow> c\<lparr>cl_sender := False\<rparr> | Inr _ \<Rightarrow> c) (sender_turn p t c)"

text \<open>\<open>Integer.parseInt\<close>\<close>

definition parse_jint :: "string \<Rightarrow> jint option" where
  "parse_jint s = (case split_sign s of (neg, ds) \<Rightarrow>
     if ds = [] \<or> \<not> list_all is_digit ds then None
     else (case parse_digits False 0 ds of
         None \<Rightarrow> None
       | Some n \<Rightarrow> (let v = (if neg then - n else n) in
           if - (2 ^ 31) \<le> v \<and> v < 2 ^ 31 then Some (word_of_int v) else None)))"

text \<open>
  A line from the server; every exception (a first field that is no number, an identifier that
  is no index) ends the receiving loop and closes the socket.
\<close>

definition receive_line :: "siri_opts \<Rightarrow> int \<Rightarrow> string \<Rightarrow> siri_client \<Rightarrow> siri_client" where
  "receive_line p now line c = (case parse_jint (takeWhile (\<lambda>x. x \<noteq> CHR ''&'') line) of
     None \<Rightarrow> c\<lparr>cl_open := False\<rparr>
   | Some i \<Rightarrow> if sint i < 0 \<or> int (length (cl_sent_time c)) \<le> sint i then c\<lparr>cl_open := False\<rparr>
       else c\<lparr>cl_delays := cl_delays c @ [now - cl_sent_time c ! nat (sint i)], cl_counter := cl_counter c - opt_query_size p\<rparr>)"

section \<open>The command line\<close>

definition siri_main :: "string list \<Rightarrow> java_end + string \<times> jint \<times> siri_opts" where
  "siri_main args =
     (if length args \<noteq> 3 \<and> length args \<noteq> 12 then Inl UsageExit
      else case those (map parse_jint (tl args)) of
        Some [port, rt] \<Rightarrow> Inr (hd args, port, default_opts rt)
      | Some [port, rt, query, resp, wait, mn, mx, interval, buf, burst, pause] \<Rightarrow> Inr (hd args, port,
          \<lparr>opt_run_time = rt, opt_query_size = query, opt_response_size = resp, opt_delay = wait, opt_min = mn,
            opt_max = mx, opt_interval = interval, opt_buffer = buf, opt_burst = burst, opt_burst_interval = pause\<rparr>)
      | _ \<Rightarrow> Inl NumberFormat)"

end
