(* ===== verification/SiriClientProps.thy ===== *)
theory SiriClientProps
  imports SiriClient
begin

text \<open>What the client writes for one query is a request as its server expects it.\<close>

section \<open>Words without overflow\<close>

lemma jint_arith:
  fixes a b :: jint
  shows "- (2 ^ 31) \<le> sint a + sint b \<Longrightarrow> sint a + sint b < 2 ^ 31 \<Longrightarrow> sint (a + b) = sint a + sint b"
    and "- (2 ^ 31) \<le> sint a - sint b \<Longrightarrow> sint a - sint b < 2 ^ 31 \<Longrightarrow> sint (a - b) = sint a - sint b"
    and "- (2 ^ 31) \<le> sint a * sint b \<Longrightarrow> sint a * sint b < 2 ^ 31 \<Longrightarrow> sint (a * b) = sint a * sint b"
  by (simp_all add: sint_word_ariths signed_take_bit_int_eq_self)

lemma sint_of_int: "- (2 ^ 31) \<le> i \<Longrightarrow> i < 2 ^ 31 \<Longrightarrow> sint (word_of_int i :: jint) = i"
  by (simp add: signed_take_bit_int_eq_self sint_sbintrunc')

lemma sint_of_nat: "n < 2 ^ 31 \<Longrightarrow> sint (word_of_nat n :: jint) = int n"
  using sint_of_int [of "int n"] by simp

lemma sint_range: "- (2 ^ 31) \<le> sint (a :: jint)" "sint (a :: jint) < 2 ^ 31"
  using sint_ge [of a] sint_lt [of a] by simp_all

lemmas signed_order = word_sle_eq word_sless_alt

section \<open>Numbers as text\<close>

lemma parse_jint_int:
  assumes "- (2 ^ 31) \<le> i" "i < 2 ^ 31"
  shows "parse_jint (show_int i) = Some (word_of_int i)"
proof -
  have ds: "list_all is_digit (show_digits \<bar>i\<bar>)" using show_digits_digits [of "\<bar>i\<bar>"] by (simp add: list_all_iff)
  have "split_sign (show_int i) = (i < 0, show_digits \<bar>i\<bar>)" using split_sign_show_digits [of i] by (simp add: show_int_def)
  then show ?thesis using assms ds parse_digits_show_digits [of "\<bar>i\<bar>"] by (simp add: parse_jint_def)
qed

lemma parse_jint_nat: "n < MAX_ID \<Longrightarrow> parse_jint (show_int (int n)) = Some (word_of_nat n)"
  using parse_jint_int [of "int n"] by (simp add: MAX_ID_def)

section \<open>Options\<close>

text \<open>
  Options with which every query is sent in several packets, whatever the numbers drawn, the
  identifiers of the queries under way differ, and the counter does not overflow.
\<close>

definition opts_ok :: "siri_opts \<Rightarrow> bool" where
  "opts_ok p \<longleftrightarrow> 71 \<le> sint (opt_min p) \<and> 2 * sint (opt_min p) \<le> sint (opt_max p) \<and>
     sint (opt_max p) < sint (opt_query_size p) \<and> int SIRI_BUFFER_SIZE \<le> sint (opt_query_size p) \<and> 0 \<le> sint (opt_delay p) \<and>
     0 \<le> sint (opt_interval p) \<and> 0 \<le> sint (opt_burst_interval p) \<and> 0 \<le> sint (opt_buffer p) \<and> sint (opt_buffer p) < int MAX_ID \<and>
     (sint (opt_buffer p) + 1) * sint (opt_query_size p) < 2 ^ 31"

lemma default_opts_ok: "opts_ok (default_opts rt)"
  by (simp add: opts_ok_def default_opts_def SIRI_BUFFER_SIZE_def MAX_ID_def)

section \<open>The size of a packet\<close>

lemma next_packet:
  assumes "opts_ok p" "sint (opt_min p) \<le> sint r"
  shows "\<exists>n. size_of_next_packet p pick r = Inr n \<and> sint (opt_min p) \<le> sint n \<and> sint n \<le> sint (opt_max p) \<and>
     (n = r \<or> sint n + sint (opt_min p) \<le> sint r) \<and> (n = r \<longleftrightarrow> sint r \<le> sint (opt_max p))"
proof -
  let ?mn = "sint (opt_min p)" and ?mx = "sint (opt_max p)"
  have mn: "71 \<le> ?mn" "2 * ?mn \<le> ?mx" using assms(1) by (simp_all add: opts_ok_def)
  note r = sint_range [of "opt_max p"] sint_range [of r]
  show ?thesis
  proof (cases "sint r \<le> ?mx")
    case True
    then show ?thesis using assms(2) mn by (simp add: size_of_next_packet_def signed_order)
  next
    case False
    define bound where "bound = (if sint r - ?mx < ?mn then ?mx - 2 * ?mn + 1 else ?mx - ?mn + 1)"
    let ?w = "if r - opt_max p <s opt_min p then opt_max p - 2 * opt_min p + 1 else opt_max p - opt_min p + 1"
    have two: "sint (2 * opt_min p) = 2 * ?mn"
      using jint_arith(3) [of 2 "opt_min p"] mn r by simp
    have d: "sint (opt_max p - 2 * opt_min p) = ?mx - 2 * ?mn" "sint (opt_max p - opt_min p) = ?mx - ?mn" "sint (r - opt_max p) = sint r - ?mx"
      using jint_arith(2) [of "opt_max p" "2 * opt_min p"] jint_arith(2) [of "opt_max p" "opt_min p"] jint_arith(2) [of r "opt_max p"]
        two mn r False by linarith+
    have "sint (opt_max p - 2 * opt_min p + 1) = ?mx - 2 * ?mn + 1" "sint (opt_max p - opt_min p + 1) = ?mx - ?mn + 1"
      using jint_arith(1) [of "opt_max p - 2 * opt_min p" 1] jint_arith(1) [of "opt_max p - opt_min p" 1] d mn r by simp_all
    then have w: "sint ?w = bound" by (simp add: bound_def signed_order d)
    have pos: "0 < bound" using mn by (simp add: bound_def)
    define k where "k = int pick mod bound"
    have k: "0 \<le> k" "k < bound" using pos by (simp_all add: k_def)
    have top: "bound \<le> ?mx" using mn by (simp add: bound_def)
    have "size_of_next_packet p pick r = Inr (opt_min p + word_of_int k)"
      using assms(2) False pos w by (auto simp: size_of_next_packet_def signed_order next_int_def k_def)
    moreover have "sint (word_of_int k :: jint) = k" by (rule sint_of_int) (use k top r in linarith)+
    moreover have "sint (opt_min p + word_of_int k) = ?mn + k"
      using jint_arith(1) [of "opt_min p" "word_of_int k"] calculation(2) k mn r by (simp add: bound_def split: if_splits)
    moreover have "?mn + k \<le> ?mx" using k mn by (simp add: bound_def split: if_splits)
    moreover have "?mn + k + ?mn \<le> sint r" using k False mn by (simp add: bound_def split: if_splits)
    ultimately show ?thesis using mn False k(1) by (intro exI [of _ "opt_min p + word_of_int k"]) auto
  qed
qed

section \<open>The packets of a query\<close>

text \<open>Zeros with a newline at the end, of a given length.\<close>

abbreviation zeros :: "nat \<Rightarrow> string" where
  "zeros n \<equiv> replicate n (CHR ''0'')"

definition tail_text :: "int \<Rightarrow> string" where
  "tail_text r = (if r = 0 then [] else zeros (nat r - 1) @ [newline])"

lemma filled_zeros: "filled n (CHR ''0'') = zeros (nat (sint n))"
  by (simp add: filled_def signed_order)

definition packet_sizes :: "siri_opts \<Rightarrow> string list \<Rightarrow> bool" where
  "packet_sizes p ps \<longleftrightarrow> (\<forall>x \<in> set ps. sint (opt_min p) \<le> int (length x) \<and> int (length x) \<le> sint (opt_max p))"

lemma send_rest_ok:
  assumes p: "opts_ok p" and ok: "\<forall>k. turn_writes t k"
  shows "r = 0 \<or> sint (opt_min p) \<le> sint r \<Longrightarrow> \<exists>ps. send_rest p t k r c =
     Some (Inr (), c\<lparr>cl_counter := cl_counter c + r, cl_written := cl_written c @ ps\<rparr>) \<and>
     concat ps = tail_text (sint r) \<and> packet_sizes p ps \<and> (ps = [] \<longleftrightarrow> r = 0)"
proof (induction "nat (sint r)" arbitrary: r k c rule: less_induct)
  case less
  have mn: "71 \<le> sint (opt_min p)" using p by (simp add: opts_ok_def)
  show ?case
  proof (cases "r = 0")
    case True
    then show ?thesis
      by (subst send_rest.simps) (auto simp: tail_text_def packet_sizes_def signed_order intro!: exI [of _ "[]"])
  next
    case False
    then have r: "sint (opt_min p) \<le> sint r" using less.prems by simp
    obtain n where n: "size_of_next_packet p (turn_pick t k) r = Inr n" "sint (opt_min p) \<le> sint n" "sint n \<le> sint (opt_max p)"
      "n = r \<or> sint n + sint (opt_min p) \<le> sint r" using next_packet [OF p r] by blast
    have diff: "sint (r - n) = sint r - sint n"
      using jint_arith(2) [of r n] n(2,4) mn r sint_range [of r] by auto
    let ?x = "if r = n then filled (n - 1) (CHR ''0'') @ [newline] else filled n (CHR ''0'')"
    let ?c = "c\<lparr>cl_counter := cl_counter c + n, cl_written := cl_written c @ [?x]\<rparr>"
    have step: "send_rest p t k r c = send_rest p t (Suc k) (r - n) ?c"
      using r mn n(1) ok by (subst send_rest.simps) (simp add: signed_order)
    have "nat (sint (r - n)) < nat (sint r)" "r - n = 0 \<or> sint (opt_min p) \<le> sint (r - n)"
      using diff n(2,4) mn r by auto
    from less.hyps [OF this, of "Suc k" ?c] obtain ps where
      ps: "send_rest p t (Suc k) (r - n) ?c = Some (Inr (), ?c\<lparr>cl_counter := cl_counter ?c + (r - n), cl_written := cl_written ?c @ ps\<rparr>)"
        "concat ps = tail_text (sint (r - n))" "packet_sizes p ps" by blast
    have pred: "sint (n - 1) = sint n - 1" using jint_arith(2) [of n 1] n(2) mn sint_range [of n] by simp
    have "int (length ?x) = sint n" using n(2) mn pred by (simp add: filled_zeros)
    moreover have "?x @ concat ps = tail_text (sint r)"
    proof (cases "n = r")
      case False
      then have "sint n + sint (opt_min p) \<le> sint r" using n(4) by blast
      then show ?thesis using False n(2) mn
        by (simp add: ps(2) diff tail_text_def filled_zeros flip: replicate_add append_assoc)
    qed (use pred n(2) mn in \<open>simp add: ps(2) diff tail_text_def filled_zeros nat_diff_distrib\<close>)
    ultimately show ?thesis
      using ps(1,3) n(2,3) False by (intro exI [of _ "?x # ps"]) (auto simp: step packet_sizes_def)
  qed
qed

section \<open>A query as a request\<close>

lemma show_digits_length: "0 \<le> n \<Longrightarrow> n < 10 ^ k \<Longrightarrow> 0 < k \<Longrightarrow> length (show_digits n) \<le> k"
proof (induction n arbitrary: k rule: show_digits.induct)
  case (1 n)
  show ?case
  proof (cases "n < 10")
    case True
    then show ?thesis using "1.prems" by (simp add: show_digits.simps [of n])
  next
    case False
    then obtain j where k: "k = Suc j" "0 < j" using "1.prems" by (cases k; cases "k - 1") auto
    have "n div 10 < 10 ^ j" using "1.prems"(2) k(1) by (simp add: div_less_iff_less_mult)
    then have "length (show_digits (n div 10)) \<le> j" using "1.IH" [OF False _ _ k(2)] "1.prems"(1) by simp
    then show ?thesis using False k(1) by (simp add: show_digits.simps [of n])
  qed
qed

lemma show_int_length: "\<bar>i\<bar> < 10 ^ k \<Longrightarrow> 0 < k \<Longrightarrow> length (show_int i) \<le> k + (if i < 0 then 1 else 0)"
  using show_digits_length [of "\<bar>i\<bar>" k] by (auto simp: show_int_def)

definition query_of :: "siri_opts \<Rightarrow> nat \<Rightarrow> int \<Rightarrow> request" where
  "query_of p i t = \<lparr>rq_id = int i, rq_size = sint (opt_query_size p), rq_res = sint (opt_response_size p),
     rq_wait = sint (opt_delay p), rq_time = t, rq_mac = siri_mac, rq_delays = [],
     rq_pad = zeros (nat (sint (opt_query_size p)) - length (start_text p i t) - 1)\<rparr>"

lemma query_text: "rq_text (query_of p i t) =
    start_text p i t @ zeros (nat (sint (opt_query_size p)) - length (start_text p i t) - 1) @ [newline]"
  by (simp add: rq_text_def rq_words_def rq_fields_def query_of_def start_text_def)

text \<open>A reading of the clock in milliseconds, before the year 2286.\<close>

definition clock_ok :: "int \<Rightarrow> bool" where
  "clock_ok t \<longleftrightarrow> 0 \<le> t \<and> t < 10 ^ 13"

lemma start_short:
  assumes "opts_ok p" "i < MAX_ID" "clock_ok t"
  shows "length (start_text p i t) \<le> 71"
proof -
  have "length (show_int (int i)) \<le> 2" using show_int_length [of "int i" 2] assms(2) by (simp add: MAX_ID_def)
  moreover have "length (show_int (sint (opt_query_size p))) \<le> 10"
    using show_int_length [of "sint (opt_query_size p)" 10] sint_range [of "opt_query_size p"] assms(1)
    by (simp add: opts_ok_def SIRI_BUFFER_SIZE_def)
  moreover have "length (show_int (sint (opt_response_size p))) \<le> 11"
  proof -
    have "\<bar>sint (opt_response_size p)\<bar> < 10 ^ 10" using sint_range [of "opt_response_size p"] by (simp add: abs_less_iff)
    from show_int_length [OF this] show ?thesis by (simp split: if_splits)
  qed
  moreover have "length (show_int (sint (opt_delay p))) \<le> 10"
    using show_int_length [of "sint (opt_delay p)" 10] sint_range [of "opt_delay p"] assms(1) by (simp add: opts_ok_def)
  moreover have "length (show_int t) \<le> 13" using show_int_length [of t 13] assms(3) by (simp add: clock_ok_def)
  moreover have "length (show_int 0) = 1" by (simp add: show_int_def show_digits.simps)
  ultimately show ?thesis by (simp add: start_text_def siri_mac_def)
qed

lemma query_ok:
  assumes "opts_ok p" "i < MAX_ID" "clock_ok t"
  shows "rq_ok (query_of p i t)"
proof -
  have short: "length (start_text p i t) \<le> 71" by (rule start_short [OF assms])
  have q: "512 \<le> sint (opt_query_size p)" "0 \<le> sint (opt_delay p)" using assms(1) by (simp_all add: opts_ok_def SIRI_BUFFER_SIZE_def)
  have "length (join ''&'' (take 5 (rq_words (query_of p i t)))) \<le> length (start_text p i t)"
    by (simp add: rq_words_def rq_fields_def query_of_def start_text_def)
  moreover have "rq_size (query_of p i t) = int (length (rq_text (query_of p i t)))"
    using short q(1) by (simp add: query_text) (simp add: query_of_def)
  moreover have "is_ascii (rq_mac (query_of p i t) @ rq_pad (query_of p i t))"
    by (simp add: is_ascii_def query_of_def siri_mac_def)
  ultimately show ?thesis
    using short q(2) by (simp add: rq_ok_def MAX_SECURITY_HEADER_SIZE_def) (simp add: query_of_def siri_mac_def)
qed

section \<open>Sending\<close>

lemma send_message_ok:
  assumes p: "opts_ok p" and c: "cl_open c" "cl_message_id c < MAX_ID" and t: "\<forall>k. turn_writes t k" "clock_ok (turn_now t)"
  shows "\<exists>ps. send_message p t c = Some (Inr (), c\<lparr>cl_sent_time := (cl_sent_time c)[cl_message_id c := turn_now t],
       cl_message_id := (cl_message_id c + 1) mod MAX_ID, cl_written := cl_written c @ ps,
       cl_counter := cl_counter c + opt_query_size p\<rparr>) \<and>
     concat ps = rq_text (query_of p (cl_message_id c) (turn_now t)) \<and> packet_sizes p ps \<and> 2 \<le> length ps"
proof -
  let ?q = "opt_query_size p" and ?start = "start_text p (cl_message_id c) (turn_now t)"
  have mn: "71 \<le> sint (opt_min p)" "2 * sint (opt_min p) \<le> sint (opt_max p)" "sint (opt_max p) < sint ?q"
    using p by (simp_all add: opts_ok_def)
  have short: "length ?start \<le> 71" by (rule start_short [OF p c(2) t(2)])
  then have len: "sint (word_of_nat (length ?start) :: jint) = int (length ?start)" by (intro sint_of_nat) simp
  obtain n where n: "size_of_next_packet p (turn_pick t 0) ?q = Inr n" "sint (opt_min p) \<le> sint n" "sint n \<le> sint (opt_max p)"
    "n = ?q \<or> sint n + sint (opt_min p) \<le> sint ?q" "n \<noteq> ?q" using next_packet [OF p, of ?q "turn_pick t 0"] mn by auto
  have diff: "sint (?q - n) = sint ?q - sint n" "sint (n - word_of_nat (length ?start)) = sint n - int (length ?start)"
    using jint_arith(2) [of ?q n] jint_arith(2) [of n "word_of_nat (length ?start)"] n(2-5) mn short sint_range [of ?q] sint_range [of n]
    by (auto simp: len)
  let ?first = "?start @ filled (n - word_of_nat (length ?start)) (CHR ''0'')"
  let ?c = "c\<lparr>cl_sent_time := (cl_sent_time c)[cl_message_id c := turn_now t], cl_message_id := (cl_message_id c + 1) mod MAX_ID,
      cl_written := cl_written c @ [?first], cl_counter := cl_counter c + n\<rparr>"
  have step: "send_message p t c = send_rest p t 1 (?q - n) ?c"
    using c(1) n(1,2) mn(1) short t(1) by (simp add: send_message_def Let_def signed_order len)
  have rest: "sint (opt_min p) \<le> sint (?q - n)" using n(4,5) diff by auto
  then have "?q - n \<noteq> 0" using mn(1) by (metis signed_0 not_less order_less_le_trans zero_less_numeral)
  then obtain ps where ps: "send_rest p t 1 (?q - n) ?c =
      Some (Inr (), ?c\<lparr>cl_counter := cl_counter ?c + (?q - n), cl_written := cl_written ?c @ ps\<rparr>)"
    "concat ps = tail_text (sint (?q - n))" "packet_sizes p ps" "ps \<noteq> []"
    using send_rest_ok [OF p t(1), of "?q - n" 1 ?c] rest by auto
  have first: "int (length ?first) = sint n" "?first = ?start @ zeros (nat (sint n) - length ?start)"
    using n(2) mn short by (simp_all add: filled_zeros diff nat_diff_distrib)
  have "concat (?first # ps) = rq_text (query_of p (cl_message_id c) (turn_now t))"
    using rest n(2) mn short
    by (simp add: ps(2) first(2) tail_text_def diff query_text flip: replicate_add append_assoc)
       (simp add: nat_diff_distrib flip: replicate_add)
  moreover have "packet_sizes p (?first # ps)" using ps(3) first(1) n(2,3) by (simp add: packet_sizes_def)
  moreover have "2 \<le> length (?first # ps)" using ps(4) by (cases ps) simp_all
  moreover have "send_message p t c = Some (Inr (), c\<lparr>cl_sent_time := (cl_sent_time c)[cl_message_id c := turn_now t],
       cl_message_id := (cl_message_id c + 1) mod MAX_ID, cl_written := cl_written c @ (?first # ps), cl_counter := cl_counter c + ?q\<rparr>)"
    unfolding step ps(1) by simp
  ultimately show ?thesis by blast
qed

text \<open>What a turn of the sending thread does: the run time is over, it sends a query, or it misses one.\<close>

definition sent_query :: "siri_opts \<Rightarrow> siri_turn_input \<Rightarrow> siri_client \<Rightarrow> siri_client \<Rightarrow> bool" where
  "sent_query p t c c' \<longleftrightarrow> (\<exists>ps n. c' = c\<lparr>cl_sent_time := (cl_sent_time c)[cl_message_id c := turn_now t],
       cl_message_id := (cl_message_id c + 1) mod MAX_ID, cl_written := cl_written c @ ps,
       cl_counter := cl_counter c + opt_query_size p, cl_packets := n\<rparr> \<and>
     concat ps = rq_text (query_of p (cl_message_id c) (turn_now t)))"

lemma sender_step_ok:
  assumes p: "opts_ok p" and c: "cl_open c" "cl_message_id c < MAX_ID" and t: "\<forall>k. turn_writes t k" "clock_ok (turn_now t)"
  shows "(\<exists>n. sender_step p t c = Some (stop_client (c\<lparr>cl_packets := n\<rparr>))) \<or>
     (\<exists>n k. sender_step p t c = Some (c\<lparr>cl_packets := n, cl_missed := k\<rparr>)) \<or>
     cl_counter c \<le>s opt_query_size p * opt_buffer p \<and> (\<exists>c'. sender_step p t c = Some c' \<and> sent_query p t c c')"
proof -
  define pause where "pause \<longleftrightarrow> 0 <s opt_burst p \<and> cl_packets c = opt_burst p"
  define n where "n = (if pause then 0 else cl_packets c)"
  let ?d = "c\<lparr>cl_packets := n\<rparr>"
  have sleep: "thread_sleep (if pause then opt_burst_interval p else opt_interval p) = Inr ()"
    using p by (simp add: thread_sleep_def opts_ok_def signed_order)
  have d': "(if pause then c\<lparr>cl_packets := 0\<rparr> else c) = ?d" by (simp add: n_def)
  note turn = sender_turn_def [of p t c, folded pause_def, unfolded sleep Let_def sum.case d']
  consider "sint (opt_run_time p * 1000) \<le> turn_elapsed t"
    | "\<not> sint (opt_run_time p * 1000) \<le> turn_elapsed t" "\<not> cl_counter c \<le>s opt_query_size p * opt_buffer p"
    | "\<not> sint (opt_run_time p * 1000) \<le> turn_elapsed t" "cl_counter c \<le>s opt_query_size p * opt_buffer p" by blast
  then show ?thesis
  proof cases
    case 1
    then have "sender_step p t c = Some (stop_client ?d)" by (simp add: sender_step_def turn)
    then show ?thesis by blast
  next
    case 2
    then have "sender_step p t c = Some (?d\<lparr>cl_missed := cl_missed ?d + 1\<rparr>)" using c(1) by (simp add: sender_step_def turn)
    then show ?thesis by blast
  next
    case 3
    have "cl_open ?d" "cl_message_id ?d < MAX_ID" using c by simp_all
    from send_message_ok [OF p this t] obtain ps where
      ps: "send_message p t ?d = Some (Inr (), ?d\<lparr>cl_sent_time := (cl_sent_time c)[cl_message_id c := turn_now t],
       cl_message_id := (cl_message_id c + 1) mod MAX_ID, cl_written := cl_written c @ ps,
       cl_counter := cl_counter c + opt_query_size p\<rparr>)"
      "concat ps = rq_text (query_of p (cl_message_id c) (turn_now t))" by auto
    show ?thesis
      using 3 c(1) ps by (auto simp: sender_step_def turn sent_query_def)
  qed
qed

text \<open>
  C22. Under \<open>opts_ok\<close>, on an open socket whose writes succeed, \<open>sendMessage\<close> returns without an
  exception, whatever the random numbers: it writes at least two packets, each of a size
  between the minimum and the maximum, that together are one well-formed request of \<open>QUERY_SIZE\<close>
  bytes with its newline at the end; the counter grows by \<open>QUERY_SIZE\<close>, and the send time is kept
  under the identifier of the query, which moves on modulo 100.
\<close>

theorem siri_query_sent:
  assumes p: "opts_ok p" and c: "cl_open c" "cl_message_id c < MAX_ID" "length (cl_sent_time c) = MAX_ID"
    and t: "\<forall>k. turn_writes t k" "clock_ok (turn_now t)"
  shows "\<exists>ps r c'. send_message p t c = Some (Inr (), c') \<and> cl_written c' = cl_written c @ ps \<and> concat ps = rq_text r \<and> rq_ok r \<and>
     rq_id r = int (cl_message_id c) \<and> rq_time r = turn_now t \<and> int (length (rq_text r)) = sint (opt_query_size p) \<and>
     2 \<le> length ps \<and> packet_sizes p ps \<and> cl_counter c' = cl_counter c + opt_query_size p \<and>
     cl_sent_time c' ! cl_message_id c = turn_now t \<and> cl_message_id c' = (cl_message_id c + 1) mod MAX_ID"
proof -
  let ?r = "query_of p (cl_message_id c) (turn_now t)"
  have ok: "rq_ok ?r" by (rule query_ok [OF p c(2) t(2)])
  then have "int (length (rq_text ?r)) = sint (opt_query_size p)" by (simp add: rq_ok_def) (simp add: query_of_def)
  moreover obtain ps where "send_message p t c = Some (Inr (), c\<lparr>cl_sent_time := (cl_sent_time c)[cl_message_id c := turn_now t],
       cl_message_id := (cl_message_id c + 1) mod MAX_ID, cl_written := cl_written c @ ps,
       cl_counter := cl_counter c + opt_query_size p\<rparr>)"
    "concat ps = rq_text ?r" "packet_sizes p ps" "2 \<le> length ps" using send_message_ok [OF p c(1,2) t] by blast
  ultimately show ?thesis using ok c(2,3)
    by (intro exI [of _ ps] exI [of _ ?r] exI, intro conjI) (assumption | simp add: query_of_def)+
qed

end
