(* ===== verification/SiriExchange.thy ===== *)
theory SiriExchange
  imports SiriClientProps "HOL-Library.Sublist"
begin

text \<open>
  One client and its connection of the server: what is on its way in each direction, and the
  clock at each line the client has read.  \<open>recv\<close> returns any non-empty piece of at most
  \<open>BUFFER_SIZE\<close> bytes; \<open>readLine\<close> returns up to a newline.  The exchange lasts until the client
  closes its socket; until then the network takes every write.
\<close>

record siri_chat =
  sx_client :: siri_client
  sx_server :: siri
  sx_serving :: bool
  sx_up :: string
  sx_down :: string
  sx_times :: "int list"

definition siri_chat_start :: siri_chat where
  "siri_chat_start = \<lparr>sx_client = siri_client_start, sx_server = siri_start, sx_serving = True, sx_up = [], sx_down = [],
     sx_times = []\<rparr>"

text \<open>A turn of the server: its replies are what its answers grew by.\<close>

definition siri_server_turn :: "string \<Rightarrow> string \<Rightarrow> siri_chat \<Rightarrow> siri_chat" where
  "siri_server_turn d rest s = (case siri_serve d (sx_server s) of
     None \<Rightarrow> s\<lparr>sx_serving := False, sx_up := rest\<rparr>
   | Some v \<Rightarrow> s\<lparr>sx_server := v, sx_up := rest,
       sx_down := sx_down s @ concat (map snd (drop (length (answers (sx_server s))) (answers v)))\<rparr>)"

inductive siri_chat_step :: "siri_opts \<Rightarrow> siri_chat \<Rightarrow> siri_chat \<Rightarrow> bool" for p where
  client_turn: "cl_open (sx_client s) \<Longrightarrow> cl_sender (sx_client s) \<Longrightarrow> \<forall>k. turn_writes t k \<Longrightarrow> clock_ok (turn_now t) \<Longrightarrow>
    sender_step p t (sx_client s) = Some c \<Longrightarrow>
    siri_chat_step p s (s\<lparr>sx_client := c, sx_up := sx_up s @ concat (drop (length (cl_written (sx_client s))) (cl_written c))\<rparr>)"
| server_takes: "cl_open (sx_client s) \<Longrightarrow> sx_serving s \<Longrightarrow> sx_up s = d @ rest \<Longrightarrow> d \<noteq> [] \<Longrightarrow> length d \<le> SIRI_BUFFER_SIZE \<Longrightarrow>
    siri_chat_step p s (siri_server_turn d rest s)"
| client_takes: "cl_open (sx_client s) \<Longrightarrow> sx_down s = line @ newline # rest \<Longrightarrow> newline \<notin> set line \<Longrightarrow>
    siri_chat_step p s (s\<lparr>sx_client := receive_line p now line (sx_client s), sx_down := rest, sx_times := sx_times s @ [now]\<rparr>)"

definition siri_chat_reachable :: "siri_opts \<Rightarrow> siri_chat \<Rightarrow> bool" where
  "siri_chat_reachable p s \<longleftrightarrow> (siri_chat_step p)\<^sup>*\<^sup>* siri_chat_start s"

section \<open>The server on a part of the stream\<close>

lemma siri_loop_append:
  "siri_loop (ds @ es) s = (Inr Continue, t) \<Longrightarrow> \<exists>u. siri_loop ds s = (Inr Continue, u) \<and> siri_loop es u = (Inr Continue, t)"
  by (induction ds arbitrary: s) (auto simp: py_bind_apply split: prod.splits sum.splits if_splits)

lemma answers_kept: "always (\<lambda>s. prefix xs (answers s)) (siri_recv d)"
proof -
  have number: "always (\<lambda>s. prefix xs (answers s)) (siri_number ws i f)" if "\<And>v s. answers (f v s) = answers s" for ws i f
    unfolding siri_number_def by (intro always_intro) (simp add: that)
  have header: "always (\<lambda>s. prefix xs (answers s)) siri_header"
    unfolding siri_header_def by (intro always_intro number) simp_all
  have answer: "always (\<lambda>s. prefix xs (answers s)) siri_answer"
    unfolding siri_answer_def by (intro always_intro) (auto intro: prefix_prefix)
  show ?thesis
    unfolding siri_recv_def siri_turn_def split_def by (intro always_intro header answer) simp_all
qed

lemma answers_grow: "siri_loop ds s = (r, t) \<Longrightarrow> prefix (answers s) (answers t)"
proof (induction ds arbitrary: s)
  case (Cons d ds)
  have first: "prefix (answers s) (answers (snd (siri_recv d s)))" using alwaysD [OF answers_kept, of "answers s" s d] by simp
  obtain q u where q: "siri_recv d s = (q, u)" by (cases "siri_recv d s") blast
  show ?case
  proof (cases "q = Inr Break \<or> (\<exists>e. q = Inl e)")
    case True
    then show ?thesis using Cons.prems first by (auto simp: py_bind_apply q)
  next
    case False
    then have "siri_loop ds u = (r, t)" using Cons.prems by (cases q) (auto simp: py_bind_apply q)
    then show ?thesis using Cons.IH first q by (auto intro: prefix_order.trans)
  qed
qed simp

text \<open>While a stream of requests arrives the loop goes on, and it has answered the first of them.\<close>

lemma siri_partial_stream:
  assumes "\<forall>r \<in> set rs. rq_ok r \<and> rq_mac r = a \<and> SIRI_BUFFER_SIZE \<le> length (rq_text r)"
    and "\<forall>d \<in> set ds. d \<noteq> [] \<and> length d \<le> SIRI_BUFFER_SIZE" and "concat ds @ u = concat (map rq_text rs)"
  shows "\<exists>t k. siri_loop ds siri_start = (Inr Continue, t) \<and> k \<le> length rs \<and> answers t = map rq_reply (take k rs) \<and>
     (u = [] \<longrightarrow> k = length rs)"
proof -
  have "concat (ds @ map (\<lambda>c. [c]) u) = concat (map rq_text rs)" using assms(3) by simp
  moreover have "\<forall>d \<in> set (ds @ map (\<lambda>c. [c]) u). d \<noteq> [] \<and> length d \<le> SIRI_BUFFER_SIZE"
    using assms(2) by (auto simp: SIRI_BUFFER_SIZE_def)
  ultimately obtain z where z: "siri_loop (ds @ map (\<lambda>c. [c]) u) siri_start = (Inr Continue, z)" "answers z = map rq_reply rs"
    using siri_answers_every_request [OF assms(1)] by blast
  obtain t where t: "siri_loop ds siri_start = (Inr Continue, t)" "siri_loop (map (\<lambda>c. [c]) u) t = (Inr Continue, z)"
    using siri_loop_append [OF z(1)] by blast
  have "prefix (answers t) (map rq_reply rs)" using answers_grow [OF t(2)] z(2) by simp
  then obtain zs where zs: "map rq_reply rs = answers t @ zs" by (auto elim: prefixE)
  have "length (answers t) + length zs = length rs" using arg_cong [OF zs, of length] by simp
  moreover have "answers t = take (length (answers t)) (map rq_reply rs)" by (simp add: zs)
  ultimately have "answers t = map rq_reply (take (length (answers t)) rs)" "length (answers t) \<le> length rs"
    by (simp_all add: take_map)
  then show ?thesis using t z(2)
    by (intro exI [of _ t] exI [of _ "length (answers t)"]) auto
qed

section \<open>The invariant\<close>

text \<open>The queries sent at given times.\<close>

definition queries :: "siri_opts \<Rightarrow> int list \<Rightarrow> request list" where
  "queries p ts = map (\<lambda>(k, t). query_of p (k mod MAX_ID) t) (enumerate 0 ts)"

lemma queries_simps [simp]:
  "queries p [] = []"
  "queries p (ts @ [t]) = queries p ts @ [query_of p (length ts mod MAX_ID) t]"
  "length (queries p ts) = length ts"
  "k < length ts \<Longrightarrow> queries p ts ! k = query_of p (k mod MAX_ID) (ts ! k)"
  by (simp_all add: queries_def enumerate_append_eq nth_enumerate_eq)

lemma queries_ok:
  assumes "opts_ok p" "\<forall>t \<in> set ts. clock_ok t"
  shows "\<forall>r \<in> set (queries p ts). rq_ok r \<and> rq_mac r = siri_mac \<and> SIRI_BUFFER_SIZE \<le> length (rq_text r)"
proof
  fix r assume "r \<in> set (queries p ts)"
  then obtain k where k: "k < length ts" "r = query_of p (k mod MAX_ID) (ts ! k)" by (auto simp: in_set_conv_nth)
  have ok: "rq_ok r" using query_ok [OF assms(1)] assms(2) k by (simp add: MAX_ID_def)
  have "rq_size r = int (length (rq_text r))" using ok by (simp add: rq_ok_def)
  then have "int SIRI_BUFFER_SIZE \<le> int (length (rq_text r))" using assms(1) k(2) by (simp add: query_of_def opts_ok_def)
  then show "rq_ok r \<and> rq_mac r = siri_mac \<and> SIRI_BUFFER_SIZE \<le> length (rq_text r)"
    using ok k(2) by (simp add: query_of_def)
qed

text \<open>The client: sent at \<open>ts\<close>, read at \<open>us\<close>; its counter is the size of what is outstanding.\<close>

definition client_inv :: "siri_opts \<Rightarrow> int list \<Rightarrow> int list \<Rightarrow> siri_client \<Rightarrow> bool" where
  "client_inv p ts us c \<longleftrightarrow> length us \<le> length ts \<and> int (length ts) - int (length us) \<le> sint (opt_buffer p) + 1 \<and>
     sint (cl_counter c) = sint (opt_query_size p) * (int (length ts) - int (length us)) \<and>
     cl_message_id c = length ts mod MAX_ID \<and> length (cl_sent_time c) = MAX_ID \<and>
     (\<forall>k. length us \<le> k \<and> k < length ts \<longrightarrow> cl_sent_time c ! (k mod MAX_ID) = ts ! k) \<and>
     cl_delays c = map2 (-) us (take (length us) ts) \<and> cl_sender c \<and> concat (cl_written c) = concat (map rq_text (queries p ts))"

text \<open>The server has received the pieces \<open>ds\<close>; its replies are on their way or have been read.\<close>

definition wire_inv :: "siri_opts \<Rightarrow> int list \<Rightarrow> string list \<Rightarrow> siri_chat \<Rightarrow> bool" where
  "wire_inv p ts ds s \<longleftrightarrow> (\<forall>t \<in> set ts. clock_ok t) \<and> (\<forall>d \<in> set ds. d \<noteq> [] \<and> length d \<le> SIRI_BUFFER_SIZE) \<and>
     concat ds @ sx_up s = concat (map rq_text (queries p ts)) \<and> siri_loop ds siri_start = (Inr Continue, sx_server s) \<and>
     sx_serving s \<and> length (sx_times s) \<le> length (answers (sx_server s)) \<and>
     sx_down s = concat (map snd (drop (length (sx_times s)) (answers (sx_server s))))"

definition exchange_inv :: "siri_opts \<Rightarrow> int list \<Rightarrow> string list \<Rightarrow> siri_chat \<Rightarrow> bool" where
  "exchange_inv p ts ds s \<longleftrightarrow> client_inv p ts (sx_times s) (sx_client s) \<and> wire_inv p ts ds s"

lemma start_inv: "opts_ok p \<Longrightarrow> exchange_inv p [] [] siri_chat_start"
  by (simp add: exchange_inv_def client_inv_def wire_inv_def siri_chat_start_def siri_client_start_def siri_start_def opts_ok_def)

lemma client_inv_cong:
  "client_inv p ts us (c\<lparr>cl_packets := n, cl_missed := k\<rparr>) = client_inv p ts us c"
  "client_inv p ts us (c\<lparr>cl_packets := n\<rparr>) = client_inv p ts us c"
  "client_inv p ts us (stop_client c) = client_inv p ts us c"
  by (simp_all add: client_inv_def stop_client_def)

lemma wire_inv_client: "wire_inv p ts ds (s\<lparr>sx_client := c\<rparr>) = wire_inv p ts ds s"
  by (simp add: wire_inv_def)

text \<open>A query more: its identifier is not one of those under way.\<close>

lemma query_sent_inv:
  assumes p: "opts_ok p" and inv: "client_inv p ts us c" and room: "cl_counter c \<le>s opt_query_size p * opt_buffer p"
    and sent: "sent_query p t c c'"
  shows "client_inv p (ts @ [turn_now t]) us c'"
proof -
  let ?q = "sint (opt_query_size p)" and ?b = "sint (opt_buffer p)" and ?o = "int (length ts) - int (length us)"
  have q: "512 \<le> ?q" "0 \<le> ?b" "?b < 100" "(?b + 1) * ?q < 2 ^ 31"
    using p by (simp_all add: opts_ok_def SIRI_BUFFER_SIZE_def MAX_ID_def)
  have c: "length us \<le> length ts" "sint (cl_counter c) = ?q * ?o" using inv by (simp_all add: client_inv_def)
  have "?q * ?b \<le> (?b + 1) * ?q" using q by (simp add: algebra_simps)
  moreover have "0 \<le> ?q * ?b" using q(1,2) by simp
  ultimately have "sint (opt_query_size p * opt_buffer p) = ?q * ?b" using q(4) by (intro jint_arith(3)) linarith+
  then have "?q * ?o \<le> ?q * ?b" using room c(2) by (simp add: signed_order)
  then have o: "?o \<le> ?b" using q(1) by simp
  then have "?q * (?o + 1) \<le> ?q * (?b + 1)" using q(1) by simp
  then have top: "?q * ?o + ?q < 2 ^ 31" using q(4) by (simp add: algebra_simps)
  have bot: "0 \<le> ?q * ?o" using q(1) c(1) by simp
  have "sint (cl_counter c + opt_query_size p) = sint (cl_counter c) + ?q"
    using top bot q(1) by (intro jint_arith(1)) (unfold c(2), linarith+)
  then have counter: "sint (cl_counter c + opt_query_size p) = ?q * (?o + 1)" by (simp add: c(2) distrib_left)
  have other: "k mod MAX_ID \<noteq> length ts mod MAX_ID" if "length us \<le> k" "k < length ts" for k
  proof
    assume "k mod MAX_ID = length ts mod MAX_ID"
    then have "MAX_ID dvd length ts - k" using that(2) mod_eq_dvd_iff_nat [of k "length ts" MAX_ID] by simp
    moreover have "0 < length ts - k" "length ts - k < MAX_ID" using that o q(3) by (auto simp: MAX_ID_def)
    ultimately show False using nat_dvd_not_less by blast
  qed
  have len: "length (cl_sent_time c) = MAX_ID" and i: "cl_message_id c = length ts mod MAX_ID" using inv by (simp_all add: client_inv_def)
  have room': "length ts mod MAX_ID < MAX_ID" by (simp add: MAX_ID_def)
  have times: "(cl_sent_time c)[length ts mod MAX_ID := turn_now t] ! (k mod MAX_ID) = (ts @ [turn_now t]) ! k"
    if "length us \<le> k" "k < Suc (length ts)" for k
    using that other [of k] inv room' len by (cases "k = length ts") (auto simp: client_inv_def nth_append nth_list_update)
  obtain ps n where c': "c' = c\<lparr>cl_sent_time := (cl_sent_time c)[cl_message_id c := turn_now t],
       cl_message_id := (cl_message_id c + 1) mod MAX_ID, cl_written := cl_written c @ ps,
       cl_counter := cl_counter c + opt_query_size p, cl_packets := n\<rparr>"
    "concat ps = rq_text (query_of p (cl_message_id c) (turn_now t))" using sent by (auto simp: sent_query_def)
  have "take (length us) (ts @ [turn_now t]) = take (length us) ts" using c(1) by simp
  then show ?thesis
    using inv o counter times by (simp add: client_inv_def c' i) (simp add: mod_Suc_eq algebra_simps)
qed

section \<open>Every step keeps it\<close>

lemma served_more:
  assumes p: "opts_ok p" and inv: "wire_inv p ts ds s" and up: "sx_up s = d @ rest" "d \<noteq> []" "length d \<le> SIRI_BUFFER_SIZE"
  shows "\<exists>v. siri_serve d (sx_server s) = Some v \<and> siri_loop (ds @ [d]) siri_start = (Inr Continue, v) \<and>
     prefix (answers (sx_server s)) (answers v)"
proof -
  have pieces: "concat (ds @ [d]) @ rest = concat (map rq_text (queries p ts))"
    "\<forall>d \<in> set (ds @ [d]). d \<noteq> [] \<and> length d \<le> SIRI_BUFFER_SIZE" and clocks: "\<forall>t \<in> set ts. clock_ok t"
    using inv up by (auto simp: wire_inv_def)
  obtain v where v: "siri_loop (ds @ [d]) siri_start = (Inr Continue, v)"
    using siri_partial_stream [OF queries_ok [OF p clocks] pieces(2,1)] by blast
  moreover from siri_loop_append [OF v] have one: "siri_loop [d] (sx_server s) = (Inr Continue, v)"
    using inv by (auto simp: wire_inv_def)
  moreover from one have "siri_serve d (sx_server s) = Some v"
    by (auto simp: siri_serve_def py_bind_apply split: prod.splits sum.splits if_splits flow.splits)
  ultimately show ?thesis using answers_grow [OF one] by blast
qed

lemma server_takes_inv:
  assumes p: "opts_ok p" and inv: "exchange_inv p ts ds s"
    and up: "sx_up s = d @ rest" "d \<noteq> []" "length d \<le> SIRI_BUFFER_SIZE"
  shows "exchange_inv p ts (ds @ [d]) (siri_server_turn d rest s)"
proof -
  have wire: "wire_inv p ts ds s" using inv by (simp add: exchange_inv_def)
  obtain v new where v: "siri_serve d (sx_server s) = Some v" "siri_loop (ds @ [d]) siri_start = (Inr Continue, v)"
    "answers v = answers (sx_server s) @ new"
    using served_more [OF p wire up] by (auto elim: prefixE)
  then show ?thesis
    using inv up by (simp add: siri_server_turn_def exchange_inv_def wire_inv_def)
qed

text \<open>The next line is the reply to the oldest query under way.\<close>

lemma next_line:
  assumes p: "opts_ok p" and inv: "exchange_inv p ts ds s" and down: "sx_down s = line @ newline # rest" "newline \<notin> set line"
  defines "b \<equiv> length (sx_times s)"
  shows "b < length ts \<and> b < length (answers (sx_server s)) \<and> takeWhile (\<lambda>x. x \<noteq> CHR ''&'') line = show_int (int (b mod MAX_ID)) \<and>
     rest = concat (map snd (drop (Suc b) (answers (sx_server s))))"
proof -
  let ?as = "answers (sx_server s)"
  have wire: "wire_inv p ts ds s" using inv by (simp add: exchange_inv_def)
  obtain k where k: "k \<le> length (queries p ts)" "?as = map rq_reply (take k (queries p ts))"
    using siri_partial_stream [OF queries_ok [OF p], of ts ds "sx_up s"] wire unfolding wire_inv_def by auto
  have len: "length ?as = k" using k by simp
  have "concat (map snd (drop b ?as)) = line @ newline # rest" using wire down(1) by (simp add: wire_inv_def b_def)
  then have b: "b < k" using len by (cases "b < k") auto
  then have bt: "b < length ts" using k(1) by simp
  have first: "drop b ?as = ?as ! b # drop (Suc b) ?as" using b len by (simp add: Cons_nth_drop_Suc)
  have "snd (?as ! b) = siri_response (int (b mod MAX_ID)) (sint (opt_response_size p))"
    using b bt k(1) by (simp add: k(2) rq_reply_def) (simp add: query_of_def)
  then obtain n where reply: "snd (?as ! b) = (show_int (int (b mod MAX_ID)) @ CHR ''&'' # zeros n) @ [newline]"
    by (simp add: siri_response_def)
  have digits: "is_digit c \<or> c = CHR ''-''" if "c \<in> set (show_int i)" for c i using that by (rule show_int_chars)
  have no: "newline \<notin> set (show_int i)" "CHR ''&'' \<notin> set (show_int i)" for i
    using digits [of newline i] digits [of "CHR ''&''" i] is_digit_not_special(7,8) by auto
  have "(show_int (int (b mod MAX_ID)) @ CHR ''&'' # zeros n) @ newline # concat (map snd (drop (Suc b) ?as)) = line @ newline # rest"
    using wire down(1) first reply by (simp add: wire_inv_def b_def)
  then have "line = show_int (int (b mod MAX_ID)) @ CHR ''&'' # zeros n \<and> rest = concat (map snd (drop (Suc b) ?as))"
    using first_sep_unique [of newline "show_int (int (b mod MAX_ID)) @ CHR ''&'' # zeros n" line] no down(2) by auto
  then show ?thesis using b bt len no(2) by (auto simp: takeWhile_append)
qed

lemma client_takes_inv:
  assumes p: "opts_ok p" and inv: "exchange_inv p ts ds s" and down: "sx_down s = line @ newline # rest" "newline \<notin> set line"
  shows "exchange_inv p ts ds (s\<lparr>sx_client := receive_line p now line (sx_client s), sx_down := rest, sx_times := sx_times s @ [now]\<rparr>) \<and>
     cl_open (receive_line p now line (sx_client s)) = cl_open (sx_client s)"
proof -
  let ?c = "sx_client s" and ?us = "sx_times s" and ?q = "sint (opt_query_size p)"
  let ?b = "length ?us"
  note line = next_line [OF p inv down]
  have c: "client_inv p ts ?us ?c" using inv by (simp add: exchange_inv_def)
  have i: "?b mod MAX_ID < MAX_ID" by (simp add: MAX_ID_def)
  have id: "sint (word_of_nat (?b mod MAX_ID) :: jint) = int (?b mod MAX_ID)"
    by (rule sint_of_nat) (use i in \<open>simp add: MAX_ID_def\<close>)
  let ?c' = "?c\<lparr>cl_delays := cl_delays ?c @ [now - ts ! ?b], cl_counter := cl_counter ?c - opt_query_size p\<rparr>"
  have "cl_sent_time ?c ! (?b mod MAX_ID) = ts ! ?b" "length (cl_sent_time ?c) = MAX_ID"
    using c line by (simp_all add: client_inv_def)
  then have receive: "receive_line p now line ?c = ?c'"
    using line i by (simp add: receive_line_def parse_jint_nat [of "?b mod MAX_ID", simplified] id del: of_nat_mod)
  have q: "512 \<le> ?q" using p by (simp add: opts_ok_def SIRI_BUFFER_SIZE_def)
  let ?o = "int (length ts) - int ?b"
  have "sint (cl_counter ?c) = ?q * ?o" "1 \<le> ?o" using c line by (auto simp: client_inv_def)
  moreover have "?q * 1 \<le> ?q * ?o" using q calculation(2) by (intro mult_left_mono) auto
  ultimately have counter: "sint (cl_counter ?c - opt_query_size p) = ?q * (?o - 1)"
    using jint_arith(2) [of "cl_counter ?c" "opt_query_size p"] sint_range [of "cl_counter ?c"] q by (simp add: algebra_simps)
  have "take (Suc ?b) ts = take ?b ts @ [ts ! ?b]" using line by (simp add: take_Suc_conv_app_nth)
  then have "map2 (-) (?us @ [now]) (take (Suc ?b) ts) = map2 (-) ?us (take ?b ts) @ [now - ts ! ?b]"
    using line by simp
  then have "client_inv p ts (?us @ [now]) ?c'"
    using c line counter by (auto simp: client_inv_def)
  moreover have "wire_inv p ts ds (s\<lparr>sx_client := ?c', sx_down := rest, sx_times := ?us @ [now]\<rparr>)"
    using inv line by (simp add: exchange_inv_def wire_inv_def)
  ultimately show ?thesis by (simp add: receive exchange_inv_def)
qed

text \<open>A turn of the sending thread: the network carries what it wrote.\<close>

lemma client_turn_inv:
  assumes p: "opts_ok p" and inv: "exchange_inv p ts ds s" and c: "cl_open (sx_client s)"
    and t: "\<forall>k. turn_writes t k" "clock_ok (turn_now t)" and step: "sender_step p t (sx_client s) = Some c"
  defines "s' \<equiv> s\<lparr>sx_client := c, sx_up := sx_up s @ concat (drop (length (cl_written (sx_client s))) (cl_written c))\<rparr>"
  shows "exchange_inv p ts ds s' \<or> exchange_inv p (ts @ [turn_now t]) ds s'"
proof -
  let ?c = "sx_client s"
  have ci: "client_inv p ts (sx_times s) ?c" and wi: "wire_inv p ts ds s" using inv by (simp_all add: exchange_inv_def)
  have id: "cl_message_id ?c = length ts mod MAX_ID" "cl_message_id ?c < MAX_ID" using ci by (simp_all add: client_inv_def MAX_ID_def)
  consider n where "c = stop_client (?c\<lparr>cl_packets := n\<rparr>)" | n k where "c = ?c\<lparr>cl_packets := n, cl_missed := k\<rparr>"
    | "cl_counter ?c \<le>s opt_query_size p * opt_buffer p" "sent_query p t ?c c"
    using sender_step_ok [OF p c id(2) t] step by auto
  then show ?thesis
  proof cases
    case 3
    obtain ps where ps: "cl_written c = cl_written ?c @ ps" "concat ps = rq_text (query_of p (cl_message_id ?c) (turn_now t))"
      using 3(2) by (auto simp: sent_query_def)
    have "wire_inv p (ts @ [turn_now t]) ds s'"
      using wi t(2) by (auto simp: wire_inv_def s'_def ps id(1) simp flip: append_assoc)
    then show ?thesis using query_sent_inv [OF p ci 3] by (simp add: exchange_inv_def s'_def)
  qed (use inv in \<open>simp_all add: exchange_inv_def s'_def client_inv_cong wire_inv_client, simp_all add: stop_client_def wire_inv_client\<close>)
qed

lemma step_inv:
  assumes p: "opts_ok p" and inv: "exchange_inv p ts ds s" and step: "siri_chat_step p s s'"
  shows "\<exists>ts ds. exchange_inv p ts ds s'"
  using step
proof cases
  case (client_turn t c)
  then show ?thesis using client_turn_inv [OF p inv client_turn(2,4-6)] by blast
next
  case (server_takes d rest)
  then show ?thesis using server_takes_inv [OF p inv] by blast
next
  case (client_takes line rest now)
  then show ?thesis using client_takes_inv [OF p inv] by blast
qed

lemma reachable_inv:
  assumes p: "opts_ok p" and reach: "siri_chat_reachable p s"
  shows "\<exists>ts ds. exchange_inv p ts ds s"
  using reach unfolding siri_chat_reachable_def
proof induction
  case base
  show ?case using start_inv [OF p] by blast
next
  case (step s s')
  then show ?case using step_inv [OF p] by blast
qed

section \<open>What is on its way arrives\<close>

lemma delivery:
  assumes p: "opts_ok p" and inv: "exchange_inv p ts ds s" and c: "cl_open (sx_client s)" and way: "sx_up s \<noteq> [] \<or> sx_down s \<noteq> []"
  shows "\<exists>s' ds'. siri_chat_step p s s' \<and> exchange_inv p ts ds' s' \<and> cl_open (sx_client s') \<and>
     length (sx_up s') + (length ts - length (sx_times s')) < length (sx_up s) + (length ts - length (sx_times s))"
proof (cases "sx_up s")
  case (Cons x xs)
  have up: "sx_up s = [x] @ xs" "[x] \<noteq> []" "length [x] \<le> SIRI_BUFFER_SIZE" using Cons by (simp_all add: SIRI_BUFFER_SIZE_def)
  have wire: "wire_inv p ts ds s" using inv by (simp add: exchange_inv_def)
  have "siri_chat_step p s (siri_server_turn [x] xs s)" using server_takes [OF c _ up] wire by (simp add: wire_inv_def)
  moreover obtain v where "siri_serve [x] (sx_server s) = Some v" using served_more [OF p wire up] by blast
  ultimately show ?thesis using server_takes_inv [OF p inv up] c Cons
    by (intro exI [of _ "siri_server_turn [x] xs s"] exI [of _ "ds @ [[x]]"]) (simp add: siri_server_turn_def)
next
  case Nil
  have wire: "wire_inv p ts ds s" using inv by (simp add: exchange_inv_def)
  obtain k where k: "answers (sx_server s) = map rq_reply (take k (queries p ts))"
    using siri_partial_stream [OF queries_ok [OF p], of ts ds "sx_up s"] wire unfolding wire_inv_def by auto
  have ends: "newline \<in> set (snd a)" if "a \<in> set (answers (sx_server s))" for a
    using that by (auto simp: k rq_reply_def siri_response_def)
  obtain a where a: "a \<in> set (drop (length (sx_times s)) (answers (sx_server s)))"
    using way Nil wire by (cases "drop (length (sx_times s)) (answers (sx_server s))") (auto simp: wire_inv_def)
  have "newline \<in> set (snd a)" using ends [OF in_set_dropD [OF a]] .
  then have "newline \<in> set (sx_down s)" using wire a by (auto simp: wire_inv_def)
  then obtain line rest where down: "sx_down s = line @ newline # rest" "newline \<notin> set line" by (meson split_list_first)
  let ?s' = "s\<lparr>sx_client := receive_line p 0 line (sx_client s), sx_down := rest, sx_times := sx_times s @ [0]\<rparr>"
  have "siri_chat_step p s ?s'" by (rule client_takes [OF c down])
  moreover have "exchange_inv p ts ds ?s'" "cl_open (sx_client ?s')" using client_takes_inv [OF p inv down, of 0] c by simp_all
  moreover have "length (sx_times s) < length ts" using next_line [OF p inv down] by simp
  then have "length ts - length (sx_times ?s') < length ts - length (sx_times s)" by simp
  then have "length (sx_up ?s') + (length ts - length (sx_times ?s')) < length (sx_up s) + (length ts - length (sx_times s))" by simp
  ultimately show ?thesis by blast
qed

lemma deliveries:
  assumes "opts_ok p" "exchange_inv p ts ds s" "cl_open (sx_client s)"
  shows "\<exists>s' ds'. (siri_chat_step p)\<^sup>*\<^sup>* s s' \<and> exchange_inv p ts ds' s' \<and> sx_up s' = [] \<and> sx_down s' = []"
  using assms(2,3)
proof (induction "length (sx_up s) + (length ts - length (sx_times s))" arbitrary: s ds rule: less_induct)
  case less
  show ?case
  proof (cases "sx_up s = [] \<and> sx_down s = []")
    case False
    then obtain s1 ds1 where s1: "siri_chat_step p s s1" "exchange_inv p ts ds1 s1" "cl_open (sx_client s1)"
      "length (sx_up s1) + (length ts - length (sx_times s1)) < length (sx_up s) + (length ts - length (sx_times s))"
      using delivery [OF assms(1) less.prems] by blast
    from less.hyps [OF s1(4,2,3)] s1(1) show ?thesis by (meson converse_rtranclp_into_rtranclp)
  qed (use less.prems in blast)
qed

text \<open>With nothing on its way every query has been answered and its reply read.\<close>

lemma quiet:
  assumes p: "opts_ok p" and inv: "exchange_inv p ts ds s" and "sx_up s = []" "sx_down s = []"
  shows "length (sx_times s) = length ts \<and> answers (sx_server s) = map rq_reply (queries p ts)"
proof -
  have wire: "wire_inv p ts ds s" using inv by (simp add: exchange_inv_def)
  have clocks: "\<forall>t \<in> set ts. clock_ok t" and pieces: "\<forall>d \<in> set ds. d \<noteq> [] \<and> length d \<le> SIRI_BUFFER_SIZE"
    "concat ds @ [] = concat (map rq_text (queries p ts))" using wire assms(3) by (simp_all add: wire_inv_def)
  obtain t where "siri_loop ds siri_start = (Inr Continue, t)" "answers t = map rq_reply (queries p ts)"
    using siri_partial_stream [OF queries_ok [OF p clocks] pieces] by auto
  then have all: "answers (sx_server s) = map rq_reply (queries p ts)" using wire by (simp add: wire_inv_def)
  have "drop (length (sx_times s)) (answers (sx_server s)) = []"
  proof (rule ccontr)
    assume "drop (length (sx_times s)) (answers (sx_server s)) \<noteq> []"
    then obtain a as where a: "drop (length (sx_times s)) (answers (sx_server s)) = a # as" by (cases "drop (length (sx_times s)) (answers (sx_server s))") auto
    then have "a \<in> set (map rq_reply (queries p ts))" using all by (metis in_set_dropD list.set_intros(1))
    then have "snd a \<noteq> []" by (auto simp: rq_reply_def siri_response_def)
    then show False using wire assms(4) a by (simp add: wire_inv_def)
  qed
  then have "length ts \<le> length (sx_times s)" by (simp add: all)
  moreover have "length (sx_times s) \<le> length ts" using inv by (simp add: exchange_inv_def client_inv_def)
  ultimately show ?thesis using all by simp
qed

lemma queries_length:
  assumes "opts_ok p" "\<forall>t \<in> set ts. clock_ok t"
  shows "int (length (concat (map rq_text (queries p ts)))) = sint (opt_query_size p) * int (length ts)"
proof -
  have "int (length (rq_text r)) = sint (opt_query_size p)" if "r \<in> set (queries p ts)" for r
    using queries_ok [OF assms] that by (auto simp: rq_ok_def queries_def query_of_def)
  then have "int (length (concat (map rq_text rs))) = sint (opt_query_size p) * int (length rs)" if "set rs \<subseteq> set (queries p ts)" for rs
    using that by (induction rs) (simp_all add: distrib_left)
  from this [of "queries p ts"] show ?thesis by simp
qed

section \<open>The exchange\<close>


text \<open>
  C9. From every such state with the socket open, deliveries alone lead to one where nothing is on its
  way, every query has its delay, and the counter is back at 0.
\<close>

theorem siri_exchange_completes:
  assumes p: "opts_ok p" and reach: "siri_chat_reachable p s" and c: "cl_open (sx_client s)"
  shows "\<exists>s'. (siri_chat_step p)\<^sup>*\<^sup>* s s' \<and> sx_up s' = [] \<and> sx_down s' = [] \<and>
     concat (cl_written (sx_client s')) = concat (cl_written (sx_client s)) \<and>
     int (length (concat (cl_written (sx_client s)))) = sint (opt_query_size p) * int (length (cl_delays (sx_client s'))) \<and>
     cl_counter (sx_client s') = 0"
proof -
  obtain ts ds where inv: "exchange_inv p ts ds s" using reachable_inv [OF p reach] by blast
  obtain s' ds' where s': "(siri_chat_step p)\<^sup>*\<^sup>* s s'" "exchange_inv p ts ds' s'" "sx_up s' = []" "sx_down s' = []"
    using deliveries [OF p inv c] by blast
  have all: "length (sx_times s') = length ts" using quiet [OF p s'(2-4)] by simp
  have w: "concat (cl_written (sx_client s)) = concat (map rq_text (queries p ts))"
    "concat (cl_written (sx_client s')) = concat (map rq_text (queries p ts))" "\<forall>t \<in> set ts. clock_ok t"
    using inv s'(2) by (simp_all add: exchange_inv_def client_inv_def wire_inv_def)
  have "sint (cl_counter (sx_client s')) = sint 0" "length (cl_delays (sx_client s')) = length ts"
    using s'(2) all by (simp_all add: exchange_inv_def client_inv_def)
  then show ?thesis
    using s' w queries_length [OF p w(3)] by (intro exI [of _ s']) (simp add: signed_word_eqI)
qed

end
