(* ===== verification/SiriCommand.thy ===== *)
theory SiriCommand
  imports SiriClientProps ExpMore
begin

text \<open>The command line that the Siri experiments start the client with, as the client reads it.\<close>

text \<open>The parameters, in the order of the attributes that hold them, and the options they are.\<close>

definition siri_keys :: "string list" where
  "siri_keys = [''siriRunTime'', ''siriQuerySize'', ''siriResponseSize'', ''siriDelayQueryResponse'', ''siriMinPayloadSize'',
     ''siriMaxPayloadSize'', ''siriIntervalTimeMs'', ''siriBufferSize'', ''siriBurstSize'', ''siriIntervalBurstTimeMs'']"

definition opts_from :: "(string \<Rightarrow> int) \<Rightarrow> siri_opts" where
  "opts_from v = \<lparr>opt_run_time = word_of_int (v ''siriRunTime''), opt_query_size = word_of_int (v ''siriQuerySize''),
     opt_response_size = word_of_int (v ''siriResponseSize''), opt_delay = word_of_int (v ''siriDelayQueryResponse''),
     opt_min = word_of_int (v ''siriMinPayloadSize''), opt_max = word_of_int (v ''siriMaxPayloadSize''),
     opt_interval = word_of_int (v ''siriIntervalTimeMs''), opt_buffer = word_of_int (v ''siriBufferSize''),
     opt_burst = word_of_int (v ''siriBurstSize''), opt_burst_interval = word_of_int (v ''siriIntervalBurstTimeMs'')\<rparr>"

definition int_values :: "params \<Rightarrow> (string \<Rightarrow> int) \<Rightarrow> bool" where
  "int_values p v \<longleftrightarrow> (\<forall>k \<in> set siri_keys. get_param p k = Inr (PStr (show_int (v k))) \<and> - (2 ^ 31) \<le> v k \<and> v k < 2 ^ 31)"

text \<open>The defaults of \<open>siri.py\<close> are those of the short form of the command line.\<close>

lemma default_opts_from:
  assumes "\<forall>(k, t) \<in> set SIRI_DEFAULTS. t = PStr (show_int (v k))"
  shows "opts_from v = default_opts (word_of_int (v ''siriRunTime''))"
proof -
  have shown: "show_int 2500 = ''2500''" "show_int 750 = ''750''" "show_int 0 = ''0''" "show_int 85 = ''85''" "show_int 500 = ''500''"
    "show_int 333 = ''333''" "show_int 9 = ''9''" by code_simp+
  then have "''2500'' = show_int i \<longleftrightarrow> 2500 = i" "''750'' = show_int i \<longleftrightarrow> 750 = i" "''0'' = show_int i \<longleftrightarrow> 0 = i" "''85'' = show_int i \<longleftrightarrow> 85 = i"
    "''500'' = show_int i \<longleftrightarrow> 500 = i" "''333'' = show_int i \<longleftrightarrow> 333 = i" "''9'' = show_int i \<longleftrightarrow> 9 = i" for i
    by (metis show_int_inject)+
  then have "v ''siriQuerySize'' = 2500" "v ''siriResponseSize'' = 750" "v ''siriDelayQueryResponse'' = 0" "v ''siriMinPayloadSize'' = 85"
    "v ''siriMaxPayloadSize'' = 500" "v ''siriIntervalTimeMs'' = 333" "v ''siriBufferSize'' = 9" "v ''siriBurstSize'' = 0"
    "v ''siriIntervalBurstTimeMs'' = 0"
    using assms by (simp_all add: SIRI_DEFAULTS_def)
  then show ?thesis by (simp add: opts_from_def default_opts_def)
qed

definition client_words :: "string \<Rightarrow> (string \<Rightarrow> int) \<Rightarrow> string list" where
  "client_words ip v = ip # ''8080'' # map (\<lambda>k. show_int (v k)) siri_keys"

lemma client_words_read:
  assumes "int_values p v"
  shows "siri_main (client_words ip v) = Inr (ip, 8080, opts_from v)"
proof -
  have port: "parse_jint ''8080'' = Some 8080" by code_simp
  have "parse_jint (show_int (v k)) = Some (word_of_int (v k))" if "k \<in> set siri_keys" for k
    using assms that parse_jint_int [of "v k"] by (simp add: int_values_def)
  then show ?thesis by (simp add: siri_main_def client_words_def siri_keys_def port opts_from_def)
qed

lemma client_command:
  fixes s :: "'a xp_scheme"
  assumes "int_values (experiment_parameter s) v" "get_server_ip (param s) 0 = Inr ip"
  shows "\<exists>t. py_bind siri_load (\<lambda>_. siri_client_cmd h) s = (Inr (''java -jar '' @ here h @ ''/../utils/siriClient.jar '' @
     join '' '' (client_words ip v) @ '' > siri_client.log 2> siri_client.err''), t)"
proof -
  have get: "get_param (experiment_parameter s) k = Inr (PStr (show_int (v k)))" if "k \<in> set siri_keys" for k
    using assms(1) that by (simp add: int_values_def)
  show ?thesis
    by (simp add: siri_load_def siri_client_cmd_def load_attr_def xp_get_def fmt_attr_def xp_attr_def py_attr_def server_ip_def
        py_bind_apply get siri_keys_def assms(2) client_words_def)
qed

text \<open>
  C24. \<open>load_parameters\<close> and \<open>get_siri_client_cmd\<close> of \<open>siri.py\<close>, on integer parameters that fit an
  \<open>int\<close>, give a command whose words, none of which the shell would split, the Java client reads as
  the address of the server, its port and the same ten values, each under its own option; with the
  defaults of \<open>siri.py\<close> they are options for which \<open>opts_ok\<close> holds.
\<close>

theorem siri_client_gets_parameters:
  fixes s :: "'a xp_scheme"
  assumes v: "int_values (experiment_parameter s) v" and ip: "get_server_ip (param s) 0 = Inr ip" "CHR '' '' \<notin> set ip"
  shows "\<exists>ws t. py_bind siri_load (\<lambda>_. siri_client_cmd h) s = (Inr (''java -jar '' @ here h @ ''/../utils/siriClient.jar '' @
       join '' '' ws @ '' > siri_client.log 2> siri_client.err''), t) \<and>
     (\<forall>w \<in> set ws. CHR '' '' \<notin> set w) \<and> siri_main ws = Inr (ip, 8080, opts_from v) \<and>
     ((\<forall>(k, t) \<in> set SIRI_DEFAULTS. t = PStr (show_int (v k))) \<longrightarrow> opts_ok (opts_from v))"
proof -
  have "\<forall>w \<in> set (client_words ip v). CHR '' '' \<notin> set w"
    using ip(2) show_int_no_space [of "CHR '' ''"] by (auto simp: client_words_def is_space_def)
  moreover obtain t where "py_bind siri_load (\<lambda>_. siri_client_cmd h) s = (Inr (''java -jar '' @ here h @ ''/../utils/siriClient.jar '' @
     join '' '' (client_words ip v) @ '' > siri_client.log 2> siri_client.err''), t)"
    using client_command [OF v ip(1)] by blast
  ultimately show ?thesis
    using client_words_read [OF v] default_opts_from [of v] default_opts_ok by (intro exI [of _ "client_words ip v"]) auto
qed

end
