(* ===== verification/MsgCommand.thy ===== *)
theory MsgCommand
  imports MsgProps ExpMore ArgParse
begin

text \<open>
  The command lines of \<open>utils/msg_server.py\<close> and \<open>utils/msg_client.py\<close>, and what the message
  experiments write there.
\<close>

datatype msg_flag = SleepFlag | BytesFlag | NbFlag | BulkFlag

definition server_flag :: "string \<Rightarrow> msg_flag option" where
  "server_flag = map_of [(''-s'', SleepFlag), (''--sleep'', SleepFlag), (''-b'', BytesFlag), (''--bytes'', BytesFlag)]"

definition client_flag :: "string \<Rightarrow> msg_flag option" where
  "client_flag = map_of [(''-s'', SleepFlag), (''--sleep'', SleepFlag), (''-n'', NbFlag), (''--nb'', NbFlag),
     (''-B'', BulkFlag), (''--bulk'', BulkFlag), (''-b'', BytesFlag), (''--bytes'', BytesFlag)]"

definition set_flag :: "msg_flag \<Rightarrow> string option \<Rightarrow> msg_args \<Rightarrow> msg_args option" where
  "set_flag f w a = (case (f, w) of
     (SleepFlag, Some v) \<Rightarrow> (case float_of_str v of Inl _ \<Rightarrow> None | Inr x \<Rightarrow> Some (a\<lparr>msg_sleep := x\<rparr>))
   | (BytesFlag, Some v) \<Rightarrow> (case parse_int v of Inl _ \<Rightarrow> None | Inr n \<Rightarrow> Some (a\<lparr>msg_bytes := n\<rparr>))
   | (NbFlag, Some v) \<Rightarrow> (case parse_int v of Inl _ \<Rightarrow> None | Inr n \<Rightarrow> Some (a\<lparr>msg_nb := n\<rparr>))
   | (BulkFlag, None) \<Rightarrow> Some (a\<lparr>msg_bulk := True\<rparr>)
   | _ \<Rightarrow> None)"

text \<open>\<open>store_true\<close> takes no value.\<close>

definition valued_flag :: "msg_flag \<Rightarrow> bool" where
  "valued_flag f \<longleftrightarrow> f \<noteq> BulkFlag"

definition msg_defaults :: msg_args where
  "msg_defaults = \<lparr>msg_sleep = Fin 5, msg_bytes = 1200, msg_nb = 5, msg_bulk = False\<rparr>"

definition msg_server_args :: "string list \<Rightarrow> msg_args option" where
  "msg_server_args ws = parse_args server_flag set_flag valued_flag ws msg_defaults"

definition msg_client_args :: "string list \<Rightarrow> msg_args option" where
  "msg_client_args ws = parse_args client_flag set_flag valued_flag ws msg_defaults"

section \<open>What the experiments write\<close>

definition sleep_text :: "string \<Rightarrow> bool" where
  "sleep_text t \<longleftrightarrow> option_value t \<and> CHR '' '' \<notin> set t \<and> (\<exists>q. float_of_str t = Inr (Fin q) \<and> 0 \<le> q)"

lemma set_flags:
  "float_of_str t = Inr x \<Longrightarrow> set_flag SleepFlag (Some t) a = Some (a\<lparr>msg_sleep := x\<rparr>)"
  "set_flag BytesFlag (Some (show_int n)) a = Some (a\<lparr>msg_bytes := n\<rparr>)"
  "set_flag NbFlag (Some (show_int n)) a = Some (a\<lparr>msg_nb := n\<rparr>)"
  by (simp_all add: set_flag_def)

text \<open>
  C23. When the four message parameters are two times to wait, a positive number of bytes and a number of
  requests, the commands that \<open>get_msg_server_cmd\<close> and \<open>get_msg_client_cmd\<close> of \<open>msg.py\<close> give are read by the
  two programs as arguments that fit together (\<open>chat_ok\<close>): the same number of bytes on both sides, no
  bulk sending, the waits and the number of requests as configured.
\<close>

theorem msg_programs_agree:
  fixes s :: "'a xp_scheme"
  assumes "get_param (experiment_parameter s) ''msgClientSleep'' = Inr (PStr x)" "sleep_text x"
    and "get_param (experiment_parameter s) ''msgServerSleep'' = Inr (PStr y)" "sleep_text y"
    and "get_param (experiment_parameter s) ''msgNbRequests'' = Inr (PStr (show_int n))" "0 \<le> n"
    and "get_param (experiment_parameter s) ''msgBytes'' = Inr (PStr (show_int b))" "0 < b"
  shows "\<exists>us vs p q t. py_bind msg_load (\<lambda>_. py_bind (msg_server_cmd h) (\<lambda>server. py_bind (msg_client_cmd h d) (\<lambda>client.
       py_return (server, client)))) s =
       (Inr (''python '' @ here h @ ''/../utils/msg_server.py '' @ join '' '' us @ '' &> msg_server.log&'',
         ''python '' @ here h @ ''/../utils/msg_client.py '' @ join '' '' vs @ '' > msg_client.log 2> msg_client.err '' @
         (if d then ''&'' else [])), t) \<and>
     (\<forall>w \<in> set (us @ vs). CHR '' '' \<notin> set w) \<and>
     msg_server_args us = Some q \<and> msg_client_args vs = Some p \<and> chat_ok p q \<and>
     float_of_str x = Inr (msg_sleep p) \<and> float_of_str y = Inr (msg_sleep q) \<and> msg_nb p = n \<and> msg_bytes p = b"
proof -
  let ?us = "[''--sleep'', y, ''--bytes'', show_int b]" and ?vs = "[''--sleep'', x, ''--nb'', show_int n, ''--bytes'', show_int b]"
  obtain u where u: "float_of_str x = Inr (Fin u)" "0 \<le> u" using assms(2) by (auto simp: sleep_text_def)
  obtain v where v: "float_of_str y = Inr (Fin v)" "0 \<le> v" using assms(4) by (auto simp: sleep_text_def)
  have flags: "server_flag ''--sleep'' = Some SleepFlag" "server_flag ''--bytes'' = Some BytesFlag"
    "client_flag ''--sleep'' = Some SleepFlag" "client_flag ''--bytes'' = Some BytesFlag" "client_flag ''--nb'' = Some NbFlag"
    by (simp_all add: server_flag_def client_flag_def)
  let ?q = "msg_defaults\<lparr>msg_sleep := Fin v, msg_bytes := b\<rparr>" and ?p = "msg_defaults\<lparr>msg_sleep := Fin u, msg_bytes := b, msg_nb := n\<rparr>"
  have "chat_ok ?p ?q" using u(2) v(2) assms(6,8) by (simp add: chat_ok_def sleeps_def msg_defaults_def)
  moreover have "msg_nb ?p = n" "msg_bytes ?p = b" "msg_sleep ?p = Fin u" "msg_sleep ?q = Fin v" by simp_all
  moreover have "msg_server_args ?us = Some ?q"
    using assms(4) by (simp add: msg_server_args_def flags set_flags v(1) value_int sleep_text_def valued_flag_def)
  moreover have "msg_client_args ?vs = Some ?p"
    using assms(2) by (simp add: msg_client_args_def flags set_flags u(1) value_int sleep_text_def valued_flag_def)
  moreover have "\<forall>w \<in> set (?us @ ?vs). CHR '' '' \<notin> set w"
    using assms(2,4) show_int_no_space [of "CHR '' ''"] by (auto simp: sleep_text_def is_space_def)
  moreover have "\<exists>t. py_bind msg_load (\<lambda>_. py_bind (msg_server_cmd h) (\<lambda>server. py_bind (msg_client_cmd h d) (\<lambda>client.
       py_return (server, client)))) s =
       (Inr (''python '' @ here h @ ''/../utils/msg_server.py '' @ join '' '' ?us @ '' &> msg_server.log&'',
         ''python '' @ here h @ ''/../utils/msg_client.py '' @ join '' '' ?vs @ '' > msg_client.log 2> msg_client.err '' @
         (if d then ''&'' else [])), t)"
    by (simp add: msg_load_def msg_server_cmd_def msg_client_cmd_def load_attr_def xp_get_def fmt_attr_def xp_attr_def py_attr_def
        py_bind_apply assms)
  ultimately show ?thesis
    unfolding u(1) v(1) by metis
qed

section \<open>The address the client connects to\<close>

text \<open>
  It is written in the program: the server's for one right subnet only, and for the same left
  subnet the client's own.
\<close>

definition msg_server_address :: "string \<times> nat" where
  "msg_server_address = (''10.1.0.1'', 8000)"

lemma msg_address_fixed:
  assumes "get_param p ''rightSubnet'' = Inr (PStr right)" "get_param p ''leftSubnet'' = Inr (PStr left)"
  shows "get_server_ip p 0 = Inr (fst msg_server_address) \<longleftrightarrow> right = ''10.1.''"
    and "get_client_ip p 0 = Inr (fst msg_server_address) \<longleftrightarrow> left = ''10.1.''"
proof -
  have zero: "show_nat 0 = ''0''" by code_simp
  have "x @ ''0.1'' = ''10.1.0.1'' \<longleftrightarrow> x = ''10.1.''" for x using append_same_eq [of x "''0.1''" "''10.1.''"] by simp
  then show "get_server_ip p 0 = Inr (fst msg_server_address) \<longleftrightarrow> right = ''10.1.''"
    "get_client_ip p 0 = Inr (fst msg_server_address) \<longleftrightarrow> left = ''10.1.''"
    using assms zero by (simp_all add: get_server_ip_def get_client_ip_def subnet_text_def msg_server_address_def)
qed

end
