(* ===== verification/SiriClientDemo.thy ===== *)
theory SiriClientDemo
  imports ExpDemo SiriExchange SiriCommand MsgCommand
begin

text \<open>The client with its default options, on one query; and what other options can lead to.\<close>

abbreviation demo_opts :: siri_opts where "demo_opts \<equiv> default_opts 10"

definition demo_turn :: siri_turn_input where
  "demo_turn = \<lparr>turn_elapsed = 333, turn_now = 1700000000000, turn_pick = (\<lambda>k. k), turn_writes = (\<lambda>_. True)\<rparr>"

lemma demo_turn_ok: "\<forall>k. turn_writes demo_turn k" "clock_ok (turn_now demo_turn)"
  by (simp_all add: demo_turn_def clock_ok_def)

lemma start_ok: "cl_open siri_client_start" "cl_message_id siri_client_start < MAX_ID" "length (cl_sent_time siri_client_start) = MAX_ID"
  by (simp_all add: siri_client_start_def MAX_ID_def)

theorem siri_query_sent_witness:
  "\<exists>c ps. send_message demo_opts demo_turn siri_client_start = Some (Inr (), c) \<and> cl_written c = ps \<and> 2 \<le> length ps \<and>
     int (length (concat ps)) = 2500 \<and> cl_counter c = 2500 \<and> cl_message_id c = 1"
proof -
  have q: "opt_query_size demo_opts = 2500" by (simp add: default_opts_def)
  have start: "cl_written siri_client_start = []" "cl_counter siri_client_start = 0" "cl_message_id siri_client_start = 0"
    by (simp_all add: siri_client_start_def)
  show ?thesis
    using siri_query_sent [OF default_opts_ok [of 10] start_ok demo_turn_ok] by (auto simp: q start MAX_ID_def)
qed

section \<open>An exchange\<close>

lemma one_query_reachable:
  "\<exists>s. siri_chat_reachable demo_opts s \<and> cl_open (sx_client s) \<and> cl_written (sx_client s) \<noteq> []"
proof -
  let ?c = siri_client_start
  have fields: "opt_burst demo_opts = 0" "opt_interval demo_opts = 333" "opt_run_time demo_opts = 10" "opt_query_size demo_opts = 2500"
    "opt_buffer demo_opts = 9" "turn_elapsed demo_turn = 333" by (simp_all add: default_opts_def demo_turn_def)
  have c: "cl_counter ?c = 0" "cl_open ?c" "cl_sender ?c" by (simp_all add: siri_client_start_def)
  obtain ps c where sent: "send_message demo_opts demo_turn ?c = Some (Inr (), c)" "cl_written c = ps" "2 \<le> length ps" "cl_open c"
    using send_message_ok [OF default_opts_ok [of 10] start_ok(1,2) demo_turn_ok] by (auto simp: siri_client_start_def)
  have step: "sender_step demo_opts demo_turn ?c = Some (c\<lparr>cl_packets := cl_packets c + 1\<rparr>)"
    by (simp add: sender_step_def sender_turn_def thread_sleep_def Let_def fields c sent(1) signed_order)
  have "sx_client siri_chat_start = ?c" by (simp add: siri_chat_start_def)
  from client_turn [where s = siri_chat_start, unfolded this, OF c(2,3) demo_turn_ok step]
  have "siri_chat_reachable demo_opts (siri_chat_start\<lparr>sx_client := c\<lparr>cl_packets := cl_packets c + 1\<rparr>,
      sx_up := sx_up siri_chat_start @ concat (drop (length (cl_written ?c)) (cl_written (c\<lparr>cl_packets := cl_packets c + 1\<rparr>)))\<rparr>)"
    unfolding siri_chat_reachable_def by (rule r_into_rtranclp)
  moreover have "cl_written c \<noteq> []" using sent(2,3) by auto
  ultimately show ?thesis using sent(4) by (intro exI conjI) (assumption | simp)+
qed


theorem siri_exchange_completes_witness:
  "\<exists>s s'. siri_chat_reachable demo_opts s \<and> cl_written (sx_client s) \<noteq> [] \<and> (siri_chat_step demo_opts)\<^sup>*\<^sup>* s s' \<and>
     sx_up s' = [] \<and> sx_down s' = [] \<and> cl_counter (sx_client s') = 0"
proof -
  obtain s where "siri_chat_reachable demo_opts s" "cl_open (sx_client s)" "cl_written (sx_client s) \<noteq> []"
    using one_query_reachable by blast
  then show ?thesis using siri_exchange_completes [OF default_opts_ok, of 10 s] by blast
qed

section \<open>The command\<close>

definition demo_value :: "string \<Rightarrow> int" where
  "demo_value k = (case map_of [(''siriRunTime'', 5), (''siriQuerySize'', 2500), (''siriResponseSize'', 750),
     (''siriMinPayloadSize'', 85), (''siriMaxPayloadSize'', 500), (''siriIntervalTimeMs'', 333), (''siriBufferSize'', 9)] k of
     Some i \<Rightarrow> i | None \<Rightarrow> 0)"

lemma demo_values: "int_values sirimsg_demo_params demo_value" "\<forall>(k, t) \<in> set SIRI_DEFAULTS. t = PStr (show_int (demo_value k))"
proof -
  have shown: "show_int 2500 = ''2500''" "show_int 750 = ''750''" "show_int 0 = ''0''" "show_int 85 = ''85''" "show_int 500 = ''500''"
    "show_int 333 = ''333''" "show_int 9 = ''9''" "show_int 5 = ''5''" by code_simp+
  show "int_values sirimsg_demo_params demo_value"
    by (simp add: int_values_def siri_keys_def get_sirimsg SIRI_DEFAULTS_def demo_value_def shown)
  show "\<forall>(k, t) \<in> set SIRI_DEFAULTS. t = PStr (show_int (demo_value k))"
    by (simp add: SIRI_DEFAULTS_def demo_value_def shown)
qed

theorem siri_client_gets_parameters_witness:
  "\<exists>cmd ws t. py_bind siri_load (\<lambda>_. siri_client_cmd undefined) (demo_xp\<lparr>experiment_parameter := sirimsg_demo_params\<rparr>) = (Inr cmd, t) \<and>
     siri_main ws = Inr (''10.2.0.1'', 8080, opts_from demo_value) \<and> opts_ok (opts_from demo_value)"
proof -
  let ?s = "demo_xp\<lparr>experiment_parameter := sirimsg_demo_params\<rparr>"
  have "int_values (experiment_parameter ?s) demo_value" using demo_values(1) by simp
  moreover have ip: "ip_text ''10.2.'' 0 ''.1'' = ''10.2.0.1''" by code_simp
  have "get_server_ip (param ?s) 0 = Inr ''10.2.0.1''"
    using demo_ready address_texts(5) [of "''10.1.''" "''10.2.''" demo_tp 0]
    by (simp add: xp_ready_def demo_plan_def ip) (simp add: demo_xp_def)
  ultimately show ?thesis using siri_client_gets_parameters [of ?s demo_value "''10.2.0.1''" undefined] demo_values(2) by auto
qed

section \<open>Other options\<close>

text \<open>
  A text before the padding that is longer than the packet drawn, and what is left of the query
  shorter than a packet may be: the assertion of \<open>sizeOfNextPacket\<close> fails.
\<close>

lemma overrun:
  assumes "cl_open c" "size_of_next_packet p (turn_pick t 0) (opt_query_size p) = Inr n"
    and l: "length (start_text p (cl_message_id c) (turn_now t)) = l" "sint n < int l" "int l < sint (opt_query_size p)"
      "sint (opt_query_size p) - int l < sint (opt_min p)"
  shows "\<exists>c'. send_message p t c = Some (Inl AssertionErr, c')"
proof -
  have len: "sint (word_of_nat l :: jint) = int l" using l(3) sint_range(2) [of "opt_query_size p"] by (intro sint_of_nat) simp
  then have left: "sint (opt_query_size p - word_of_nat l) = sint (opt_query_size p) - int l"
    using jint_arith(2) [of "opt_query_size p" "word_of_nat l"] l(3) sint_range [of "opt_query_size p"] by linarith
  have "size_of_next_packet p k (opt_query_size p - word_of_nat l) = Inl AssertionErr" for k
    using l(4) by (simp add: size_of_next_packet_def signed_order left)
  then have "send_rest p t 1 (opt_query_size p - word_of_nat l) d = Some (Inl AssertionErr, d)" for d
    using l(3) by (subst send_rest.simps) (simp add: signed_order left)
  then show ?thesis using assms(1,2) l(1,2) by (simp add: send_message_def Let_def signed_order len)
qed

text \<open>
  So with a query of 60 bytes the sending thread ends at once, the socket stays open and nothing is
  left to stop the loop that reads it.
\<close>

definition overrun_opts :: siri_opts where
  "overrun_opts = demo_opts\<lparr>opt_query_size := 60, opt_min := 20, opt_max := 40\<rparr>"

lemma sender_dies:
  "\<exists>c. sender_step overrun_opts demo_turn siri_client_start = Some c \<and> \<not> cl_sender c"
proof -
  have "length (start_text overrun_opts 0 1700000000000) = 45" by code_simp
  moreover have "size_of_next_packet overrun_opts 0 60 = Inr 20" by code_simp
  ultimately obtain c where "send_message overrun_opts demo_turn siri_client_start = Some (Inl AssertionErr, c)"
    using overrun [of siri_client_start overrun_opts demo_turn 20 45]
    by (auto simp: overrun_opts_def default_opts_def demo_turn_def siri_client_start_def)
  moreover have "opt_burst overrun_opts = 0" "opt_interval overrun_opts = 333" "opt_run_time overrun_opts = 10"
    "opt_query_size overrun_opts = 60" "opt_buffer overrun_opts = 9" "turn_elapsed demo_turn = 333"
    by (simp_all add: overrun_opts_def default_opts_def demo_turn_def)
  moreover have "cl_counter siri_client_start = 0" "cl_open siri_client_start" by (simp_all add: siri_client_start_def)
  ultimately show ?thesis by (simp add: sender_step_def sender_turn_def thread_sleep_def Let_def signed_order)
qed

text \<open>\<open>RUN_TIME * 1000\<close> overflows from 2147484 seconds on: the client stops at its first turn.\<close>

lemma run_time_wraps:
  assumes "0 \<le> turn_elapsed t"
  shows "\<exists>c'. sender_turn (default_opts 2147484) t c = Some (Inr (), c') \<and> \<not> cl_run c' \<and> cl_written c' = cl_written c"
proof -
  have "opt_burst (default_opts 2147484) = 0" "opt_interval (default_opts 2147484) = 333" "opt_run_time (default_opts 2147484) = 2147484"
    by (simp_all add: default_opts_def)
  then show ?thesis using assms by (simp add: sender_turn_def thread_sleep_def Let_def signed_order stop_client_def)
qed

section \<open>The commands of the message experiment\<close>

theorem msg_programs_agree_witness:
  "\<exists>vs p t server client. py_bind msg_load (\<lambda>_. py_bind (msg_server_cmd undefined) (\<lambda>server. py_bind (msg_client_cmd undefined True) (\<lambda>client.
       py_return (server, client)))) (demo_xp\<lparr>experiment_parameter := sirimsg_demo_params\<rparr>) = (Inr (server, client), t) \<and>
     msg_client_args vs = Some p \<and> msg_nb p = 5 \<and> msg_bytes p = 1200"
proof -
  let ?s = "demo_xp\<lparr>experiment_parameter := sirimsg_demo_params\<rparr>"
  have shown: "show_int 5 = ''5''" "show_int 1200 = ''1200''" by code_simp+
  have get: "get_param (experiment_parameter ?s) ''msgClientSleep'' = Inr (PStr ''5.0'')"
    "get_param (experiment_parameter ?s) ''msgServerSleep'' = Inr (PStr ''5.0'')"
    "get_param (experiment_parameter ?s) ''msgNbRequests'' = Inr (PStr (show_int 5))"
    "get_param (experiment_parameter ?s) ''msgBytes'' = Inr (PStr (show_int 1200))"
    by (simp_all add: get_sirimsg SIRI_DEFAULTS_def MSG_DEFAULTS_def shown)
  have "float_of_str ''5.0'' = Inr (Fin 5)" by code_simp
  then have "sleep_text ''5.0''" by (simp add: sleep_text_def option_value_def starts_with_def)
  from msg_programs_agree [OF get(1) this get(2) this get(3) _ get(4), of undefined True] show ?thesis by auto
qed

end
