(* ===== verification/HttpsServer.thy ===== *)
theory HttpsServer
  imports ExpBasic
begin

text \<open>
  \<open>utils/https_server.py\<close>, up to the call that serves.  The version of Python, whether the port can
  be bound, and which paths are certificates or directories are an argument; \<open>ssl.wrap_socket\<close> is
  there, as it is before Python 3.12.
\<close>

record https_world =
  hw_major :: int
  hw_bind :: "unit res"
  hw_certificate :: "string \<Rightarrow> unit res"
  hw_chdir :: "string \<Rightarrow> unit res"

record https_state =
  hs_certificate :: "string option"
  hs_directory :: "string option"
  hs_serving :: bool

definition https_start :: https_state where
  "https_start = \<lparr>hs_certificate = None, hs_directory = None, hs_serving = False\<rparr>"

definition wrap_socket :: "https_world \<Rightarrow> string list \<Rightarrow> (https_state, unit) py" where
  "wrap_socket w argv = py_bind (py_nth argv 1) (\<lambda>c.
     py_bind (py_lift (hw_certificate w c)) (\<lambda>_. py_modify (\<lambda>s. s\<lparr>hs_certificate := Some c\<rparr>)))"

definition https_main :: "https_world \<Rightarrow> string list \<Rightarrow> (https_state, unit) py" where
  "https_main w argv =
     (if hw_major w = 3
      then block [py_lift (hw_bind w), wrap_socket w argv, py_modify (\<lambda>s. s\<lparr>hs_serving := True\<rparr>)]
      else block [py_lift (hw_bind w), wrap_socket w argv,
        py_when (1 < length argv) (py_bind (py_nth argv 1) (\<lambda>d.
          py_bind (py_lift (hw_chdir w d)) (\<lambda>_. py_modify (\<lambda>s. s\<lparr>hs_directory := Some d\<rparr>)))),
        py_modify (\<lambda>s. s\<lparr>hs_serving := True\<rparr>)])"

text \<open>
  The command of the experiment starts a server with the certificate of the repository under
  Python 3; under Python 2 it never serves, as a file is no directory.
\<close>

lemma https_command_serves:
  assumes "hw_bind w = Inr ()" "hw_certificate w (here h @ ''/../utils/server.pem'') = Inr ()"
  shows "\<exists>argv. https_server_cmd h = ''python '' @ join '' '' argv @ '' &> https_server.log&'' \<and> length argv = 2 \<and>
     (hw_major w = 3 \<longrightarrow> https_main w argv https_start =
       (Inr (), https_start\<lparr>hs_certificate := Some (here h @ ''/../utils/server.pem''), hs_serving := True\<rparr>)) \<and>
     (hw_major w \<noteq> 3 \<longrightarrow> hw_chdir w (here h @ ''/../utils/server.pem'') = Inl e \<longrightarrow> fst (https_main w argv https_start) = Inl e)"
  using assms by (intro exI [of _ "[here h @ ''/../utils/https_server.py'', here h @ ''/../utils/server.pem'']"])
    (simp add: https_server_cmd_def https_main_def wrap_socket_def py_bind_apply py_nth_def py_when_def https_start_def)

text \<open>Without an argument no server of either version gets to serving.\<close>

lemma https_needs_certificate:
  assumes "length argv \<le> 1"
  shows "\<exists>e. fst (https_main w argv s) = Inl e \<and> hs_serving (snd (https_main w argv s)) = hs_serving s"
  using assms by (cases "hw_bind w") (auto simp: https_main_def wrap_socket_def py_bind_apply py_nth_def)

end
